(* ===== verification/Prelude.thy ===== *)
theory Prelude
  imports Complex_Main "HOL-Library.Word"
begin

text \<open>
  What every component shares: the collections of hints, the machine integers of Go
  (\<open>int\<close> is 64 bits wide, \<open>time.Duration\<close> is an \<open>int64\<close> of nanoseconds), the identifiers and
  instants of the program, and the run-time system a request draws from: the clock
  (\<open>time.Now\<close>), the generator of random identifiers (\<open>uuid.New\<close>) and the entropy bcrypt salts
  its hashes with. A draw is a step of the explicit state, so two calls of \<open>time.Now\<close> in one
  handler are two draws, in the order the code makes them.
\<close>

named_theorems frame_simps
  \<open>what an operation leaves alone: a field of the state read after it\<close>

named_theorems spec_defs
  \<open>definitions a component's proofs unfold together\<close>

section \<open>Machine integers\<close>

text \<open>Go's arithmetic on \<open>int\<close> and \<open>int64\<close> wraps modulo \<open>2 ^ 64\<close> into two's complement.\<close>

definition wrap64 :: "int \<Rightarrow> int" where
  "wrap64 n = (n + 2 ^ 63) mod 2 ^ 64 - 2 ^ 63"

lemma wrap64_id: "- (2 ^ 63) \<le> n \<Longrightarrow> n < 2 ^ 63 \<Longrightarrow> wrap64 n = n"
  by (simp add: wrap64_def)

lemma wrap64_lower: "- (2 ^ 63) \<le> wrap64 n"
  by (simp add: wrap64_def)

lemma wrap64_upper: "wrap64 n < 2 ^ 63"
proof -
  have "(n + 2 ^ 63) mod 2 ^ 64 < (2 ^ 64 :: int)" by simp
  then show ?thesis by (simp add: wrap64_def)
qed

lemma wrap64_wrap64 [simp]: "wrap64 (wrap64 n) = wrap64 n"
  by (rule wrap64_id [OF wrap64_lower wrap64_upper])

text \<open>The written-out wrap-around is the signed reading of a 64-bit word.\<close>

lemma wrap64_sint: "wrap64 n = sint (word_of_int n :: 64 word)"
  by (simp add: wrap64_def signed_take_bit_eq_take_bit_shift take_bit_eq_mod
      sint_sbintrunc' word_size)

section \<open>Identifiers, instants, durations\<close>

text \<open>
  A \<open>uuid.UUID\<close> is 16 bytes, \<open>uuid.Nil\<close> all zeros. An instant is the nanoseconds since the Unix
  epoch in UTC: every instant the program stores is taken with \<open>.UTC()\<close>.
\<close>

type_synonym uuid = "128 word"
type_synonym timestamp = int
type_synonym duration = int

abbreviation uuid_nil :: uuid where
  "uuid_nil \<equiv> 0"

definition nanos_per_second :: int where
  "nanos_per_second = 1000000000"

definition nanos_per_minute :: int where
  "nanos_per_minute = 60 * nanos_per_second"

definition nanos_per_hour :: int where
  "nanos_per_hour = 60 * nanos_per_minute"

lemmas nanos_defs = nanos_per_second_def nanos_per_minute_def nanos_per_hour_def

text \<open>\<open>t.Unix()\<close>: whole seconds since the epoch.\<close>

definition unix_seconds :: "timestamp \<Rightarrow> int" where
  "unix_seconds t = t div nanos_per_second"

text \<open>\<open>int64(d.Seconds())\<close> for a duration: truncation towards zero.\<close>

definition duration_seconds :: "duration \<Rightarrow> int" where
  "duration_seconds d =
     (if 0 \<le> d then d div nanos_per_second else - ((- d) div nanos_per_second))"

section \<open>The run-time system\<close>

record runtime =
  clock :: "nat \<Rightarrow> timestamp"
  clock_reads :: nat
  uuid_source :: "nat \<Rightarrow> uuid"
  uuids_drawn :: nat
  salts_drawn :: nat

definition time_now :: "'a runtime_scheme \<Rightarrow> timestamp \<times> 'a runtime_scheme" where
  "time_now w = (clock w (clock_reads w), w\<lparr>clock_reads := Suc (clock_reads w)\<rparr>)"

definition uuid_new :: "'a runtime_scheme \<Rightarrow> uuid \<times> 'a runtime_scheme" where
  "uuid_new w = (uuid_source w (uuids_drawn w), w\<lparr>uuids_drawn := Suc (uuids_drawn w)\<rparr>)"

definition draw_salt :: "'a runtime_scheme \<Rightarrow> nat \<times> 'a runtime_scheme" where
  "draw_salt w = (salts_drawn w, w\<lparr>salts_drawn := Suc (salts_drawn w)\<rparr>)"

text \<open>The state after each kind of draw.\<close>

definition tick :: "'a runtime_scheme \<Rightarrow> 'a runtime_scheme" where
  "tick w = w\<lparr>clock_reads := Suc (clock_reads w)\<rparr>"

definition draw :: "'a runtime_scheme \<Rightarrow> 'a runtime_scheme" where
  "draw w = w\<lparr>uuids_drawn := Suc (uuids_drawn w)\<rparr>"

definition salted :: "'a runtime_scheme \<Rightarrow> 'a runtime_scheme" where
  "salted w = w\<lparr>salts_drawn := Suc (salts_drawn w)\<rparr>"

lemma time_now_tick: "time_now w = (clock w (clock_reads w), tick w)"
  by (simp add: time_now_def tick_def)

lemma uuid_new_draw: "uuid_new w = (uuid_source w (uuids_drawn w), draw w)"
  by (simp add: uuid_new_def draw_def)

lemma draw_salt_salted: "draw_salt w = (salts_drawn w, salted w)"
  by (simp add: draw_salt_def salted_def)

lemmas draws = time_now_tick uuid_new_draw draw_salt_salted

lemma tick_draw_fields [simp]:
  "uuid_source (tick w) = uuid_source w" "uuids_drawn (tick w) = uuids_drawn w"
  "clock (tick w) = clock w" "clock_reads (tick w) = Suc (clock_reads w)"
  "uuid_source (draw w) = uuid_source w" "uuids_drawn (draw w) = Suc (uuids_drawn w)"
  "clock (draw w) = clock w" "clock_reads (draw w) = clock_reads w"
  "uuid_source (salted w) = uuid_source w" "uuids_drawn (salted w) = uuids_drawn w"
  "clock (salted w) = clock w" "clock_reads (salted w) = clock_reads w"
  by (simp_all add: tick_def draw_def salted_def)

text \<open>
  Two states draw the same identifiers from here on, or the second has drawn more of them.
\<close>

definition same_ids :: "'a runtime_scheme \<Rightarrow> 'b runtime_scheme \<Rightarrow> bool" where
  "same_ids w w' \<longleftrightarrow> uuid_source w' = uuid_source w \<and> uuids_drawn w' = uuids_drawn w"

definition grows :: "'a runtime_scheme \<Rightarrow> 'b runtime_scheme \<Rightarrow> bool" where
  "grows w w' \<longleftrightarrow> uuid_source w' = uuid_source w \<and> uuids_drawn w \<le> uuids_drawn w'"

lemma grows_refl [simp]: "grows w w"
  by (simp add: grows_def)

lemma grows_trans: "grows u v \<Longrightarrow> grows v w \<Longrightarrow> grows u w"
  by (simp add: grows_def)

lemma same_ids_grows: "same_ids w w' \<Longrightarrow> grows w w'"
  by (simp add: same_ids_def grows_def)

lemma same_ids_trans: "same_ids u v \<Longrightarrow> same_ids v w \<Longrightarrow> same_ids u w"
  by (simp add: same_ids_def)

lemma same_ids_refl [simp]: "same_ids w w"
  by (simp add: same_ids_def)

text \<open>
  Random identifiers do not repeat: the working assumption of every use of \<open>uuid.New\<close>, stated
  as a predicate on the state so that a theorem that needs it says so. There are only finitely
  many identifiers, so the assumption is about the first \<open>n\<close> draws.
\<close>

definition fresh_uuids :: "nat \<Rightarrow> 'a runtime_scheme \<Rightarrow> bool" where
  "fresh_uuids n w \<longleftrightarrow> inj_on (uuid_source w) {..<n}"

lemma fresh_uuids_neq:
  "fresh_uuids n w \<Longrightarrow> i < j \<Longrightarrow> j < n \<Longrightarrow> uuid_source w i \<noteq> uuid_source w j"
  by (auto simp: fresh_uuids_def inj_on_def)

section \<open>Lists read and written by a condition\<close>

text \<open>
  The loops of the program that walk a list and keep, count or rewrite what satisfies a
  condition, and the SQL statements that do the same to the rows of a table.
\<close>

definition update_where :: "('r \<Rightarrow> bool) \<Rightarrow> ('r \<Rightarrow> 'r) \<Rightarrow> 'r list \<Rightarrow> 'r list" where
  "update_where P f rs = map (\<lambda>r. if P r then f r else r) rs"

definition count_where :: "('r \<Rightarrow> bool) \<Rightarrow> 'r list \<Rightarrow> nat" where
  "count_where P rs = length (filter P rs)"

lemma length_update_where [simp]: "length (update_where P f rs) = length rs"
  by (simp add: update_where_def)

lemma set_update_where:
  "set (update_where P f rs) = (\<lambda>r. if P r then f r else r) ` set rs"
  by (simp add: update_where_def)

lemma update_where_none: "count_where P rs = 0 \<Longrightarrow> update_where P f rs = rs"
  by (auto simp: update_where_def count_where_def filter_empty_conv intro!: map_idI)

lemma update_where_keeps:
  assumes "\<And>r. P r \<Longrightarrow> g (f r) = g r"
  shows "map g (update_where P f rs) = map g rs"
  by (auto simp: update_where_def assms)

lemma filter_update_where:
  assumes "\<And>r. P r \<Longrightarrow> Q (f r) \<longleftrightarrow> Q r" and "\<And>r. Q r \<Longrightarrow> \<not> P r"
  shows "filter Q (update_where P f rs) = filter Q rs"
  using assms by (induction rs) (auto simp: update_where_def)

lemma count_where_pos: "0 < count_where P rs \<longleftrightarrow> (\<exists>r \<in> set rs. P r)"
  by (induction rs) (auto simp: count_where_def)

lemma count_where_zero: "count_where P rs = 0 \<longleftrightarrow> (\<forall>r \<in> set rs. \<not> P r)"
  by (auto simp: count_where_def filter_empty_conv)

lemma find_Some_iff_first:
  "find P rs = Some r \<Longrightarrow> r \<in> set rs \<and> P r"
  by (auto simp: find_Some_iff)

lemma find_unique_key:
  assumes "distinct (map k rs)" and "r \<in> set rs" and "k r = x"
  shows "find (\<lambda>q. k q = x) rs = Some r"
  using assms by (induction rs) (auto simp: rev_image_eqI)

section \<open>Two threads over one state\<close>

text \<open>
  A request that takes no lock is a thread whose steps are its calls on the shared state. The
  scheduler may run the steps of two of them in any order: \<open>interleaved f g\<close> holds of two states
  when some order of steps leads from the first to the second, \<open>scheduled f g bs\<close> follows the
  order \<open>bs\<close>, \<open>True\<close> for a step of the first thread.
\<close>

inductive interleaved ::
  "('p \<times> 'w \<Rightarrow> 'p \<times> 'w) \<Rightarrow> ('q \<times> 'w \<Rightarrow> 'q \<times> 'w) \<Rightarrow> 'p \<times> 'q \<times> 'w \<Rightarrow> 'p \<times> 'q \<times> 'w \<Rightarrow> bool"
  for f g where
  il_done: "interleaved f g s s"
| il_left: "interleaved f g s (p, q, w) \<Longrightarrow> f (p, w) = (p', w') \<Longrightarrow> interleaved f g s (p', q, w')"
| il_right: "interleaved f g s (p, q, w) \<Longrightarrow> g (q, w) = (q', w') \<Longrightarrow> interleaved f g s (p, q', w')"

inductive_cases interleavedE: "interleaved f g s (p, q, w)"

fun scheduled ::
  "('p \<times> 'w \<Rightarrow> 'p \<times> 'w) \<Rightarrow> ('q \<times> 'w \<Rightarrow> 'q \<times> 'w) \<Rightarrow> bool list \<Rightarrow> 'p \<times> 'q \<times> 'w \<Rightarrow> 'p \<times> 'q \<times> 'w" where
  "scheduled f g [] s = s"
| "scheduled f g (left # bs) (p, q, w) =
     (if left then (case f (p, w) of (p', w') \<Rightarrow> scheduled f g bs (p', q, w'))
      else (case g (q, w) of (q', w') \<Rightarrow> scheduled f g bs (p, q', w')))"

lemma scheduled_from: "interleaved f g s0 s \<Longrightarrow> interleaved f g s0 (scheduled f g bs s)"
proof (induction bs arbitrary: s)
  case (Cons b bs)
  obtain p q w where s: "s = (p, q, w)" by (cases s)
  show ?case
  proof (cases b)
    case True
    then show ?thesis
      using Cons il_left [of f g s0 p q w] s by (cases "f (p, w)") simp
  next
    case False
    then show ?thesis
      using Cons il_right [of f g s0 p q w] s by (cases "g (q, w)") simp
  qed
qed simp

lemma scheduled_interleaved: "interleaved f g s (scheduled f g bs s)"
  by (rule scheduled_from [OF il_done])

text \<open>A measure that each step of a thread lowers bounds what is left of it after its share of a schedule.\<close>

lemma scheduled_measure:
  assumes f: "\<And>p w p' w'. f (p, w) = (p', w') \<Longrightarrow> l p' \<le> l p - (1 :: nat)"
    and g: "\<And>q w q' w'. g (q, w) = (q', w') \<Longrightarrow> k q' \<le> k q - (1 :: nat)"
    and run: "scheduled f g bs (p, q, w) = (p', q', w')"
  shows "l p' \<le> l p - count_list bs True" and "k q' \<le> k q - count_list bs False"
proof -
  have "l p' \<le> l p - count_list bs True \<and> k q' \<le> k q - count_list bs False"
    using run
  proof (induction bs arbitrary: p q w)
    case (Cons b bs)
    show ?case
    proof (cases b)
      case True
      obtain p1 w1 where "f (p, w) = (p1, w1)" by (cases "f (p, w)")
      with Cons True f [OF this] show ?thesis by fastforce
    next
      case False
      obtain q1 w1 where "g (q, w) = (q1, w1)" by (cases "g (q, w)")
      with Cons False g [OF this] show ?thesis by fastforce
    qed
  qed simp
  then show "l p' \<le> l p - count_list bs True" and "k q' \<le> k q - count_list bs False" by blast+
qed

end
