(* ===== verification/GoStrings.thy ===== *)
theory GoStrings
  imports Prelude "HOL-Library.Sublist"
begin

text \<open>
  The part of Go's \<open>strings\<close> and \<open>strconv\<close> packages the program uses. A Go string is a
  sequence of bytes, and so is an Isabelle \<open>string\<close>; a literal in the source is the same
  literal here. \<open>strings.TrimSpace\<close> strips Unicode white space in its UTF-8 encoding,
  \<open>strconv.Atoi\<close> accepts exactly the 64-bit range. The case mapping of strings that are not
  ASCII is a table of the Unicode standard and is a parameter \<open>ul\<close> of \<open>to_lower\<close>.
\<close>

section \<open>TrimSpace\<close>

text \<open>
  The UTF-8 encodings of the code points \<open>unicode.IsSpace\<close> accepts: U+0009 to U+000D, U+0020,
  U+0085, U+00A0, U+1680, U+2000 to U+200A, U+2028, U+2029, U+202F, U+205F and U+3000. A byte
  sequence of this list at either end of a string is what the decoder of \<open>strings.TrimFunc\<close>
  reads there, since the first byte of an encoding fixes its length.
\<close>

definition space_encodings :: "string list" where
  "space_encodings =
    [[CHR 0x09], [CHR 0x0A], [CHR 0x0B], [CHR 0x0C], [CHR 0x0D], [CHR 0x20],
     [CHR 0xC2, CHR 0x85], [CHR 0xC2, CHR 0xA0], [CHR 0xE1, CHR 0x9A, CHR 0x80],
     [CHR 0xE2, CHR 0x80, CHR 0x80], [CHR 0xE2, CHR 0x80, CHR 0x81],
     [CHR 0xE2, CHR 0x80, CHR 0x82], [CHR 0xE2, CHR 0x80, CHR 0x83],
     [CHR 0xE2, CHR 0x80, CHR 0x84], [CHR 0xE2, CHR 0x80, CHR 0x85],
     [CHR 0xE2, CHR 0x80, CHR 0x86], [CHR 0xE2, CHR 0x80, CHR 0x87],
     [CHR 0xE2, CHR 0x80, CHR 0x88], [CHR 0xE2, CHR 0x80, CHR 0x89],
     [CHR 0xE2, CHR 0x80, CHR 0x8A], [CHR 0xE2, CHR 0x80, CHR 0xA8],
     [CHR 0xE2, CHR 0x80, CHR 0xA9], [CHR 0xE2, CHR 0x80, CHR 0xAF],
     [CHR 0xE2, CHR 0x81, CHR 0x9F], [CHR 0xE3, CHR 0x80, CHR 0x80]]"

fun strip_one :: "string list \<Rightarrow> string \<Rightarrow> string option" where
  "strip_one [] s = None"
| "strip_one (p # ps) s =
     (if p \<noteq> [] \<and> take (length p) s = p then Some (drop (length p) s) else strip_one ps s)"

lemma strip_one_shorter: "strip_one ps s = Some r \<Longrightarrow> length r < length s"
proof (induction ps s rule: strip_one.induct)
  case (2 p ps s)
  then show ?case
    by (cases "p \<noteq> [] \<and> take (length p) s = p") (auto simp: neq_Nil_conv Suc_le_eq, cases s, auto)
qed simp

function trim_with :: "string list \<Rightarrow> string \<Rightarrow> string" where
  "trim_with ps s = (case strip_one ps s of None \<Rightarrow> s | Some r \<Rightarrow> trim_with ps r)"
  by pat_completeness auto
termination
  by (relation "measure (\<lambda>(ps, s). length s)") (auto dest: strip_one_shorter)

declare trim_with.simps [simp del]

definition trim_left :: "string \<Rightarrow> string" where
  "trim_left s = trim_with space_encodings s"

definition trim_right :: "string \<Rightarrow> string" where
  "trim_right s = rev (trim_with (map rev space_encodings) (rev s))"

definition trim_space :: "string \<Rightarrow> string" where
  "trim_space s = trim_right (trim_left s)"

lemma strip_one_trim_with: "strip_one ps (trim_with ps s) = None"
proof (induction ps s rule: trim_with.induct)
  case (1 ps s)
  then show ?case
    by (cases "strip_one ps s") (simp_all add: trim_with.simps [of ps s])
qed

lemma trim_with_fixed: "strip_one ps s = None \<Longrightarrow> trim_with ps s = s"
  by (simp add: trim_with.simps [of ps s])

lemma trim_with_idem [simp]: "trim_with ps (trim_with ps s) = trim_with ps s"
  by (rule trim_with_fixed [OF strip_one_trim_with])

lemma strip_one_suffix: "strip_one ps s = Some r \<Longrightarrow> suffix r s"
  by (induction ps s rule: strip_one.induct) (auto split: if_splits intro: suffix_drop)

lemma trim_with_suffix: "suffix (trim_with ps s) s"
proof (induction ps s rule: trim_with.induct)
  case (1 ps s)
  then show ?case
    by (cases "strip_one ps s")
       (auto simp: trim_with.simps [of ps s] dest: strip_one_suffix intro: suffix_order.trans)
qed

lemma strip_one_None_iff:
  "strip_one ps s = None \<longleftrightarrow> (\<forall>p \<in> set ps. p = [] \<or> \<not> prefix p s)"
proof (induction ps)
  case (Cons p ps)
  have "take (length p) s = p \<longleftrightarrow> prefix p s"
    by (metis append_eq_conv_conj prefix_def take_is_prefix)
  with Cons show ?case by auto
qed simp

lemma strip_one_prefix_None:
  "strip_one ps s = None \<Longrightarrow> prefix t s \<Longrightarrow> strip_one ps t = None"
  by (auto simp: strip_one_None_iff dest: prefix_order.trans)

lemma trim_right_prefix: "prefix (trim_right s) s"
  using trim_with_suffix [of "map rev space_encodings" "rev s"]
  by (simp add: trim_right_def suffix_to_prefix)

lemma trim_left_suffix: "suffix (trim_left s) s"
  by (simp add: trim_left_def trim_with_suffix)

lemma trim_space_idem [simp]: "trim_space (trim_space s) = trim_space s"
proof -
  have "strip_one space_encodings (trim_left s) = None"
    by (simp add: trim_left_def strip_one_trim_with)
  then have "strip_one space_encodings (trim_space s) = None"
    unfolding trim_space_def by (rule strip_one_prefix_None) (rule trim_right_prefix)
  then have "trim_left (trim_space s) = trim_space s"
    by (simp add: trim_left_def trim_with_fixed)
  then show ?thesis
    by (simp add: trim_space_def trim_right_def)
qed

lemma trim_space_sublist: "sublist (trim_space s) s"
proof -
  have "sublist (trim_space s) (trim_left s)"
    by (simp add: trim_space_def prefix_imp_sublist trim_right_prefix)
  moreover have "sublist (trim_left s) s"
    by (simp add: suffix_imp_sublist trim_left_suffix)
  ultimately show ?thesis
    by (rule sublist_order.order.trans)
qed

lemma set_trim_space: "set (trim_space s) \<subseteq> set s"
  by (rule set_mono_sublist [OF trim_space_sublist])

lemma trim_space_Nil [simp]: "trim_space [] = []"
  using trim_space_sublist [of "[]"] by simp

lemma trim_space_no_leading_space: "trim_space s = CHR 0x20 # r \<Longrightarrow> False"
proof -
  assume eq: "trim_space s = CHR 0x20 # r"
  have "strip_one space_encodings (trim_left s) = None"
    by (simp add: trim_left_def strip_one_trim_with)
  then have "strip_one space_encodings (trim_space s) = None"
    unfolding trim_space_def by (rule strip_one_prefix_None) (rule trim_right_prefix)
  then have "\<not> prefix [CHR 0x20] (trim_space s)"
    unfolding strip_one_None_iff space_encodings_def by simp
  with eq show False by simp
qed

section \<open>ToLower, EqualFold, Contains\<close>

definition is_ascii :: "char \<Rightarrow> bool" where
  "is_ascii c \<longleftrightarrow> (of_char c :: nat) < 128"

definition ascii_lower :: "char \<Rightarrow> char" where
  "ascii_lower c =
     (let n = (of_char c :: nat) in if 65 \<le> n \<and> n \<le> 90 then char_of (n + 32) else c)"

definition to_lower :: "(string \<Rightarrow> string) \<Rightarrow> string \<Rightarrow> string" where
  "to_lower ul s = (if list_all is_ascii s then map ascii_lower s else ul s)"

text \<open>
  \<open>strings.EqualFold(s, t)\<close> for a \<open>t\<close> of ASCII letters that no other code point folds to (all
  but \<open>k\<close> and \<open>s\<close>): equality up to the case of ASCII letters.
\<close>

definition equal_fold :: "string \<Rightarrow> string \<Rightarrow> bool" where
  "equal_fold s t \<longleftrightarrow> map ascii_lower s = map ascii_lower t"

fun contains :: "string \<Rightarrow> string \<Rightarrow> bool" where
  "contains [] sub \<longleftrightarrow> sub = []"
| "contains (x # xs) sub \<longleftrightarrow> take (length sub) (x # xs) = sub \<or> contains xs sub"

lemma ascii_lower_idem [simp]: "ascii_lower (ascii_lower c) = ascii_lower c"
proof -
  have "(of_char c :: nat) < 256" by (metis nat_of_char_less_256)
  then show ?thesis by (auto simp: ascii_lower_def Let_def of_char_of)
qed

lemma is_ascii_lower [simp]: "is_ascii c \<Longrightarrow> is_ascii (ascii_lower c)"
  by (auto simp: is_ascii_def ascii_lower_def Let_def of_char_of)

lemma to_lower_ascii_idem:
  "list_all is_ascii s \<Longrightarrow> to_lower ul (to_lower ul s) = to_lower ul s"
proof -
  assume s: "list_all is_ascii s"
  then have "list_all is_ascii (map ascii_lower s)"
    by (simp add: list_all_iff)
  with s show ?thesis by (simp add: to_lower_def comp_def)
qed

lemma to_lower_Nil [simp]: "to_lower ul [] = []"
  by (simp add: to_lower_def)

lemma contains_Nil [simp]: "contains s []"
  by (cases s) auto

lemma contains_append: "contains t sub \<Longrightarrow> contains (s @ t) sub"
  by (induction s) auto

section \<open>Split, SplitN, Join\<close>

text \<open>\<open>strings.Split(s, sep)\<close> for a separator of one byte.\<close>

fun split_char :: "char \<Rightarrow> string \<Rightarrow> string list" where
  "split_char c [] = [[]]"
| "split_char c (x # xs) =
     (if x = c then [] # split_char c xs
      else (case split_char c xs of [] \<Rightarrow> [[x]] | p # ps \<Rightarrow> (x # p) # ps))"

text \<open>\<open>strings.SplitN(s, sep, 2)\<close> for a separator of one byte.\<close>

definition split_n2 :: "char \<Rightarrow> string \<Rightarrow> string list" where
  "split_n2 c s =
     (let p = takeWhile (\<lambda>x. x \<noteq> c) s
      in if length p = length s then [s] else [p, drop (Suc (length p)) s])"

fun join :: "string \<Rightarrow> string list \<Rightarrow> string" where
  "join sep [] = []"
| "join sep [p] = p"
| "join sep (p # q # ps) = p @ sep @ join sep (q # ps)"

lemma split_char_nonempty: "split_char c s \<noteq> []"
  by (cases s) (auto split: list.splits)

lemma split_char_no_sep: "p \<in> set (split_char c s) \<Longrightarrow> c \<notin> set p"
proof (induction s arbitrary: p)
  case (Cons x xs)
  show ?case
  proof (cases "split_char c xs")
    case Nil
    then show ?thesis by (simp add: split_char_nonempty)
  next
    case (Cons q qs)
    with Cons.IH Cons.prems show ?thesis by (auto split: if_splits)
  qed
qed simp

lemma join_split_char: "join [c] (split_char c s) = s"
proof (induction s)
  case (Cons x xs)
  obtain p ps where ps: "split_char c xs = p # ps"
    by (cases "split_char c xs") (auto simp: split_char_nonempty)
  with Cons.IH show ?case by (cases ps) auto
qed simp

lemma split_char_append:
  "c \<notin> set p \<Longrightarrow> split_char c (p @ c # s) = p # split_char c s"
  by (induction p) auto

lemma split_char_single: "c \<notin> set p \<Longrightarrow> split_char c p = [p]"
  by (induction p) auto

lemma split_char_join:
  "ps \<noteq> [] \<Longrightarrow> (\<And>p. p \<in> set ps \<Longrightarrow> c \<notin> set p) \<Longrightarrow> split_char c (join [c] ps) = ps"
proof (induction ps)
  case (Cons p ps)
  then show ?case
    by (cases ps) (auto simp: split_char_single split_char_append)
qed simp

lemma split_n2_pair:
  "c \<notin> set p \<Longrightarrow> split_n2 c (p @ c # r) = [p, r]"
proof -
  assume "c \<notin> set p"
  then have "takeWhile (\<lambda>x. x \<noteq> c) (p @ c # r) = p"
    by (induction p) auto
  then show ?thesis by (simp add: split_n2_def)
qed

lemma split_n2_inv: "split_n2 c s = [p, r] \<Longrightarrow> s = p @ c # r \<and> c \<notin> set p"
proof -
  let ?p = "takeWhile (\<lambda>x. x \<noteq> c) s"
  assume eq: "split_n2 c s = [p, r]"
  then have len: "length ?p \<noteq> length s" and p: "p = ?p" and r: "r = drop (Suc (length ?p)) s"
    by (auto simp: split_n2_def Let_def split: if_splits)
  from len have lt: "length ?p < length s"
    using length_takeWhile_le [of "\<lambda>x. x \<noteq> c" s] by simp
  then have "s ! length ?p = c"
    using nth_length_takeWhile [of "\<lambda>x. x \<noteq> c" s] by simp
  then have "drop (length ?p) s = c # r"
    using lt r by (simp add: Cons_nth_drop_Suc [symmetric])
  then have "s = p @ c # r"
    using p by (metis takeWhile_dropWhile_id dropWhile_eq_drop)
  moreover have "c \<notin> set p"
    using p by (auto dest: set_takeWhileD)
  ultimately show ?thesis by simp
qed

section \<open>Atoi, Itoa, ParseBool\<close>

definition digit_value :: "char \<Rightarrow> nat option" where
  "digit_value c =
     (let n = (of_char c :: nat) in if 48 \<le> n \<and> n \<le> 57 then Some (n - 48) else None)"

fun parse_digits :: "nat \<Rightarrow> string \<Rightarrow> nat option" where
  "parse_digits acc [] = Some acc"
| "parse_digits acc (c # cs) =
     (case digit_value c of None \<Rightarrow> None | Some d \<Rightarrow> parse_digits (10 * acc + d) cs)"

definition in_int64 :: "int \<Rightarrow> bool" where
  "in_int64 n \<longleftrightarrow> - (2 ^ 63) \<le> n \<and> n < 2 ^ 63"

text \<open>\<open>strconv.Atoi\<close>: an optional sign, one digit or more, and the value in range.\<close>

definition atoi :: "string \<Rightarrow> int option" where
  "atoi s =
     (let neg = (s \<noteq> [] \<and> hd s = CHR ''-'');
          ds = (if s \<noteq> [] \<and> (hd s = CHR ''-'' \<or> hd s = CHR ''+'') then tl s else s)
      in if ds = [] then None
         else case parse_digits 0 ds of
                None \<Rightarrow> None
              | Some n \<Rightarrow>
                  (let v = (if neg then - int n else int n)
                   in if in_int64 v then Some v else None))"

definition digit_char :: "nat \<Rightarrow> char" where
  "digit_char d = char_of (48 + d)"

fun show_nat :: "nat \<Rightarrow> string" where
  "show_nat n =
     (if n < 10 then [digit_char n] else show_nat (n div 10) @ [digit_char (n mod 10)])"

declare show_nat.simps [simp del]

definition itoa :: "int \<Rightarrow> string" where
  "itoa n = (if n < 0 then CHR ''-'' # show_nat (nat (- n)) else show_nat (nat n))"

definition parse_bool :: "string \<Rightarrow> bool option" where
  "parse_bool s =
     (if s \<in> {''1'', ''t'', ''T'', ''true'', ''TRUE'', ''True''} then Some True
      else if s \<in> {''0'', ''f'', ''F'', ''false'', ''FALSE'', ''False''} then Some False
      else None)"

lemma digit_value_char: "d < 10 \<Longrightarrow> digit_value (digit_char d) = Some d"
  by (simp add: digit_value_def digit_char_def of_char_of)

lemma digit_char_not_sign:
  "d < 10 \<Longrightarrow> digit_char d \<noteq> CHR ''-'' \<and> digit_char d \<noteq> CHR ''+''"
proof -
  assume d: "d < 10"
  have "digit_value (CHR ''-'') = None" and "digit_value (CHR ''+'') = None"
    by (simp_all add: digit_value_def)
  with digit_value_char [OF d] show ?thesis by auto
qed

lemma parse_digits_append:
  "parse_digits acc (s @ t) =
     (case parse_digits acc s of None \<Rightarrow> None | Some n \<Rightarrow> parse_digits n t)"
  by (induction s arbitrary: acc) (auto split: option.splits)

lemma parse_digits_show_nat: "parse_digits 0 (show_nat n) = Some n"
proof (induction n rule: show_nat.induct)
  case (1 n)
  show ?case
  proof (cases "n < 10")
    case True
    then show ?thesis by (subst show_nat.simps) (simp add: digit_value_char)
  next
    case False
    with 1 have "parse_digits 0 (show_nat (n div 10)) = Some (n div 10)" by simp
    with False show ?thesis
      by (subst show_nat.simps) (simp add: parse_digits_append digit_value_char)
  qed
qed

lemma show_nat_shape: "\<exists>d ds. d < 10 \<and> show_nat n = digit_char d # ds"
proof (induction n rule: show_nat.induct)
  case (1 n)
  show ?case
  proof (cases "n < 10")
    case True
    then show ?thesis by (subst show_nat.simps) auto
  next
    case False
    with 1 obtain d ds where "d < 10" "show_nat (n div 10) = digit_char d # ds" by auto
    with False show ?thesis by (subst show_nat.simps) auto
  qed
qed

theorem atoi_itoa: "in_int64 n \<Longrightarrow> atoi (itoa n) = Some n"
proof -
  assume n: "in_int64 n"
  obtain d ds where d: "d < 10" and ds: "show_nat (nat \<bar>n\<bar>) = digit_char d # ds"
    using show_nat_shape by blast
  have pd: "parse_digits 0 (digit_char d # ds) = Some (nat \<bar>n\<bar>)"
    using parse_digits_show_nat [of "nat \<bar>n\<bar>"] by (simp only: ds)
  show ?thesis
  proof (cases "n < 0")
    case True
    then have "itoa n = CHR ''-'' # digit_char d # ds"
      using ds by (simp add: itoa_def)
    with True n pd show ?thesis
      by (simp add: atoi_def Let_def del: parse_digits.simps)
  next
    case False
    then have "itoa n = digit_char d # ds"
      using ds by (simp add: itoa_def)
    with False n pd digit_char_not_sign [OF d] show ?thesis
      by (simp add: atoi_def Let_def del: parse_digits.simps)
  qed
qed

lemma atoi_range: "atoi s = Some n \<Longrightarrow> in_int64 n"
  by (auto simp: atoi_def Let_def split: if_splits option.splits)

lemma atoi_Nil [simp]: "atoi [] = None"
  by (simp add: atoi_def)

end
