(* ===== verification/Settings.thy ===== *)
theory Settings
  imports GoStrings
begin

text \<open>
  \<open>internal/config/config.go\<close>: the configuration tree as nested records, the readers of one
  environment variable (\<open>getenv\<close>, \<open>getInt\<close>, \<open>getBool\<close>, \<open>getFloat\<close>, \<open>splitAndTrim\<close>), \<open>Load\<close>
  and \<open>validate\<close>. The environment is what \<open>os.Getenv\<close> reads after \<open>godotenv.Load\<close> has run: a
  function from names to values with \<open>[]\<close> for a variable that is not set. The Unicode case
  table, \<open>strconv.ParseFloat\<close> and the rounding of a constant to \<open>float64\<close> are parameters.
\<close>

section \<open>The configuration tree\<close>

record app_config =
  app_Name :: string
  app_Env :: string
  app_Version :: string
  app_Port :: string
  app_BaseURL :: string
  app_AllowedHosts :: "string list"
  app_AllowedOrigins :: "string list"
  app_CloudflareHosts :: "string list"

record database_config =
  db_Driver :: string
  db_DSN :: string
  db_ReadOnlyDSN :: string
  db_MaxOpenConns :: int
  db_MaxIdleConns :: int
  db_ConnMaxLifetime :: duration
  db_AutoMigrate :: bool
  db_PreferSimpleProt :: bool

record redis_config =
  redis_Addr :: string
  redis_Username :: string
  redis_Password :: string
  redis_DB :: int
  redis_TLS :: bool

record auth_config =
  auth_AccessSecret :: string
  auth_RefreshSecret :: string
  auth_AccessTokenTTL :: duration
  auth_RefreshTokenTTL :: duration
  auth_TokenIssuer :: string
  auth_SecretVersion :: string
  auth_OAuthRedirectURL :: string
  auth_OAuthGoogleClientID :: string

record rate_limit_config =
  rl_Enabled :: bool
  rl_RequestsPerMinute :: int
  rl_Burst :: int
  rl_RedisPrefix :: string

record cors_config =
  cors_AllowedOrigins :: "string list"
  cors_AllowedMethods :: "string list"
  cors_AllowedHeaders :: "string list"
  cors_AllowCredentials :: bool

record security_config =
  sec_AllowRegistration :: bool
  sec_BcryptCost :: int

record monitoring_config =
  mon_PrometheusEnabled :: bool
  mon_SentryDSN :: string
  mon_SentrySampleRate :: real

record diagnostics_config =
  diag_EnableDebugLogs :: bool
  diag_MaxLogLines :: int

record config =
  cfg_App :: app_config
  cfg_Database :: database_config
  cfg_Redis :: redis_config
  cfg_Auth :: auth_config
  cfg_RateLimit :: rate_limit_config
  cfg_Cors :: cors_config
  cfg_Security :: security_config
  cfg_Monitoring :: monitoring_config
  cfg_Diagnostics :: diagnostics_config

datatype config_error = JwtSecretsMissing | UnsupportedDriver string

text \<open>The library functions configuration reading relies on.\<close>

record config_lib =
  cl_unicode_lower :: "string \<Rightarrow> string"
  cl_parse_float :: "string \<Rightarrow> real option"
  cl_float64 :: "real \<Rightarrow> real"

type_synonym environment = "string \<Rightarrow> string"

section \<open>Reading one variable\<close>

definition getenv :: "environment \<Rightarrow> string \<Rightarrow> string \<Rightarrow> string" where
  "getenv env key dflt =
     (let val = trim_space (env key) in if val = [] then dflt else val)"

definition getInt :: "environment \<Rightarrow> string \<Rightarrow> int \<Rightarrow> int" where
  "getInt env key dflt =
     (let val = trim_space (env key)
      in if val = [] then dflt
         else case atoi val of None \<Rightarrow> dflt | Some i \<Rightarrow> i)"

definition getBool :: "environment \<Rightarrow> string \<Rightarrow> bool \<Rightarrow> bool" where
  "getBool env key dflt =
     (let val = trim_space (env key)
      in if val = [] then dflt
         else case parse_bool val of None \<Rightarrow> dflt | Some b \<Rightarrow> b)"

definition getFloat :: "config_lib \<Rightarrow> environment \<Rightarrow> string \<Rightarrow> real \<Rightarrow> real" where
  "getFloat lib env key dflt =
     (let val = trim_space (env key)
      in if val = [] then dflt
         else case cl_parse_float lib val of None \<Rightarrow> dflt | Some x \<Rightarrow> x)"

fun keep_trimmed :: "string list \<Rightarrow> string list" where
  "keep_trimmed [] = []"
| "keep_trimmed (p # ps) =
     (let trim = trim_space p
      in if trim \<noteq> [] then trim # keep_trimmed ps else keep_trimmed ps)"

text \<open>A nil slice and an empty one are both \<open>[]\<close>: nothing in the program tells them apart.\<close>

definition splitAndTrim :: "string \<Rightarrow> string list" where
  "splitAndTrim val = (if val = [] then [] else keep_trimmed (split_char (CHR '','') val))"

section \<open>Load and validate\<close>

definition default_cors_origins :: string where
  "default_cors_origins =
     ''http://localhost:3000,http://localhost:5173,'' @
     ''http://localhost:8080,https://dev.kidpech.app''"

definition load_app :: "environment \<Rightarrow> app_config" where
  "load_app env =
     \<lparr>app_Name = getenv env ''APP_NAME'' ''kidpech-demo-api'',
      app_Env = getenv env ''APP_ENV'' ''development'',
      app_Version = getenv env ''APP_VERSION'' ''0.1.0'',
      app_Port = getenv env ''PORT'' ''8080'',
      app_BaseURL = getenv env ''BASE_URL'' ''http://localhost:8080'',
      app_AllowedHosts =
        splitAndTrim (getenv env ''ALLOWED_HOSTS'' ''api.kidpech.app,api.twentcode.com''),
      app_AllowedOrigins = splitAndTrim (getenv env ''CORS_ORIGINS'' default_cors_origins),
      app_CloudflareHosts =
        splitAndTrim (getenv env ''CLOUDFLARE_HOSTS'' ''api.kidpech.app,api.twentcode.com'')\<rparr>"

definition load_database :: "config_lib \<Rightarrow> environment \<Rightarrow> database_config" where
  "load_database lib env =
     \<lparr>db_Driver = to_lower (cl_unicode_lower lib) (getenv env ''DB_DRIVER'' ''postgres''),
      db_DSN = getenv env ''DB_DSN'' ''postgres://postgres:postgres@db:5432/demo_db?sslmode=disable'',
      db_ReadOnlyDSN = getenv env ''DB_READ_DSN'' [],
      db_MaxOpenConns = getInt env ''DB_MAX_OPEN'' 25,
      db_MaxIdleConns = getInt env ''DB_MAX_IDLE'' 10,
      db_ConnMaxLifetime = wrap64 (getInt env ''DB_CONN_MAX_LIFETIME_MIN'' 30 * nanos_per_minute),
      db_AutoMigrate = getBool env ''DB_AUTO_MIGRATE'' True,
      db_PreferSimpleProt = getBool env ''DB_PREFER_SIMPLE'' True\<rparr>"

definition load_redis :: "environment \<Rightarrow> redis_config" where
  "load_redis env =
     \<lparr>redis_Addr = getenv env ''REDIS_ADDR'' ''redis:6379'',
      redis_Username = getenv env ''REDIS_USER'' [],
      redis_Password = getenv env ''REDIS_PASSWORD'' [],
      redis_DB = getInt env ''REDIS_DB'' 0,
      redis_TLS = getBool env ''REDIS_TLS'' False\<rparr>"

definition load_auth :: "environment \<Rightarrow> auth_config" where
  "load_auth env =
     \<lparr>auth_AccessSecret =
        getenv env ''JWT_ACCESS_SECRET'' (getenv env ''JWT_SECRET'' ''change-me''),
      auth_RefreshSecret =
        getenv env ''JWT_REFRESH_SECRET'' (getenv env ''JWT_SECRET'' ''change-me''),
      auth_AccessTokenTTL = wrap64 (getInt env ''JWT_ACCESS_EXP_MIN'' 15 * nanos_per_minute),
      auth_RefreshTokenTTL = wrap64 (getInt env ''JWT_REFRESH_EXP_HOURS'' 24 * nanos_per_hour),
      auth_TokenIssuer = getenv env ''JWT_ISSUER'' ''kidpech.app'',
      auth_SecretVersion = getenv env ''JWT_SECRET_VERSION'' ''v1'',
      auth_OAuthRedirectURL = getenv env ''OAUTH_REDIRECT_URL'' [],
      auth_OAuthGoogleClientID = getenv env ''OAUTH_GOOGLE_CLIENT_ID'' []\<rparr>"

definition load_rate_limit :: "environment \<Rightarrow> rate_limit_config" where
  "load_rate_limit env =
     \<lparr>rl_Enabled = getBool env ''RATE_LIMIT_ENABLED'' True,
      rl_RequestsPerMinute = getInt env ''RATE_LIMIT_PER_MIN'' 60,
      rl_Burst = getInt env ''RATE_LIMIT_BURST'' 5,
      rl_RedisPrefix = getenv env ''RATE_LIMIT_PREFIX'' ''ratelimit''\<rparr>"

definition load_cors :: "environment \<Rightarrow> cors_config" where
  "load_cors env =
     \<lparr>cors_AllowedOrigins = splitAndTrim (getenv env ''CORS_ORIGINS'' default_cors_origins),
      cors_AllowedMethods =
        splitAndTrim (getenv env ''CORS_METHODS'' ''GET,POST,PUT,PATCH,DELETE,OPTIONS''),
      cors_AllowedHeaders =
        splitAndTrim (getenv env ''CORS_HEADERS''
          ''Authorization,Content-Type,Accept,X-Requested-With''),
      cors_AllowCredentials = getBool env ''CORS_ALLOW_CREDENTIALS'' True\<rparr>"

definition load_security :: "environment \<Rightarrow> security_config" where
  "load_security env =
     \<lparr>sec_AllowRegistration = getBool env ''ALLOW_REGISTRATION'' True,
      sec_BcryptCost = getInt env ''BCRYPT_COST'' 12\<rparr>"

definition load_monitoring :: "config_lib \<Rightarrow> environment \<Rightarrow> monitoring_config" where
  "load_monitoring lib env =
     \<lparr>mon_PrometheusEnabled = getBool env ''PROMETHEUS_ENABLED'' True,
      mon_SentryDSN = getenv env ''SENTRY_DSN'' [],
      mon_SentrySampleRate = getFloat lib env ''SENTRY_SAMPLE_RATE'' (cl_float64 lib (1 / 5))\<rparr>"

definition load_diagnostics :: "environment \<Rightarrow> diagnostics_config" where
  "load_diagnostics env =
     \<lparr>diag_EnableDebugLogs = getBool env ''ENABLE_DEBUG_LOGS'' False,
      diag_MaxLogLines = getInt env ''DEBUG_LOG_LIMIT'' 200\<rparr>"

definition config_validate :: "config \<Rightarrow> config_error option" where
  "config_validate c =
     (if auth_AccessSecret (cfg_Auth c) = [] \<or> auth_RefreshSecret (cfg_Auth c) = []
      then Some JwtSecretsMissing
      else if db_Driver (cfg_Database c) = ''postgres'' \<or> db_Driver (cfg_Database c) = ''mysql''
      then None
      else Some (UnsupportedDriver (db_Driver (cfg_Database c))))"

definition build_config :: "config_lib \<Rightarrow> environment \<Rightarrow> config" where
  "build_config lib env =
     \<lparr>cfg_App = load_app env, cfg_Database = load_database lib env, cfg_Redis = load_redis env,
      cfg_Auth = load_auth env, cfg_RateLimit = load_rate_limit env, cfg_Cors = load_cors env,
      cfg_Security = load_security env, cfg_Monitoring = load_monitoring lib env,
      cfg_Diagnostics = load_diagnostics env\<rparr>"

definition Load :: "config_lib \<Rightarrow> environment \<Rightarrow> config_error + config" where
  "Load lib env =
     (let cfg = build_config lib env
      in case config_validate cfg of Some err \<Rightarrow> Inl err | None \<Rightarrow> Inr cfg)"

section \<open>What the readers return\<close>

lemma getenv_nonempty: "dflt \<noteq> [] \<Longrightarrow> getenv env key dflt \<noteq> []"
  by (simp add: getenv_def Let_def)

lemma getenv_trimmed: "trim_space dflt = dflt \<Longrightarrow> trim_space (getenv env key dflt) = getenv env key dflt"
  by (simp add: getenv_def Let_def)

lemma getenv_unset: "trim_space (env key) = [] \<Longrightarrow> getenv env key dflt = dflt"
  by (simp add: getenv_def)

lemma getInt_in_int64: "in_int64 dflt \<Longrightarrow> in_int64 (getInt env key dflt)"
  by (auto simp: getInt_def Let_def dest: atoi_range split: option.splits)

lemma getInt_of_itoa:
  assumes "trim_space (env key) = itoa n" and "in_int64 n"
  shows "getInt env key dflt = n"
proof -
  have "itoa n \<noteq> []"
    using atoi_itoa [OF assms(2)] by auto
  with assms show ?thesis by (simp add: getInt_def atoi_itoa)
qed

text \<open>The secrets a loaded configuration signs with are never empty: the default fills the gap.\<close>

lemma load_auth_secrets:
  "auth_AccessSecret (load_auth env) \<noteq> []" "auth_RefreshSecret (load_auth env) \<noteq> []"
  by (simp_all add: load_auth_def getenv_nonempty)

text \<open>
  A minute count whose nanoseconds fit 64 bits reaches the configuration unwrapped; above the
  bound the product wraps.
\<close>

lemma minutes_fit:
  "\<bar>m\<bar> \<le> 153722867 \<Longrightarrow> wrap64 (m * nanos_per_minute) = m * nanos_per_minute"
  by (rule wrap64_id) (auto simp: nanos_defs)

lemma keep_trimmed_eq: "keep_trimmed ps = filter (\<lambda>p. p \<noteq> []) (map trim_space ps)"
  by (induction ps) (auto simp: Let_def)

lemma splitAndTrim_eq:
  "splitAndTrim val = filter (\<lambda>p. p \<noteq> []) (map trim_space (split_char (CHR '','') val))"
  by (simp add: splitAndTrim_def keep_trimmed_eq)

lemma split_char_trimmed:
  assumes "p \<in> set (splitAndTrim val)"
  shows "p \<noteq> []" "trim_space p = p" "CHR '','' \<notin> set p"
proof -
  obtain q where "q \<in> set (split_char (CHR '','') val)" "p = trim_space q" "p \<noteq> []"
    using assms by (auto simp: splitAndTrim_eq)
  then show "p \<noteq> []" "trim_space p = p" "CHR '','' \<notin> set p"
    using split_char_no_sep [of q "CHR '',''" val] set_trim_space [of q] by auto
qed

lemma splitAndTrim_join:
  assumes "\<And>p. p \<in> set ps \<Longrightarrow> p \<noteq> [] \<and> trim_space p = p \<and> CHR '','' \<notin> set p"
  shows "splitAndTrim (join '','' ps) = ps"
proof (cases "ps = []")
  case True
  then show ?thesis by (simp add: splitAndTrim_def)
next
  case False
  then have "split_char (CHR '','') (join '','' ps) = ps"
    using assms by (intro split_char_join) auto
  moreover have "filter (\<lambda>p. p \<noteq> []) (map trim_space ps) = ps"
    using assms by (induction ps) auto
  ultimately show ?thesis by (simp add: splitAndTrim_eq)
qed

lemma wrap64_fits_iff: "wrap64 n = n \<longleftrightarrow> - (2 ^ 63) \<le> n \<and> n < 2 ^ 63"
  using wrap64_id [of n] wrap64_lower [of n] wrap64_upper [of n] by auto

section \<open>Properties of the configuration\<close>

text \<open>C15 (what \<open>Load\<close> returns). \<open>Load\<close> fails exactly when the lower-cased \<open>DB_DRIVER\<close> is neither
  \<open>postgres\<close> nor \<open>mysql\<close>, and then with that driver's error; otherwise it returns the tree read from the
  environment. The other check of \<open>validate\<close>, that the JWT secrets are given, never fires: the
  default \<open>change-me\<close> stands in for a missing secret.\<close>

theorem Load_outcome:
  "Load lib env =
     (let d = to_lower (cl_unicode_lower lib) (getenv env ''DB_DRIVER'' ''postgres'')
      in if d = ''postgres'' \<or> d = ''mysql'' then Inr (build_config lib env)
         else Inl (UnsupportedDriver d))"
  using load_auth_secrets [of env]
  by (simp add: Load_def config_validate_def build_config_def load_database_def Let_def)

text \<open>A list variable is a clean list. The entries \<open>splitAndTrim\<close> returns are not empty, carry no
  space at either end and no comma, and writing them back with commas and reading them again
  gives the same list.\<close>

theorem splitAndTrim_clean:
  "splitAndTrim (join '','' (splitAndTrim val)) = splitAndTrim val
   \<and> (\<forall>p \<in> set (splitAndTrim val). p \<noteq> [] \<and> trim_space p = p \<and> CHR '','' \<notin> set p)"
  using splitAndTrim_join [of "splitAndTrim val"] split_char_trimmed by blast

theorem splitAndTrim_clean_witness:
  "splitAndTrim '' a,, b c ,'' = [''a'', ''b c''] \<and> trim_space ''b c'' = ''b c''
   \<and> splitAndTrim (join '','' [''a'', ''b c'']) = [''a'', ''b c'']"
proof -
  have "splitAndTrim '' a,, b c ,'' = [''a'', ''b c'']" by code_simp
  with splitAndTrim_clean [of "'' a,, b c ,''"] show ?thesis by simp
qed

text \<open>C16 (the range of the token lifetimes). The access lifetime of a loaded configuration is the
  configured number of minutes exactly when that number is at most 153722867 in size; beyond it
  the 64-bit product of nanoseconds wraps.\<close>

theorem access_ttl_range:
  assumes "trim_space (env ''JWT_ACCESS_EXP_MIN'') = itoa m" and "in_int64 m"
  shows "auth_AccessTokenTTL (load_auth env) = m * nanos_per_minute \<longleftrightarrow> \<bar>m\<bar> \<le> 153722867"
  using getInt_of_itoa [of env "''JWT_ACCESS_EXP_MIN''", OF assms]
  by (auto simp: load_auth_def wrap64_fits_iff nanos_defs)

theorem access_ttl_range_witness:
  "auth_AccessTokenTTL (load_auth (\<lambda>k. if k = ''JWT_ACCESS_EXP_MIN'' then ''153722868'' else []))
     \<noteq> 153722868 * nanos_per_minute"
proof -
  have "trim_space ''153722868'' = ''153722868''" by code_simp
  moreover have "itoa 153722868 = ''153722868''"
    by (simp add: itoa_def show_nat.simps digit_char_def char_of_def bit_Suc_0_iff)
  moreover have "in_int64 153722868" by (simp add: in_int64_def)
  ultimately have "trim_space ''153722868'' = itoa 153722868" "in_int64 153722868"
    by simp_all
  with access_ttl_range [of "\<lambda>k. if k = ''JWT_ACCESS_EXP_MIN'' then ''153722868'' else []" 153722868]
  show ?thesis by simp
qed

end
