(* ===== verification/Validation.thy ===== *)
theory Validation
  imports GoStrings
begin

text \<open>
  The seam between the program and the libraries that check and clean its input. The program
  declares, in the \<open>validate\<close> tags of its request structs, what it asks of
  \<open>go-playground/validator\<close>; the tags are data here, and the validator itself is a parameter: a
  function from tagged fields to the field errors it reports, \<open>None\<close> for a nil error. What the
  program relies on is the documented meaning of the tags it uses, stated as a predicate on the
  parameter. \<open>bluemonday\<close>'s policy is a parameter \<open>sanitize\<close>.
\<close>

datatype tag =
    Required
  | Email
  | MinLen nat
  | OmitEmpty
  | Url
  | DateTime string
  | Gte int

datatype field_value =
    VString string
  | VStringPtr "string option"
  | VInt int
  | VMap "nat option"  \<comment> \<open>a map by its number of entries, \<open>None\<close> for nil\<close>

record tagged_field =
  tf_name :: string
  tf_value :: field_value
  tf_tags :: "tag list"

record field_error =
  fe_field :: string
  fe_tag :: string

type_synonym validator = "tagged_field list \<Rightarrow> field_error list option"

abbreviation tagged :: "string \<Rightarrow> field_value \<Rightarrow> tag list \<Rightarrow> tagged_field" where
  "tagged n v ts \<equiv> \<lparr>tf_name = n, tf_value = v, tf_tags = ts\<rparr>"

text \<open>
  The documented meaning of \<open>required\<close> (not the zero value), \<open>min\<close> on a string (its number of
  code points) and \<open>gte\<close> on an integer. In the UTF-8 that decoding JSON yields, the bytes of the
  form \<open>10xxxxxx\<close> continue a code point and every other byte starts one.
\<close>

definition zero_value :: "field_value \<Rightarrow> bool" where
  "zero_value v =
     (case v of VString s \<Rightarrow> s = [] | VStringPtr p \<Rightarrow> p = None | VInt n \<Rightarrow> n = 0
      | VMap m \<Rightarrow> m = None)"

definition rune_count :: "string \<Rightarrow> nat" where
  "rune_count s = length (filter (\<lambda>c. (of_char c :: nat) div 64 \<noteq> 2) s)"

definition rejects :: "tagged_field \<Rightarrow> bool" where
  "rejects f \<longleftrightarrow>
     (Required \<in> set (tf_tags f) \<and> zero_value (tf_value f))
     \<or> (\<exists>n s. MinLen n \<in> set (tf_tags f) \<and> OmitEmpty \<notin> set (tf_tags f)
             \<and> tf_value f = VString s \<and> rune_count s < n)
     \<or> (\<exists>k n. Gte k \<in> set (tf_tags f) \<and> tf_value f = VInt n \<and> n < k)"

definition documented_validator :: "validator \<Rightarrow> bool" where
  "documented_validator v \<longleftrightarrow> (\<forall>fs. v fs = None \<longrightarrow> (\<forall>f \<in> set fs. \<not> rejects f))"

lemma rune_count_le: "rune_count s \<le> length s"
  by (simp add: rune_count_def)

lemma documented_required:
  "documented_validator v \<Longrightarrow> v fs = None \<Longrightarrow> tagged n (VString s) ts \<in> set fs \<Longrightarrow>
    Required \<in> set ts \<Longrightarrow> s \<noteq> []"
  by (force simp: documented_validator_def rejects_def zero_value_def)

lemma documented_min:
  "documented_validator v \<Longrightarrow> v fs = None \<Longrightarrow> tagged n (VString s) ts \<in> set fs \<Longrightarrow>
    MinLen k \<in> set ts \<Longrightarrow> OmitEmpty \<notin> set ts \<Longrightarrow> k \<le> rune_count s"
  by (force simp: documented_validator_def rejects_def not_less)

lemma documented_gte:
  "documented_validator v \<Longrightarrow> v fs = None \<Longrightarrow> tagged n (VInt k) ts \<in> set fs \<Longrightarrow>
    Gte l \<in> set ts \<Longrightarrow> l \<le> k"
  by (force simp: documented_validator_def rejects_def not_less)

end
