(* ===== verification/UserModel.thy ===== *)
theory UserModel
  imports Validation
begin

text \<open>
  \<open>internal/domain/user/model.go\<close> and \<open>repository.go\<close>, and the \<open>TokenManager\<close> interface and the
  sentinel errors of \<open>service.go\<close>: the entity, the request payloads with their \<open>validate\<close> tags,
  and the two interfaces the service is written against. A Go interface is a record of the
  operations; each takes the state \<open>'w\<close> of the world and returns the result with the new state,
  and an error return is a value. The JSON view of a user lists exactly the fields whose tag is
  not \<open>json:"-"\<close>.
\<close>

section \<open>Entities and payloads\<close>

record user =
  u_ID :: uuid
  u_Email :: string
  u_Name :: string
  u_PasswordHash :: string
  u_ProfileImage :: "string option"
  u_Role :: string
  u_RefreshVersion :: int
  u_LastLoginAt :: "timestamp option"
  u_PasswordResetAt :: "timestamp option"
  u_LastPasswordHash :: string
  u_CreatedAt :: timestamp
  u_UpdatedAt :: timestamp
  u_DeletedAt :: "timestamp option"

record register_request =
  rr_Email :: string
  rr_Password :: string
  rr_Name :: string
  rr_ProfileImage :: string

record login_request =
  lr_Email :: string
  lr_Password :: string

record update_user_request =
  uu_Name :: string
  uu_ProfileImage :: "string option"

record user_filter =
  uf_Search :: string
  uf_Limit :: int
  uf_Offset :: int
  uf_Sort :: string
  uf_TenantID :: uuid

record auth_tokens =
  at_AccessToken :: string
  at_RefreshToken :: string
  at_ExpiresIn :: int
  at_TokenType :: string

record auth_response =
  ar_User :: user
  ar_Tokens :: auth_tokens

definition register_fields :: "register_request \<Rightarrow> tagged_field list" where
  "register_fields r =
     [tagged ''Email'' (VString (rr_Email r)) [Required, Email],
      tagged ''Password'' (VString (rr_Password r)) [Required, MinLen 8],
      tagged ''Name'' (VString (rr_Name r)) [Required, MinLen 2],
      tagged ''ProfileImage'' (VString (rr_ProfileImage r)) [OmitEmpty, Url]]"

definition login_fields :: "login_request \<Rightarrow> tagged_field list" where
  "login_fields r =
     [tagged ''Email'' (VString (lr_Email r)) [Required, Email],
      tagged ''Password'' (VString (lr_Password r)) [Required, MinLen 8]]"

definition update_user_fields :: "update_user_request \<Rightarrow> tagged_field list" where
  "update_user_fields r =
     [tagged ''Name'' (VString (uu_Name r)) [Required, MinLen 2],
      tagged ''ProfileImage'' (VStringPtr (uu_ProfileImage r)) [OmitEmpty, Url]]"

section \<open>The JSON view\<close>

datatype json =
    JNull
  | JBool bool
  | JInt int
  | JNum real
  | JStr string
  | JUuid uuid
  | JTime timestamp
  | JArr "json list"
  | JObj "(string \<times> json) list"

definition omit_empty :: "string \<Rightarrow> ('a \<Rightarrow> json) \<Rightarrow> 'a option \<Rightarrow> (string \<times> json) list" where
  "omit_empty key f v = (case v of None \<Rightarrow> [] | Some x \<Rightarrow> [(key, f x)])"

definition user_json :: "user \<Rightarrow> (string \<times> json) list" where
  "user_json u =
     [(''id'', JUuid (u_ID u)), (''email'', JStr (u_Email u)), (''name'', JStr (u_Name u))]
     @ omit_empty ''profile_image'' JStr (u_ProfileImage u)
     @ [(''role'', JStr (u_Role u))]
     @ omit_empty ''last_login_at'' JTime (u_LastLoginAt u)
     @ [(''created_at'', JTime (u_CreatedAt u)), (''updated_at'', JTime (u_UpdatedAt u))]"

section \<open>Errors\<close>

text \<open>
  The sentinel errors \<open>errors.Is\<close> looks for, and every other error by its message. \<open>Panic\<close> is
  the nil dereference a service method runs into when its repository breaks the convention
  that a nil user comes with an error.
\<close>

datatype user_error =
    ErrDuplicateEmail
  | ErrInvalidCreds
  | ErrForbidden
  | ErrUserNotFound
  | ErrInvalidToken
  | ErrRegistrationDisabled
  | ErrValidation "field_error list"
  | ErrOther string
  | Panic

section \<open>The interfaces the service uses\<close>

record 'w user_repo =
  repo_Create :: "user \<Rightarrow> 'w \<Rightarrow> user_error option \<times> 'w"
  repo_Update :: "user \<Rightarrow> 'w \<Rightarrow> user_error option \<times> 'w"
  repo_GetByEmail :: "string \<Rightarrow> 'w \<Rightarrow> (user_error + user option) \<times> 'w"
  repo_GetByID :: "uuid \<Rightarrow> 'w \<Rightarrow> (user_error + user option) \<times> 'w"
  repo_List :: "user_filter \<Rightarrow> 'w \<Rightarrow> (user_error + user list \<times> int) \<times> 'w"

record 'w token_manager =
  tm_IssueTokens :: "user \<Rightarrow> 'w \<Rightarrow> (string + auth_tokens) \<times> 'w"
  tm_RefreshTokens :: "user \<Rightarrow> string \<Rightarrow> 'w \<Rightarrow> (string + auth_tokens) \<times> 'w"
  tm_ExtractUserID :: "string \<Rightarrow> 'w \<Rightarrow> (string + uuid) \<times> 'w"

lemmas user_request_fields = register_fields_def login_fields_def update_user_fields_def

end
