(* ===== verification/RedisModel.thy ===== *)
theory RedisModel
  imports GoStrings
begin

text \<open>
  The Redis client as the program uses it: \<open>SET\<close> with an expiry, \<open>GET\<close>, \<open>DEL\<close>, \<open>DECR\<close> and a
  transaction of one \<open>SET\<close>. Redis is not part of the repository, so a client is a record of
  operations that the code's definitions take as an argument, and what the documentation of each
  command promises is a predicate. \<open>ref_redis\<close> is a client that keeps its data in the state and
  meets those promises; it also fails on the calls the state names. \<open>RedisNil\<close> is the sentinel
  \<open>redis.Nil\<close> that a nil reply becomes.
\<close>

datatype redis_error = RedisNil | RedisFailure string

record 'w redis_client =
  rc_Set :: "string \<Rightarrow> string \<Rightarrow> duration \<Rightarrow> 'w \<Rightarrow> redis_error option \<times> 'w"
  rc_Get :: "string \<Rightarrow> 'w \<Rightarrow> (redis_error + string) \<times> 'w"
  rc_Del :: "string \<Rightarrow> 'w \<Rightarrow> redis_error option \<times> 'w"
  rc_Decr :: "string \<Rightarrow> 'w \<Rightarrow> (redis_error + int) \<times> 'w"
  rc_TxSet :: "string \<Rightarrow> int \<Rightarrow> duration \<Rightarrow> 'w \<Rightarrow> redis_error option \<times> 'w"

definition redis_message :: "redis_error \<Rightarrow> string" where
  "redis_message e = (case e of RedisNil \<Rightarrow> ''redis: nil'' | RedisFailure m \<Rightarrow> m)"

text \<open>
  The documentation of \<open>DECR\<close>: "Decrements the number stored at key by one. If the key does not
  exist, it is set to 0 before performing the operation. An error is returned if the key
  contains a value of the wrong type." The reply is an integer, never nil. \<open>count\<close> is the number
  the server holds for a key, \<open>None\<close> where the key is absent or expired.
\<close>

definition documented_decr :: "'w redis_client \<Rightarrow> ('w \<Rightarrow> string \<Rightarrow> int option) \<Rightarrow> bool" where
  "documented_decr rc count \<longleftrightarrow>
     (\<forall>k w. case rc_Decr rc k w of
        (Inl e, w') \<Rightarrow> e \<noteq> RedisNil \<and> count w' = count w
      | (Inr n, w') \<Rightarrow>
          n = (case count w k of None \<Rightarrow> 0 | Some v \<Rightarrow> v) - 1 \<and> count w' = (count w)(k \<mapsto> n))"

section \<open>A reference client\<close>

record redis_server = runtime +
  redis_data :: "string \<Rightarrow> (string \<times> timestamp option) option"
  redis_faults :: "nat \<Rightarrow> string option"
  redis_calls :: nat

definition redis_call :: "'a redis_server_scheme \<Rightarrow> string option \<times> 'a redis_server_scheme" where
  "redis_call w = (redis_faults w (redis_calls w), w\<lparr>redis_calls := Suc (redis_calls w)\<rparr>)"

definition redis_time :: "'a redis_server_scheme \<Rightarrow> timestamp" where
  "redis_time w = clock w (clock_reads w)"

fun entry_at :: "timestamp \<Rightarrow> (string \<times> timestamp option) option \<Rightarrow> string option" where
  "entry_at now None = None"
| "entry_at now (Some (v, None)) = Some v"
| "entry_at now (Some (v, Some t)) = (if now < t then Some v else None)"

definition redis_get :: "'a redis_server_scheme \<Rightarrow> string \<Rightarrow> string option" where
  "redis_get w k = entry_at (redis_time w) (redis_data w k)"

definition redis_put ::
  "string \<Rightarrow> string \<Rightarrow> timestamp option \<Rightarrow> 'a redis_server_scheme \<Rightarrow> 'a redis_server_scheme" where
  "redis_put k v t w = w\<lparr>redis_data := (redis_data w)(k \<mapsto> (v, t))\<rparr>"

definition redis_expiry :: "duration \<Rightarrow> 'a redis_server_scheme \<Rightarrow> timestamp option" where
  "redis_expiry d w = (if 0 < d then Some (redis_time w + d) else None)"

definition ref_set ::
  "string \<Rightarrow> string \<Rightarrow> duration \<Rightarrow> 'a redis_server_scheme \<Rightarrow>
     redis_error option \<times> 'a redis_server_scheme" where
  "ref_set k v d w =
     (case redis_call w of
        (Some m, w1) \<Rightarrow> (Some (RedisFailure m), w1)
      | (None, w1) \<Rightarrow> (None, redis_put k v (redis_expiry d w1) w1))"

definition ref_get ::
  "string \<Rightarrow> 'a redis_server_scheme \<Rightarrow> (redis_error + string) \<times> 'a redis_server_scheme" where
  "ref_get k w =
     (case redis_call w of
        (Some m, w1) \<Rightarrow> (Inl (RedisFailure m), w1)
      | (None, w1) \<Rightarrow>
          (case redis_get w1 k of None \<Rightarrow> (Inl RedisNil, w1) | Some v \<Rightarrow> (Inr v, w1)))"

definition ref_del ::
  "string \<Rightarrow> 'a redis_server_scheme \<Rightarrow> redis_error option \<times> 'a redis_server_scheme" where
  "ref_del k w =
     (case redis_call w of
        (Some m, w1) \<Rightarrow> (Some (RedisFailure m), w1)
      | (None, w1) \<Rightarrow> (None, w1\<lparr>redis_data := (redis_data w1)(k := None)\<rparr>))"

definition redis_ttl :: "'a redis_server_scheme \<Rightarrow> string \<Rightarrow> timestamp option" where
  "redis_ttl w k =
     (case redis_get w k of None \<Rightarrow> None | Some v \<Rightarrow> Option.bind (redis_data w k) snd)"

definition ref_decr ::
  "string \<Rightarrow> 'a redis_server_scheme \<Rightarrow> (redis_error + int) \<times> 'a redis_server_scheme" where
  "ref_decr k w =
     (case redis_call w of
        (Some m, w1) \<Rightarrow> (Inl (RedisFailure m), w1)
      | (None, w1) \<Rightarrow>
          (case (case redis_get w1 k of None \<Rightarrow> Some 0 | Some v \<Rightarrow> atoi v) of
             None \<Rightarrow>
               (Inl (RedisFailure ''ERR value is not an integer or out of range''), w1)
           | Some n \<Rightarrow>
               if in_int64 (n - 1)
               then (Inr (n - 1), redis_put k (itoa (n - 1)) (redis_ttl w1 k) w1)
               else (Inl (RedisFailure ''ERR increment or decrement would overflow''), w1)))"

definition ref_redis :: "'a redis_server_scheme redis_client" where
  "ref_redis =
     \<lparr>rc_Set = ref_set, rc_Get = ref_get, rc_Del = ref_del, rc_Decr = ref_decr,
      rc_TxSet = (\<lambda>k n. ref_set k (itoa n))\<rparr>"

definition redis_count :: "'a redis_server_scheme \<Rightarrow> string \<Rightarrow> int option" where
  "redis_count w k = (case redis_get w k of None \<Rightarrow> None | Some v \<Rightarrow> atoi v)"

lemmas redis_defs =
  ref_set_def ref_get_def ref_del_def ref_decr_def redis_call_def redis_put_def redis_time_def
  redis_get_def

lemma redis_get_cong:
  "redis_data w' = redis_data w \<Longrightarrow> redis_time w' = redis_time w \<Longrightarrow> redis_get w' = redis_get w"
  by (rule ext) (simp add: redis_get_def)

lemma redis_call_frame [simp]:
  "redis_get (snd (redis_call w)) = redis_get w" "redis_data (snd (redis_call w)) = redis_data w"
  "clock (snd (redis_call w)) = clock w" "clock_reads (snd (redis_call w)) = clock_reads w"
proof -
  show "redis_get (snd (redis_call w)) = redis_get w"
    by (rule redis_get_cong) (simp_all add: redis_call_def redis_time_def)
qed (simp_all add: redis_call_def)

lemma redis_get_put:
  assumes "t = redis_expiry d w \<or> t = redis_ttl w k"
  shows "redis_get (redis_put k v t w) = (redis_get w)(k \<mapsto> v)"
proof
  fix k'
  have "t = None \<or> (\<exists>u. t = Some u \<and> redis_time w < u)"
    using assms
    by (auto simp: redis_expiry_def redis_ttl_def redis_get_def Option.bind_eq_Some_conv
        split: option.splits if_splits elim!: entry_at.elims)
  then show "redis_get (redis_put k v t w) k' = ((redis_get w)(k \<mapsto> v)) k'"
    by (auto simp: redis_get_def redis_put_def redis_time_def)
qed

text \<open>
  A first \<open>DECR\<close> of an absent key in the reference client replies \<open>-1\<close>, as the documentation
  has it; this is the client's behaviour on every key it holds a 64-bit number for.
\<close>

lemma ref_decr_reply:
  assumes "redis_faults w (redis_calls w) = None" and "redis_get w k = None"
  shows "fst (ref_decr k w) = Inr (- 1)"
proof -
  obtain w1 where w1: "redis_call w = (None, w1)"
    using assms(1) by (simp add: redis_call_def)
  have "redis_get w1 k = None"
    using redis_call_frame(1) [of w] w1 assms(2) by simp
  with w1 show ?thesis by (simp add: ref_decr_def in_int64_def)
qed

lemma redis_count_put:
  assumes "t = redis_expiry d w \<or> t = redis_ttl w k" and "in_int64 n"
  shows "redis_count (redis_put k (itoa n) t w) = (redis_count w)(k \<mapsto> n)"
  using redis_get_put [OF assms(1)] assms(2) by (auto simp: redis_count_def fun_eq_iff atoi_itoa)

lemma ref_redis_documented_decr: "documented_decr ref_redis redis_count"
  unfolding documented_decr_def
proof (intro allI)
  fix k and w :: "'a redis_server_scheme"
  obtain f w1 where w1: "redis_call w = (f, w1)" by (cases "redis_call w")
  have get: "redis_get w1 = redis_get w" using redis_call_frame(1) [of w] w1 by simp
  then have count: "redis_count w1 = redis_count w" by (simp add: redis_count_def fun_eq_iff)
  let ?held = "case redis_get w1 k of None \<Rightarrow> Some 0 | Some v \<Rightarrow> atoi v"
  show "case rc_Decr ref_redis k w of
      (Inl e, w') \<Rightarrow> e \<noteq> RedisNil \<and> redis_count w' = redis_count w
    | (Inr n, w') \<Rightarrow> n = (case redis_count w k of None \<Rightarrow> 0 | Some v \<Rightarrow> v) - 1
        \<and> redis_count w' = (redis_count w)(k \<mapsto> n)"
  proof (cases "f = None \<and> (\<exists>n. ?held = Some n \<and> in_int64 (n - 1))")
    case True
    then obtain n where f: "f = None" and n: "?held = Some n" "in_int64 (n - 1)" by blast
    have "n = (case redis_count w k of None \<Rightarrow> 0 | Some v \<Rightarrow> v)"
      using n(1) get by (auto simp: redis_count_def split: option.splits)
    then show ?thesis
      using w1 f n redis_count_put [OF _ n(2), of "redis_ttl w1 k" _ w1 k] count
      by (simp add: ref_redis_def ref_decr_def)
  next
    case False
    then show ?thesis
      using w1 count by (auto simp: ref_redis_def ref_decr_def split: option.splits)
  qed
qed

end
