(* ===== verification/TokenManager.thy ===== *)
theory TokenManager
  imports Settings UserModel RedisModel
begin

text \<open>
  \<open>internal/infrastructure/auth/jwt_manager.go\<close>: the manager of access and refresh tokens. Its
  state is the \<open>memoryTokens\<close> map, used when there is no Redis client. \<open>golang-jwt\<close> is a record
  of its three functions the code calls; \<open>ParseWithClaims\<close> takes the code's key function as an
  argument. \<open>documented_jwt\<close> states what the code relies on: signing with HS256 does not fail, what was
  signed parses under the same key until it expires and under no other key, the claims are read
  off the token alone, dates are cut to whole seconds, identifiers print differently.
\<close>

section \<open>Claims and the JWT library\<close>

record claims =
  jc_UserID :: uuid
  jc_Role :: string
  jc_SecretVer :: string
  jc_TokenType :: string
  jc_Issuer :: string
  jc_Subject :: string
  jc_ExpiresAt :: timestamp
  jc_IssuedAt :: timestamp
  jc_ID :: string

datatype signing_method = SigningMethodHMAC string | OtherSigningMethod string

record parsed_token =
  pt_Claims :: "claims option"  \<comment> \<open>\<open>None\<close>: claims of another Go type\<close>
  pt_Valid :: bool

record jwt_lib =
  jl_SignedString :: "signing_method \<Rightarrow> claims \<Rightarrow> string \<Rightarrow> string + string"
  jl_ParseWithClaims ::
    "(signing_method \<Rightarrow> string + string) \<Rightarrow> timestamp \<Rightarrow> string \<Rightarrow> string + parsed_token"
  jl_NewNumericDate :: "timestamp \<Rightarrow> timestamp"
  jl_UuidString :: "uuid \<Rightarrow> string"

definition jwt_signs :: "jwt_lib \<Rightarrow> bool" where
  "jwt_signs jl \<longleftrightarrow>
     (\<forall>m c k t kf now. jl_SignedString jl m c k = Inr t \<longrightarrow> kf m = Inr k \<longrightarrow>
        now < jc_ExpiresAt c \<longrightarrow>
        jl_ParseWithClaims jl kf now t = Inr \<lparr>pt_Claims = Some c, pt_Valid = True\<rparr>)"

definition hs256 :: signing_method where
  "hs256 = SigningMethodHMAC ''HS256''"

definition jwt_signs_always :: "jwt_lib \<Rightarrow> bool" where
  "jwt_signs_always jl \<longleftrightarrow> (\<forall>c k. \<exists>t. jl_SignedString jl hs256 c k = Inr t)"

definition jwt_checks_key :: "jwt_lib \<Rightarrow> bool" where
  "jwt_checks_key jl \<longleftrightarrow>
     (\<forall>m c k k' t kf now. jl_SignedString jl m c k = Inr t \<longrightarrow> kf m = Inr k' \<longrightarrow> k' \<noteq> k \<longrightarrow>
        (\<exists>e. jl_ParseWithClaims jl kf now t = Inl e))"

definition jwt_checks_expiry :: "jwt_lib \<Rightarrow> bool" where
  "jwt_checks_expiry jl \<longleftrightarrow>
     (\<forall>m c k t kf now. jl_SignedString jl m c k = Inr t \<longrightarrow> jc_ExpiresAt c \<le> now \<longrightarrow>
        (\<exists>e. jl_ParseWithClaims jl kf now t = Inl e))"

definition jwt_reads_token :: "jwt_lib \<Rightarrow> bool" where
  "jwt_reads_token jl \<longleftrightarrow>
     (\<forall>kf kf' now now' t p p'. jl_ParseWithClaims jl kf now t = Inr p \<longrightarrow>
        jl_ParseWithClaims jl kf' now' t = Inr p' \<longrightarrow> p' = p)"

definition jwt_truncates_dates :: "jwt_lib \<Rightarrow> bool" where
  "jwt_truncates_dates jl \<longleftrightarrow>
     (\<forall>t. jl_NewNumericDate jl t \<le> t \<and> t - nanos_per_second < jl_NewNumericDate jl t)"

definition documented_jwt :: "jwt_lib \<Rightarrow> bool" where
  "documented_jwt jl \<longleftrightarrow>
     jwt_signs jl \<and> jwt_signs_always jl \<and> jwt_checks_key jl \<and> jwt_checks_expiry jl \<and> jwt_reads_token jl
     \<and> jwt_truncates_dates jl \<and> inj (jl_UuidString jl)"

lemma jwt_signs_parse:
  assumes "documented_jwt jl" and "jl_SignedString jl m c k = Inr t" and "kf m = Inr k"
    and "now < jc_ExpiresAt c"
  shows "jl_ParseWithClaims jl kf now t = Inr \<lparr>pt_Claims = Some c, pt_Valid = True\<rparr>"
  using assms(1) [unfolded documented_jwt_def jwt_signs_def, THEN conjunct1, rule_format,
      where kf = kf, OF assms(2-4)] .

lemma jwt_other_key_fails:
  assumes "documented_jwt jl" and "jl_SignedString jl m c k = Inr t" and "kf m = Inr k'"
    and "k' \<noteq> k"
  shows "\<exists>e. jl_ParseWithClaims jl kf now t = Inl e"
proof -
  have "jwt_checks_key jl" using assms(1) by (simp add: documented_jwt_def)
  from this [unfolded jwt_checks_key_def, rule_format, where kf = kf, OF assms(2-4)]
  show ?thesis .
qed

lemma jwt_signs_some: "documented_jwt jl \<Longrightarrow> \<exists>t. jl_SignedString jl hs256 c k = Inr t"
  by (simp add: documented_jwt_def jwt_signs_always_def)

lemma jwt_expired_fails:
  assumes "documented_jwt jl" and "jl_SignedString jl m c k = Inr t" and "jc_ExpiresAt c \<le> now"
  shows "\<exists>e. jl_ParseWithClaims jl kf now t = Inl e"
proof -
  have "jwt_checks_expiry jl" using assms(1) by (simp add: documented_jwt_def)
  from this [unfolded jwt_checks_expiry_def, rule_format, OF assms(2,3)] show ?thesis .
qed

lemma jwt_same_claims:
  assumes "documented_jwt jl" and "jl_ParseWithClaims jl kf now t = Inr p"
    and "jl_ParseWithClaims jl kf' now' t = Inr p'"
  shows "p' = p"
proof -
  have "jwt_reads_token jl" using assms(1) by (simp add: documented_jwt_def)
  from this [unfolded jwt_reads_token_def, rule_format, OF assms(2,3)] show ?thesis .
qed

lemma jwt_date_bounds:
  assumes "documented_jwt jl"
  shows "jl_NewNumericDate jl t \<le> t" and "t - nanos_per_second < jl_NewNumericDate jl t"
  using assms by (auto simp: documented_jwt_def jwt_truncates_dates_def)

lemma jwt_uuid_inj: "documented_jwt jl \<Longrightarrow> jl_UuidString jl u = jl_UuidString jl v \<longleftrightarrow> u = v"
  by (auto simp: documented_jwt_def inj_eq)

lemmas jwt_laws =
  jwt_signs_def jwt_signs_always_def jwt_checks_key_def jwt_checks_expiry_def jwt_reads_token_def
  jwt_truncates_dates_def

section \<open>The manager\<close>

record token_state = redis_server +
  memoryTokens :: "string \<Rightarrow> string option"

record 'w manager =
  mg_cfg :: auth_config
  mg_redis :: "'w redis_client option"
  mg_jwt :: jwt_lib

definition NewManager :: "auth_config \<Rightarrow> 'w redis_client option \<Rightarrow> jwt_lib \<Rightarrow> 'w manager" where
  "NewManager cfg rc jl = \<lparr>mg_cfg = cfg, mg_redis = rc, mg_jwt = jl\<rparr>"

definition refreshKey :: "string \<Rightarrow> string" where
  "refreshKey i = ''refresh:'' @ i"

definition persistRefresh ::
  "'a token_state_scheme manager \<Rightarrow> claims \<Rightarrow> string \<Rightarrow> 'a token_state_scheme \<Rightarrow>
     string option \<times> 'a token_state_scheme" where
  "persistRefresh m c token w =
     (let key = refreshKey (jc_ID c)
      in case mg_redis m of
           Some rc \<Rightarrow>
             (case rc_Set rc key token (auth_RefreshTokenTTL (mg_cfg m)) w of
                (e, w1) \<Rightarrow> (map_option redis_message e, w1))
         | None \<Rightarrow> (None, w\<lparr>memoryTokens := (memoryTokens w)(key \<mapsto> token)\<rparr>))"

definition ensureRefreshValid ::
  "'a token_state_scheme manager \<Rightarrow> claims \<Rightarrow> string \<Rightarrow> 'a token_state_scheme \<Rightarrow>
     string option \<times> 'a token_state_scheme" where
  "ensureRefreshValid m c token w =
     (let key = refreshKey (jc_ID c)
      in case mg_redis m of
           Some rc \<Rightarrow>
             (case rc_Get rc key w of
                (Inl e, w1) \<Rightarrow> (Some (redis_message e), w1)
              | (Inr val, w1) \<Rightarrow>
                  if val \<noteq> token then (Some ''refresh token revoked'', w1) else (None, w1))
         | None \<Rightarrow>
             (case memoryTokens w key of
                Some val \<Rightarrow>
                  if val \<noteq> token then (Some ''refresh token revoked'', w) else (None, w)
              | None \<Rightarrow> (Some ''refresh token missing'', w)))"

definition revoke ::
  "'a token_state_scheme manager \<Rightarrow> claims \<Rightarrow> 'a token_state_scheme \<Rightarrow>
     string option \<times> 'a token_state_scheme" where
  "revoke m c w =
     (let key = refreshKey (jc_ID c)
      in case mg_redis m of
           Some rc \<Rightarrow>
             (case rc_Del rc key w of (e, w1) \<Rightarrow> (map_option redis_message e, w1))
         | None \<Rightarrow> (None, w\<lparr>memoryTokens := (memoryTokens w)(key := None)\<rparr>))"

text \<open>The key function \<open>parse\<close> hands to the library.\<close>

definition key_func :: "string \<Rightarrow> signing_method \<Rightarrow> string + string" where
  "key_func secret m =
     (case m of SigningMethodHMAC _ \<Rightarrow> Inr secret
      | OtherSigningMethod _ \<Rightarrow> Inl ''unexpected signing method'')"

text \<open>The library reads the clock once to check the expiry.\<close>

definition parse ::
  "'w manager \<Rightarrow> string \<Rightarrow> string \<Rightarrow> 'a runtime_scheme \<Rightarrow> (string + claims) \<times> 'a runtime_scheme" where
  "parse m token secret w =
     (case time_now w of (now, w1) \<Rightarrow>
      (case jl_ParseWithClaims (mg_jwt m) (key_func secret) now token of
         Inl e \<Rightarrow> (Inl e, w1)
       | Inr p \<Rightarrow>
           (case pt_Claims p of
              None \<Rightarrow> (Inl ''invalid token'', w1)
            | Some c \<Rightarrow>
                if \<not> pt_Valid p then (Inl ''invalid token'', w1)
                else if jc_SecretVer c \<noteq> auth_SecretVersion (mg_cfg m)
                then (Inl ''token version mismatch'', w1)
                else (Inr c, w1))))"

definition ParseAccessToken ::
  "'w manager \<Rightarrow> string \<Rightarrow> 'a runtime_scheme \<Rightarrow> (string + claims) \<times> 'a runtime_scheme" where
  "ParseAccessToken m token w = parse m token (auth_AccessSecret (mg_cfg m)) w"

definition ExtractUserID ::
  "'w manager \<Rightarrow> string \<Rightarrow> 'a runtime_scheme \<Rightarrow> (string + uuid) \<times> 'a runtime_scheme" where
  "ExtractUserID m token w =
     (case parse m token (auth_RefreshSecret (mg_cfg m)) w of
        (Inl e, w1) \<Rightarrow> (Inl e, w1)
      | (Inr c, w1) \<Rightarrow> (Inr (jc_UserID c), w1))"

definition new_claims ::
  "'w manager \<Rightarrow> user \<Rightarrow> string \<Rightarrow> timestamp \<Rightarrow> duration \<Rightarrow> uuid \<Rightarrow> claims" where
  "new_claims m u typ now ttl jti =
     \<lparr>jc_UserID = u_ID u, jc_Role = u_Role u,
      jc_SecretVer = auth_SecretVersion (mg_cfg m), jc_TokenType = typ,
      jc_Issuer = auth_TokenIssuer (mg_cfg m), jc_Subject = jl_UuidString (mg_jwt m) (u_ID u),
      jc_ExpiresAt = jl_NewNumericDate (mg_jwt m) (now + ttl),
      jc_IssuedAt = jl_NewNumericDate (mg_jwt m) now,
      jc_ID = jl_UuidString (mg_jwt m) jti\<rparr>"

definition issueAccess ::
  "'w manager \<Rightarrow> user \<Rightarrow> 'a runtime_scheme \<Rightarrow> (string + string \<times> int) \<times> 'a runtime_scheme" where
  "issueAccess m u w =
     (case time_now w of (now, w1) \<Rightarrow>
      (case uuid_new w1 of (jti, w2) \<Rightarrow>
         let ttl = auth_AccessTokenTTL (mg_cfg m);
             c = new_claims m u ''access'' now ttl jti
         in case jl_SignedString (mg_jwt m) hs256 c (auth_AccessSecret (mg_cfg m)) of
              Inl e \<Rightarrow> (Inl e, w2)
            | Inr encoded \<Rightarrow> (Inr (encoded, duration_seconds ttl), w2)))"

definition issueRefresh ::
  "'w manager \<Rightarrow> user \<Rightarrow> 'a runtime_scheme \<Rightarrow> (string + string \<times> claims) \<times> 'a runtime_scheme" where
  "issueRefresh m u w =
     (case time_now w of (now, w1) \<Rightarrow>
      (case uuid_new w1 of (jti, w2) \<Rightarrow>
         let c = new_claims m u ''refresh'' now (auth_RefreshTokenTTL (mg_cfg m)) jti
         in case jl_SignedString (mg_jwt m) hs256 c (auth_RefreshSecret (mg_cfg m)) of
              Inl e \<Rightarrow> (Inl e, w2)
            | Inr encoded \<Rightarrow> (Inr (encoded, c), w2)))"

definition IssueTokens ::
  "'a token_state_scheme manager \<Rightarrow> user \<Rightarrow> 'a token_state_scheme \<Rightarrow>
     (string + auth_tokens) \<times> 'a token_state_scheme" where
  "IssueTokens m u w =
     (case issueAccess m u w of
        (Inl e, w1) \<Rightarrow> (Inl e, w1)
      | (Inr (access, expiresIn), w1) \<Rightarrow>
          (case issueRefresh m u w1 of
             (Inl e, w2) \<Rightarrow> (Inl e, w2)
           | (Inr (refresh, c), w2) \<Rightarrow>
               (case persistRefresh m c refresh w2 of
                  (Some e, w3) \<Rightarrow> (Inl e, w3)
                | (None, w3) \<Rightarrow>
                    (Inr \<lparr>at_AccessToken = access, at_RefreshToken = refresh,
                          at_ExpiresIn = expiresIn, at_TokenType = ''Bearer''\<rparr>, w3))))"

definition RefreshTokens ::
  "'a token_state_scheme manager \<Rightarrow> user \<Rightarrow> string \<Rightarrow> 'a token_state_scheme \<Rightarrow>
     (string + auth_tokens) \<times> 'a token_state_scheme" where
  "RefreshTokens m u token w =
     (case parse m token (auth_RefreshSecret (mg_cfg m)) w of
        (Inl e, w1) \<Rightarrow> (Inl e, w1)
      | (Inr c, w1) \<Rightarrow>
          if jc_UserID c \<noteq> u_ID u \<or> jc_TokenType c \<noteq> ''refresh''
          then (Inl ''invalid refresh token'', w1)
          else
            (case ensureRefreshValid m c token w1 of
               (Some e, w2) \<Rightarrow> (Inl e, w2)
             | (None, w2) \<Rightarrow>
                 (case issueAccess m u w2 of
                    (Inl e, w3) \<Rightarrow> (Inl e, w3)
                  | (Inr (access, expiresIn), w3) \<Rightarrow>
                      (case issueRefresh m u w3 of
                         (Inl e, w4) \<Rightarrow> (Inl e, w4)
                       | (Inr (newRefresh, rc), w4) \<Rightarrow>
                           (case persistRefresh m rc newRefresh w4 of
                              (Some e, w5) \<Rightarrow> (Inl e, w5)
                            | (None, w5) \<Rightarrow>
                                (case revoke m c w5 of (_, w6) \<Rightarrow>
                                   (Inr \<lparr>at_AccessToken = access, at_RefreshToken = newRefresh,
                                         at_ExpiresIn = expiresIn, at_TokenType = ''Bearer''\<rparr>,
                                    w6)))))))"

text \<open>The manager as the service's \<open>TokenManager\<close>.\<close>

definition jwt_token_manager ::
  "'a token_state_scheme manager \<Rightarrow> 'a token_state_scheme token_manager" where
  "jwt_token_manager m =
     \<lparr>tm_IssueTokens = IssueTokens m, tm_RefreshTokens = RefreshTokens m,
      tm_ExtractUserID = ExtractUserID m\<rparr>"

end
