(* ===== verification/JwtReference.thy ===== *)
theory JwtReference
  imports TokenManager
begin

text \<open>
  A JWT library that meets \<open>documented_jwt\<close>: the concrete functions the witnesses instantiate the
  library with. A token is a sequence of length-prefixed fields, the signing method, the key and
  the claims; the signature is symbolic, the key itself, and checking it compares keys.
\<close>

definition read_int :: "string \<Rightarrow> int option" where
  "read_int s =
     (if s \<noteq> [] \<and> hd s = CHR ''-'' then map_option (\<lambda>n. - int n) (parse_digits 0 (tl s))
      else map_option int (parse_digits 0 s))"

definition enc_field :: "string \<Rightarrow> string" where
  "enc_field s = show_nat (length s) @ CHR '':'' # s"

definition enc_fields :: "string list \<Rightarrow> string" where
  "enc_fields fs = concat (map enc_field fs)"

fun dec_fields :: "nat \<Rightarrow> string \<Rightarrow> string list option" where
  "dec_fields 0 s = (if s = [] then Some [] else None)"
| "dec_fields (Suc k) s =
     (case split_n2 (CHR '':'') s of
        [p, r] \<Rightarrow>
          (case parse_digits 0 p of
             None \<Rightarrow> None
           | Some n \<Rightarrow> map_option (Cons (take n r)) (dec_fields k (drop n r)))
      | _ \<Rightarrow> None)"

definition uuid_text :: "uuid \<Rightarrow> string" where
  "uuid_text u = show_nat (unat u)"

definition uuid_of_text :: "string \<Rightarrow> uuid" where
  "uuid_of_text s = (case parse_digits 0 s of None \<Rightarrow> 0 | Some n \<Rightarrow> of_nat n)"

definition method_fields :: "signing_method \<Rightarrow> string list" where
  "method_fields m =
     (case m of SigningMethodHMAC a \<Rightarrow> [''HMAC'', a] | OtherSigningMethod a \<Rightarrow> [''other'', a])"

definition claims_fields :: "claims \<Rightarrow> string list" where
  "claims_fields c =
     [uuid_text (jc_UserID c), jc_Role c, jc_SecretVer c, jc_TokenType c, jc_Issuer c,
      jc_Subject c, itoa (jc_ExpiresAt c), itoa (jc_IssuedAt c), jc_ID c]"

definition ref_sign :: "signing_method \<Rightarrow> claims \<Rightarrow> string \<Rightarrow> string + string" where
  "ref_sign m c k = Inr (enc_fields (method_fields m @ [k] @ claims_fields c))"

definition read_token :: "string \<Rightarrow> (signing_method \<times> string \<times> claims) option" where
  "read_token t =
     (case dec_fields 12 t of
        Some [tag, a, k, uid, role, ver, typ, iss, sub, ex, iat, jti] \<Rightarrow>
          (case (read_int ex, read_int iat) of
             (Some e, Some i) \<Rightarrow>
               Some (if tag = ''HMAC'' then SigningMethodHMAC a else OtherSigningMethod a, k,
                     \<lparr>jc_UserID = uuid_of_text uid, jc_Role = role, jc_SecretVer = ver,
                      jc_TokenType = typ, jc_Issuer = iss, jc_Subject = sub,
                      jc_ExpiresAt = e, jc_IssuedAt = i, jc_ID = jti\<rparr>)
           | _ \<Rightarrow> None)
      | _ \<Rightarrow> None)"

definition ref_parse ::
  "(signing_method \<Rightarrow> string + string) \<Rightarrow> timestamp \<Rightarrow> string \<Rightarrow> string + parsed_token" where
  "ref_parse kf now t =
     (case read_token t of
        None \<Rightarrow> Inl ''token is malformed''
      | Some (m, k, c) \<Rightarrow>
          (case kf m of
             Inl e \<Rightarrow> Inl e
           | Inr k' \<Rightarrow>
               if k' \<noteq> k then Inl ''signature is invalid''
               else if now < jc_ExpiresAt c then Inr \<lparr>pt_Claims = Some c, pt_Valid = True\<rparr>
               else Inl ''token is expired''))"

definition ref_jwt :: jwt_lib where
  "ref_jwt =
     \<lparr>jl_SignedString = ref_sign, jl_ParseWithClaims = ref_parse,
      jl_NewNumericDate = (\<lambda>t. t - t mod nanos_per_second), jl_UuidString = uuid_text\<rparr>"

lemma show_nat_digits: "c \<in> set (show_nat n) \<Longrightarrow> \<exists>d < 10. c = digit_char d"
proof (induction n rule: show_nat.induct)
  case (1 n)
  show ?case
  proof (cases "n < 10")
    case True
    with 1(2) show ?thesis by (subst (asm) show_nat.simps) auto
  next
    case False
    with 1(2) have "c \<in> set (show_nat (n div 10)) \<or> c = digit_char (n mod 10)"
      by (subst (asm) show_nat.simps) auto
    then show ?thesis
    proof
      assume "c = digit_char (n mod 10)"
      then show ?thesis by (intro exI [of _ "n mod 10"]) simp
    qed (rule 1(1) [OF False])
  qed
qed

lemma colon_not_in_show_nat: "CHR '':'' \<notin> set (show_nat n)"
proof
  assume "CHR '':'' \<in> set (show_nat n)"
  then obtain d where "d < 10" "CHR '':'' = digit_char d" by (auto dest: show_nat_digits)
  then have "digit_value (CHR '':'') = Some d" by (simp add: digit_value_char)
  then show False by (simp add: digit_value_def)
qed

lemma dec_enc_fields: "dec_fields (length fs) (enc_fields fs) = Some fs"
proof (induction fs)
  case (Cons f fs)
  have "split_n2 (CHR '':'') (show_nat (length f) @ CHR '':'' # f @ enc_fields fs)
      = [show_nat (length f), f @ enc_fields fs]"
    by (rule split_n2_pair [OF colon_not_in_show_nat])
  with Cons show ?case
    by (simp add: enc_fields_def enc_field_def parse_digits_show_nat)
qed (simp add: enc_fields_def)

lemma read_int_itoa: "read_int (itoa n) = Some n"
proof -
  obtain d ds where d: "d < 10" and ds: "show_nat (nat \<bar>n\<bar>) = digit_char d # ds"
    using show_nat_shape by blast
  have "parse_digits 0 (digit_char d # ds) = Some (nat \<bar>n\<bar>)"
    using parse_digits_show_nat [of "nat \<bar>n\<bar>"] by (simp only: ds)
  with ds digit_char_not_sign [OF d] show ?thesis
    by (cases "n < 0") (simp_all add: read_int_def itoa_def del: parse_digits.simps)
qed

lemma uuid_of_text_text [simp]: "uuid_of_text (uuid_text u) = u"
  by (simp add: uuid_of_text_def uuid_text_def parse_digits_show_nat)

lemma inj_uuid_text: "inj uuid_text"
  by (rule inj_on_inverseI [of _ uuid_of_text]) simp

lemma read_token_sign: "ref_sign m c k = Inr t \<Longrightarrow> read_token t = Some (m, k, c)"
proof -
  assume t: "ref_sign m c k = Inr t"
  have "length (method_fields m @ [k] @ claims_fields c) = 12"
    by (simp add: method_fields_def claims_fields_def split: signing_method.split)
  with t have "dec_fields 12 t = Some (method_fields m @ [k] @ claims_fields c)"
    using dec_enc_fields [of "method_fields m @ [k] @ claims_fields c"] by (simp add: ref_sign_def)
  then show ?thesis
    by (cases m) (simp_all add: read_token_def method_fields_def claims_fields_def read_int_itoa)
qed

lemma documented_ref_jwt: "documented_jwt ref_jwt"
proof -
  have shape: "ref_parse kf now t = Inr p \<Longrightarrow>
      \<exists>m k c. read_token t = Some (m, k, c) \<and> p = \<lparr>pt_Claims = Some c, pt_Valid = True\<rparr>"
    for kf now t p
    by (auto simp: ref_parse_def split: option.splits sum.splits if_splits)
  have det: "ref_parse kf now t = Inr p \<Longrightarrow> ref_parse kf' now' t = Inr p' \<Longrightarrow> p' = p"
    for kf kf' now now' t p p'
    by (drule shape, drule shape) auto
  show ?thesis
    unfolding documented_jwt_def jwt_laws
    by (auto simp: ref_jwt_def ref_parse_def ref_sign_def [of hs256] dest!: read_token_sign intro: det
        inj_uuid_text split: sum.split) (auto simp: nanos_defs)
qed

end
