(* ===== verification/TokenRotation.thy ===== *)
theory TokenRotation
  imports JwtReference
begin

text \<open>
  Refresh tokens over time. The manager keeps the live refresh tokens in one of two back ends,
  its own map or Redis; \<open>refresh_store\<close> is the contract both meet, and rotation is proved once
  against it. A run is a list of calls of \<open>IssueTokens\<close> and \<open>RefreshTokens\<close>, one after the
  other; the calls of two requests that interleave are in \<open>RefreshRace\<close>.
\<close>

section \<open>What issuing a token does\<close>

definition next_jti :: "'w manager \<Rightarrow> 'a runtime_scheme \<Rightarrow> string" where
  "next_jti m w = jl_UuidString (mg_jwt m) (uuid_source w (uuids_drawn w))"

definition next_claims ::
  "'w manager \<Rightarrow> user \<Rightarrow> string \<Rightarrow> duration \<Rightarrow> 'a runtime_scheme \<Rightarrow> claims" where
  "next_claims m u typ ttl w =
     new_claims m u typ (clock w (clock_reads w)) ttl (uuid_source w (uuids_drawn w))"

lemma next_claims_fields [simp]:
  "jc_UserID (next_claims m u typ ttl w) = u_ID u"
  "jc_Role (next_claims m u typ ttl w) = u_Role u"
  "jc_TokenType (next_claims m u typ ttl w) = typ"
  "jc_SecretVer (next_claims m u typ ttl w) = auth_SecretVersion (mg_cfg m)"
  "jc_ID (next_claims m u typ ttl w) = next_jti m w"
  "jc_ExpiresAt (next_claims m u typ ttl w) =
     jl_NewNumericDate (mg_jwt m) (clock w (clock_reads w) + ttl)"
  by (simp_all add: next_claims_def new_claims_def next_jti_def)

lemma issueAccess_eq:
  "issueAccess m u w =
     (case jl_SignedString (mg_jwt m) hs256
             (next_claims m u ''access'' (auth_AccessTokenTTL (mg_cfg m)) w)
             (auth_AccessSecret (mg_cfg m)) of
        Inl e \<Rightarrow> Inl e
      | Inr t \<Rightarrow> Inr (t, duration_seconds (auth_AccessTokenTTL (mg_cfg m))), draw (tick w))"
  by (simp add: issueAccess_def time_now_tick uuid_new_draw next_claims_def split: sum.split)

lemma issueRefresh_eq:
  "issueRefresh m u w =
     (let c = next_claims m u ''refresh'' (auth_RefreshTokenTTL (mg_cfg m)) w
      in case jl_SignedString (mg_jwt m) hs256 c (auth_RefreshSecret (mg_cfg m)) of
           Inl e \<Rightarrow> Inl e
         | Inr t \<Rightarrow> Inr (t, c), draw (tick w))"
  by (simp add: issueRefresh_def time_now_tick uuid_new_draw next_claims_def Let_def
      split: sum.split)

lemma parse_state: "snd (parse m t s w) = tick w"
  by (simp add: parse_def time_now_tick split: sum.split option.split)

lemma parse_Inr:
  "fst (parse m t s w) = Inr c \<longleftrightarrow>
     (\<exists>p. jl_ParseWithClaims (mg_jwt m) (key_func s) (clock w (clock_reads w)) t = Inr p
        \<and> pt_Claims p = Some c \<and> pt_Valid p \<and> jc_SecretVer c = auth_SecretVersion (mg_cfg m))"
  by (auto simp: parse_def time_now_tick split: sum.split option.split)

lemma parse_pair:
  "parse m t s w = (r, w') \<longleftrightarrow> fst (parse m t s w) = r \<and> w' = tick w"
  using parse_state [of m t s w] by (cases "parse m t s w") auto

text \<open>The claims a token parses to do not depend on when, or under which key, it is parsed.\<close>

lemma parse_unique:
  "documented_jwt (mg_jwt m) \<Longrightarrow> fst (parse m t s w) = Inr c \<Longrightarrow>
    fst (parse m t s' w') = Inr c' \<Longrightarrow> c' = c"
  unfolding parse_Inr by (metis jwt_same_claims option.inject)

lemma parse_signed:
  assumes "documented_jwt (mg_jwt m)" and "jl_SignedString (mg_jwt m) hs256 c s = Inr t"
    and "clock w (clock_reads w) < jc_ExpiresAt c"
    and "jc_SecretVer c = auth_SecretVersion (mg_cfg m)"
  shows "parse m t s w = (Inr c, tick w)"
proof -
  have "key_func s hs256 = Inr s"
    by (simp add: key_func_def hs256_def)
  from jwt_signs_parse [where kf = "key_func s", OF assms(1,2) this assms(3)]
  have "jl_ParseWithClaims (mg_jwt m) (key_func s) (clock w (clock_reads w)) t
      = Inr \<lparr>pt_Claims = Some c, pt_Valid = True\<rparr>" .
  with assms(4) show ?thesis
    by (simp add: parse_pair parse_Inr)
qed

lemma parse_other_key:
  assumes "documented_jwt (mg_jwt m)" and "jl_SignedString (mg_jwt m) hs256 c s = Inr t"
    and "s' \<noteq> s"
  shows "\<exists>e. parse m t s' w = (Inl e, tick w)"
proof -
  have "key_func s' hs256 = Inr s'"
    by (simp add: key_func_def hs256_def)
  from jwt_other_key_fails [where kf = "key_func s'", OF assms(1,2) this assms(3)]
  have "\<exists>e. jl_ParseWithClaims (mg_jwt m) (key_func s') (clock w (clock_reads w)) t = Inl e" .
  then show ?thesis
    by (auto simp: parse_def time_now_tick)
qed

section \<open>The contract of a back end\<close>

definition issued_ids ::
  "jwt_lib \<Rightarrow> ('a runtime_scheme \<Rightarrow> string \<Rightarrow> string option) \<Rightarrow> 'a runtime_scheme \<Rightarrow> bool" where
  "issued_ids jl live w \<longleftrightarrow>
     (\<forall>j. live w j \<noteq> None \<longrightarrow> (\<exists>n < uuids_drawn w. j = jl_UuidString jl (uuid_source w n)))"

definition spent ::
  "jwt_lib \<Rightarrow> ('a runtime_scheme \<Rightarrow> string \<Rightarrow> string option) \<Rightarrow> string \<Rightarrow> 'a runtime_scheme \<Rightarrow> bool"
where
  "spent jl live j w \<longleftrightarrow>
     live w j = None \<and> (\<exists>n < uuids_drawn w. j = jl_UuidString jl (uuid_source w n))"

datatype token_call = CallIssue user | CallRefresh user string

fun token_run ::
  "'a token_state_scheme manager \<Rightarrow> token_call list \<Rightarrow> 'a token_state_scheme \<Rightarrow>
     'a token_state_scheme" where
  "token_run m [] w = w"
| "token_run m (CallIssue u # cs) w = token_run m cs (snd (IssueTokens m u w))"
| "token_run m (CallRefresh u t # cs) w = token_run m cs (snd (RefreshTokens m u t w))"

locale refresh_store =
  fixes m :: "'a token_state_scheme manager"
    and live :: "'a token_state_scheme \<Rightarrow> string \<Rightarrow> string option"
    and ok :: "'a token_state_scheme \<Rightarrow> bool"
  assumes persist_law:
    "ok w \<Longrightarrow> persistRefresh m c t w = (e, w') \<Longrightarrow>
       e = None \<and> ok w' \<and> same_ids w w' \<and> live w' = (live w)(jc_ID c \<mapsto> t)"
    and ensure_law:
    "ok w \<Longrightarrow> ensureRefreshValid m c t w = (e, w') \<Longrightarrow>
       ok w' \<and> same_ids w w' \<and> live w' = live w \<and> (e = None \<longleftrightarrow> live w (jc_ID c) = Some t)"
    and revoke_law:
    "ok w \<Longrightarrow> revoke m c w = (e, w') \<Longrightarrow>
       e = None \<and> ok w' \<and> same_ids w w' \<and> live w' = (live w)(jc_ID c := None)"
    and tick_law: "ok w \<Longrightarrow> ok (tick w) \<and> (\<forall>j. live (tick w) j = None \<or> live (tick w) j = live w j)"
    and draw_law: "ok w \<Longrightarrow> ok (draw w) \<and> live (draw w) = live w"
begin

text \<open>
  A state is intact, up to \<open>n\<close> draws, when every live token carries an identifier drawn before;
  a token is dead when its identifier was drawn and is not live.
\<close>

definition intact :: "nat \<Rightarrow> 'a token_state_scheme \<Rightarrow> bool" where
  "intact n w \<longleftrightarrow>
     ok w \<and> fresh_uuids n w \<and> issued_ids (mg_jwt m) live w \<and> documented_jwt (mg_jwt m)"

abbreviation dead :: "string \<Rightarrow> 'a token_state_scheme \<Rightarrow> bool" where
  "dead j w \<equiv> spent (mg_jwt m) live j w"

lemma intact_tick: "intact n w \<Longrightarrow> intact n (tick w) \<and> (\<forall>j. dead j w \<longrightarrow> dead j (tick w))"
proof -
  assume w: "intact n w"
  then have law: "ok (tick w)" "live (tick w) j = None \<or> live (tick w) j = live w j" for j
    using tick_law [of w] by (auto simp: intact_def)
  then have "live (tick w) j \<noteq> None \<Longrightarrow> live w j \<noteq> None" for j
    by metis
  with w law(1) have "intact n (tick w)"
    by (simp add: intact_def issued_ids_def fresh_uuids_def)
  moreover have "dead j w \<Longrightarrow> dead j (tick w)" for j
    using law(2) [of j] by (auto simp: spent_def)
  ultimately show ?thesis by blast
qed

lemma intact_draw: "intact n w \<Longrightarrow> intact n (draw w) \<and> (\<forall>j. dead j w \<longrightarrow> dead j (draw w))"
  using draw_law [of w]
  by (auto simp: intact_def issued_ids_def spent_def fresh_uuids_def less_Suc_eq)

lemma intact_mint:
  "intact n w \<Longrightarrow> intact n (draw (tick w)) \<and> (\<forall>j. dead j w \<longrightarrow> dead j (draw (tick w)))"
  using intact_tick intact_draw by blast

text \<open>The identifier of a new token is none of those drawn before.\<close>

lemma next_jti_new:
  assumes "intact n w" and "i < uuids_drawn w" and "uuids_drawn w < n"
  shows "jl_UuidString (mg_jwt m) (uuid_source w i) \<noteq> next_jti m w"
  using assms fresh_uuids_neq [of n w i "uuids_drawn w"]
  by (auto simp: intact_def next_jti_def jwt_uuid_inj)

lemma persist_new:
  assumes w: "intact n w" and c: "jc_ID c = next_jti m w" and n: "uuids_drawn w < n"
    and p: "persistRefresh m c t (draw (tick w)) = (e, w')"
  shows "intact n w' \<and> (\<forall>j. dead j w \<longrightarrow> dead j w') \<and> same_ids (draw (tick w)) w'"
proof -
  let ?v = "draw (tick w)"
  have v: "intact n ?v" "\<And>j. dead j w \<Longrightarrow> dead j ?v"
    using intact_mint [OF w] by auto
  then have law: "ok w'" "same_ids ?v w'" "live w' = (live ?v)(next_jti m w \<mapsto> t)"
    using persist_law [OF _ p] c by (auto simp: intact_def)
  have ids: "uuid_source w' = uuid_source w" "uuids_drawn w' = Suc (uuids_drawn w)"
    using law(2) by (simp_all add: same_ids_def)
  have "\<exists>i < uuids_drawn w'. j = jl_UuidString (mg_jwt m) (uuid_source w' i)"
    if "live w' j \<noteq> None" for j
  proof (cases "j = next_jti m w")
    case True
    then show ?thesis using ids by (auto simp: next_jti_def)
  next
    case False
    with that law(3) have "live ?v j \<noteq> None" by auto
    with v(1) ids show ?thesis by (auto simp: intact_def issued_ids_def)
  qed
  then have "intact n w'"
    using law(1) v(1) ids by (auto simp: intact_def issued_ids_def fresh_uuids_def)
  moreover have "dead j w'" if "dead j w" for j
  proof -
    from that have "j \<noteq> next_jti m w"
      using next_jti_new [OF w _ n] by (auto simp: spent_def)
    with v(2) [OF that] law(2,3) show ?thesis
      by (auto simp: spent_def same_ids_def)
  qed
  ultimately show ?thesis using law(2) by blast
qed

lemma ensure_intact:
  assumes "intact n w" and "ensureRefreshValid m c t w = (e, w')"
  shows "intact n w' \<and> (\<forall>j. dead j w \<longrightarrow> dead j w') \<and> (e = None \<longleftrightarrow> live w (jc_ID c) = Some t)
    \<and> live w' = live w \<and> same_ids w w'"
  using ensure_law [OF _ assms(2)] assms(1)
  by (auto simp: intact_def issued_ids_def spent_def same_ids_def fresh_uuids_def)

lemma revoke_intact:
  assumes "intact n w" and "revoke m c w = (e, w')"
  shows "intact n w' \<and> (\<forall>j. dead j w \<longrightarrow> dead j w') \<and> live w' = (live w)(jc_ID c := None)
    \<and> same_ids w w'"
  using revoke_law [OF _ assms(2)] assms(1)
  by (auto simp: intact_def issued_ids_def spent_def same_ids_def fresh_uuids_def)

text \<open>The ways a call ends, by how far it came.\<close>

lemma issue_steps:
  assumes "IssueTokens m u w = (r, w')"
  obtains "w' = draw (tick w)" | "w' = draw (tick (draw (tick w)))"
    | c t e where "jc_ID c = next_jti m (draw (tick w))"
        "persistRefresh m c t (draw (tick (draw (tick w)))) = (e, w')"
  using assms
  by (force simp: IssueTokens_def issueAccess_eq issueRefresh_eq Let_def
      split: sum.splits prod.splits option.splits)

lemma refresh_steps:
  assumes "RefreshTokens m u t w = (r, w')"
  obtains "w' = tick w"
    | c e w2 where "ensureRefreshValid m c t (tick w) = (e, w2)"
        "w' = w2 \<or> w' = draw (tick w2) \<or> w' = draw (tick (draw (tick w2)))
         \<or> (\<exists>rc nt e5 w5. e = None \<and> jc_ID rc = next_jti m (draw (tick w2))
               \<and> persistRefresh m rc nt (draw (tick (draw (tick w2)))) = (e5, w5)
               \<and> (w' = w5 \<or> (\<exists>e6. revoke m c w5 = (e6, w'))))"
  using assms
  by (force simp: RefreshTokens_def issueAccess_eq issueRefresh_eq parse_pair Let_def
      split: sum.splits prod.splits option.splits if_splits)

lemma call_grows:
  assumes "ok w"
  shows "IssueTokens m u w = (r, w') \<Longrightarrow>
      ok w' \<and> grows w w' \<and> uuids_drawn w' \<le> uuids_drawn w + 2"
    and "RefreshTokens m u t w = (r, w') \<Longrightarrow>
      ok w' \<and> grows w w' \<and> uuids_drawn w' \<le> uuids_drawn w + 2"
proof -
  have mint: "ok v \<Longrightarrow> ok (draw (tick v))" for v
    using tick_law [of v] draw_law [of "tick v"] by blast
  have t: "ok (tick w)" using tick_law assms by blast
  show "ok w' \<and> grows w w' \<and> uuids_drawn w' \<le> uuids_drawn w + 2" if run: "IssueTokens m u w = (r, w')"
    using run
  proof (cases rule: issue_steps)
    case (3 c t e)
    with persist_law [OF mint [OF mint [OF assms]] 3(2)] show ?thesis
      by (auto simp: grows_def same_ids_def)
  qed (use mint [OF assms] mint in \<open>auto simp: grows_def\<close>)
  show "ok w' \<and> grows w w' \<and> uuids_drawn w' \<le> uuids_drawn w + 2" if run: "RefreshTokens m u t w = (r, w')"
    using run
  proof (cases rule: refresh_steps)
    case (2 c e w2)
    then have w2: "ok w2" "same_ids (tick w) w2" using ensure_law [OF t] by blast+
    have w4: "ok (draw (tick w2))" "ok (draw (tick (draw (tick w2))))"
      using mint w2(1) by blast+
    have w5: "ok w5 \<and> same_ids (draw (tick (draw (tick w2)))) w5"
      if "persistRefresh m rc nt (draw (tick (draw (tick w2)))) = (e5, w5)" for rc nt e5 w5
      using persist_law [OF w4(2) that] by blast
    have w6: "ok w' \<and> same_ids w5 w'" if "revoke m c w5 = (e6, w')" "ok w5" for w5 e6
      using revoke_law [OF that(2,1)] by blast
    from 2(2) w2 w4 show ?thesis
      by (auto simp: grows_def same_ids_def dest!: w5 w6)
  qed (use t in \<open>simp add: grows_def\<close>)
qed

lemma issue_intact:
  assumes w: "intact n w" and run: "IssueTokens m u w = (r, w')" and n: "uuids_drawn w' \<le> n"
  shows "intact n w' \<and> (\<forall>j. dead j w \<longrightarrow> dead j w')"
  using run
proof (cases rule: issue_steps)
  case (3 c t e)
  have v: "intact n (draw (tick w))" "\<And>j. dead j w \<Longrightarrow> dead j (draw (tick w))"
    using intact_mint [OF w] by auto
  have "ok (draw (tick (draw (tick w))))"
    using intact_mint [OF v(1)] by (simp add: intact_def)
  then have "uuids_drawn (draw (tick w)) < n"
    using persist_law [OF _ 3(2)] n by (auto simp: same_ids_def)
  from persist_new [OF v(1) 3(1) this 3(2)] v(2) show ?thesis by blast
qed (use intact_mint [OF w] intact_mint in blast)+

lemma refresh_intact:
  assumes w: "intact n w" and run: "RefreshTokens m u t w = (r, w')" and n: "uuids_drawn w' \<le> n"
  shows "intact n w' \<and> (\<forall>j. dead j w \<longrightarrow> dead j w')"
  using run
proof (cases rule: refresh_steps)
  case 1
  with intact_tick [OF w] show ?thesis by blast
next
  case (2 c e w2)
  let ?v = "draw (tick w2)"
  have t: "intact n (tick w)" "\<And>j. dead j w \<Longrightarrow> dead j (tick w)"
    using intact_tick [OF w] by simp_all
  have w2: "intact n w2" "\<And>j. dead j w \<Longrightarrow> dead j w2"
    using ensure_intact [OF t(1) 2(1)] t(2) by simp_all
  have v: "intact n ?v" "\<And>j. dead j w \<Longrightarrow> dead j ?v"
    using intact_mint [OF w2(1)] w2(2) by simp_all
  have v2: "intact n (draw (tick ?v))" "\<And>j. dead j w \<Longrightarrow> dead j (draw (tick ?v))"
    using intact_mint [OF v(1)] v(2) by simp_all
  from 2(2) consider "w' = w2" | "w' = ?v" | "w' = draw (tick ?v)"
    | rc nt e5 w5 where "jc_ID rc = next_jti m ?v"
        "persistRefresh m rc nt (draw (tick ?v)) = (e5, w5)"
        "w' = w5 \<or> (\<exists>e6. revoke m c w5 = (e6, w'))"
    by blast
  then show ?thesis
  proof cases
    case (4 rc nt e5 w5)
    have w5: "ok w5" "same_ids (draw (tick ?v)) w5"
      using persist_law [OF _ 4(2)] v2(1) by (auto simp: intact_def)
    have "uuids_drawn w' = uuids_drawn w5"
      using 4(3) revoke_law [OF w5(1)] by (auto simp: same_ids_def)
    then have "uuids_drawn ?v < n" using n w5(2) by (simp add: same_ids_def)
    from persist_new [OF v(1) 4(1) this 4(2)]
    have w5': "intact n w5" "\<And>j. dead j w \<Longrightarrow> dead j w5" using v(2) by simp_all
    from 4(3) show ?thesis
    proof
      assume "\<exists>e6. revoke m c w5 = (e6, w')"
      then obtain e6 where "revoke m c w5 = (e6, w')" ..
      from revoke_intact [OF w5'(1) this] w5'(2) show ?thesis by simp
    qed (use w5' in simp)
  qed (use w2 v v2 in simp_all)
qed

lemma run_grows: "ok w \<Longrightarrow> ok (token_run m cs w) \<and> grows w (token_run m cs w)"
proof (induction cs arbitrary: w)
  case (Cons x cs)
  have "ok (snd p) \<and> grows w (snd p) \<Longrightarrow> ok (token_run m cs (snd p)) \<and> grows w (token_run m cs (snd p))"
    for p :: "(string + auth_tokens) \<times> 'a token_state_scheme"
    using Cons.IH [of "snd p"] by (auto simp: grows_def)
  then show ?case
    using call_grows [OF Cons.prems] by (cases x) (simp_all add: prod_eq_iff)
qed (simp add: grows_def)

lemma run_draws: "ok w \<Longrightarrow> uuids_drawn (token_run m cs w) \<le> uuids_drawn w + 2 * length cs"
proof (induction cs arbitrary: w)
  case (Cons x cs)
  have "ok (snd p) \<and> uuids_drawn (snd p) \<le> uuids_drawn w + 2 \<Longrightarrow>
      uuids_drawn (token_run m cs (snd p)) \<le> uuids_drawn w + 2 * length (x # cs)"
    for p :: "(string + auth_tokens) \<times> 'a token_state_scheme"
    using Cons.IH [of "snd p"] by auto
  then show ?case
    using call_grows [OF Cons.prems] by (cases x) (simp_all add: prod_eq_iff)
qed simp

lemma run_intact:
  "intact n w \<Longrightarrow> uuids_drawn (token_run m cs w) \<le> n \<Longrightarrow>
    intact n (token_run m cs w) \<and> (\<forall>j. dead j w \<longrightarrow> dead j (token_run m cs w))"
proof (induction cs arbitrary: w)
  case (Cons x cs)
  define p where "p = (case x of CallIssue u \<Rightarrow> IssueTokens m u w | CallRefresh u t \<Rightarrow> RefreshTokens m u t w)"
  have run: "token_run m (x # cs) w = token_run m cs (snd p)"
    by (cases x) (simp_all add: p_def)
  have okw: "ok w" using Cons.prems(1) by (simp add: intact_def)
  have p: "ok (snd p)" using call_grows [OF okw] by (cases x) (simp_all add: p_def prod_eq_iff)
  then have n: "uuids_drawn (snd p) \<le> n"
    using run_grows [OF p, of cs] Cons.prems(2) by (simp add: run grows_def)
  then have "intact n (snd p) \<and> (\<forall>j. dead j w \<longrightarrow> dead j (snd p))"
    using issue_intact [OF Cons.prems(1) _ n] refresh_intact [OF Cons.prems(1) _ n]
    by (cases x) (simp_all add: p_def prod_eq_iff)
  with Cons.IH [of "snd p"] Cons.prems(2) show ?case by (simp add: run)
qed simp

lemma refresh_spends:
  assumes w: "intact n w" and run: "RefreshTokens m u t w = (Inr ts, w')"
    and n: "uuids_drawn w' \<le> n"
  shows "\<exists>c. fst (parse m t (auth_RefreshSecret (mg_cfg m)) w) = Inr c \<and> dead (jc_ID c) w'"
proof -
  from run obtain c w2 rc nt w5 e where
    c: "fst (parse m t (auth_RefreshSecret (mg_cfg m)) w) = Inr c"
    and e: "ensureRefreshValid m c t (tick w) = (None, w2)"
    and p: "persistRefresh m rc nt (draw (tick (draw (tick w2)))) = (None, w5)"
    and rv: "revoke m c w5 = (e, w')"
    by (force simp: RefreshTokens_def issueAccess_eq issueRefresh_eq parse_pair Let_def
        split: sum.splits prod.splits option.splits if_splits)
  have t: "intact n (tick w)" using intact_tick [OF w] by simp
  have w2: "intact n w2" "live w2 (jc_ID c) = Some t"
    using ensure_intact [OF t e] by simp_all
  then obtain i where i: "i < uuids_drawn w2"
      "jc_ID c = jl_UuidString (mg_jwt m) (uuid_source w2 i)"
    by (auto simp: intact_def issued_ids_def)
  have "ok (draw (tick (draw (tick w2))))"
    using tick_law draw_law w2(1) by (simp add: intact_def)
  then have w5: "ok w5" "same_ids (draw (tick (draw (tick w2)))) w5"
    using persist_law [OF _ p] by simp_all
  have "live w' (jc_ID c) = None" "same_ids w5 w'"
    using revoke_law [OF w5(1) rv] by simp_all
  with i w5(2) have "dead (jc_ID c) w'"
    by (auto simp: spent_def same_ids_def intro!: exI [of _ i])
  with c show ?thesis by blast
qed

lemma dead_refused:
  assumes w: "intact n w" and d: "dead (jc_ID c) w"
    and c: "fst (parse m t (auth_RefreshSecret (mg_cfg m)) v) = Inr c"
  shows "\<exists>e. fst (RefreshTokens m u t w) = Inl e"
proof (cases "fst (parse m t (auth_RefreshSecret (mg_cfg m)) w)")
  case (Inl e)
  then show ?thesis by (auto simp: RefreshTokens_def split: sum.splits prod.splits)
next
  case (Inr c')
  then have c': "c' = c" using parse_unique [OF _ c] w by (simp add: intact_def)
  obtain e w2 where e: "ensureRefreshValid m c t (tick w) = (e, w2)"
    by (cases "ensureRefreshValid m c t (tick w)")
  have t: "dead (jc_ID c) (tick w)" "intact n (tick w)"
    using intact_tick [OF w] d by simp_all
  then have "e \<noteq> None"
    using ensure_intact [OF t(2) e] by (auto simp: spent_def)
  moreover have "parse m t (auth_RefreshSecret (mg_cfg m)) w = (Inr c, tick w)"
    using Inr c' by (simp add: parse_pair)
  ultimately show ?thesis
    using e by (auto simp: RefreshTokens_def)
qed

theorem rotation:
  assumes w: "intact n w" and run: "RefreshTokens m u t w = (Inr ts, w1)"
    and n: "uuids_drawn (token_run m cs w1) \<le> n"
  shows "\<exists>e. fst (RefreshTokens m v t (token_run m cs w1)) = Inl e"
proof -
  have "ok w1" using call_grows(2) [OF _ run] w by (simp add: intact_def)
  then have n1: "uuids_drawn w1 \<le> n"
    using run_grows [of w1 cs] n by (simp add: grows_def)
  have w1: "intact n w1" using refresh_intact [OF w run n1] by simp
  obtain c where c: "fst (parse m t (auth_RefreshSecret (mg_cfg m)) w) = Inr c"
    and d: "dead (jc_ID c) w1"
    using refresh_spends [OF w run n1] by blast
  have "intact n (token_run m cs w1)" "dead (jc_ID c) (token_run m cs w1)"
    using run_intact [OF w1 n] d by simp_all
  then show ?thesis using dead_refused c by blast
qed

text \<open>A token just issued is live, and stays live until it is refreshed or its entry expires.\<close>

lemma issue_live:
  assumes "ok w" and "IssueTokens m u w = (Inr ts, w')"
  shows "live w' (next_jti m (draw (tick w))) = Some (at_RefreshToken ts) \<and> ok w'
    \<and> jl_SignedString (mg_jwt m) hs256
        (next_claims m u ''refresh'' (auth_RefreshTokenTTL (mg_cfg m)) (draw (tick w)))
        (auth_RefreshSecret (mg_cfg m)) = Inr (at_RefreshToken ts)"
proof -
  let ?v = "draw (tick w)"
  let ?c = "next_claims m u ''refresh'' (auth_RefreshTokenTTL (mg_cfg m)) ?v"
  have "ok (draw (tick ?v))"
    using tick_law draw_law assms(1) by simp
  moreover from assms(2) obtain t where
    "jl_SignedString (mg_jwt m) hs256 ?c (auth_RefreshSecret (mg_cfg m)) = Inr t"
    "persistRefresh m ?c t (draw (tick ?v)) = (None, w')" "at_RefreshToken ts = t"
    by (auto simp: IssueTokens_def issueAccess_eq issueRefresh_eq Let_def
        split: sum.splits prod.splits option.splits)
  ultimately show ?thesis
    using persist_law [of "draw (tick ?v)" ?c t] by simp
qed

end

end
