(* ===== verification/TokenStores.thy ===== *)
theory TokenStores
  imports TokenRotation
begin

text \<open>
  The two back ends of the token manager, each an instance of \<open>refresh_store\<close>: the manager's own
  map, which also never drops an entry by itself (\<open>durable_store\<close>), and a Redis server that
  answers every call. They are the two managers \<open>cmd/api/main.go\<close> builds, \<open>NewManager cfg None jl\<close> and
  \<open>NewManager cfg (Some ref_redis) jl\<close>.
\<close>

section \<open>From an empty store\<close>

context refresh_store
begin

lemma start_intact:
  assumes "ok w0" and "documented_jwt (mg_jwt m)" and "\<forall>j. live w0 j = None"
    and "fresh_uuids n w0" and "uuids_drawn (token_run m cs w0) \<le> n"
  shows "intact n (token_run m cs w0)"
proof -
  have "intact n w0" using assms(1-4) by (simp add: intact_def issued_ids_def)
  from run_intact [OF this assms(5)] show ?thesis by simp
qed

lemma start_rotation:
  assumes w0: "ok w0" "documented_jwt (mg_jwt m)" "\<forall>j. live w0 j = None"
    and run: "RefreshTokens m u t (token_run m before w0) = (Inr ts, w1)"
    and fresh: "fresh_uuids (uuids_drawn (token_run m later w1)) w0"
  shows "\<exists>e. fst (RefreshTokens m v t (token_run m later w1)) = Inl e"
proof -
  let ?n = "uuids_drawn (token_run m later w1)"
  have b: "ok (token_run m before w0)" using run_grows [OF w0(1)] by simp
  have w1: "ok w1" "uuids_drawn (token_run m before w0) \<le> uuids_drawn w1"
    using call_grows(2) [OF b run] by (simp_all add: grows_def)
  then have "uuids_drawn (token_run m before w0) \<le> ?n"
    using run_grows [OF w1(1), of later] by (simp add: grows_def)
  from rotation [OF start_intact [OF w0 fresh this] run] show ?thesis by simp
qed

end

section \<open>A store that keeps its entries\<close>

locale durable_store = refresh_store +
  assumes tick_keeps: "ok w \<Longrightarrow> live (tick w) = live w"
begin

lemma mint_keeps: "ok w \<Longrightarrow> ok (draw (tick w)) \<and> live (draw (tick w)) = live w"
  using tick_keeps tick_law draw_law by metis

lemma persist_keeps:
  assumes w: "intact n w" and n: "uuids_drawn w < n" and j: "live w j = Some t"
    and c: "jc_ID c = next_jti m w" and p: "persistRefresh m c t' (draw (tick w)) = (e, w')"
  shows "live w' j = Some t"
proof -
  have "ok w" using w by (simp add: intact_def)
  then have "live w' = (live w)(next_jti m w \<mapsto> t')"
    using persist_law [OF _ p] mint_keeps [of w] c by simp
  moreover have "j \<noteq> next_jti m w"
  proof -
    obtain i where "i < uuids_drawn w" "j = jl_UuidString (mg_jwt m) (uuid_source w i)"
      using w j by (auto simp: intact_def issued_ids_def)
    with next_jti_new [OF w _ n] show ?thesis by simp
  qed
  ultimately show ?thesis using j by simp
qed

lemma issue_keeps:
  assumes w: "intact n w" and run: "IssueTokens m u w = (r, w')" and n: "uuids_drawn w' \<le> n"
    and j: "live w j = Some t"
  shows "live w' j = Some t"
proof -
  have okw: "ok w" using w by (simp add: intact_def)
  have v: "ok (draw (tick w))" "live (draw (tick w)) j = Some t" "intact n (draw (tick w))"
    using mint_keeps [OF okw] j intact_mint [OF w] by simp_all
  from run show ?thesis
  proof (cases rule: issue_steps)
    case (3 c t' e)
    have "uuids_drawn (draw (tick w)) < n"
      using persist_law [OF _ 3(2)] mint_keeps [OF v(1)] n by (simp add: same_ids_def)
    from persist_keeps [OF v(3) this v(2) 3] show ?thesis .
  qed (use v mint_keeps [OF v(1)] in simp_all)
qed

text \<open>Refreshing with another token than the one stored under \<open>j\<close> leaves \<open>j\<close> alone.\<close>

lemma refresh_keeps:
  assumes w: "intact n w" and run: "RefreshTokens m u t' w = (r, w')" and n: "uuids_drawn w' \<le> n"
    and j: "live w j = Some t" and other: "t' \<noteq> t"
  shows "live w' j = Some t"
proof -
  have okw: "ok w" using w by (simp add: intact_def)
  have t: "ok (tick w)" "live (tick w) = live w" "intact n (tick w)"
    using tick_keeps [OF okw] tick_law [OF okw] intact_tick [OF w] by simp_all
  from run show ?thesis
  proof (cases rule: refresh_steps)
    case (2 c e w2)
    let ?v = "draw (tick w2)"
    have w2: "intact n w2" "live w2 j = Some t" "e = None \<longleftrightarrow> live w (jc_ID c) = Some t'"
      using ensure_intact [OF t(3) 2(1)] t(2) j by simp_all
    have v: "intact n ?v" "ok ?v" "live ?v j = Some t"
      using intact_mint [OF w2(1)] mint_keeps [of w2] w2(1,2) by (simp_all add: intact_def)
    have v2: "live (draw (tick ?v)) j = Some t" "ok (draw (tick ?v))"
      using mint_keeps [OF v(2)] v(3) by simp_all
    from 2(2) consider "w' = w2 \<or> w' = ?v \<or> w' = draw (tick ?v)"
      | rc nt e5 w5 where "e = None" "jc_ID rc = next_jti m ?v"
          "persistRefresh m rc nt (draw (tick ?v)) = (e5, w5)"
          "w' = w5 \<or> (\<exists>e6. revoke m c w5 = (e6, w'))"
      by blast
    then show ?thesis
    proof cases
      case (2 rc nt e5 w5)
      have w5: "ok w5" "same_ids (draw (tick ?v)) w5"
        using persist_law [OF v2(2) 2(3)] by simp_all
      have "uuids_drawn w' = uuids_drawn w5"
        using 2(4) revoke_law [OF w5(1)] by (auto simp: same_ids_def)
      then have "uuids_drawn ?v < n" using n w5(2) by (simp add: same_ids_def)
      from persist_keeps [OF v(1) this v(3) 2(2,3)] have "live w5 j = Some t" .
      moreover have "jc_ID c \<noteq> j" using w2(3) 2(1) j other by auto
      ultimately show ?thesis
        using 2(4) revoke_law [OF w5(1)] by auto
    qed (use w2 v v2 in auto)
  qed (use t j in simp)
qed

lemma run_keeps:
  "intact n w \<Longrightarrow> uuids_drawn (token_run m cs w) \<le> n \<Longrightarrow> live w j = Some t \<Longrightarrow>
    (\<forall>v. CallRefresh v t \<notin> set cs) \<Longrightarrow>
    intact n (token_run m cs w) \<and> live (token_run m cs w) j = Some t"
proof (induction cs arbitrary: w)
  case (Cons x cs)
  define p where "p = (case x of CallIssue u \<Rightarrow> IssueTokens m u w | CallRefresh u t \<Rightarrow> RefreshTokens m u t w)"
  have run: "token_run m (x # cs) w = token_run m cs (snd p)"
    by (cases x) (simp_all add: p_def)
  have okw: "ok w" using Cons.prems(1) by (simp add: intact_def)
  have p: "ok (snd p)" using call_grows [OF okw] by (cases x) (simp_all add: p_def prod_eq_iff)
  then have n: "uuids_drawn (snd p) \<le> n"
    using run_grows [OF p, of cs] Cons.prems(2) by (simp add: run grows_def)
  have "intact n (snd p)"
    using issue_intact [OF Cons.prems(1) _ n] refresh_intact [OF Cons.prems(1) _ n]
    by (cases x) (simp_all add: p_def prod_eq_iff)
  moreover have "live (snd p) j = Some t"
    using issue_keeps [OF Cons.prems(1) _ n Cons.prems(3)]
      refresh_keeps [OF Cons.prems(1) _ n Cons.prems(3)] Cons.prems(4)
    by (cases x) (auto simp: p_def prod_eq_iff)
  ultimately show ?case
    using Cons.IH [of "snd p"] Cons.prems(2,4) by (simp add: run)
qed simp

lemma refresh_live:
  assumes w: "ok w" and jl: "documented_jwt (mg_jwt m)" and uid: "jc_UserID c = u_ID u"
    and ty: "jc_TokenType c = ''refresh''"
    and p: "parse m t (auth_RefreshSecret (mg_cfg m)) w = (Inr c, tick w)"
    and l: "live w (jc_ID c) = Some t"
  shows "\<exists>ts w'. RefreshTokens m u t w = (Inr ts, w')"
proof -
  obtain e w2 where e: "ensureRefreshValid m c t (tick w) = (e, w2)"
    by (cases "ensureRefreshValid m c t (tick w)")
  have w2: "e = None" "ok w2"
    using ensure_law [OF _ e] tick_law [OF w] tick_keeps [OF w] l by simp_all
  let ?v = "draw (tick w2)"
  let ?ca = "next_claims m u ''access'' (auth_AccessTokenTTL (mg_cfg m)) w2"
  let ?cr = "next_claims m u ''refresh'' (auth_RefreshTokenTTL (mg_cfg m)) ?v"
  obtain a where a: "jl_SignedString (mg_jwt m) hs256 ?ca (auth_AccessSecret (mg_cfg m)) = Inr a"
    using jwt_signs_some [OF jl] by blast
  obtain nt where nt: "jl_SignedString (mg_jwt m) hs256 ?cr (auth_RefreshSecret (mg_cfg m)) = Inr nt"
    using jwt_signs_some [OF jl] by blast
  obtain e5 w5 where p5: "persistRefresh m ?cr nt (draw (tick ?v)) = (e5, w5)"
    by (cases "persistRefresh m ?cr nt (draw (tick ?v))")
  have "e5 = None"
    using persist_law [OF _ p5] mint_keeps [OF w2(2)] mint_keeps by simp
  then show ?thesis
    using p uid ty e w2(1) a nt p5
    by (cases "revoke m c w5")
       (simp add: RefreshTokens_def issueAccess_eq issueRefresh_eq Let_def)
qed

lemma issue_succeeds:
  assumes w: "ok w" and jl: "documented_jwt (mg_jwt m)"
  shows "\<exists>ts w'. IssueTokens m u w = (Inr ts, w')"
proof -
  let ?v = "draw (tick w)"
  let ?ca = "next_claims m u ''access'' (auth_AccessTokenTTL (mg_cfg m)) w"
  let ?cr = "next_claims m u ''refresh'' (auth_RefreshTokenTTL (mg_cfg m)) ?v"
  obtain a where a: "jl_SignedString (mg_jwt m) hs256 ?ca (auth_AccessSecret (mg_cfg m)) = Inr a"
    using jwt_signs_some [OF jl] by blast
  obtain t where t: "jl_SignedString (mg_jwt m) hs256 ?cr (auth_RefreshSecret (mg_cfg m)) = Inr t"
    using jwt_signs_some [OF jl] by blast
  obtain e w3 where p: "persistRefresh m ?cr t (draw (tick ?v)) = (e, w3)"
    by (cases "persistRefresh m ?cr t (draw (tick ?v))")
  have "e = None"
    using persist_law [OF _ p] mint_keeps [OF w] mint_keeps by simp
  with a t p show ?thesis
    by (simp add: IssueTokens_def issueAccess_eq issueRefresh_eq Let_def)
qed

theorem usable:
  assumes w: "intact n w" and issue: "IssueTokens m u w = (Inr ts, w1)"
    and n: "uuids_drawn (token_run m cs w1) \<le> n"
    and other: "\<forall>v. CallRefresh v (at_RefreshToken ts) \<notin> set cs"
    and expiry: "clock (token_run m cs w1) (clock_reads (token_run m cs w1)) <
      jl_NewNumericDate (mg_jwt m)
        (clock w (Suc (clock_reads w)) + auth_RefreshTokenTTL (mg_cfg m))"
  shows "\<exists>ts' w2. RefreshTokens m u (at_RefreshToken ts) (token_run m cs w1) = (Inr ts', w2)"
proof -
  let ?w2 = "token_run m cs w1" and ?t = "at_RefreshToken ts"
  let ?c = "next_claims m u ''refresh'' (auth_RefreshTokenTTL (mg_cfg m)) (draw (tick w))"
  have okw: "ok w" and jl: "documented_jwt (mg_jwt m)" using w by (simp_all add: intact_def)
  have l: "live w1 (jc_ID ?c) = Some ?t" and ok1: "ok w1"
    and sg: "jl_SignedString (mg_jwt m) hs256 ?c (auth_RefreshSecret (mg_cfg m)) = Inr ?t"
    using issue_live [OF okw issue] by simp_all
  have n1: "uuids_drawn w1 \<le> n" using run_grows [OF ok1, of cs] n by (simp add: grows_def)
  have w1: "intact n w1" using issue_intact [OF w issue n1] by simp
  have w2: "intact n ?w2" "live ?w2 (jc_ID ?c) = Some ?t"
    using run_keeps [OF w1 n l other] by simp_all
  have "parse m ?t (auth_RefreshSecret (mg_cfg m)) ?w2 = (Inr ?c, tick ?w2)"
    by (rule parse_signed [OF jl sg]) (use expiry in simp_all)
  from refresh_live [OF _ jl _ _ this w2(2)] w2(1) show ?thesis
    by (simp add: intact_def)
qed

lemma start_usable:
  assumes w0: "ok w0" "documented_jwt (mg_jwt m)" "\<forall>j. live w0 j = None"
    and w: "w = token_run m before w0" and issue: "IssueTokens m u w = (Inr ts, w1)"
    and fresh: "fresh_uuids (uuids_drawn (token_run m later w1)) w0"
    and other: "\<forall>v. CallRefresh v (at_RefreshToken ts) \<notin> set later"
    and expiry: "clock (token_run m later w1) (clock_reads (token_run m later w1)) <
      jl_NewNumericDate (mg_jwt m)
        (clock w (Suc (clock_reads w)) + auth_RefreshTokenTTL (mg_cfg m))"
  shows "\<exists>ts' w2. RefreshTokens m u (at_RefreshToken ts) (token_run m later w1) = (Inr ts', w2)"
proof -
  let ?n = "uuids_drawn (token_run m later w1)"
  have b: "ok w" using run_grows [OF w0(1)] w by simp
  have w1: "ok w1" "uuids_drawn w \<le> uuids_drawn w1"
    using call_grows(1) [OF b issue] by (simp_all add: grows_def)
  then have "uuids_drawn w \<le> ?n"
    using run_grows [OF w1(1), of later] by (simp add: grows_def)
  then have "intact ?n w" using start_intact [OF w0 fresh] w by simp
  from usable [OF this issue order_refl other expiry] show ?thesis .
qed

end

section \<open>The two back ends\<close>

definition memory_live :: "'a token_state_scheme \<Rightarrow> string \<Rightarrow> string option" where
  "memory_live w j = memoryTokens w (refreshKey j)"

definition redis_live :: "'a redis_server_scheme \<Rightarrow> string \<Rightarrow> string option" where
  "redis_live w j = redis_get w (refreshKey j)"

definition redis_reliable :: "'a redis_server_scheme \<Rightarrow> bool" where
  "redis_reliable w \<longleftrightarrow> (\<forall>i. redis_faults w i = None) \<and> mono (clock w)"

lemma refreshKey_eq [simp]: "refreshKey i = refreshKey j \<longleftrightarrow> i = j"
  by (simp add: refreshKey_def)

lemma redis_call_reliable:
  "redis_reliable w \<Longrightarrow> redis_call w = (None, w\<lparr>redis_calls := Suc (redis_calls w)\<rparr>)"
  by (simp add: redis_call_def redis_reliable_def)

lemma redis_get_calls [simp]: "redis_get (redis_calls_update f w) = redis_get w"
  by (rule redis_get_cong) (simp_all add: redis_time_def)

lemma redis_get_deleted:
  "redis_get (w\<lparr>redis_data := (redis_data w)(k := None)\<rparr>) = (redis_get w)(k := None)"
  by (rule ext) (simp add: redis_get_def redis_time_def)

lemma redis_get_draw [simp]: "redis_get (draw w) = redis_get w"
  by (rule redis_get_cong) (simp_all add: draw_def redis_time_def)

lemma entry_at_later: "now \<le> later \<Longrightarrow> entry_at later e = None \<or> entry_at later e = entry_at now e"
  by (cases "(now, e)" rule: entry_at.cases) auto

interpretation mem: durable_store "NewManager cfg None jl" memory_live "\<lambda>_. True" for cfg jl
  by unfold_locales
    (auto simp: NewManager_def persistRefresh_def ensureRefreshValid_def revoke_def memory_live_def
      same_ids_def tick_def draw_def fun_eq_iff split: option.splits if_splits)

interpretation rds: refresh_store "NewManager cfg (Some ref_redis) jl" redis_live redis_reliable
  for cfg jl
proof unfold_locales
  fix w w' :: "'a token_state_scheme" and c t e
  let ?m = "NewManager cfg (Some ref_redis) jl"
  let ?w1 = "w\<lparr>redis_calls := Suc (redis_calls w)\<rparr>"
  assume ok: "redis_reliable w"
  note call = redis_call_reliable [OF ok]
  have ok1: "redis_reliable ?w1" using ok by (simp add: redis_reliable_def)
  show "e = None \<and> redis_reliable w' \<and> same_ids w w' \<and> redis_live w' = (redis_live w)(jc_ID c \<mapsto> t)"
    if "persistRefresh ?m c t w = (e, w')"
  proof -
    let ?x = "redis_expiry (auth_RefreshTokenTTL cfg) ?w1"
    have "w' = redis_put (refreshKey (jc_ID c)) t ?x ?w1" "e = None"
      using that call by (auto simp: NewManager_def persistRefresh_def ref_redis_def ref_set_def)
    moreover have "redis_get (redis_put (refreshKey (jc_ID c)) t ?x ?w1)
        = (redis_get w)(refreshKey (jc_ID c) \<mapsto> t)"
      by (subst redis_get_put [OF disjI1 [OF refl]]) simp
    ultimately show ?thesis
      using ok by (auto simp: redis_live_def fun_eq_iff redis_put_def redis_reliable_def same_ids_def)
  qed
  show "redis_reliable w' \<and> same_ids w w' \<and> redis_live w' = redis_live w
      \<and> (e = None \<longleftrightarrow> redis_live w (jc_ID c) = Some t)"
    if "ensureRefreshValid ?m c t w = (e, w')"
    using that call ok
    by (auto simp: NewManager_def ensureRefreshValid_def ref_redis_def ref_get_def redis_live_def
        same_ids_def redis_reliable_def fun_eq_iff split: option.splits if_splits)
  show "e = None \<and> redis_reliable w' \<and> same_ids w w' \<and> redis_live w' = (redis_live w)(jc_ID c := None)"
    if "revoke ?m c w = (e, w')"
  proof -
    have "w' = ?w1\<lparr>redis_data := (redis_data ?w1)(refreshKey (jc_ID c) := None)\<rparr>" "e = None"
      using that call by (auto simp: NewManager_def revoke_def ref_redis_def ref_del_def)
    then show ?thesis
      using ok redis_get_deleted [of ?w1 "refreshKey (jc_ID c)"]
      by (auto simp: redis_live_def fun_eq_iff redis_reliable_def same_ids_def)
  qed
  show "redis_reliable (tick w)
      \<and> (\<forall>j. redis_live (tick w) j = None \<or> redis_live (tick w) j = redis_live w j)"
  proof -
    have "redis_time w \<le> redis_time (tick w)"
      using ok by (simp add: redis_time_def redis_reliable_def monoD)
    then show ?thesis
      using ok entry_at_later by (auto simp: redis_reliable_def redis_live_def redis_get_def tick_def)
  qed
  show "redis_reliable (draw w) \<and> redis_live (draw w) = redis_live w"
    using ok by (simp add: redis_reliable_def redis_live_def fun_eq_iff) (simp add: draw_def)
qed

end
