(* ===== verification/TokenProperties.thy ===== *)
theory TokenProperties
  imports TokenStores
begin

text \<open>
  The properties of the token manager, for the two managers \<open>cmd/api/main.go\<close> builds, and the
  inputs their witnesses are evaluated at.
\<close>

section \<open>Properties of the managers\<close>

text \<open>A configuration, a user and a start state to evaluate the properties at.\<close>

definition sample_auth :: auth_config where
  "sample_auth =
     \<lparr>auth_AccessSecret = ''access'', auth_RefreshSecret = ''refresh'',
      auth_AccessTokenTTL = 15 * nanos_per_minute, auth_RefreshTokenTTL = 24 * nanos_per_hour,
      auth_TokenIssuer = ''kidpech.app'', auth_SecretVersion = ''v1'',
      auth_OAuthRedirectURL = [], auth_OAuthGoogleClientID = []\<rparr>"

definition sample_user :: user where
  "sample_user =
     \<lparr>u_ID = 7, u_Email = ''demo@example.com'', u_Name = ''Demo'', u_PasswordHash = ''hash'',
      u_ProfileImage = None, u_Role = ''user'', u_RefreshVersion = 1, u_LastLoginAt = None,
      u_PasswordResetAt = None, u_LastPasswordHash = [], u_CreatedAt = 0, u_UpdatedAt = 0,
      u_DeletedAt = None\<rparr>"

definition sample_tokens :: token_state where
  "sample_tokens =
     \<lparr>clock = int, clock_reads = 0, uuid_source = of_nat, uuids_drawn = 0, salts_drawn = 0,
      redis_data = Map.empty, redis_faults = Map.empty, redis_calls = 0,
      memoryTokens = Map.empty\<rparr>"

lemma fresh_of_nat: "uuid_source w = of_nat \<Longrightarrow> n < 2 ^ 128 \<Longrightarrow> fresh_uuids n w"
proof -
  assume src: "uuid_source w = of_nat" and n: "n < 2 ^ 128"
  have "i = j" if "i < n" "j < n" "(of_nat i :: uuid) = of_nat j" for i j
  proof -
    have "unat (of_nat i :: uuid) = i" "unat (of_nat j :: uuid) = j"
      using that(1,2) n by (simp_all add: unsigned_of_nat take_bit_nat_eq_self)
    with that(3) show ?thesis by metis
  qed
  with src show ?thesis by (auto simp: fresh_uuids_def inj_on_def)
qed

definition sample_manager :: "token_state redis_client option \<Rightarrow> token_state manager" where
  "sample_manager rc = NewManager sample_auth rc ref_jwt"

lemma sample_manager_fields [simp]:
  "mg_cfg (sample_manager rc) = sample_auth" "mg_jwt (sample_manager rc) = ref_jwt"
  "mg_redis (sample_manager rc) = rc"
  by (simp_all add: sample_manager_def NewManager_def)

lemma sample_token_state [simp]:
  "clock sample_tokens = int" "clock_reads sample_tokens = 0" "uuids_drawn sample_tokens = 0"
  "uuid_source sample_tokens = of_nat" "memoryTokens sample_tokens = Map.empty"
  "redis_data sample_tokens = Map.empty" "redis_faults sample_tokens = Map.empty"
  "redis_calls sample_tokens = 0"
  by (simp_all add: sample_tokens_def)

lemma sample_fresh [intro]: "n \<le> 4 \<Longrightarrow> fresh_uuids n sample_tokens"
  by (rule fresh_of_nat) auto

lemma sample_redis_reliable [simp]: "redis_reliable sample_tokens"
  by (simp add: redis_reliable_def mono_def)

lemma tick_draw_stores [simp]:
  "redis_data (tick r) = redis_data r" "redis_faults (tick r) = redis_faults r"
  "redis_calls (tick r) = redis_calls r" "redis_data (draw r) = redis_data r"
  "redis_faults (draw r) = redis_faults r" "redis_calls (draw r) = redis_calls r"
  "memoryTokens (tick w) = memoryTokens w" "memoryTokens (draw w) = memoryTokens w"
  by (simp_all add: tick_def draw_def)

lemma sample_issue:
  "rc = None \<or> rc = Some ref_redis \<Longrightarrow>
    \<exists>ts w1. IssueTokens (sample_manager rc) sample_user sample_tokens = (Inr ts, w1)
      \<and> uuids_drawn w1 = 2 \<and> clock_reads w1 = 2 \<and> clock w1 = int"
  by (auto simp: IssueTokens_def issueAccess_eq issueRefresh_eq Let_def persistRefresh_def
      ref_jwt_def ref_sign_def ref_redis_def ref_set_def redis_call_def redis_put_def)

lemma sample_refresh:
  assumes "RefreshTokens (sample_manager None) u t w = (r, w')" and "uuids_drawn w \<le> 2"
  shows "uuids_drawn w' \<le> 4"
  using mem.call_grows(2) [OF _ assms(1) [unfolded sample_manager_def]] assms(2) by simp

text \<open>The sample user's first refresh token, and the refresh that uses it.\<close>

lemma sample_first_refresh:
  assumes "IssueTokens (sample_manager None) sample_user sample_tokens = (Inr ts, w1)"
    and "uuids_drawn w1 = 2" and "clock_reads w1 = 2" and "clock w1 = int"
  shows "\<exists>ts' w2. RefreshTokens (sample_manager None) sample_user (at_RefreshToken ts) w1 = (Inr ts', w2)"
proof -
  have "fresh_uuids (uuids_drawn w1) sample_tokens" using assms(2) by (simp add: sample_fresh)
  then show ?thesis
    using mem.start_usable [where cfg = sample_auth and jl = ref_jwt and ?w0.0 = sample_tokens
        and before = "[]" and later = "[]" and w = sample_tokens and u = sample_user and ts = ts
        and ?w1.0 = w1] assms documented_ref_jwt
    by (simp add: sample_manager_def NewManager_def memory_live_def sample_auth_def ref_jwt_def
        nanos_defs)
qed

text \<open>C1 (a refresh token is used once). Take the manager that keeps its tokens in memory, any
  calls from an empty store, and a refresh that accepts the token \<open>t\<close>. Whatever calls follow, a
  refresh with \<open>t\<close> is refused, for every user.\<close>

theorem refresh_token_single_use:
  fixes w0 :: "'a token_state_scheme" and cfg :: auth_config and jl :: jwt_lib
  defines "m \<equiv> NewManager cfg None jl"
  assumes "documented_jwt jl" and "memoryTokens w0 = Map.empty"
    and "RefreshTokens m u t (token_run m before w0) = (Inr ts, w1)"
    and "fresh_uuids (uuids_drawn (token_run m later w1)) w0"
  shows "\<exists>e. fst (RefreshTokens m v t (token_run m later w1)) = Inl e"
  using assms mem.start_rotation [where cfg = cfg and jl = jl and u = u and t = t and v = v and before = before and ts = ts and later = later and ?w0.0 = w0 and ?w1.0 = w1]
  by (simp add: NewManager_def memory_live_def)

theorem refresh_token_single_use_witness:
  "\<exists>ts ts' w1 w2 e. IssueTokens (sample_manager None) sample_user sample_tokens = (Inr ts, w1)
     \<and> RefreshTokens (sample_manager None) sample_user (at_RefreshToken ts) w1 = (Inr ts', w2)
     \<and> fst (RefreshTokens (sample_manager None) sample_user (at_RefreshToken ts) w2) = Inl e"
proof -
  obtain ts w1 where i: "IssueTokens (sample_manager None) sample_user sample_tokens = (Inr ts, w1)"
      "uuids_drawn w1 = 2" "clock_reads w1 = 2" "clock w1 = int"
    using sample_issue by blast
  obtain ts' w2 where r: "RefreshTokens (sample_manager None) sample_user (at_RefreshToken ts) w1 = (Inr ts', w2)"
    using sample_first_refresh [OF i] by blast
  have "fresh_uuids (uuids_drawn w2) sample_tokens"
    using sample_refresh [OF r] i(2) by (simp add: sample_fresh)
  then have "\<exists>e. fst (RefreshTokens (sample_manager None) sample_user (at_RefreshToken ts) w2) = Inl e"
    using refresh_token_single_use [of ref_jwt sample_tokens sample_auth sample_user "at_RefreshToken ts"
        "[CallIssue sample_user]" ts' w2 "[]" sample_user] documented_ref_jwt i(1) r
    by (simp add: sample_manager_def)
  with i(1) r show ?thesis by blast
qed


lemma sample_redis_rotation:
  "\<exists>ts ts' w1 w2. IssueTokens (sample_manager (Some ref_redis)) sample_user sample_tokens = (Inr ts, w1)
     \<and> RefreshTokens (sample_manager (Some ref_redis)) sample_user (at_RefreshToken ts) w1 = (Inr ts', w2)
     \<and> uuids_drawn w2 = 4"
proof -
  let ?m = "sample_manager (Some ref_redis)"
  let ?c = "next_claims ?m sample_user ''refresh'' (auth_RefreshTokenTTL sample_auth) (draw (tick sample_tokens))"
  obtain t where t: "jl_SignedString ref_jwt hs256 ?c (auth_RefreshSecret sample_auth) = Inr t"
    using jwt_signs_some [OF documented_ref_jwt] by blast
  obtain ts w1 where i: "IssueTokens ?m sample_user sample_tokens = (Inr ts, w1)" "at_RefreshToken ts = t"
    and w1: "uuids_drawn w1 = 2" "clock_reads w1 = 2" "clock w1 = int" "redis_faults w1 = Map.empty"
      "redis_data w1 (refreshKey (jc_ID ?c)) = Some (t, Some (2 + 24 * nanos_per_hour))"
    using t by (auto simp: IssueTokens_def issueAccess_eq issueRefresh_eq Let_def persistRefresh_def
      ref_jwt_def ref_sign_def ref_redis_def ref_set_def redis_call_def redis_put_def redis_expiry_def
      redis_time_def sample_auth_def nanos_defs)
  have "parse ?m t (auth_RefreshSecret sample_auth) w1 = (Inr ?c, tick w1)"
    by (rule parse_signed)
       (use documented_ref_jwt t w1 in \<open>simp_all add: sample_auth_def ref_jwt_def nanos_defs\<close>)
  moreover have "ensureRefreshValid ?m ?c t (tick w1) = (None, tick w1\<lparr>redis_calls := Suc (redis_calls w1)\<rparr>)"
    using w1 by (simp add: ensureRefreshValid_def ref_redis_def ref_get_def redis_call_def redis_get_def
        redis_time_def nanos_defs)
  ultimately have "\<exists>ts' w2. RefreshTokens ?m sample_user t w1 = (Inr ts', w2) \<and> uuids_drawn w2 = 4"
    using w1 by (simp add: RefreshTokens_def issueAccess_eq issueRefresh_eq Let_def persistRefresh_def
        revoke_def ref_jwt_def ref_sign_def ref_redis_def ref_set_def ref_del_def redis_call_def redis_put_def
        split: option.splits prod.splits)
  with i show ?thesis by blast
qed


text \<open>C3 (a refresh token works until it is used). A refresh token issued by the manager with
  the in-memory store is accepted for its user after any later calls, by anyone, that do not
  present that very token, as long as it has not expired.\<close>

theorem refresh_token_stays_usable:
  fixes w0 :: "'a token_state_scheme" and cfg :: auth_config and jl :: jwt_lib
  defines "m \<equiv> NewManager cfg None jl"
  assumes "documented_jwt jl" and "memoryTokens w0 = Map.empty" and "w = token_run m before w0"
    and "IssueTokens m u w = (Inr ts, w1)"
    and "fresh_uuids (uuids_drawn (token_run m later w1)) w0"
    and "\<forall>v. CallRefresh v (at_RefreshToken ts) \<notin> set later"
    and "clock (token_run m later w1) (clock_reads (token_run m later w1)) <
      jl_NewNumericDate jl (clock w (Suc (clock_reads w)) + auth_RefreshTokenTTL cfg)"
  shows "\<exists>ts' w2. RefreshTokens m u (at_RefreshToken ts) (token_run m later w1) = (Inr ts', w2)"
  using assms mem.start_usable [where cfg = cfg and jl = jl and u = u and before = before and ts = ts and later = later and w = w and ?w0.0 = w0 and ?w1.0 = w1]
  by (simp add: NewManager_def memory_live_def)

theorem refresh_token_stays_usable_witness:
  "\<exists>ts ts' w1 w2. IssueTokens (sample_manager None) sample_user sample_tokens = (Inr ts, w1)
     \<and> RefreshTokens (sample_manager None) sample_user (at_RefreshToken ts) w1 = (Inr ts', w2)"
proof -
  obtain ts w1 where i: "IssueTokens (sample_manager None) sample_user sample_tokens = (Inr ts, w1)"
      "uuids_drawn w1 = 2" "clock_reads w1 = 2" "clock w1 = int"
    using sample_issue by blast
  have "fresh_uuids (uuids_drawn w1) sample_tokens" using i(2) by (simp add: sample_fresh)
  then show ?thesis
    using refresh_token_stays_usable [of ref_jwt sample_tokens sample_tokens sample_auth "[]" sample_user
        ts w1 "[]"] documented_ref_jwt i
    by (auto simp: sample_manager_def sample_auth_def ref_jwt_def nanos_defs)
qed

section \<open>What a token is good for\<close>

text \<open>The tokens a call of \<open>IssueTokens\<close> hands out are signed claims of the user, whatever the back end.\<close>

lemma issued_pair:
  assumes "IssueTokens m u w = (Inr ts, w1)"
  shows "jl_SignedString (mg_jwt m) hs256 (next_claims m u ''access'' (auth_AccessTokenTTL (mg_cfg m)) w)
      (auth_AccessSecret (mg_cfg m)) = Inr (at_AccessToken ts)"
    and "jl_SignedString (mg_jwt m) hs256
        (next_claims m u ''refresh'' (auth_RefreshTokenTTL (mg_cfg m)) (draw (tick w)))
      (auth_RefreshSecret (mg_cfg m)) = Inr (at_RefreshToken ts)"
  using assms
  by (auto simp: IssueTokens_def issueAccess_eq issueRefresh_eq Let_def
      split: sum.splits prod.splits option.splits)

lemma parse_expired:
  assumes "documented_jwt (mg_jwt m)" and "jl_SignedString (mg_jwt m) hs256 c s = Inr t"
    and "jc_ExpiresAt c \<le> clock w (clock_reads w)"
  shows "\<exists>e. parse m t s' w = (Inl e, tick w)"
proof -
  from jwt_expired_fails [where kf = "key_func s'", OF assms]
  show ?thesis by (auto simp: parse_def time_now_tick)
qed

text \<open>C4 (an access token authenticates its user until it expires). The access token a manager
  issues parses, at any later state, to claims with the user's id and role and the type
  \<open>access\<close> as long as the clock has not reached the issue time plus the access lifetime, cut to
  a whole second, and to an error from then on.\<close>

theorem access_token_lifetime:
  assumes "documented_jwt (mg_jwt m)" and "IssueTokens m u w = (Inr ts, w1)"
    and "expiry = jl_NewNumericDate (mg_jwt m) (clock w (clock_reads w) + auth_AccessTokenTTL (mg_cfg m))"
  shows "if clock v (clock_reads v) < expiry
    then \<exists>c. fst (ParseAccessToken m (at_AccessToken ts) v) = Inr c \<and> jc_UserID c = u_ID u
           \<and> jc_Role c = u_Role u \<and> jc_TokenType c = ''access''
    else \<exists>e. fst (ParseAccessToken m (at_AccessToken ts) v) = Inl e"
  using parse_signed [OF assms(1) issued_pair(1) [OF assms(2)], of v]
    parse_expired [OF assms(1) issued_pair(1) [OF assms(2)], of v "auth_AccessSecret (mg_cfg m)"] assms(3)
  by (auto simp: ParseAccessToken_def)

theorem access_token_lifetime_witness:
  "\<exists>ts w1. IssueTokens (sample_manager None) sample_user sample_tokens = (Inr ts, w1)
     \<and> (\<exists>c. fst (ParseAccessToken (sample_manager None) (at_AccessToken ts) w1) = Inr c
            \<and> jc_UserID c = 7 \<and> jc_Role c = ''user'')"
proof -
  obtain ts w1 where i: "IssueTokens (sample_manager None) sample_user sample_tokens = (Inr ts, w1)"
      "clock_reads w1 = 2" "clock w1 = int"
    using sample_issue by blast
  then show ?thesis
    using access_token_lifetime [OF _ i(1) refl, of w1] documented_ref_jwt
    by (auto simp: sample_auth_def ref_jwt_def nanos_defs sample_user_def)
qed

text \<open>The manager of an empty environment.\<close>

definition default_manager :: "token_state manager" where
  "default_manager = NewManager (load_auth (\<lambda>_. [])) None ref_jwt"

text \<open>C10 (a refresh token passes for an access token exactly when the two secrets are equal).
  \<open>ParseAccessToken\<close> does not look at the token's type: until it expires, the refresh token of an
  issued pair is accepted as an access token if and only if the configured access and refresh
  secrets are the same string, as the defaults \<open>change-me\<close> are.\<close>

theorem refresh_token_as_access_token:
  assumes "documented_jwt (mg_jwt m)" and "IssueTokens m u w = (Inr ts, w1)"
    and "clock v (clock_reads v) < jl_NewNumericDate (mg_jwt m)
      (clock w (Suc (clock_reads w)) + auth_RefreshTokenTTL (mg_cfg m))"
  shows "(\<exists>c. fst (ParseAccessToken m (at_RefreshToken ts) v) = Inr c) \<longleftrightarrow>
    auth_AccessSecret (mg_cfg m) = auth_RefreshSecret (mg_cfg m)"
  using parse_signed [OF assms(1) issued_pair(2) [OF assms(2)], of v]
    parse_other_key [OF assms(1) issued_pair(2) [OF assms(2)], of "auth_AccessSecret (mg_cfg m)" v] assms(3)
  by (cases "auth_AccessSecret (mg_cfg m) = auth_RefreshSecret (mg_cfg m)")
    (auto simp: ParseAccessToken_def)

theorem refresh_token_as_access_token_witness:
  "\<exists>ts w1 c. IssueTokens default_manager sample_user sample_tokens = (Inr ts, w1)
     \<and> fst (ParseAccessToken default_manager (at_RefreshToken ts)
              (sample_tokens\<lparr>clock_reads := 5\<rparr>)) = Inr c"
proof -
  let ?m = default_manager
  obtain ts w1 where i: "IssueTokens ?m sample_user sample_tokens = (Inr ts, w1)"
    using mem.issue_succeeds [where w = sample_tokens and jl = ref_jwt] documented_ref_jwt
    by (fastforce simp: default_manager_def NewManager_def)
  then show ?thesis
    using refresh_token_as_access_token [OF _ i, of "sample_tokens\<lparr>clock_reads := 5\<rparr>"] documented_ref_jwt
    by (auto simp: default_manager_def NewManager_def load_auth_def getenv_def getInt_def nanos_defs ref_jwt_def wrap64_id)
qed

text \<open>Whatever key and whenever a signed token is parsed, it yields the claims it was signed with.\<close>

lemma parse_reads_signed:
  assumes jl: "documented_jwt (mg_jwt m)" and sg: "jl_SignedString (mg_jwt m) hs256 c s = Inr t"
    and p: "fst (parse m t s' v) = Inr c'"
  shows "c' = c"
proof -
  have k: "key_func s hs256 = Inr s" by (simp add: key_func_def hs256_def)
  have "jl_ParseWithClaims (mg_jwt m) (key_func s) (jc_ExpiresAt c - 1) t
      = Inr \<lparr>pt_Claims = Some c, pt_Valid = True\<rparr>"
    by (rule jwt_signs_parse [where kf = "key_func s", OF jl sg k]) simp
  with p show ?thesis
    using jwt_same_claims [OF jl] unfolding parse_Inr by (metis option.inject parsed_token.select_convs(1))
qed

lemma refresh_unparsed:
  "fst (parse m t (auth_RefreshSecret (mg_cfg m)) w) = Inl e \<Longrightarrow> fst (RefreshTokens m u t w) = Inl e"
  by (auto simp: RefreshTokens_def split: sum.splits prod.splits)

lemma refresh_accepted:
  assumes "RefreshTokens m u t w = (Inr ts, w')"
  shows "\<exists>c. fst (parse m t (auth_RefreshSecret (mg_cfg m)) w) = Inr c \<and> jc_UserID c = u_ID u
    \<and> jc_TokenType c = ''refresh''"
  using assms by (auto simp: RefreshTokens_def split: sum.splits prod.splits if_splits)

text \<open>C11 (only the owner's refresh token refreshes). Of a pair issued for \<open>u\<close>, the access token is
  refused by \<open>RefreshTokens\<close> for every user, and the refresh token for every user with another id,
  in any state and with any secrets, equal ones included.\<close>

theorem refresh_refuses_other_tokens:
  assumes "documented_jwt (mg_jwt m)" and "IssueTokens m u w = (Inr ts, w1)" and "u_ID v \<noteq> u_ID u"
  shows "(\<exists>e. fst (RefreshTokens m x (at_AccessToken ts) w2) = Inl e)
    \<and> (\<exists>e. fst (RefreshTokens m v (at_RefreshToken ts) w2) = Inl e)"
proof
  note read = parse_reads_signed [OF assms(1) issued_pair(1) [OF assms(2)]]
    parse_reads_signed [OF assms(1) issued_pair(2) [OF assms(2)]]
  show "\<exists>e. fst (RefreshTokens m x (at_AccessToken ts) w2) = Inl e"
    using refresh_accepted [of m x "at_AccessToken ts" w2] read(1)
    by (cases "RefreshTokens m x (at_AccessToken ts) w2"; cases "fst (RefreshTokens m x (at_AccessToken ts) w2)") fastforce+
  show "\<exists>e. fst (RefreshTokens m v (at_RefreshToken ts) w2) = Inl e"
    using refresh_accepted [of m v "at_RefreshToken ts" w2] read(2) assms(3)
    by (cases "RefreshTokens m v (at_RefreshToken ts) w2"; cases "fst (RefreshTokens m v (at_RefreshToken ts) w2)") fastforce+
qed

theorem refresh_refuses_other_tokens_witness:
  "\<exists>ts w1. IssueTokens default_manager sample_user sample_tokens = (Inr ts, w1)
     \<and> (\<exists>e. fst (RefreshTokens default_manager sample_user (at_AccessToken ts) w1) = Inl e)
     \<and> (\<exists>e. fst (RefreshTokens default_manager (sample_user\<lparr>u_ID := 8\<rparr>) (at_RefreshToken ts) w1) = Inl e)"
proof -
  obtain ts w1 where i: "IssueTokens default_manager sample_user sample_tokens = (Inr ts, w1)"
    using mem.issue_succeeds [where w = sample_tokens and jl = ref_jwt] documented_ref_jwt
    by (fastforce simp: default_manager_def NewManager_def)
  then show ?thesis
    using refresh_refuses_other_tokens [OF _ i, of "sample_user\<lparr>u_ID := 8\<rparr>" sample_user w1] documented_ref_jwt
    by (auto simp: default_manager_def NewManager_def sample_user_def)
qed

text \<open>C12 (changing the secret version revokes every token). A manager whose configuration has
  another \<open>SecretVersion\<close> refuses both tokens of a pair issued before the change, even though the
  secrets are the same, in any state.\<close>

theorem secret_version_revokes:
  assumes "documented_jwt jl" and "IssueTokens (NewManager cfg rc jl) u w = (Inr ts, w1)"
    and "auth_SecretVersion cfg' \<noteq> auth_SecretVersion cfg"
  shows "(\<exists>e. fst (ParseAccessToken (NewManager cfg' rc' jl) (at_AccessToken ts) w2) = Inl e)
    \<and> (\<exists>e. fst (RefreshTokens (NewManager cfg' rc' jl) v (at_RefreshToken ts) w2) = Inl e)"
proof -
  let ?m = "NewManager cfg rc jl" and ?n = "NewManager cfg' rc' jl"
  have jl: "mg_jwt ?m = jl" "mg_jwt ?n = jl" "mg_cfg ?m = cfg" "mg_cfg ?n = cfg'"
    by (simp_all add: NewManager_def)
  have refused: "\<exists>e. fst (parse ?n t s' w2) = Inl e"
    if "jl_SignedString jl hs256 c s = Inr t" "jc_SecretVer c = auth_SecretVersion cfg" for t s s' c
    using parse_reads_signed [of ?n c s t s' w2] that assms(1,3) jl
    by (cases "fst (parse ?n t s' w2)") (auto simp: parse_Inr)
  show ?thesis
    using refused [OF issued_pair(1) [OF assms(2), unfolded jl], of "auth_AccessSecret cfg'"]
      refused [OF issued_pair(2) [OF assms(2), unfolded jl], of "auth_RefreshSecret cfg'"]
      refresh_unparsed [of ?n]
    by (auto simp: ParseAccessToken_def jl)
qed

theorem secret_version_revokes_witness:
  "\<exists>ts w1. IssueTokens (sample_manager None) sample_user sample_tokens = (Inr ts, w1)
     \<and> (\<exists>e. fst (ParseAccessToken (NewManager (sample_auth\<lparr>auth_SecretVersion := ''v2''\<rparr>)
                    (None :: token_state redis_client option) ref_jwt) (at_AccessToken ts) w1) = Inl e)"
proof -
  obtain ts w1 where i: "IssueTokens (sample_manager None) sample_user sample_tokens = (Inr ts, w1)"
    using sample_issue by blast
  then show ?thesis
    using secret_version_revokes [of ref_jwt sample_auth None sample_user sample_tokens ts w1
        "sample_auth\<lparr>auth_SecretVersion := ''v2''\<rparr>" "None :: token_state redis_client option" w1]
      documented_ref_jwt
    by (auto simp: sample_manager_def sample_auth_def)
qed

end
