(* ===== verification/RefreshRace.thy ===== *)
theory RefreshRace
  imports TokenProperties
begin

text \<open>
  Two requests that refresh at the same time. \<open>RefreshTokens\<close> takes no lock: the Go server runs
  one goroutine per request, and between one call on the shared store and the next the other
  request may run. \<open>refresh_step\<close> is the method cut at its calls, one step per call;
  run alone, the steps are \<open>RefreshTokens\<close> (\<open>refresh_steps_alone\<close>). \<open>race\<close> interleaves the steps
  of two requests in any order.
\<close>

section \<open>One request, step by step\<close>

datatype phase =
    Start
  | Parsed claims
  | Checked claims
  | HasAccess claims string int
  | Minted claims string int string claims
  | Persisted claims auth_tokens
  | Finished "string + auth_tokens"

fun refresh_step ::
  "'a token_state_scheme manager \<Rightarrow> user \<Rightarrow> string \<Rightarrow> phase \<times> 'a token_state_scheme \<Rightarrow>
     phase \<times> 'a token_state_scheme" where
  "refresh_step m u t (Start, w) =
     (case parse m t (auth_RefreshSecret (mg_cfg m)) w of
        (Inl e, w1) \<Rightarrow> (Finished (Inl e), w1)
      | (Inr c, w1) \<Rightarrow>
          if jc_UserID c \<noteq> u_ID u \<or> jc_TokenType c \<noteq> ''refresh''
          then (Finished (Inl ''invalid refresh token''), w1)
          else (Parsed c, w1))"
| "refresh_step m u t (Parsed c, w) =
     (case ensureRefreshValid m c t w of
        (Some e, w1) \<Rightarrow> (Finished (Inl e), w1)
      | (None, w1) \<Rightarrow> (Checked c, w1))"
| "refresh_step m u t (Checked c, w) =
     (case issueAccess m u w of
        (Inl e, w1) \<Rightarrow> (Finished (Inl e), w1)
      | (Inr (a, x), w1) \<Rightarrow> (HasAccess c a x, w1))"
| "refresh_step m u t (HasAccess c a x, w) =
     (case issueRefresh m u w of
        (Inl e, w1) \<Rightarrow> (Finished (Inl e), w1)
      | (Inr (r, rc), w1) \<Rightarrow> (Minted c a x r rc, w1))"
| "refresh_step m u t (Minted c a x r rc, w) =
     (case persistRefresh m rc r w of
        (Some e, w1) \<Rightarrow> (Finished (Inl e), w1)
      | (None, w1) \<Rightarrow>
          (Persisted c \<lparr>at_AccessToken = a, at_RefreshToken = r, at_ExpiresIn = x,
             at_TokenType = ''Bearer''\<rparr>, w1))"
| "refresh_step m u t (Persisted c ts, w) =
     (case revoke m c w of (_, w1) \<Rightarrow> (Finished (Inr ts), w1))"
| "refresh_step m u t (Finished r, w) = (Finished r, w)"

text \<open>Six steps are enough for a request that runs alone.\<close>

definition refresh_alone ::
  "'a token_state_scheme manager \<Rightarrow> user \<Rightarrow> string \<Rightarrow> 'a token_state_scheme \<Rightarrow>
     phase \<times> 'a token_state_scheme" where
  "refresh_alone m u t w = (refresh_step m u t ^^ 6) (Start, w)"

text \<open>The steps are the method: a request whose six steps run without interruption ends with the
  result and the state of \<open>RefreshTokens\<close>.\<close>

theorem refresh_steps_alone:
  "refresh_alone m u t w = (case RefreshTokens m u t w of (r, w') \<Rightarrow> (Finished r, w'))"
  by (simp add: refresh_alone_def RefreshTokens_def numeral_eq_Suc funpow_Suc_right
      split: sum.split prod.split option.split del: funpow.simps(2))

section \<open>Two requests\<close>

abbreviation race ::
  "'a token_state_scheme manager \<Rightarrow> user \<Rightarrow> string \<Rightarrow>
     phase \<times> phase \<times> 'a token_state_scheme \<Rightarrow> phase \<times> phase \<times> 'a token_state_scheme \<Rightarrow> bool" where
  "race m u t \<equiv> interleaved (refresh_step m u t) (refresh_step m u t)"

text \<open>How many of its own steps a request may still take.\<close>

fun steps_left :: "phase \<Rightarrow> nat" where
  "steps_left Start = 6"
| "steps_left (Parsed c) = 5"
| "steps_left (Checked c) = 4"
| "steps_left (HasAccess c a x) = 3"
| "steps_left (Minted c a x r rc) = 2"
| "steps_left (Persisted c ts) = 1"
| "steps_left (Finished r) = 0"

lemma steps_left_zero: "steps_left p = 0 \<longleftrightarrow> (\<exists>r. p = Finished r)"
  by (cases p) simp_all

lemma refresh_step_ends: "refresh_step m u t (p, w) = (p', w') \<Longrightarrow> steps_left p' \<le> steps_left p - 1"
  by (cases p) (auto split: prod.splits sum.splits option.splits if_splits)



text \<open>Both check the token, then both rotate.\<close>

definition both_check :: "bool list" where
  "both_check = [True, False, True, False] @ replicate 4 True @ replicate 4 False"

lemma memory_accepts:
  assumes "RefreshTokens m u t w = (Inr ts, w')" and "mg_redis m = None"
  shows "\<exists>c. parse m t (auth_RefreshSecret (mg_cfg m)) w = (Inr c, tick w)
    \<and> jc_UserID c = u_ID u \<and> jc_TokenType c = ''refresh''
    \<and> memoryTokens w (refreshKey (jc_ID c)) = Some t"
  using assms
  by (auto simp: RefreshTokens_def parse_pair ensureRefreshValid_def tick_def
      split: sum.splits prod.splits option.splits if_splits)

text \<open>C13 (two requests can use one refresh token). When a refresh token would be accepted now and
  at the next reading of the clock, two requests that present it at the same time can both be
  answered with a new pair of tokens: each checks the stored token before either revokes it.\<close>

theorem refresh_race:
  fixes w :: "'a token_state_scheme" and cfg :: auth_config and jl :: jwt_lib
  defines "m \<equiv> NewManager cfg None jl"
  assumes "documented_jwt jl" and "RefreshTokens m u t w = (Inr ts, w')"
    and "RefreshTokens m u t (tick w) = (Inr ts', w'')"
  shows "\<exists>ts1 ts2 w2. race m u t (Start, Start, w) (Finished (Inr ts1), Finished (Inr ts2), w2)"
proof -
  have m: "mg_cfg m = cfg" "mg_jwt m = jl" "mg_redis m = None"
    by (simp_all add: m_def NewManager_def)
  obtain c where c: "parse m t (auth_RefreshSecret cfg) w = (Inr c, tick w)"
      "jc_UserID c = u_ID u" "jc_TokenType c = ''refresh''"
      "memoryTokens w (refreshKey (jc_ID c)) = Some t"
    using memory_accepts [OF assms(3) m(3)] m by auto
  obtain c' where c': "parse m t (auth_RefreshSecret cfg) (tick w) = (Inr c', tick (tick w))"
    using memory_accepts [OF assms(4) m(3)] m by auto
  have "c' = c"
    using parse_unique [of m t "auth_RefreshSecret cfg" w c "auth_RefreshSecret cfg" "tick w" c']
      assms(2) c(1) c' m by simp
  have signed: "jl_SignedString jl hs256 x k \<noteq> Inl e" for x k e
    using jwt_signs_some [OF assms(2), of x k] by auto
  have "\<exists>ts1 ts2 w2. scheduled (refresh_step m u t) (refresh_step m u t) both_check (Start, Start, w) = (Finished (Inr ts1), Finished (Inr ts2), w2)"
    using c c' \<open>c' = c\<close> signed
    by (auto simp: both_check_def m ensureRefreshValid_def issueAccess_eq issueRefresh_eq Let_def
        persistRefresh_def revoke_def numeral_eq_Suc split: sum.split)
  then show ?thesis using scheduled_interleaved [of "refresh_step m u t" "refresh_step m u t" "(Start, Start, w)" both_check] by metis
qed

theorem refresh_race_witness:
  "\<exists>ts w1 ts1 ts2 w2. IssueTokens (sample_manager None) sample_user sample_tokens = (Inr ts, w1)
     \<and> race (sample_manager None) sample_user (at_RefreshToken ts) (Start, Start, w1)
         (Finished (Inr ts1), Finished (Inr ts2), w2)"
proof -
  obtain ts w1 where i: "IssueTokens (sample_manager None) sample_user sample_tokens = (Inr ts, w1)"
      "uuids_drawn w1 = 2" "clock_reads w1 = 2" "clock w1 = int"
    using sample_issue by blast
  let ?m = "sample_manager None" and ?t = "at_RefreshToken ts"
  obtain ts' w' where r: "RefreshTokens ?m sample_user ?t w1 = (Inr ts', w')"
    using sample_first_refresh [OF i] by blast
  then obtain c where c: "parse ?m ?t (auth_RefreshSecret sample_auth) w1 = (Inr c, tick w1)"
      "jc_UserID c = u_ID sample_user" "jc_TokenType c = ''refresh''"
      "memoryTokens w1 (refreshKey (jc_ID c)) = Some ?t"
    using memory_accepts [OF r] by auto
  have "parse ?m ?t (auth_RefreshSecret sample_auth) (tick w1)
      = (Inr (next_claims ?m sample_user ''refresh'' (auth_RefreshTokenTTL sample_auth)
                (draw (tick sample_tokens))), tick (tick w1))"
    using parse_signed [OF _ issued_pair(2) [OF i(1)], of "tick w1"] documented_ref_jwt i
    by (simp add: sample_auth_def ref_jwt_def nanos_defs)
  moreover from this have "c = next_claims ?m sample_user ''refresh'' (auth_RefreshTokenTTL sample_auth)
                (draw (tick sample_tokens))"
    using parse_unique [of ?m ?t "auth_RefreshSecret sample_auth" "tick w1" _ "auth_RefreshSecret sample_auth" w1 c]
      documented_ref_jwt c(1) by simp
  ultimately have "\<exists>ts'' w''. RefreshTokens ?m sample_user ?t (tick w1) = (Inr ts'', w'')"
    using mem.refresh_live [where cfg = sample_auth and jl = ref_jwt and w = "tick w1" and u = sample_user
        and c = c and t = ?t] documented_ref_jwt c
    by (simp add: memory_live_def) (simp add: sample_manager_def NewManager_def)
  then obtain ts'' w'' where "RefreshTokens ?m sample_user ?t (tick w1) = (Inr ts'', w'')" by blast
  with refresh_race [of ref_jwt sample_auth sample_user ?t w1 ts' w' ts'' w''] documented_ref_jwt r i(1)
  show ?thesis by (auto simp: sample_manager_def)
qed

end
