(* ===== verification/ProfileModel.thy ===== *)
theory ProfileModel
  imports UserModel
begin

text \<open>
  \<open>internal/domain/profile/model.go\<close> and \<open>repository.go\<close>, and the sentinel errors of
  \<open>service.go\<close>: the profile entity, the payloads with their \<open>validate\<close> tags, the repository
  interface and the JSON view. A Go pointer field is an option. The map of a patch is an
  association list with distinct keys, \<open>None\<close> for a nil map.
\<close>

record profile =
  p_ID :: uuid
  p_UserID :: uuid
  p_FirstName :: string
  p_LastName :: string
  p_Bio :: "string option"
  p_ProfileImage :: "string option"
  p_CoverImage :: "string option"
  p_DateOfBirth :: "timestamp option"
  p_Phone :: "string option"
  p_Website :: "string option"
  p_Location :: "string option"
  p_CreatedAt :: timestamp
  p_UpdatedAt :: timestamp
  p_DeletedAt :: "timestamp option"
  p_Version :: int

record create_request =
  cr_FirstName :: string
  cr_LastName :: string
  cr_Bio :: "string option"
  cr_ProfileImage :: "string option"
  cr_CoverImage :: "string option"
  cr_DateOfBirth :: "string option"
  cr_Phone :: "string option"
  cr_Website :: "string option"
  cr_Location :: "string option"

record update_request =
  pu_Create :: create_request
  pu_Version :: int

record patch_request =
  pp_Fields :: "(string \<times> json) list option"
  pp_Version :: int

record profile_filter =
  pf_Search :: string
  pf_Limit :: int
  pf_Offset :: int
  pf_Cursor :: string
  pf_CursorTime :: "timestamp option"
  pf_UserID :: uuid

record bulk_create_request =
  bc_Profiles :: "create_request list"

record bulk_delete_request =
  bd_IDs :: "uuid list"
  bd_Hard :: bool
  bd_Reason :: string

definition create_fields :: "create_request \<Rightarrow> tagged_field list" where
  "create_fields r =
     [tagged ''FirstName'' (VString (cr_FirstName r)) [Required],
      tagged ''LastName'' (VString (cr_LastName r)) [Required],
      tagged ''Bio'' (VStringPtr (cr_Bio r)) [],
      tagged ''ProfileImage'' (VStringPtr (cr_ProfileImage r)) [OmitEmpty, Url],
      tagged ''CoverImage'' (VStringPtr (cr_CoverImage r)) [OmitEmpty, Url],
      tagged ''DateOfBirth'' (VStringPtr (cr_DateOfBirth r)) [OmitEmpty, DateTime ''2006-01-02''],
      tagged ''Phone'' (VStringPtr (cr_Phone r)) [],
      tagged ''Website'' (VStringPtr (cr_Website r)) [OmitEmpty, Url],
      tagged ''Location'' (VStringPtr (cr_Location r)) []]"

definition update_fields :: "update_request \<Rightarrow> tagged_field list" where
  "update_fields r =
     create_fields (pu_Create r) @ [tagged ''Version'' (VInt (pu_Version r)) [Gte 0]]"

definition patch_fields :: "patch_request \<Rightarrow> tagged_field list" where
  "patch_fields r =
     [tagged ''Fields'' (VMap (map_option length (pp_Fields r))) [Required],
      tagged ''Version'' (VInt (pp_Version r)) [Gte 0]]"

definition profile_json :: "profile \<Rightarrow> (string \<times> json) list" where
  "profile_json p =
     [(''id'', JUuid (p_ID p)), (''user_id'', JUuid (p_UserID p)),
      (''first_name'', JStr (p_FirstName p)), (''last_name'', JStr (p_LastName p))]
     @ omit_empty ''bio'' JStr (p_Bio p)
     @ omit_empty ''profile_image'' JStr (p_ProfileImage p)
     @ omit_empty ''cover_image'' JStr (p_CoverImage p)
     @ omit_empty ''date_of_birth'' JTime (p_DateOfBirth p)
     @ omit_empty ''phone'' JStr (p_Phone p)
     @ omit_empty ''website'' JStr (p_Website p)
     @ omit_empty ''location'' JStr (p_Location p)
     @ [(''created_at'', JTime (p_CreatedAt p)), (''updated_at'', JTime (p_UpdatedAt p))]
     @ omit_empty ''deleted_at'' JTime (p_DeletedAt p)
     @ [(''version'', JInt (p_Version p))]"

datatype profile_error =
    ErrNotFound
  | ErrProfileForbidden
  | ErrVersionConflict
  | ErrInvalidProfile "field_error list"
  | ErrProfile string

record 'w profile_repo =
  pr_Create :: "profile \<Rightarrow> 'w \<Rightarrow> profile_error option \<times> 'w"
  pr_BulkCreate :: "profile list \<Rightarrow> 'w \<Rightarrow> profile_error option \<times> 'w"
  pr_Update :: "profile \<Rightarrow> 'w \<Rightarrow> profile_error option \<times> 'w"
  pr_Patch :: "uuid \<Rightarrow> uuid \<Rightarrow> (string \<times> json) list \<Rightarrow> int \<Rightarrow> 'w \<Rightarrow> (profile_error + profile option) \<times> 'w"
  pr_Delete :: "uuid \<Rightarrow> uuid \<Rightarrow> bool \<Rightarrow> int \<Rightarrow> 'w \<Rightarrow> profile_error option \<times> 'w"
  pr_BulkDelete :: "uuid \<Rightarrow> uuid list \<Rightarrow> bool \<Rightarrow> 'w \<Rightarrow> (profile_error + int) \<times> 'w"
  pr_GetByID :: "uuid \<Rightarrow> uuid \<Rightarrow> 'w \<Rightarrow> (profile_error + profile option) \<times> 'w"
  pr_List :: "profile_filter \<Rightarrow> 'w \<Rightarrow> (profile_error + profile list \<times> int) \<times> 'w"

lemmas profile_request_fields = create_fields_def update_fields_def patch_fields_def

end
