(* ===== verification/Database.thy ===== *)
theory Database
  imports ProfileModel TokenManager "HOL-Library.Multiset"
begin

text \<open>
  The database as the repositories use it: the two tables of \<open>migrations/postgres/001_init.up.sql\<close>
  with their keys and constraints, and the statements the repositories send, each a function on
  the tables. The server is not part of the repository: a statement may fail with any message
  (\<open>db_faults\<close>), a failed one changes nothing, and what SQL leaves to the server or the driver
  (the case folding of \<open>LOWER\<close> and \<open>CITEXT\<close>, \<open>LIKE\<close>, the order of rows that tie, the wording of
  its errors, dates) is the record \<open>sql_lib\<close>. The schema is the Postgres one; an instant is
  stored as it is.
\<close>

section \<open>Tables\<close>

record user_row =
  ur_id :: uuid
  ur_email :: string
  ur_name :: string
  ur_password_hash :: string
  ur_profile_image :: "string option"
  ur_role :: string
  ur_refresh_version :: int
  ur_last_login_at :: "timestamp option"
  ur_password_reset_at :: "timestamp option"
  ur_last_password_hash :: "string option"
  ur_created_at :: timestamp
  ur_updated_at :: timestamp
  ur_deleted_at :: "timestamp option"

text \<open>Every column of \<open>profiles\<close> that may be NULL is a pointer in the entity, so a row is one.\<close>

record database = token_state +
  db_users :: "user_row list"
  db_profiles :: "profile list"
  db_faults :: "nat \<Rightarrow> string option"
  db_stmts :: nat

text \<open>A bound parameter of a column of \<open>profiles\<close> that \<open>Patch\<close> may set.\<close>

datatype column_value = CNull | CText string | CDate timestamp

record sql_lib =
  sl_lower :: "string \<Rightarrow> string"
  sl_like :: "string \<Rightarrow> string \<Rightarrow> bool"
  sl_order_users :: "string \<Rightarrow> user_row list \<Rightarrow> user_row list"
  sl_order_profiles :: "profile list \<Rightarrow> profile list"
  sl_bind :: "string \<Rightarrow> json \<Rightarrow> string + column_value"
  sl_duplicate_key :: string
  sl_foreign_key :: string
  sl_not_null :: string
  sl_no_rows :: string
  sl_out_of_range :: string
  sl_negative_limit :: string
  sl_null_scan :: string
  sl_unicode_lower :: "string \<Rightarrow> string"

text \<open>What \<open>ORDER BY\<close> promises: the same rows, in the order of the key.\<close>

definition documented_order :: "sql_lib \<Rightarrow> bool" where
  "documented_order sl \<longleftrightarrow>
     (\<forall>o_by rs. mset (sl_order_users sl o_by rs) = mset rs)
     \<and> (\<forall>rs. mset (sl_order_profiles sl rs) = mset rs
          \<and> sorted_wrt (\<lambda>p q. p_CreatedAt q \<le> p_CreatedAt p) (sl_order_profiles sl rs))"

text \<open>The server reports a violated unique index in the words \<open>isDuplicate\<close> looks for.\<close>

definition documented_duplicate :: "sql_lib \<Rightarrow> bool" where
  "documented_duplicate sl \<longleftrightarrow>
     contains (to_lower (sl_unicode_lower sl) (sl_duplicate_key sl)) ''duplicate''
     \<or> contains (to_lower (sl_unicode_lower sl) (sl_duplicate_key sl)) ''unique''"

section \<open>Statements\<close>

definition stmt :: "'a database_scheme \<Rightarrow> string option \<times> 'a database_scheme" where
  "stmt w = (db_faults w (db_stmts w), w\<lparr>db_stmts := Suc (db_stmts w)\<rparr>)"

text \<open>A query answers with a message or a value; a write with a message or the rows it affected.\<close>

definition query ::
  "('a database_scheme \<Rightarrow> string + 'r) \<Rightarrow> 'a database_scheme \<Rightarrow> (string + 'r) \<times> 'a database_scheme" where
  "query f w =
     (case stmt w of (Some m, w1) \<Rightarrow> (Inl m, w1) | (None, w1) \<Rightarrow> (f w1, w1))"

definition exec_users ::
  "(user_row list \<Rightarrow> string + user_row list \<times> nat) \<Rightarrow> 'a database_scheme \<Rightarrow>
     (string + nat) \<times> 'a database_scheme" where
  "exec_users f w =
     (case stmt w of
        (Some m, w1) \<Rightarrow> (Inl m, w1)
      | (None, w1) \<Rightarrow>
          (case f (db_users w1) of
             Inl m \<Rightarrow> (Inl m, w1)
           | Inr (rs, n) \<Rightarrow> (Inr n, w1\<lparr>db_users := rs\<rparr>)))"

definition exec_profiles ::
  "(profile list \<Rightarrow> string + profile list \<times> nat) \<Rightarrow> 'a database_scheme \<Rightarrow>
     (string + nat) \<times> 'a database_scheme" where
  "exec_profiles f w =
     (case stmt w of
        (Some m, w1) \<Rightarrow> (Inl m, w1)
      | (None, w1) \<Rightarrow>
          (case f (db_profiles w1) of
             Inl m \<Rightarrow> (Inl m, w1)
           | Inr (ps, n) \<Rightarrow> (Inr n, w1\<lparr>db_profiles := ps\<rparr>)))"

text \<open>The column type \<open>INT\<close>: the server refuses a value, and the driver a parameter, beyond 32 bits.\<close>

definition int4 :: "int \<Rightarrow> bool" where
  "int4 n \<longleftrightarrow> - (2 ^ 31) \<le> n \<and> n < 2 ^ 31"

text \<open>\<open>UPDATE ... SET f WHERE P\<close> and \<open>DELETE ... WHERE P\<close>.\<close>

definition sql_update :: "('r \<Rightarrow> bool) \<Rightarrow> ('r \<Rightarrow> 'r) \<Rightarrow> 'r list \<Rightarrow> string + 'r list \<times> nat" where
  "sql_update P f rs = Inr (update_where P f rs, count_where P rs)"

definition sql_delete :: "('r \<Rightarrow> bool) \<Rightarrow> 'r list \<Rightarrow> string + 'r list \<times> nat" where
  "sql_delete P rs = Inr (filter (\<lambda>r. \<not> P r) rs, count_where P rs)"

text \<open>\<open>LIMIT ? OFFSET ?\<close>\<close>

definition sql_page :: "sql_lib \<Rightarrow> int \<Rightarrow> int \<Rightarrow> 'r list \<Rightarrow> string + 'r list" where
  "sql_page sl limit offset rs =
     (if limit < 0 \<or> offset < 0 then Inl (sl_negative_limit sl)
      else Inr (take (nat limit) (drop (nat offset) rs)))"

text \<open>\<open>LOWER(x) LIKE LOWER(?)\<close> with the parameter \<open>"%" + term + "%"\<close>.\<close>

definition like_term :: "sql_lib \<Rightarrow> string \<Rightarrow> string \<Rightarrow> bool" where
  "like_term sl x pat = sl_like sl (sl_lower sl (''%'' @ pat @ ''%'')) (sl_lower sl x)"

lemma stmt_frame [simp]:
  "db_users (snd (stmt w)) = db_users w" "db_profiles (snd (stmt w)) = db_profiles w"
  "uuid_source (snd (stmt w)) = uuid_source w" "uuids_drawn (snd (stmt w)) = uuids_drawn w"
  "clock (snd (stmt w)) = clock w" "clock_reads (snd (stmt w)) = clock_reads w"
  by (simp_all add: stmt_def)

lemmas sql_defs = query_def exec_users_def exec_profiles_def sql_update_def sql_delete_def stmt_def

end
