(* ===== verification/ProfileStore.thy ===== *)
theory ProfileStore
  imports Database
begin

text \<open>
  \<open>internal/infrastructure/db/profile_repository.go\<close>: the repository of profiles over the
  database. \<open>UPDATE\<close> looks at the id and the owner only; \<open>Patch\<close> and \<open>Delete\<close> also at the version.
  \<open>BulkCreate\<close> runs in a transaction: what its inserts did is undone when one of them or the commit
  fails.
\<close>

section \<open>Inserting\<close>

definition insert_profile ::
  "sql_lib \<Rightarrow> user_row list \<Rightarrow> profile \<Rightarrow> profile list \<Rightarrow> string + profile list \<times> nat" where
  "insert_profile sl us p ps =
     (if \<not> int4 (p_Version p) then Inl (sl_out_of_range sl)
      else if \<exists>q \<in> set ps. p_ID q = p_ID p then Inl (sl_duplicate_key sl)
      else if \<forall>u \<in> set us. ur_id u \<noteq> p_UserID p then Inl (sl_foreign_key sl)
      else Inr (ps @ [p\<lparr>p_DeletedAt := None\<rparr>], 1))"

definition CreateProfile ::
  "sql_lib \<Rightarrow> profile \<Rightarrow> 'a database_scheme \<Rightarrow> profile_error option \<times> 'a database_scheme" where
  "CreateProfile sl p w =
     (case exec_profiles (insert_profile sl (db_users w) p) w of
        (Inl m, w1) \<Rightarrow> (Some (ErrProfile m), w1)
      | (Inr _, w1) \<Rightarrow> (None, w1))"

fun insert_all ::
  "sql_lib \<Rightarrow> profile list \<Rightarrow> 'a database_scheme \<Rightarrow> profile_error option \<times> 'a database_scheme" where
  "insert_all sl [] w = (None, w)"
| "insert_all sl (p # ps) w =
     (case CreateProfile sl p w of
        (Some e, w1) \<Rightarrow> (Some e, w1)
      | (None, w1) \<Rightarrow> insert_all sl ps w1)"

definition BulkCreateProfiles ::
  "sql_lib \<Rightarrow> profile list \<Rightarrow> 'a database_scheme \<Rightarrow> profile_error option \<times> 'a database_scheme" where
  "BulkCreateProfiles sl ps w =
     (if ps = [] then (None, w)
      else case stmt w of
             (Some m, w1) \<Rightarrow> (Some (ErrProfile m), w1)
           | (None, w1) \<Rightarrow>
               (case insert_all sl ps w1 of
                  (Some e, w2) \<Rightarrow> (Some e, w2\<lparr>db_profiles := db_profiles w1\<rparr>)
                | (None, w2) \<Rightarrow>
                    (case stmt w2 of
                       (Some m, w3) \<Rightarrow> (Some (ErrProfile m), w3\<lparr>db_profiles := db_profiles w1\<rparr>)
                     | (None, w3) \<Rightarrow> (None, w3))))"

section \<open>Updating\<close>

definition set_profile_row :: "profile \<Rightarrow> profile \<Rightarrow> profile" where
  "set_profile_row p r =
     r\<lparr>p_FirstName := p_FirstName p, p_LastName := p_LastName p, p_Bio := p_Bio p,
       p_ProfileImage := p_ProfileImage p, p_CoverImage := p_CoverImage p,
       p_DateOfBirth := p_DateOfBirth p, p_Phone := p_Phone p, p_Website := p_Website p,
       p_Location := p_Location p, p_UpdatedAt := p_UpdatedAt p, p_Version := p_Version p\<rparr>"

definition UpdateProfile ::
  "sql_lib \<Rightarrow> profile \<Rightarrow> 'a database_scheme \<Rightarrow> profile_error option \<times> 'a database_scheme" where
  "UpdateProfile sl p w =
     (case exec_profiles (\<lambda>ps. if \<not> int4 (p_Version p) then Inl (sl_out_of_range sl)
             else sql_update (\<lambda>r. p_ID r = p_ID p \<and> p_UserID r = p_UserID p) (set_profile_row p) ps) w of
        (Inl m, w1) \<Rightarrow> (Some (ErrProfile m), w1)
      | (Inr affected, w1) \<Rightarrow>
          if affected = 0 then (Some ErrNotFound, w1) else (None, w1))"

text \<open>
  The columns a patch sets, one after the other; the service lets no other column through. NULL
  is refused by the two columns that are \<open>NOT NULL\<close>, when there is a row to set.
\<close>

definition set_column :: "string \<times> column_value \<Rightarrow> profile \<Rightarrow> profile" where
  "set_column cv p =
     (case cv of (c, v) \<Rightarrow>
        let t = (case v of CText s \<Rightarrow> Some s | _ \<Rightarrow> None)
        in if c = ''first_name'' then p\<lparr>p_FirstName := (case t of None \<Rightarrow> p_FirstName p | Some s \<Rightarrow> s)\<rparr>
           else if c = ''last_name'' then p\<lparr>p_LastName := (case t of None \<Rightarrow> p_LastName p | Some s \<Rightarrow> s)\<rparr>
           else if c = ''bio'' then p\<lparr>p_Bio := t\<rparr>
           else if c = ''profile_image'' then p\<lparr>p_ProfileImage := t\<rparr>
           else if c = ''cover_image'' then p\<lparr>p_CoverImage := t\<rparr>
           else if c = ''date_of_birth''
           then p\<lparr>p_DateOfBirth := (case v of CDate d \<Rightarrow> Some d | _ \<Rightarrow> None)\<rparr>
           else if c = ''phone'' then p\<lparr>p_Phone := t\<rparr>
           else if c = ''website'' then p\<lparr>p_Website := t\<rparr>
           else if c = ''location'' then p\<lparr>p_Location := t\<rparr>
           else p)"

fun bind_fields :: "sql_lib \<Rightarrow> (string \<times> json) list \<Rightarrow> string + (string \<times> column_value) list" where
  "bind_fields sl [] = Inr []"
| "bind_fields sl ((c, v) # fs) =
     (case sl_bind sl c v of
        Inl m \<Rightarrow> Inl m
      | Inr x \<Rightarrow> (case bind_fields sl fs of Inl m \<Rightarrow> Inl m | Inr xs \<Rightarrow> Inr ((c, x) # xs)))"

definition nulls_required :: "(string \<times> column_value) list \<Rightarrow> bool" where
  "nulls_required cs \<longleftrightarrow> (\<exists>c \<in> {''first_name'', ''last_name''}. (c, CNull) \<in> set cs)"

definition patch_rows ::
  "sql_lib \<Rightarrow> uuid \<Rightarrow> uuid \<Rightarrow> (string \<times> json) list \<Rightarrow> int \<Rightarrow> timestamp \<Rightarrow> profile list \<Rightarrow>
     string + profile list \<times> nat" where
  "patch_rows sl i owner fs version now ps =
     (case bind_fields sl fs of
        Inl m \<Rightarrow> Inl m
      | Inr cs \<Rightarrow>
          let P = (\<lambda>p. p_ID p = i \<and> p_UserID p = owner \<and> p_Version p = version)
          in if \<not> int4 version \<or> 0 < count_where P ps \<and> \<not> int4 (version + 1)
             then Inl (sl_out_of_range sl)
             else if 0 < count_where P ps \<and> nulls_required cs then Inl (sl_not_null sl)
             else sql_update P
                    (\<lambda>p. (fold set_column cs p)\<lparr>p_UpdatedAt := now, p_Version := p_Version p + 1\<rparr>) ps)"

definition fetchByID ::
  "sql_lib \<Rightarrow> uuid \<Rightarrow> 'a database_scheme \<Rightarrow> (profile_error + profile option) \<times> 'a database_scheme" where
  "fetchByID sl i w =
     (case query (\<lambda>v. case filter (\<lambda>p. p_ID p = i) (db_profiles v) of
                        [] \<Rightarrow> Inl (sl_no_rows sl) | p # _ \<Rightarrow> Inr p) w of
        (Inl m, w1) \<Rightarrow> (Inl (ErrProfile m), w1)
      | (Inr p, w1) \<Rightarrow> (Inr (Some p), w1))"

definition PatchProfile ::
  "sql_lib \<Rightarrow> uuid \<Rightarrow> uuid \<Rightarrow> (string \<times> json) list \<Rightarrow> int \<Rightarrow> 'a database_scheme \<Rightarrow>
     (profile_error + profile option) \<times> 'a database_scheme" where
  "PatchProfile sl i owner fs version w =
     (case time_now w of (now, w1) \<Rightarrow>
      (case exec_profiles (patch_rows sl i owner fs version now) w1 of
         (Inl m, w2) \<Rightarrow> (Inl (ErrProfile m), w2)
       | (Inr rows, w2) \<Rightarrow>
           if rows = 0 then (Inl ErrVersionConflict, w2) else fetchByID sl i w2))"

section \<open>Deleting\<close>

definition DeleteProfile ::
  "sql_lib \<Rightarrow> uuid \<Rightarrow> uuid \<Rightarrow> bool \<Rightarrow> int \<Rightarrow> 'a database_scheme \<Rightarrow>
     profile_error option \<times> 'a database_scheme" where
  "DeleteProfile sl i owner hard version w =
     (let P = (\<lambda>p. p_ID p = i \<and> p_UserID p = owner \<and> p_Version p = version)
      in if hard
         then (case exec_profiles (\<lambda>ps. if \<not> int4 version then Inl (sl_out_of_range sl)
                     else sql_delete P ps) w of
                 (Inl m, w1) \<Rightarrow> (Some (ErrProfile m), w1)
               | (Inr n, w1) \<Rightarrow> if n = 0 then (Some ErrNotFound, w1) else (None, w1))
         else (case time_now w of (now, w1) \<Rightarrow>
               (case exec_profiles (\<lambda>ps.
                       if \<not> int4 version \<or> 0 < count_where P ps \<and> \<not> int4 (version + 1)
                       then Inl (sl_out_of_range sl)
                       else sql_update P
                         (\<lambda>p. p\<lparr>p_DeletedAt := Some now, p_Version := p_Version p + 1\<rparr>) ps) w1 of
                  (Inl m, w2) \<Rightarrow> (Some (ErrProfile m), w2)
                | (Inr n, w2) \<Rightarrow>
                    if n = 0 then (Some ErrVersionConflict, w2) else (None, w2))))"

definition BulkDeleteProfiles ::
  "sql_lib \<Rightarrow> uuid \<Rightarrow> uuid list \<Rightarrow> bool \<Rightarrow> 'a database_scheme \<Rightarrow>
     (profile_error + int) \<times> 'a database_scheme" where
  "BulkDeleteProfiles sl owner ids hard w =
     (if ids = [] then (Inr 0, w)
      else
        let P = (\<lambda>p. p_UserID p = owner \<and> p_ID p \<in> set ids)
        in case (if hard then exec_profiles (sql_delete P) w
                 else case time_now w of (now, w1) \<Rightarrow>
                        exec_profiles (sql_update P (\<lambda>p. p\<lparr>p_DeletedAt := Some now\<rparr>)) w1) of
             (Inl m, w2) \<Rightarrow> (Inl (ErrProfile m), w2)
           | (Inr n, w2) \<Rightarrow> (Inr (int n), w2))"

section \<open>Reading\<close>

definition visible :: "profile \<Rightarrow> bool" where
  "visible p \<longleftrightarrow> p_DeletedAt p = None"

definition GetProfileByID ::
  "sql_lib \<Rightarrow> uuid \<Rightarrow> uuid \<Rightarrow> 'a database_scheme \<Rightarrow>
     (profile_error + profile option) \<times> 'a database_scheme" where
  "GetProfileByID sl i owner w =
     (case query (\<lambda>v. Inr (filter (\<lambda>p. p_ID p = i \<and> p_UserID p = owner \<and> visible p) (db_profiles v))) w of
        (Inl m, w1) \<Rightarrow> (Inl (ErrProfile m), w1)
      | (Inr [], w1) \<Rightarrow> (Inl ErrNotFound, w1)
      | (Inr (p # _), w1) \<Rightarrow> (Inr (Some p), w1))"

definition profile_matches :: "sql_lib \<Rightarrow> profile_filter \<Rightarrow> profile \<Rightarrow> bool" where
  "profile_matches sl flt p \<longleftrightarrow>
     p_UserID p = pf_UserID flt \<and> visible p
     \<and> (pf_Search flt \<noteq> [] \<longrightarrow>
          like_term sl (p_FirstName p) (pf_Search flt) \<or> like_term sl (p_LastName p) (pf_Search flt))
     \<and> (case pf_CursorTime flt of None \<Rightarrow> True | Some t \<Rightarrow> p_CreatedAt p < t)"

definition ListProfileRows ::
  "sql_lib \<Rightarrow> profile_filter \<Rightarrow> 'a database_scheme \<Rightarrow>
     (profile_error + profile list \<times> int) \<times> 'a database_scheme" where
  "ListProfileRows sl flt w =
     (case query (\<lambda>v. sql_page sl (pf_Limit flt) (pf_Offset flt)
               (sl_order_profiles sl (filter (profile_matches sl flt) (db_profiles v)))) w of
        (Inl m, w1) \<Rightarrow> (Inl (ErrProfile m), w1)
      | (Inr ps, w1) \<Rightarrow>
          (case query (\<lambda>v. Inr (count_where (profile_matches sl flt) (db_profiles v))) w1 of
             (Inl m, w2) \<Rightarrow> (Inl (ErrProfile m), w2)
           | (Inr n, w2) \<Rightarrow> (Inr (ps, int n), w2)))"

definition NewProfileRepository :: "sql_lib \<Rightarrow> 'a database_scheme profile_repo" where
  "NewProfileRepository sl =
     \<lparr>pr_Create = CreateProfile sl, pr_BulkCreate = BulkCreateProfiles sl,
      pr_Update = UpdateProfile sl, pr_Patch = PatchProfile sl, pr_Delete = DeleteProfile sl,
      pr_BulkDelete = BulkDeleteProfiles sl, pr_GetByID = GetProfileByID sl,
      pr_List = ListProfileRows sl\<rparr>"

end
