(* ===== verification/ProfileService.thy ===== *)
theory ProfileService
  imports ProfileModel
begin

text \<open>
  \<open>internal/domain/profile/service.go\<close>: the service of profiles over the repository interface. The
  sanitizer, the validator and \<open>time.Parse\<close> with the layout \<open>2006-01-02\<close> are the service's
  library. \<open>BulkCreate\<close> returns a profile or an error for every payload and does not look at what the
  repository answers.
\<close>

record profile_lib =
  pl_sanitize :: "string \<Rightarrow> string"
  pl_validate :: validator
  pl_parse_day :: "string \<Rightarrow> timestamp option"

record 'w profile_service =
  ps_repo :: "'w profile_repo"
  ps_lib :: profile_lib

definition NewProfileService :: "'w profile_repo \<Rightarrow> profile_lib \<Rightarrow> 'w profile_service" where
  "NewProfileService repo lib = \<lparr>ps_repo = repo, ps_lib = lib\<rparr>"

definition sanitizeField :: "profile_lib \<Rightarrow> string \<Rightarrow> string" where
  "sanitizeField lib val = trim_space (pl_sanitize lib val)"

text \<open>A pointer that is given replaces the field; the three free texts are cleaned first.\<close>

definition given :: "('a \<Rightarrow> 'b) \<Rightarrow> 'a option \<Rightarrow> 'b option \<Rightarrow> 'b option" where
  "given f new old = (case new of None \<Rightarrow> old | Some x \<Rightarrow> Some (f x))"

definition assignOptionalFields ::
  "profile_lib \<Rightarrow> profile \<Rightarrow> create_request \<Rightarrow> profile_error option \<times> profile" where
  "assignOptionalFields lib p req =
     (let p1 = p\<lparr>p_Bio := given (sanitizeField lib) (cr_Bio req) (p_Bio p),
                p_ProfileImage := given (\<lambda>s. s) (cr_ProfileImage req) (p_ProfileImage p),
                p_CoverImage := given (\<lambda>s. s) (cr_CoverImage req) (p_CoverImage p),
                p_Phone := given (sanitizeField lib) (cr_Phone req) (p_Phone p),
                p_Website := given (\<lambda>s. s) (cr_Website req) (p_Website p),
                p_Location := given (sanitizeField lib) (cr_Location req) (p_Location p)\<rparr>
      in case cr_DateOfBirth req of
           None \<Rightarrow> (None, p1)
         | Some d \<Rightarrow>
             if d = [] then (None, p1)
             else (case pl_parse_day lib d of
                     None \<Rightarrow> (Some (ErrProfile ''invalid date_of_birth''), p1)
                   | Some t \<Rightarrow> (None, p1\<lparr>p_DateOfBirth := Some t\<rparr>)))"

definition new_profile ::
  "profile_lib \<Rightarrow> uuid \<Rightarrow> create_request \<Rightarrow> timestamp \<Rightarrow> uuid \<Rightarrow> profile" where
  "new_profile lib owner req now i =
     \<lparr>p_ID = i, p_UserID = owner, p_FirstName = sanitizeField lib (cr_FirstName req),
      p_LastName = sanitizeField lib (cr_LastName req), p_Bio = None, p_ProfileImage = None,
      p_CoverImage = None, p_DateOfBirth = None, p_Phone = None, p_Website = None,
      p_Location = None, p_CreatedAt = now, p_UpdatedAt = now, p_DeletedAt = None,
      p_Version = 1\<rparr>"

definition Create ::
  "'a runtime_scheme profile_service \<Rightarrow> uuid \<Rightarrow> create_request \<Rightarrow> 'a runtime_scheme \<Rightarrow>
     (profile_error + profile) \<times> 'a runtime_scheme" where
  "Create s owner req w =
     (case pl_validate (ps_lib s) (create_fields req) of
        Some es \<Rightarrow> (Inl (ErrInvalidProfile es), w)
      | None \<Rightarrow>
          (case time_now w of (now, w1) \<Rightarrow>
           (case uuid_new w1 of (i, w2) \<Rightarrow>
            (case assignOptionalFields (ps_lib s) (new_profile (ps_lib s) owner req now i) req of
               (Some e, _) \<Rightarrow> (Inl e, w2)
             | (None, p) \<Rightarrow>
                 (case pr_Create (ps_repo s) p w2 of
                    (Some e, w3) \<Rightarrow> (Inl e, w3)
                  | (None, w3) \<Rightarrow> (Inr p, w3))))))"

text \<open>The loop of \<open>BulkCreate\<close>: for each payload its error, and the profiles that have none.\<close>

fun bulk_payloads ::
  "profile_lib \<Rightarrow> uuid \<Rightarrow> create_request list \<Rightarrow> 'a runtime_scheme \<Rightarrow>
     (profile list \<times> profile_error option list) \<times> 'a runtime_scheme" where
  "bulk_payloads lib owner [] w = (([], []), w)"
| "bulk_payloads lib owner (req # reqs) w =
     (case pl_validate lib (create_fields req) of
        Some es \<Rightarrow>
          (case bulk_payloads lib owner reqs w of
             ((ps, errs), w1) \<Rightarrow> ((ps, Some (ErrInvalidProfile es) # errs), w1))
      | None \<Rightarrow>
          (case time_now w of (now, w1) \<Rightarrow>
           (case uuid_new w1 of (i, w2) \<Rightarrow>
            (case assignOptionalFields lib (new_profile lib owner req now i) req of
               (Some e, _) \<Rightarrow>
                 (case bulk_payloads lib owner reqs w2 of
                    ((ps, errs), w3) \<Rightarrow> ((ps, Some e # errs), w3))
             | (None, p) \<Rightarrow>
                 (case bulk_payloads lib owner reqs w2 of
                    ((ps, errs), w3) \<Rightarrow> ((p # ps, None # errs), w3))))))"

definition BulkCreate ::
  "'a runtime_scheme profile_service \<Rightarrow> uuid \<Rightarrow> bulk_create_request \<Rightarrow> 'a runtime_scheme \<Rightarrow>
     (profile list \<times> profile_error option list) \<times> 'a runtime_scheme" where
  "BulkCreate s owner req w =
     (case bulk_payloads (ps_lib s) owner (bc_Profiles req) w of
        ((ps, errs), w1) \<Rightarrow>
          if ps \<noteq> [] then (case pr_BulkCreate (ps_repo s) ps w1 of (_, w2) \<Rightarrow> ((ps, errs), w2))
          else ((ps, errs), w1))"

definition Get ::
  "'w profile_service \<Rightarrow> uuid \<Rightarrow> uuid \<Rightarrow> 'w \<Rightarrow> (profile_error + profile) \<times> 'w" where
  "Get s i owner w =
     (case pr_GetByID (ps_repo s) i owner w of
        (Inl e, w1) \<Rightarrow> (Inl e, w1)
      | (Inr None, w1) \<Rightarrow> (Inl ErrNotFound, w1)
      | (Inr (Some p), w1) \<Rightarrow> (Inr p, w1))"

definition ListProfiles ::
  "'w profile_service \<Rightarrow> profile_filter \<Rightarrow> 'w \<Rightarrow> (profile_error + profile list \<times> int) \<times> 'w" where
  "ListProfiles s flt w = pr_List (ps_repo s) flt w"

definition Update ::
  "'a runtime_scheme profile_service \<Rightarrow> uuid \<Rightarrow> uuid \<Rightarrow> update_request \<Rightarrow> 'a runtime_scheme \<Rightarrow>
     (profile_error + profile) \<times> 'a runtime_scheme" where
  "Update s i owner req w =
     (case pl_validate (ps_lib s) (update_fields req) of
        Some es \<Rightarrow> (Inl (ErrInvalidProfile es), w)
      | None \<Rightarrow>
          (case pr_GetByID (ps_repo s) i owner w of
             (Inl e, w1) \<Rightarrow> (Inl e, w1)
           | (Inr None, w1) \<Rightarrow> (Inl ErrNotFound, w1)
           | (Inr (Some p), w1) \<Rightarrow>
               if p_Version p \<noteq> pu_Version req then (Inl ErrVersionConflict, w1)
               else
                 let p1 = p\<lparr>p_FirstName := sanitizeField (ps_lib s) (cr_FirstName (pu_Create req)),
                            p_LastName := sanitizeField (ps_lib s) (cr_LastName (pu_Create req))\<rparr>
                 in case assignOptionalFields (ps_lib s) p1 (pu_Create req) of
                      (Some e, _) \<Rightarrow> (Inl e, w1)
                    | (None, p2) \<Rightarrow>
                        (case time_now w1 of (now, w2) \<Rightarrow>
                           let p3 = p2\<lparr>p_Version := wrap64 (p_Version p2 + 1), p_UpdatedAt := now\<rparr>
                           in case pr_Update (ps_repo s) p3 w2 of
                                (Some e, w3) \<Rightarrow> (Inl e, w3)
                              | (None, w3) \<Rightarrow> (Inr p3, w3))))"

definition allowed_columns :: "string list" where
  "allowed_columns =
     [''first_name'', ''last_name'', ''bio'', ''profile_image'', ''cover_image'',
      ''date_of_birth'', ''phone'', ''website'', ''location'']"

fun patch_update :: "profile_lib \<Rightarrow> (string \<times> json) list \<Rightarrow> (string \<times> json) list" where
  "patch_update lib [] = []"
| "patch_update lib ((k, v) # fs) =
     (if k \<notin> set allowed_columns then patch_update lib fs
      else (case v of JStr s \<Rightarrow> (k, JStr (sanitizeField lib s)) | _ \<Rightarrow> (k, v)) # patch_update lib fs)"

definition Patch ::
  "'w profile_service \<Rightarrow> uuid \<Rightarrow> uuid \<Rightarrow> patch_request \<Rightarrow> 'w \<Rightarrow>
     (profile_error + profile option) \<times> 'w" where
  "Patch s i owner req w =
     (case pl_validate (ps_lib s) (patch_fields req) of
        Some es \<Rightarrow> (Inl (ErrInvalidProfile es), w)
      | None \<Rightarrow>
          let upd = patch_update (ps_lib s) (case pp_Fields req of None \<Rightarrow> [] | Some fs \<Rightarrow> fs)
          in if upd = [] then (Inl (ErrProfile ''no valid fields to update''), w)
             else (case pr_Patch (ps_repo s) i owner upd (pp_Version req) w of
                     (Inl e, w1) \<Rightarrow> (Inl e, w1)
                   | (Inr p, w1) \<Rightarrow> (Inr p, w1)))"

definition Delete ::
  "'w profile_service \<Rightarrow> uuid \<Rightarrow> uuid \<Rightarrow> bool \<Rightarrow> int \<Rightarrow> 'w \<Rightarrow> profile_error option \<times> 'w" where
  "Delete s i owner hard version w =
     (case pr_GetByID (ps_repo s) i owner w of
        (Inl e, w1) \<Rightarrow> (Some e, w1)
      | (Inr None, w1) \<Rightarrow> (Some ErrNotFound, w1)
      | (Inr (Some p), w1) \<Rightarrow>
          if p_Version p \<noteq> version then (Some ErrVersionConflict, w1)
          else pr_Delete (ps_repo s) i owner hard version w1)"

definition BulkDelete ::
  "'w profile_service \<Rightarrow> uuid \<Rightarrow> bulk_delete_request \<Rightarrow> 'w \<Rightarrow> (profile_error + int) \<times> 'w" where
  "BulkDelete s owner req w =
     (if bd_IDs req = [] then (Inl (ErrProfile ''ids required''), w)
      else pr_BulkDelete (ps_repo s) owner (bd_IDs req) (bd_Hard req) w)"

end
