(* ===== verification/ProfileContract.thy ===== *)
theory ProfileContract
  imports ProfileService
begin

text \<open>
  The contract between the profile service and its repository, and the service's behaviour
  proved once against it. \<open>store w i\<close> is the profile with id \<open>i\<close>, deleted or not. What the
  contract says of a write is what the callers rely on: it touches profiles of the owner it is
  given only, a checked one only at the version it is given, and a failed one nothing.
\<close>

section \<open>The contract\<close>

text \<open>A profile keeps its id, its owner and its creation time for life.\<close>

definition same_profile :: "profile \<Rightarrow> profile \<Rightarrow> bool" where
  "same_profile p q \<longleftrightarrow> p_ID p = p_ID q \<and> p_UserID p = p_UserID q \<and> p_CreatedAt p = p_CreatedAt q"

lemma same_profile_refl [simp]: "same_profile p p"
  by (simp add: same_profile_def)

text \<open>One step of the store at \<open>i\<close>: nothing, or the owner's profile \<open>q\<close> becomes \<open>q'\<close>.\<close>

definition owner_step ::
  "uuid \<Rightarrow> uuid \<Rightarrow> (profile \<Rightarrow> bool) \<Rightarrow> (profile \<Rightarrow> profile option \<Rightarrow> bool) \<Rightarrow>
     (uuid \<Rightarrow> profile option) \<Rightarrow> (uuid \<Rightarrow> profile option) \<Rightarrow> bool" where
  "owner_step i owner guard R st st' \<longleftrightarrow>
     (\<exists>q q'. st i = Some q \<and> p_UserID q = owner \<and> guard q \<and> R q q' \<and> st' = st(i := q'))"

locale profile_repository =
  fixes repo :: "'a runtime_scheme profile_repo"
    and store :: "'a runtime_scheme \<Rightarrow> uuid \<Rightarrow> profile option"
    and inv :: "'a runtime_scheme \<Rightarrow> bool"
  assumes draws_law: "store (tick w) = store w \<and> store (draw w) = store w
      \<and> (inv w \<longrightarrow> inv (tick w) \<and> inv (draw w))"
    and version_law: "inv w \<Longrightarrow> store w i = Some q \<Longrightarrow> wrap64 (p_Version q + 1) = p_Version q + 1"
    and id_law: "inv w \<Longrightarrow> store w i = Some q \<Longrightarrow> p_ID q = i"
    and create_law: "inv w \<Longrightarrow> p_DeletedAt p = None \<Longrightarrow> pr_Create repo p w = (e, w') \<Longrightarrow>
      inv w' \<and> (if e = None then store w (p_ID p) = None \<and> store w' = (store w)(p_ID p \<mapsto> p)
                else store w' = store w)"
    and bulk_law: "inv w \<Longrightarrow> \<forall>p \<in> set ps. p_DeletedAt p = None \<Longrightarrow> pr_BulkCreate repo ps w = (e, w') \<Longrightarrow>
      inv w' \<and> (if e = None
        then (\<forall>p \<in> set ps. store w (p_ID p) = None) \<and> store w' = store w ++ map_of (map (\<lambda>p. (p_ID p, p)) ps)
        else store w' = store w)"
    and update_law: "inv w \<Longrightarrow> pr_Update repo p w = (e, w') \<Longrightarrow>
      inv w' \<and> (if e = None
        then owner_step (p_ID p) (p_UserID p) (\<lambda>_. True)
          (\<lambda>q q'. q' = Some (p\<lparr>p_CreatedAt := p_CreatedAt q, p_DeletedAt := p_DeletedAt q\<rparr>)) (store w) (store w')
        else store w' = store w)"
    and patch_law: "inv w \<Longrightarrow> pr_Patch repo i owner fs v w = (r, w') \<Longrightarrow>
      inv w' \<and> (store w' = store w \<and> (\<exists>e. r = Inl e)
        \<or> owner_step i owner (\<lambda>q. p_Version q = v)
            (\<lambda>q q'. \<exists>p. q' = Some p \<and> same_profile p q \<and> p_Version p = v + 1 \<and> p_DeletedAt p = p_DeletedAt q
              \<and> (\<forall>x. r = Inr x \<longrightarrow> x = q'))
            (store w) (store w'))"
    and delete_law: "inv w \<Longrightarrow> pr_Delete repo i owner hard v w = (e, w') \<Longrightarrow>
      inv w' \<and> (if e = None
        then owner_step i owner (\<lambda>q. p_Version q = v)
          (\<lambda>q q'. if hard then q' = None
                  else \<exists>t. q' = Some (q\<lparr>p_DeletedAt := Some t, p_Version := v + 1\<rparr>)) (store w) (store w')
        else store w' = store w)"
    and bulk_delete_law: "inv w \<Longrightarrow> pr_BulkDelete repo owner ids hard w = (d, w') \<Longrightarrow>
      inv w' \<and> (store w' = store w \<or> (\<exists>t. store w' = (\<lambda>i. case store w i of None \<Rightarrow> None | Some q \<Rightarrow>
        if p_UserID q = owner \<and> i \<in> set ids
        then (if hard then None else Some (q\<lparr>p_DeletedAt := Some t\<rparr>)) else Some q)))"
    and get_law: "inv w \<Longrightarrow> pr_GetByID repo i owner w = (g, w') \<Longrightarrow>
      inv w' \<and> store w' = store w \<and> g \<noteq> Inr None
      \<and> (\<forall>p. g = Inr (Some p) \<longrightarrow> store w i = Some p \<and> p_ID p = i \<and> p_UserID p = owner \<and> p_DeletedAt p = None)"
    and list_law: "inv w \<Longrightarrow> pr_List repo flt w = (l, w') \<Longrightarrow>
      inv w' \<and> store w' = store w"
begin

lemma draws_keep [simp]:
  "store (tick w) = store w" "store (draw w) = store w"
  "inv w \<Longrightarrow> inv (tick w)" "inv w \<Longrightarrow> inv (draw w)"
  using draws_law by blast+

end

section \<open>The service against the contract\<close>

text \<open>What a profile that stays in the store becomes: no version is lost and no deletion undone.\<close>

definition successor :: "profile \<Rightarrow> profile \<Rightarrow> bool" where
  "successor q p \<longleftrightarrow> same_profile p q \<and> p_Version q \<le> p_Version p
     \<and> (p_DeletedAt q \<noteq> None \<longrightarrow> p_DeletedAt p \<noteq> None)"

lemma successor_refl [simp]: "successor q q"
  by (simp add: successor_def)

lemma successor_trans: "successor q r \<Longrightarrow> successor r p \<Longrightarrow> successor q p"
  by (auto simp: successor_def same_profile_def)

text \<open>
  What no call of an owner does to the store: a profile of someone else stays exactly as it is,
  and a profile that stays is a successor of what it was.
\<close>

definition owner_effect :: "uuid \<Rightarrow> (uuid \<Rightarrow> profile option) \<Rightarrow> (uuid \<Rightarrow> profile option) \<Rightarrow> bool" where
  "owner_effect owner st st' \<longleftrightarrow>
     (\<forall>i q. st i = Some q \<longrightarrow> p_UserID q \<noteq> owner \<longrightarrow> st' i = Some q)
     \<and> (\<forall>i q. st' i = Some q \<longrightarrow> p_UserID q \<noteq> owner \<longrightarrow> st i = Some q)
     \<and> (\<forall>i q p. st i = Some q \<longrightarrow> st' i = Some p \<longrightarrow> successor q p)"

lemma owner_effect_refl [simp]: "owner_effect owner st st"
  by (simp add: owner_effect_def)

lemma owner_effect_new:
  "st (p_ID p) = None \<Longrightarrow> p_UserID p = owner \<Longrightarrow> owner_effect owner st (st(p_ID p \<mapsto> p))"
  by (auto simp: owner_effect_def)

lemma owner_effect_at:
  assumes "st i = Some q" and "p_UserID q = owner"
    and "\<And>p. q' = Some p \<Longrightarrow> successor q p"
  shows "owner_effect owner st (st(i := q'))"
proof (cases q')
  case None
  with assms(1,2) show ?thesis by (auto simp: owner_effect_def)
next
  case (Some p)
  with assms(3) have "p_UserID p = owner" "successor q p"
    using assms(2) by (auto simp: successor_def same_profile_def)
  with Some assms(1,2) show ?thesis by (auto simp: owner_effect_def)
qed

lemma owner_effect_map:
  assumes "st' = (\<lambda>i. case st i of None \<Rightarrow> None | Some q \<Rightarrow>
      if p_UserID q = owner \<and> P i then f q else Some q)"
    and "\<And>q p. f q = Some p \<Longrightarrow> successor q p"
  shows "owner_effect owner st st'"
  using assms(2) unfolding owner_effect_def assms(1)
  by (fastforce simp: successor_def same_profile_def split: option.splits if_splits)

text \<open>The calls of the service by one owner.\<close>

datatype profile_call =
    CallCreate create_request
  | CallBulkCreate bulk_create_request
  | CallGet uuid
  | CallList profile_filter
  | CallUpdate uuid update_request
  | CallPatch uuid patch_request
  | CallDelete uuid bool int
  | CallBulkDelete bulk_delete_request

fun profile_do ::
  "'a runtime_scheme profile_service \<Rightarrow> uuid \<times> profile_call \<Rightarrow> 'a runtime_scheme \<Rightarrow> 'a runtime_scheme" where
  "profile_do s (u, CallCreate req) w = snd (Create s u req w)"
| "profile_do s (u, CallBulkCreate req) w = snd (BulkCreate s u req w)"
| "profile_do s (u, CallGet i) w = snd (Get s i u w)"
| "profile_do s (u, CallList flt) w = snd (ListProfiles s (flt\<lparr>pf_UserID := u\<rparr>) w)"
| "profile_do s (u, CallUpdate i req) w = snd (Update s i u req w)"
| "profile_do s (u, CallPatch i req) w = snd (Patch s i u req w)"
| "profile_do s (u, CallDelete i hard v) w = snd (Delete s i u hard v w)"
| "profile_do s (u, CallBulkDelete req) w = snd (BulkDelete s u req w)"

definition profile_run ::
  "'a runtime_scheme profile_service \<Rightarrow> (uuid \<times> profile_call) list \<Rightarrow> 'a runtime_scheme \<Rightarrow>
     'a runtime_scheme" where
  "profile_run s cs w = fold (profile_do s) cs w"

text \<open>What a payload makes of a profile: the names always, the optional fields only when given.\<close>

definition merged :: "profile_lib \<Rightarrow> create_request \<Rightarrow> profile \<Rightarrow> profile \<Rightarrow> bool" where
  "merged lib req q p \<longleftrightarrow>
     p_FirstName p = sanitizeField lib (cr_FirstName req)
     \<and> p_LastName p = sanitizeField lib (cr_LastName req)
     \<and> p_Bio p = given (sanitizeField lib) (cr_Bio req) (p_Bio q)
     \<and> p_ProfileImage p = given (\<lambda>s. s) (cr_ProfileImage req) (p_ProfileImage q)
     \<and> p_CoverImage p = given (\<lambda>s. s) (cr_CoverImage req) (p_CoverImage q)
     \<and> p_Phone p = given (sanitizeField lib) (cr_Phone req) (p_Phone q)
     \<and> p_Website p = given (\<lambda>s. s) (cr_Website req) (p_Website q)
     \<and> p_Location p = given (sanitizeField lib) (cr_Location req) (p_Location q)
     \<and> (case cr_DateOfBirth req of
           None \<Rightarrow> p_DateOfBirth p = p_DateOfBirth q
         | Some d \<Rightarrow> if d = [] then p_DateOfBirth p = p_DateOfBirth q
                    else pl_parse_day lib d \<noteq> None \<and> p_DateOfBirth p = pl_parse_day lib d)"

lemma assigned_merged:
  assumes "assignOptionalFields lib p req = (None, q)"
    and "p_FirstName p = sanitizeField lib (cr_FirstName req)" "p_LastName p = sanitizeField lib (cr_LastName req)"
  shows "merged lib req p q"
  using assms by (auto simp: assignOptionalFields_def merged_def Let_def split: option.splits if_splits)

text \<open>Only the fields a payload may set take part in \<open>merged\<close>.\<close>

lemma merged_names [simp]:
  "merged lib req (q\<lparr>p_FirstName := a, p_LastName := b\<rparr>) p = merged lib req q p"
  "merged lib req q (p\<lparr>p_Version := v, p_UpdatedAt := t\<rparr>) = merged lib req q p"
  by (simp_all add: merged_def cong: option.case_cong if_cong)

locale profiles = profile_repository "ps_repo s" store inv
  for s :: "'a runtime_scheme profile_service"
    and store :: "'a runtime_scheme \<Rightarrow> uuid \<Rightarrow> profile option"
    and inv :: "'a runtime_scheme \<Rightarrow> bool"
begin

lemma optional_fields:
  "assignOptionalFields lib p req = (e, q) \<Longrightarrow>
    same_profile q p \<and> p_Version q = p_Version p \<and> p_DeletedAt q = p_DeletedAt p"
  by (auto simp: assignOptionalFields_def same_profile_def Let_def split: option.splits if_splits)

theorem create_spec:
  assumes w: "inv w" and run: "Create s owner req w = (r, w')"
  shows "inv w' \<and> (case r of
      Inl e \<Rightarrow> store w' = store w
    | Inr p \<Rightarrow> store w (p_ID p) = None \<and> store w' = (store w)(p_ID p \<mapsto> p) \<and> p_UserID p = owner
        \<and> p_Version p = 1 \<and> p_DeletedAt p = None
        \<and> merged (ps_lib s) req (new_profile (ps_lib s) owner req (p_CreatedAt p) (p_ID p)) p)"
proof (cases "pl_validate (ps_lib s) (create_fields req)")
  case (Some es)
  then show ?thesis using run w by (auto simp: Create_def)
next
  case None
  let ?n = "new_profile (ps_lib s) owner req (clock w (clock_reads w)) (uuid_source w (uuids_drawn w))"
  let ?w2 = "draw (tick w)"
  obtain x p where a: "assignOptionalFields (ps_lib s) ?n req = (x, p)"
    by (cases "assignOptionalFields (ps_lib s) ?n req")
  have p: "p_UserID p = owner" "p_Version p = 1" "p_DeletedAt p = None"
    using optional_fields [OF a] by (simp_all add: same_profile_def new_profile_def)
  have m: "merged (ps_lib s) req (new_profile (ps_lib s) owner req (p_CreatedAt p) (p_ID p)) p" if "x = None"
    using assigned_merged [of "ps_lib s" ?n req p] a that optional_fields [OF a]
    by (simp add: new_profile_def same_profile_def)
  obtain e w3 where c: "pr_Create (ps_repo s) p ?w2 = (e, w3)"
    by (cases "pr_Create (ps_repo s) p ?w2")
  have "inv ?w2" using w by simp
  from create_law [OF this p(3) c] show ?thesis
    using run None a c p w m by (cases x; cases e) (auto simp: Create_def draws)
qed

theorem update_spec:
  assumes w: "inv w" and run: "Update s i owner req w = (r, w')"
  shows "inv w' \<and> (case r of
      Inl e \<Rightarrow> store w' = store w
    | Inr p \<Rightarrow> \<exists>q. store w i = Some q \<and> p_UserID q = owner \<and> p_DeletedAt q = None
        \<and> p_Version q = pu_Version req \<and> store w' = (store w)(i \<mapsto> p)
        \<and> same_profile p q \<and> p_Version p = p_Version q + 1 \<and> p_DeletedAt p = None
        \<and> merged (ps_lib s) (pu_Create req) q p)"
proof (cases "pl_validate (ps_lib s) (update_fields req)")
  case (Some es)
  then show ?thesis using run w by (auto simp: Update_def)
next
  case None
  obtain g w1 where g: "pr_GetByID (ps_repo s) i owner w = (g, w1)"
    by (cases "pr_GetByID (ps_repo s) i owner w")
  note law = get_law [OF w g]
  show ?thesis
  proof (cases "\<exists>q. g = Inr (Some q) \<and> p_Version q = pu_Version req")
    case False
    then show ?thesis
      using run None g law by (auto simp: Update_def split: sum.splits option.splits)
  next
    case True
    then obtain q where q: "g = Inr (Some q)" "p_Version q = pu_Version req" by blast
    let ?p1 = "q\<lparr>p_FirstName := sanitizeField (ps_lib s) (cr_FirstName (pu_Create req)),
      p_LastName := sanitizeField (ps_lib s) (cr_LastName (pu_Create req))\<rparr>"
    obtain x p2 where a: "assignOptionalFields (ps_lib s) ?p1 (pu_Create req) = (x, p2)"
      by (cases "assignOptionalFields (ps_lib s) ?p1 (pu_Create req)")
    let ?p3 = "p2\<lparr>p_Version := wrap64 (p_Version p2 + 1), p_UpdatedAt := clock w1 (clock_reads w1)\<rparr>"
    obtain e w3 where u: "pr_Update (ps_repo s) ?p3 (tick w1) = (e, w3)"
      by (cases "pr_Update (ps_repo s) ?p3 (tick w1)")
    have q': "store w i = Some q" "p_ID q = i" "p_UserID q = owner" "p_DeletedAt q = None"
      using law q(1) by auto
    have p3: "p_ID ?p3 = i" "p_UserID ?p3 = owner" "p_CreatedAt ?p3 = p_CreatedAt q"
        "p_DeletedAt ?p3 = None" "p_Version ?p3 = p_Version q + 1"
      using optional_fields [OF a] q' version_law [OF w q'(1)] by (simp_all add: same_profile_def)
    have inv1: "inv (tick w1)" "store (tick w1) = store w" using law by simp_all
    have res: "r = (case x of Some m \<Rightarrow> Inl m | None \<Rightarrow> (case e of Some m \<Rightarrow> Inl m | None \<Rightarrow> Inr ?p3))"
        "w' = (case x of Some m \<Rightarrow> w1 | None \<Rightarrow> w3)"
      using run None g q a u
      by (cases x; cases e; simp add: Update_def draws Let_def)+
    note up = update_law [OF inv1(1) u]
    show ?thesis
    proof (cases "x = None \<and> e = None")
      case True
      have eq: "?p3\<lparr>p_CreatedAt := p_CreatedAt q, p_DeletedAt := p_DeletedAt q\<rparr> = ?p3"
        using p3(3,4) q'(4) by (cases p2) simp
      have "merged (ps_lib s) (pu_Create req) q ?p3"
        using assigned_merged [of "ps_lib s" ?p1 "pu_Create req" p2] a True by simp
      moreover have "store w3 = (store w)(i \<mapsto> ?p3)" "inv w3"
        using up True p3(1,2) inv1(2) q' eq by (auto simp: owner_step_def)
      ultimately show ?thesis using res True q q' p3 by (simp add: same_profile_def)
    next
      case False
      then show ?thesis using res up law inv1 by (cases x; cases e) auto
    qed
  qed
qed

lemma owner_stepD: "owner_step i owner guard R st st' \<Longrightarrow>
    \<exists>q q'. st i = Some q \<and> p_UserID q = owner \<and> guard q \<and> R q q' \<and> st' = st(i := q')"
  by (simp add: owner_step_def)

theorem patch_spec:
  assumes w: "inv w" and run: "Patch s i owner req w = (r, w')"
  shows "inv w' \<and> (store w' = store w \<and> (\<exists>e. r = Inl e)
    \<or> (\<exists>q p. store w i = Some q \<and> p_UserID q = owner \<and> p_Version q = pp_Version req
         \<and> store w' = (store w)(i \<mapsto> p) \<and> same_profile p q \<and> p_Version p = p_Version q + 1
         \<and> p_DeletedAt p = p_DeletedAt q \<and> (\<forall>x. r = Inr x \<longrightarrow> x = Some p)))"
proof (cases "pl_validate (ps_lib s) (patch_fields req) = None
    \<and> patch_update (ps_lib s) (case pp_Fields req of None \<Rightarrow> [] | Some fs \<Rightarrow> fs) \<noteq> []")
  case False
  then show ?thesis
    using run w by (auto simp: Patch_def Let_def split: option.splits if_splits)
next
  case True
  let ?upd = "patch_update (ps_lib s) (case pp_Fields req of None \<Rightarrow> [] | Some fs \<Rightarrow> fs)"
  have "pr_Patch (ps_repo s) i owner ?upd (pp_Version req) w = (r, w')"
    using run True by (auto simp: Patch_def Let_def split: prod.splits sum.splits)
  from patch_law [OF w this] show ?thesis
    unfolding owner_step_def by (elim conjE disjE exE) auto
qed

theorem delete_spec:
  assumes w: "inv w" and run: "Delete s i owner hard v w = (e, w')"
  shows "inv w' \<and> (if e = None
    then \<exists>q. store w i = Some q \<and> p_UserID q = owner \<and> p_DeletedAt q = None \<and> p_Version q = v
      \<and> (if hard then store w' = (store w)(i := None)
         else \<exists>t. store w' = (store w)(i \<mapsto> q\<lparr>p_DeletedAt := Some t, p_Version := v + 1\<rparr>))
    else store w' = store w)"
proof -
  obtain g w1 where g: "pr_GetByID (ps_repo s) i owner w = (g, w1)"
    by (cases "pr_GetByID (ps_repo s) i owner w")
  note law = get_law [OF w g]
  show ?thesis
  proof (cases "\<exists>q. g = Inr (Some q) \<and> p_Version q = v")
    case False
    then show ?thesis
      using run g law by (auto simp: Delete_def split: sum.splits option.splits if_splits)
  next
    case True
    then obtain q where q: "g = Inr (Some q)" "p_Version q = v" by blast
    then have "pr_Delete (ps_repo s) i owner hard v w1 = (e, w')"
      using run g by (simp add: Delete_def)
    from delete_law [OF _ this] law q show ?thesis
      by (cases hard; cases e) (auto simp: owner_step_def)
  qed
qed

lemma payloads_spec:
  "bulk_payloads lib owner reqs w = ((ps, errs), w') \<Longrightarrow> inv w \<Longrightarrow>
    inv w' \<and> store w' = store w
    \<and> (\<forall>p \<in> set ps. p_UserID p = owner \<and> p_Version p = 1 \<and> p_DeletedAt p = None)"
proof (induction reqs arbitrary: w ps errs w')
  case (Cons req reqs)
  let ?n = "new_profile lib owner req (clock w (clock_reads w)) (uuid_source w (uuids_drawn w))"
  let ?w2 = "draw (tick w)"
  show ?case
  proof (cases "pl_validate lib (create_fields req)")
    case (Some es)
    then show ?thesis
      using Cons by (auto split: prod.splits)
  next
    case None
    obtain x p where a: "assignOptionalFields lib ?n req = (x, p)"
      by (cases "assignOptionalFields lib ?n req")
    have p: "p_UserID p = owner" "p_Version p = 1" "p_DeletedAt p = None"
      using optional_fields [OF a] by (simp_all add: same_profile_def new_profile_def)
    obtain ps1 errs1 w3 where rest: "bulk_payloads lib owner reqs ?w2 = ((ps1, errs1), w3)"
      by (metis prod.exhaust)
    have out: "w' = w3" "set ps \<subseteq> insert p (set ps1)"
      using Cons.prems(1) None a rest by (cases x; auto simp: draws)+
    have "inv w3 \<and> store w3 = store ?w2
        \<and> (\<forall>p \<in> set ps1. p_UserID p = owner \<and> p_Version p = 1 \<and> p_DeletedAt p = None)"
      using Cons.IH [OF rest] Cons.prems(2) by simp
    then show ?thesis using out p by auto
  qed
qed auto

theorem bulkCreate_spec:
  assumes w: "inv w" and run: "BulkCreate s owner req w = ((ps, errs), w')"
  shows "inv w' \<and> (\<forall>p \<in> set ps. p_UserID p = owner \<and> p_Version p = 1 \<and> p_DeletedAt p = None)
    \<and> (store w' = store w \<or>
       (\<forall>p \<in> set ps. store w (p_ID p) = None) \<and> store w' = store w ++ map_of (map (\<lambda>p. (p_ID p, p)) ps))"
proof -
  obtain ps1 errs1 w1 where b: "bulk_payloads (ps_lib s) owner (bc_Profiles req) w = ((ps1, errs1), w1)"
    by (metis prod.exhaust)
  note spec = payloads_spec [OF b w]
  obtain e w2 where c: "pr_BulkCreate (ps_repo s) ps1 w1 = (e, w2)"
    by (cases "pr_BulkCreate (ps_repo s) ps1 w1")
  have "ps = ps1" "w' = (if ps1 = [] then w1 else w2)"
    using run b c by (auto simp: BulkCreate_def split: if_splits)
  then show ?thesis
    using spec bulk_law [OF _ _ c] by (cases e) auto
qed

theorem bulkDelete_spec:
  assumes w: "inv w" and run: "BulkDelete s owner req w = (r, w')"
  shows "inv w' \<and> (store w' = store w \<or> (\<exists>t. store w' = (\<lambda>i. case store w i of None \<Rightarrow> None | Some q \<Rightarrow>
      if p_UserID q = owner \<and> i \<in> set (bd_IDs req)
      then (if bd_Hard req then None else Some (q\<lparr>p_DeletedAt := Some t\<rparr>)) else Some q)))"
  using run w bulk_delete_law [OF w, of owner "bd_IDs req" "bd_Hard req"]
  by (cases "bd_IDs req = []") (auto simp: BulkDelete_def)

theorem get_spec:
  assumes "inv w" and "Get s i owner w = (r, w')"
  shows "inv w' \<and> store w' = store w
    \<and> (\<forall>p. r = Inr p \<longrightarrow> store w i = Some p \<and> p_UserID p = owner \<and> p_DeletedAt p = None)"
  using assms get_law [OF assms(1), of i owner]
  by (auto simp: Get_def split: prod.splits sum.splits option.splits)

section \<open>Sequences of calls\<close>

lemma call_effect:
  assumes w: "inv w"
  shows "inv (profile_do s (u, c) w) \<and> owner_effect u (store w) (store (profile_do s (u, c) w))"
proof (cases c)
  case (CallCreate req)
  obtain r w' where run: "Create s u req w = (r, w')" by (cases "Create s u req w")
  show ?thesis using create_spec [OF w run] run CallCreate owner_effect_new [of "store w"]
    by (cases r) auto
next
  case (CallBulkCreate req)
  obtain ps errs w' where run: "BulkCreate s u req w = ((ps, errs), w')" by (metis prod.exhaust)
  have "owner_effect u (store w) (store w ++ map_of (map (\<lambda>p. (p_ID p, p)) ps))"
    if "\<forall>p \<in> set ps. store w (p_ID p) = None" "\<forall>p \<in> set ps. p_UserID p = u"
    using that by (fastforce simp: owner_effect_def map_add_Some_iff map_add_def
        dest: map_of_SomeD split: option.splits)
  then show ?thesis using bulkCreate_spec [OF w run] run CallBulkCreate by auto
next
  case (CallGet i)
  show ?thesis using get_spec [OF w, of i u] CallGet by (simp add: prod_eq_iff)
next
  case (CallList flt)
  show ?thesis using list_law [OF w, of "flt\<lparr>pf_UserID := u\<rparr>"] CallList
    by (simp add: ListProfiles_def prod_eq_iff)
next
  case (CallUpdate i req)
  obtain r w' where run: "Update s i u req w = (r, w')" by (cases "Update s i u req w")
  show ?thesis
    using update_spec [OF w run] run CallUpdate
      owner_effect_at [of "store w" i _ u]
    by (cases r) (fastforce simp: successor_def)+
next
  case (CallPatch i req)
  obtain r w' where run: "Patch s i u req w = (r, w')" by (cases "Patch s i u req w")
  show ?thesis
    using patch_spec [OF w run] run CallPatch
      owner_effect_at [of "store w" i _ u]
    by (fastforce simp: successor_def)
next
  case (CallDelete i hard v)
  obtain e w' where run: "Delete s i u hard v w = (e, w')" by (cases "Delete s i u hard v w")
  show ?thesis
    using delete_spec [OF w run] run CallDelete
      owner_effect_at [of "store w" i _ u]
    by (fastforce simp: successor_def same_profile_def split: if_splits)
next
  case (CallBulkDelete req)
  obtain r w' where run: "BulkDelete s u req w = (r, w')" by (cases "BulkDelete s u req w")
  have "owner_effect u (store w) (store w')"
    if "store w' = (\<lambda>i. case store w i of None \<Rightarrow> None | Some q \<Rightarrow>
      if p_UserID q = u \<and> i \<in> set (bd_IDs req)
      then (if bd_Hard req then None else Some (q\<lparr>p_DeletedAt := Some t\<rparr>)) else Some q)" for t
    by (rule owner_effect_map [OF that]) (auto simp: successor_def same_profile_def split: if_splits)
  then show ?thesis
    using bulkDelete_spec [OF w run] run CallBulkDelete by auto
qed

theorem run_isolated:
  assumes "inv w"
  shows "inv (profile_run s cs w)
    \<and> ((\<forall>(u, c) \<in> set cs. u \<noteq> owner) \<longrightarrow>
        (\<forall>i p. p_UserID p = owner \<longrightarrow> store (profile_run s cs w) i = Some p \<longleftrightarrow> store w i = Some p))"
  using assms
proof (induction cs arbitrary: w)
  case Nil
  then show ?case by (simp add: profile_run_def)
next
  case (Cons x cs)
  obtain u c where x: "x = (u, c)" by (cases x)
  let ?w = "profile_do s x w"
  note step = call_effect [OF Cons.prems, of u c]
  have ih: "inv (profile_run s cs ?w)"
    "(\<forall>(u, c) \<in> set cs. u \<noteq> owner) \<Longrightarrow> p_UserID p = owner \<Longrightarrow>
      store (profile_run s cs ?w) i = Some p \<longleftrightarrow> store ?w i = Some p" for i p
    using Cons.IH [of ?w] step x by auto
  have eff: "owner_effect u (store w) (store ?w)" using step x by simp
  have same: "store ?w i = Some p \<longleftrightarrow> store w i = Some p" if "u \<noteq> owner" "p_UserID p = owner" for i p
    using eff that unfolding owner_effect_def by metis
  have run: "profile_run s (x # cs) w = profile_run s cs ?w" by (simp add: profile_run_def)
  show ?case
    unfolding run using ih same x by simp
qed

text \<open>A profile that no call removes is, after any calls of anyone, a successor of what it was.\<close>

theorem run_life:
  assumes "inv w" and "store w i = Some q" and "\<forall>k. store (profile_run s (take k cs) w) i \<noteq> None"
  shows "\<exists>p. store (profile_run s cs w) i = Some p \<and> successor q p"
  using assms
proof (induction cs arbitrary: w q)
  case Nil
  then show ?case by (simp add: profile_run_def)
next
  case (Cons x cs)
  obtain u c where x: "x = (u, c)" by (cases x)
  let ?w = "profile_do s x w"
  have run: "profile_run s (x # ys) w = profile_run s ys ?w" for ys by (simp add: profile_run_def)
  have eff: "inv ?w" "owner_effect u (store w) (store ?w)"
    using call_effect [OF Cons.prems(1), of u c] x by simp_all
  have stays: "store (profile_run s (take k cs) ?w) i \<noteq> None" for k
    using Cons.prems(3) [rule_format, of "Suc k"] run by simp
  from stays [of 0] obtain r where r: "store ?w i = Some r" by (auto simp: profile_run_def)
  with eff(2) Cons.prems(2) have "successor q r" unfolding owner_effect_def by blast
  with Cons.IH [OF eff(1) r] stays show ?case
    unfolding run using successor_trans by blast
qed

end

end
