(* ===== verification/UserService.thy ===== *)
theory UserService
  imports UserModel
begin

text \<open>
  \<open>internal/domain/user/service.go\<close>: the service of accounts, over the interfaces it is written
  against. The sanitizer, the validator, bcrypt and the Unicode case table are the service's
  library; bcrypt draws a salt for each hash. Every call threads the state \<open>w\<close> through the repository,
  the token manager and the run-time system in the order of the code. The contract of the
  repository is \<open>user_repository\<close>; the lemmas of the service are proved against it.
\<close>

section \<open>The service\<close>

record user_lib =
  ul_sanitize :: "string \<Rightarrow> string"
  ul_validate :: validator
  ul_bcrypt_generate :: "nat \<Rightarrow> string \<Rightarrow> string + string"
  ul_bcrypt_compare :: "string \<Rightarrow> string \<Rightarrow> string option"
  ul_unicode_lower :: "string \<Rightarrow> string"

record 'w user_service =
  us_repo :: "'w user_repo"
  us_tokens :: "'w token_manager"
  us_lib :: user_lib
  us_allowSignup :: bool

definition NewService :: "'w user_repo \<Rightarrow> 'w token_manager \<Rightarrow> user_lib \<Rightarrow> bool \<Rightarrow> 'w user_service" where
  "NewService repo tokens lib allow =
     \<lparr>us_repo = repo, us_tokens = tokens, us_lib = lib, us_allowSignup = allow\<rparr>"

definition ToLower :: "user_lib \<Rightarrow> string \<Rightarrow> string" where
  "ToLower lib = to_lower (ul_unicode_lower lib)"

definition issue_response ::
  "'w user_service \<Rightarrow> user \<Rightarrow> 'w \<Rightarrow> (user_error + auth_response) \<times> 'w" where
  "issue_response s u w =
     (case tm_IssueTokens (us_tokens s) u w of
        (Inl e, w1) \<Rightarrow> (Inl (ErrOther e), w1)
      | (Inr ts, w1) \<Rightarrow> (Inr \<lparr>ar_User = u, ar_Tokens = ts\<rparr>, w1))"

definition register_trim :: "user_lib \<Rightarrow> register_request \<Rightarrow> register_request" where
  "register_trim lib req =
     req\<lparr>rr_Email := trim_space (rr_Email req), rr_Password := trim_space (rr_Password req),
         rr_Name := trim_space (ul_sanitize lib (rr_Name req))\<rparr>"

definition registered_user ::
  "user_lib \<Rightarrow> register_request \<Rightarrow> string \<Rightarrow> timestamp \<Rightarrow> uuid \<Rightarrow> user" where
  "registered_user lib req hash now i =
     \<lparr>u_ID = i, u_Email = ToLower lib (rr_Email req), u_Name = rr_Name req, u_PasswordHash = hash,
      u_ProfileImage = (if rr_ProfileImage req \<noteq> [] then Some (rr_ProfileImage req) else None),
      u_Role = ''user'', u_RefreshVersion = 1, u_LastLoginAt = None, u_PasswordResetAt = None,
      u_LastPasswordHash = [], u_CreatedAt = now, u_UpdatedAt = now, u_DeletedAt = None\<rparr>"

definition Register ::
  "'a runtime_scheme user_service \<Rightarrow> register_request \<Rightarrow> 'a runtime_scheme \<Rightarrow>
     (user_error + auth_response) \<times> 'a runtime_scheme" where
  "Register s req0 w =
     (if \<not> us_allowSignup s then (Inl ErrRegistrationDisabled, w)
      else
        let req = register_trim (us_lib s) req0
        in case ul_validate (us_lib s) (register_fields req) of
             Some es \<Rightarrow> (Inl (ErrValidation es), w)
           | None \<Rightarrow>
               (case repo_GetByEmail (us_repo s) (ToLower (us_lib s) (rr_Email req)) w of
                  (Inr (Some existing), w1) \<Rightarrow> (Inl ErrDuplicateEmail, w1)
                | (_, w1) \<Rightarrow>
                    (case draw_salt w1 of (salt, w2) \<Rightarrow>
                     (case ul_bcrypt_generate (us_lib s) salt (rr_Password req) of
                        Inl e \<Rightarrow> (Inl (ErrOther e), w2)
                      | Inr hash \<Rightarrow>
                          (case time_now w2 of (now, w3) \<Rightarrow>
                           (case uuid_new w3 of (i, w4) \<Rightarrow>
                              let u = registered_user (us_lib s) req hash now i
                              in case repo_Create (us_repo s) u w4 of
                                   (Some err, w5) \<Rightarrow>
                                     if err = ErrDuplicateEmail then (Inl ErrDuplicateEmail, w5)
                                     else (Inl err, w5)
                                 | (None, w5) \<Rightarrow> issue_response s u w5))))))"

definition Login ::
  "'a runtime_scheme user_service \<Rightarrow> login_request \<Rightarrow> 'a runtime_scheme \<Rightarrow>
     (user_error + auth_response) \<times> 'a runtime_scheme" where
  "Login s req0 w =
     (let req = req0\<lparr>lr_Email := trim_space (lr_Email req0),
                    lr_Password := trim_space (lr_Password req0)\<rparr>
      in case ul_validate (us_lib s) (login_fields req) of
           Some es \<Rightarrow> (Inl (ErrValidation es), w)
         | None \<Rightarrow>
             (case repo_GetByEmail (us_repo s) (ToLower (us_lib s) (lr_Email req)) w of
                (Inr (Some u), w1) \<Rightarrow>
                  (case ul_bcrypt_compare (us_lib s) (u_PasswordHash u) (lr_Password req) of
                     Some _ \<Rightarrow> (Inl ErrInvalidCreds, w1)
                   | None \<Rightarrow>
                       (case time_now w1 of (now, w2) \<Rightarrow>
                          let u1 = u\<lparr>u_LastLoginAt := Some now, u_UpdatedAt := now\<rparr>
                          in case repo_Update (us_repo s) u1 w2 of
                               (_, w3) \<Rightarrow> issue_response s u1 w3))
              | (_, w1) \<Rightarrow> (Inl ErrInvalidCreds, w1)))"

definition Refresh ::
  "'w user_service \<Rightarrow> string \<Rightarrow> 'w \<Rightarrow> (user_error + auth_response) \<times> 'w" where
  "Refresh s token w =
     (case tm_ExtractUserID (us_tokens s) token w of
        (Inl _, w1) \<Rightarrow> (Inl ErrInvalidToken, w1)
      | (Inr i, w1) \<Rightarrow>
          (case repo_GetByID (us_repo s) i w1 of
             (Inr (Some u), w2) \<Rightarrow>
               (case tm_RefreshTokens (us_tokens s) u token w2 of
                  (Inl _, w3) \<Rightarrow> (Inl ErrInvalidToken, w3)
                | (Inr ts, w3) \<Rightarrow> (Inr \<lparr>ar_User = u, ar_Tokens = ts\<rparr>, w3))
           | (_, w2) \<Rightarrow> (Inl ErrInvalidToken, w2)))"

definition GetMe :: "'w user_service \<Rightarrow> uuid \<Rightarrow> 'w \<Rightarrow> (user_error + user option) \<times> 'w" where
  "GetMe s i w =
     (case repo_GetByID (us_repo s) i w of
        (Inl _, w1) \<Rightarrow> (Inl ErrUserNotFound, w1)
      | (Inr u, w1) \<Rightarrow> (Inr u, w1))"

definition UpdateMe ::
  "'a runtime_scheme user_service \<Rightarrow> uuid \<Rightarrow> update_user_request \<Rightarrow> 'a runtime_scheme \<Rightarrow>
     (user_error + user) \<times> 'a runtime_scheme" where
  "UpdateMe s i req w =
     (case ul_validate (us_lib s) (update_user_fields req) of
        Some es \<Rightarrow> (Inl (ErrValidation es), w)
      | None \<Rightarrow>
          (case repo_GetByID (us_repo s) i w of
             (Inl _, w1) \<Rightarrow> (Inl ErrUserNotFound, w1)
           | (Inr None, w1) \<Rightarrow> (Inl Panic, w1)
           | (Inr (Some u), w1) \<Rightarrow>
               let u1 = u\<lparr>u_Name := trim_space (ul_sanitize (us_lib s) (uu_Name req))\<rparr>;
                   u2 = (case uu_ProfileImage req of
                           None \<Rightarrow> u1 | Some p \<Rightarrow> u1\<lparr>u_ProfileImage := Some p\<rparr>)
               in case time_now w1 of (now, w2) \<Rightarrow>
                  (let u3 = u2\<lparr>u_UpdatedAt := now\<rparr>
                   in case repo_Update (us_repo s) u3 w2 of
                        (Some e, w3) \<Rightarrow> (Inl e, w3)
                      | (None, w3) \<Rightarrow> (Inr u3, w3))))"

definition ListUsers ::
  "'w user_service \<Rightarrow> user_filter \<Rightarrow> 'w \<Rightarrow> (user_error + user list \<times> int) \<times> 'w" where
  "ListUsers s flt w = repo_List (us_repo s) flt w"

end
