(* ===== verification/UserAccounts.thy ===== *)
theory UserAccounts
  imports UserService
begin

text \<open>
  The contract between the account service and what it is built on, and the service's behaviour
  proved once against it. \<open>store w i\<close> is the live user with id \<open>i\<close>, \<open>canon\<close> the form in which the
  repository compares addresses, \<open>inv\<close> its own invariant. A repository may fail at any call; a
  failed write changes nothing. The lookups promise only that what they find is stored: a
  repository that cannot read back a row it holds still meets the contract.
\<close>

section \<open>The contract\<close>

text \<open>The calls of the service, and one after the other.\<close>

datatype user_call =
    CallRegister register_request
  | CallLogin login_request
  | CallRefreshToken string
  | CallGetMe uuid
  | CallUpdateMe uuid update_user_request
  | CallListUsers user_filter

fun user_do :: "'a runtime_scheme user_service \<Rightarrow> user_call \<Rightarrow> 'a runtime_scheme \<Rightarrow> 'a runtime_scheme" where
  "user_do s (CallRegister req) w = snd (Register s req w)"
| "user_do s (CallLogin req) w = snd (Login s req w)"
| "user_do s (CallRefreshToken t) w = snd (Refresh s t w)"
| "user_do s (CallGetMe i) w = snd (GetMe s i w)"
| "user_do s (CallUpdateMe i req) w = snd (UpdateMe s i req w)"
| "user_do s (CallListUsers flt) w = snd (ListUsers s flt w)"

definition user_run :: "'a runtime_scheme user_service \<Rightarrow> user_call list \<Rightarrow> 'a runtime_scheme \<Rightarrow> 'a runtime_scheme" where
  "user_run s cs w = fold (user_do s) cs w"

text \<open>A user as \<open>Register\<close> makes it, and an update that touches no more than the service's do.\<close>

definition new_account :: "user \<Rightarrow> bool" where
  "new_account u \<longleftrightarrow>
     u_LastLoginAt u = None \<and> u_PasswordResetAt u = None \<and> u_LastPasswordHash u = []
     \<and> u_DeletedAt u = None"

definition same_account :: "user \<Rightarrow> user \<Rightarrow> bool" where
  "same_account u v \<longleftrightarrow>
     u_ID u = u_ID v \<and> u_Email u = u_Email v \<and> u_Role u = u_Role v
     \<and> u_PasswordHash u = u_PasswordHash v \<and> u_RefreshVersion u = u_RefreshVersion v
     \<and> u_PasswordResetAt u = u_PasswordResetAt v \<and> u_LastPasswordHash u = u_LastPasswordHash v
     \<and> u_CreatedAt u = u_CreatedAt v \<and> u_DeletedAt u = u_DeletedAt v"

lemma same_account_refl [simp]: "same_account u u"
  by (simp add: same_account_def)

lemma same_account_trans: "same_account u v \<Longrightarrow> same_account v w \<Longrightarrow> same_account u w"
  by (simp add: same_account_def)

lemma registered_new [simp]: "new_account (registered_user lib req hash now i)"
  by (simp add: new_account_def registered_user_def)

lemma registered_fields [simp]:
  "u_ID (registered_user lib req hash now i) = i"
  "u_Email (registered_user lib req hash now i) = ToLower lib (rr_Email req)"
  "u_Name (registered_user lib req hash now i) = rr_Name req"
  "u_PasswordHash (registered_user lib req hash now i) = hash"
  "u_Role (registered_user lib req hash now i) = ''user''"
  by (simp_all add: registered_user_def)

text \<open>
  What no sequence of calls undoes: accounts stay, with everything but their name, image and
  timestamps, and an account that was not there before has the role \<open>user\<close>.
\<close>

definition accounts_kept :: "(uuid \<Rightarrow> user option) \<Rightarrow> (uuid \<Rightarrow> user option) \<Rightarrow> bool" where
  "accounts_kept st st' \<longleftrightarrow>
     (\<forall>i u. st i = Some u \<longrightarrow> (\<exists>u'. st' i = Some u' \<and> same_account u' u))
     \<and> (\<forall>i u. st i = None \<longrightarrow> st' i = Some u \<longrightarrow> u_Role u = ''user'')"

lemma accounts_kept_refl [simp]: "accounts_kept st st"
  by (auto simp: accounts_kept_def)

lemma accounts_kept_new: "st (u_ID u) = None \<Longrightarrow> u_Role u = ''user'' \<Longrightarrow> accounts_kept st (st(u_ID u \<mapsto> u))"
  by (auto simp: accounts_kept_def)

lemma accounts_kept_update: "st i = Some v \<Longrightarrow> same_account u v \<Longrightarrow> accounts_kept st (st(i \<mapsto> u))"
  by (auto simp: accounts_kept_def)

lemma accounts_kept_trans:
  assumes "accounts_kept s1 s2" and "accounts_kept s2 s3"
  shows "accounts_kept s1 s3"
  unfolding accounts_kept_def
proof (intro conjI allI impI)
  fix i u assume "s1 i = Some u"
  then obtain u2 where u2: "s2 i = Some u2" "same_account u2 u"
    using assms(1) unfolding accounts_kept_def by blast
  then obtain u3 where "s3 i = Some u3" "same_account u3 u2"
    using assms(2) unfolding accounts_kept_def by blast
  with u2 show "\<exists>u'. s3 i = Some u' \<and> same_account u' u"
    using same_account_trans by blast
next
  fix i u assume a: "s1 i = None" "s3 i = Some u"
  show "u_Role u = ''user''"
  proof (cases "s2 i")
    case None
    then show ?thesis using assms(2) a(2) by (simp add: accounts_kept_def)
  next
    case (Some u2)
    then have "u_Role u2 = ''user''" using assms(1) a(1) by (simp add: accounts_kept_def)
    moreover have "same_account u u2"
      using assms(2) Some a(2) unfolding accounts_kept_def by fastforce
    ultimately show ?thesis by (simp add: same_account_def)
  qed
qed

locale user_repository =
  fixes repo :: "'a runtime_scheme user_repo"
    and store :: "'a runtime_scheme \<Rightarrow> uuid \<Rightarrow> user option"
    and canon :: "string \<Rightarrow> string"
    and inv :: "'a runtime_scheme \<Rightarrow> bool"
  assumes store_id: "inv w \<Longrightarrow> store w i = Some u \<Longrightarrow> u_ID u = i"
    and store_email: "inv w \<Longrightarrow> store w i = Some u \<Longrightarrow> store w j = Some v \<Longrightarrow>
      canon (u_Email u) = canon (u_Email v) \<Longrightarrow> i = j"
    and draws_law: "store (tick w) = store w \<and> store (draw w) = store w \<and> store (salted w) = store w
      \<and> (inv w \<longrightarrow> inv (tick w) \<and> inv (draw w) \<and> inv (salted w))"
    and by_email_law: "inv w \<Longrightarrow> repo_GetByEmail repo e w = (r, w') \<Longrightarrow>
      inv w' \<and> same_ids w w' \<and> store w' = store w
      \<and> (\<forall>u. r = Inr (Some u) \<longrightarrow> store w (u_ID u) = Some u \<and> canon (u_Email u) = canon e)"
    and by_id_law: "inv w \<Longrightarrow> repo_GetByID repo i w = (r, w') \<Longrightarrow>
      inv w' \<and> same_ids w w' \<and> store w' = store w \<and> (\<forall>u. r = Inr (Some u) \<longrightarrow> store w i = Some u)"
    and create_law: "inv w \<Longrightarrow> new_account u \<Longrightarrow> store w (u_ID u) = None \<Longrightarrow>
      repo_Create repo u w = (x, w') \<Longrightarrow>
      inv w' \<and> same_ids w w'
      \<and> store w' = (if x = None then (store w)(u_ID u \<mapsto> u) else store w)"
    and update_law: "inv w \<Longrightarrow> store w (u_ID u) = Some v \<Longrightarrow> same_account u v \<Longrightarrow>
      repo_Update repo u w = (x, w') \<Longrightarrow>
      inv w' \<and> same_ids w w'
      \<and> store w' = (if x = None then (store w)(u_ID u \<mapsto> u) else store w)"
    and list_law: "inv w \<Longrightarrow> repo_List repo flt w = (y, w') \<Longrightarrow>
      inv w' \<and> same_ids w w' \<and> store w' = store w"

locale user_accounts = user_repository "us_repo s" store canon inv
  for s :: "'a runtime_scheme user_service"
    and store :: "'a runtime_scheme \<Rightarrow> uuid \<Rightarrow> user option"
    and canon :: "string \<Rightarrow> string"
    and inv :: "'a runtime_scheme \<Rightarrow> bool" +
  assumes issue_law: "inv w \<Longrightarrow> tm_IssueTokens (us_tokens s) u w = (r, w') \<Longrightarrow>
      inv w' \<and> grows w w' \<and> store w' = store w"
    and refresh_law: "inv w \<Longrightarrow> tm_RefreshTokens (us_tokens s) u t w = (r, w') \<Longrightarrow>
      inv w' \<and> grows w w' \<and> store w' = store w"
    and extract_law: "inv w \<Longrightarrow> tm_ExtractUserID (us_tokens s) t w = (i, w') \<Longrightarrow>
      inv w' \<and> grows w w' \<and> store w' = store w"
begin

lemma draws_keep [simp]:
  "store (tick w) = store w" "store (draw w) = store w" "store (salted w) = store w"
  "inv w \<Longrightarrow> inv (tick w)" "inv w \<Longrightarrow> inv (draw w)" "inv w \<Longrightarrow> inv (salted w)"
  using draws_law by blast+

lemma draws_grow [simp]: "grows w (tick w)" "grows w (draw w)" "grows w (salted w)"
  by (simp_all add: grows_def)

text \<open>A user the repository is asked to update is stored under its own id.\<close>

lemma response_keeps:
  assumes "inv w" and "issue_response s u w = (r, w')"
  shows "inv w' \<and> grows w w' \<and> store w' = store w \<and>
    (case r of Inl e \<Rightarrow> \<exists>m. e = ErrOther m | Inr a \<Rightarrow> ar_User a = u)"
  using assms issue_law [OF assms(1), of u]
  by (auto simp: issue_response_def split: prod.splits sum.splits)

text \<open>
  A call of \<open>Register\<close> leaves the store alone and fails, or adds the one new account; the account
  stays when issuing its tokens fails.
\<close>

definition registers :: "register_request \<Rightarrow> 'a runtime_scheme \<Rightarrow> user_error + auth_response \<Rightarrow>
    'a runtime_scheme \<Rightarrow> user \<Rightarrow> bool" where
  "registers req w r w' u \<longleftrightarrow>
     (\<exists>hash now. u = registered_user (us_lib s) (register_trim (us_lib s) req) hash now (uuid_source w (uuids_drawn w)))
     \<and> store w' = (store w)(u_ID u \<mapsto> u) \<and> uuids_drawn w < uuids_drawn w'
     \<and> (case r of Inl e \<Rightarrow> \<exists>m. e = ErrOther m | Inr a \<Rightarrow> ar_User a = u)"

lemma register_tail:
  assumes w: "inv w" "store w (u_ID u) = None" "new_account u"
    and run: "(case repo_Create (us_repo s) u w of
        (Some err, w5) \<Rightarrow> if err = ErrDuplicateEmail then (Inl ErrDuplicateEmail, w5) else (Inl err, w5)
      | (None, w5) \<Rightarrow> issue_response s u w5) = (r, w')"
  shows "inv w' \<and> grows w w' \<and> (store w' = store w \<and> (\<exists>e. r = Inl e)
    \<or> store w' = (store w)(u_ID u \<mapsto> u)
      \<and> (case r of Inl e \<Rightarrow> \<exists>m. e = ErrOther m | Inr a \<Rightarrow> ar_User a = u))"
proof -
  obtain x w5 where c: "repo_Create (us_repo s) u w = (x, w5)"
    by (cases "repo_Create (us_repo s) u w")
  note law = create_law [OF w(1,3,2) c]
  show ?thesis
  proof (cases x)
    case None
    then have "issue_response s u w5 = (r, w')" using run c by simp
    from response_keeps [OF _ this] law None show ?thesis
      using same_ids_grows grows_trans by fastforce
  next
    case (Some e)
    then show ?thesis using run c law same_ids_grows by (auto split: if_splits)
  qed
qed

theorem register_spec:
  assumes w: "inv w" and unused: "store w (uuid_source w (uuids_drawn w)) = None"
    and run: "Register s req w = (r, w')"
  shows "inv w' \<and> grows w w' \<and>
    (store w' = store w \<and> (\<exists>e. r = Inl e) \<or> (\<exists>u. registers req w r w' u))"
proof (cases "us_allowSignup s \<and> ul_validate (us_lib s) (register_fields (register_trim (us_lib s) req)) = None")
  case False
  then show ?thesis
    using run w by (auto simp: Register_def Let_def split: if_splits option.splits)
next
  case True
  let ?req = "register_trim (us_lib s) req"
  obtain y w1 where g: "repo_GetByEmail (us_repo s) (ToLower (us_lib s) (rr_Email ?req)) w = (y, w1)"
    by (cases "repo_GetByEmail (us_repo s) (ToLower (us_lib s) (rr_Email ?req)) w")
  note law = by_email_law [OF w g]
  have ids: "uuid_source w1 = uuid_source w" "uuids_drawn w1 = uuids_drawn w" "grows w w1"
    using law by (simp_all add: same_ids_def grows_def)
  show ?thesis
  proof (cases "\<exists>u. y = Inr (Some u)")
    case dup: True
    then show ?thesis using run True g law ids by (auto simp: Register_def Let_def)
  next
    case False
    let ?rest = "case ul_bcrypt_generate (us_lib s) (salts_drawn w1) (rr_Password ?req) of
        Inl e \<Rightarrow> (Inl (ErrOther e), salted w1)
      | Inr hash \<Rightarrow>
          (let u = registered_user (us_lib s) ?req hash (clock w1 (clock_reads w1)) (uuid_source w (uuids_drawn w))
           in case repo_Create (us_repo s) u (draw (tick (salted w1))) of
                (Some err, w5) \<Rightarrow>
                  if err = ErrDuplicateEmail then (Inl ErrDuplicateEmail, w5) else (Inl err, w5)
              | (None, w5) \<Rightarrow> issue_response s u w5)"
    have new: "uuid_new (tick (salted w1)) = (uuid_source w (uuids_drawn w), draw (tick (salted w1)))"
      using ids by (simp add: uuid_new_draw)
    have rest: "?rest = (r, w')"
      using run True False g
      by (auto simp: Register_def draw_salt_salted time_now_tick new Let_def
          split: option.splits sum.splits)
    show ?thesis
    proof (cases "ul_bcrypt_generate (us_lib s) (salts_drawn w1) (rr_Password ?req)")
      case (Inl e)
      then show ?thesis
        using rest law ids grows_trans [OF ids(3) draws_grow(3)] by (auto simp: grows_def)
    next
      case (Inr hash)
      let ?u = "registered_user (us_lib s) ?req hash (clock w1 (clock_reads w1)) (uuid_source w (uuids_drawn w))"
      have g4: "grows w (draw (tick (salted w1)))"
        using ids(3) by (simp add: grows_def)
      have "inv (draw (tick (salted w1)))" "store (draw (tick (salted w1))) (u_ID ?u) = None"
        using law unused by simp_all
      from register_tail [OF this registered_new, of r w'] rest Inr
      have "inv w' \<and> grows (draw (tick (salted w1))) w' \<and> (store w' = store w \<and> (\<exists>e. r = Inl e)
        \<or> store w' = (store w)(u_ID ?u \<mapsto> ?u)
          \<and> (case r of Inl e \<Rightarrow> \<exists>m. e = ErrOther m | Inr a \<Rightarrow> ar_User a = ?u))"
        using law by (simp add: Let_def)
      moreover have "grows (draw (tick (salted w1))) w' \<Longrightarrow> uuids_drawn w < uuids_drawn w'"
        using ids by (simp add: grows_def)
      moreover have "uuids_drawn w < uuids_drawn w' \<and> store w' = (store w)(u_ID ?u \<mapsto> ?u)
          \<and> (case r of Inl e \<Rightarrow> \<exists>m. e = ErrOther m | Inr a \<Rightarrow> ar_User a = ?u) \<Longrightarrow> registers req w r w' ?u"
        unfolding registers_def by blast
      ultimately show ?thesis
        using grows_trans [OF g4] by blast
    qed
  qed
qed

text \<open>
  A login that gets past the password writes the two timestamps of the account it found, or
  fails to and goes on; every other login leaves the store alone.
\<close>

definition logs_in :: "login_request \<Rightarrow> 'a runtime_scheme \<Rightarrow> 'a runtime_scheme \<Rightarrow> user \<Rightarrow> user \<Rightarrow> bool" where
  "logs_in req w w' v u \<longleftrightarrow>
     store w (u_ID v) = Some v
     \<and> canon (u_Email v) = canon (ToLower (us_lib s) (trim_space (lr_Email req)))
     \<and> ul_bcrypt_compare (us_lib s) (u_PasswordHash v) (trim_space (lr_Password req)) = None
     \<and> (\<exists>now. u = v\<lparr>u_LastLoginAt := Some now, u_UpdatedAt := now\<rparr>)
     \<and> (store w' = store w \<or> store w' = (store w)(u_ID v \<mapsto> u))"

lemma login_tail:
  assumes w: "inv w" "store w (u_ID v) = Some v" "same_account u v"
    and run: "(case repo_Update (us_repo s) u w of (_, w3) \<Rightarrow> issue_response s u w3) = (r, w')"
  shows "inv w' \<and> grows w w' \<and> (store w' = store w \<or> store w' = (store w)(u_ID v \<mapsto> u))
    \<and> (case r of Inl e \<Rightarrow> \<exists>m. e = ErrOther m | Inr a \<Rightarrow> ar_User a = u)"
proof -
  obtain x w3 where c: "repo_Update (us_repo s) u w = (x, w3)"
    by (cases "repo_Update (us_repo s) u w")
  have i: "u_ID u = u_ID v" using w(3) by (simp add: same_account_def)
  then have law: "inv w3" "same_ids w w3" "store w3 = store w \<or> store w3 = (store w)(u_ID v \<mapsto> u)"
    using update_law [OF w(1) _ w(3) c] w(2) by (auto split: if_splits)
  from run c have "issue_response s u w3 = (r, w')" by simp
  from response_keeps [OF law(1) this] law same_ids_grows [OF law(2)] grows_trans show ?thesis
    by auto
qed

theorem login_spec:
  assumes w: "inv w" and run: "Login s req w = (r, w')"
  shows "inv w' \<and> grows w w' \<and>
    (store w' = store w \<and> (\<exists>e. r = Inl e \<and> (e = ErrInvalidCreds \<or> (\<exists>es. e = ErrValidation es)))
     \<or> (\<exists>v u. logs_in req w w' v u
          \<and> (case r of Inl e \<Rightarrow> \<exists>m. e = ErrOther m | Inr a \<Rightarrow> ar_User a = u)))"
proof -
  let ?req = "req\<lparr>lr_Email := trim_space (lr_Email req), lr_Password := trim_space (lr_Password req)\<rparr>"
  obtain y w1 where g: "repo_GetByEmail (us_repo s) (ToLower (us_lib s) (trim_space (lr_Email req))) w = (y, w1)"
    by (cases "repo_GetByEmail (us_repo s) (ToLower (us_lib s) (trim_space (lr_Email req))) w")
  note law = by_email_law [OF w g]
  show ?thesis
  proof (cases "ul_validate (us_lib s) (login_fields ?req) = None
      \<and> (\<exists>v. y = Inr (Some v)
           \<and> ul_bcrypt_compare (us_lib s) (u_PasswordHash v) (trim_space (lr_Password req)) = None)")
    case False
    then show ?thesis
      using run w g law
      by (auto simp: Login_def Let_def same_ids_def grows_def split: option.splits sum.splits)
  next
    case True
    then obtain v where v: "y = Inr (Some v)"
        "ul_bcrypt_compare (us_lib s) (u_PasswordHash v) (trim_space (lr_Password req)) = None"
      by blast
    let ?u = "v\<lparr>u_LastLoginAt := Some (clock w1 (clock_reads w1)), u_UpdatedAt := clock w1 (clock_reads w1)\<rparr>"
    have "(case repo_Update (us_repo s) ?u (tick w1) of (_, w3) \<Rightarrow> issue_response s ?u w3) = (r, w')"
      using run True v g by (simp add: Login_def Let_def time_now_tick)
    from login_tail [OF _ _ _ this, of v] law v(1)
    have tail: "inv w' \<and> grows (tick w1) w'
        \<and> (store w' = store w \<or> store w' = (store w)(u_ID v \<mapsto> ?u))
        \<and> (case r of Inl e \<Rightarrow> \<exists>m. e = ErrOther m | Inr a \<Rightarrow> ar_User a = ?u)"
      by (simp add: same_account_def)
    moreover have "grows w (tick w1)" using law by (simp add: same_ids_def grows_def)
    moreover have "logs_in req w w' v ?u"
      using tail law v by (auto simp: logs_in_def)
    ultimately show ?thesis using grows_trans by blast
  qed
qed

theorem refresh_spec:
  assumes w: "inv w" and run: "Refresh s t w = (r, w')"
  shows "inv w' \<and> grows w w' \<and> store w' = store w \<and>
    (case r of Inl e \<Rightarrow> e = ErrInvalidToken | Inr a \<Rightarrow> store w (u_ID (ar_User a)) = Some (ar_User a))"
proof -
  obtain x w1 where e: "tm_ExtractUserID (us_tokens s) t w = (x, w1)"
    by (cases "tm_ExtractUserID (us_tokens s) t w")
  note l1 = extract_law [OF w e]
  show ?thesis
  proof (cases x)
    case (Inl m)
    then show ?thesis using run e l1 by (auto simp: Refresh_def)
  next
    case (Inr i)
    obtain y w2 where g: "repo_GetByID (us_repo s) i w1 = (y, w2)"
      by (cases "repo_GetByID (us_repo s) i w1")
    have l2: "inv w2" "grows w w2" "store w2 = store w"
        "\<And>u. y = Inr (Some u) \<Longrightarrow> store w (u_ID u) = Some u"
      using by_id_law [OF _ g] l1 store_id [of w1 i] by (auto simp: same_ids_def grows_def)
    show ?thesis
    proof (cases "\<exists>u. y = Inr (Some u)")
      case False
      then show ?thesis
        using run e Inr g l2 by (auto simp: Refresh_def split: sum.splits option.splits)
    next
      case True
      then obtain u where u: "y = Inr (Some u)" by blast
      obtain z w3 where rt: "tm_RefreshTokens (us_tokens s) u t w2 = (z, w3)"
        by (cases "tm_RefreshTokens (us_tokens s) u t w2")
      show ?thesis
        using run e Inr g u rt l2 refresh_law [OF l2(1) rt] grows_trans [of w w2 w3]
        by (auto simp: Refresh_def split: sum.splits)
    qed
  qed
qed

theorem updateMe_spec:
  assumes w: "inv w" and run: "UpdateMe s i req w = (r, w')"
  shows "inv w' \<and> grows w w' \<and>
    (case r of Inl e \<Rightarrow> store w' = store w
     | Inr u \<Rightarrow> store w' = (store w)(i \<mapsto> u) \<and> u_Name u = trim_space (ul_sanitize (us_lib s) (uu_Name req))
         \<and> (\<exists>v. store w i = Some v \<and> same_account u v \<and> u_LastLoginAt u = u_LastLoginAt v))"
proof (cases "ul_validate (us_lib s) (update_user_fields req)")
  case (Some es)
  then show ?thesis using run w by (auto simp: UpdateMe_def)
next
  case None
  obtain y w1 where g: "repo_GetByID (us_repo s) i w = (y, w1)"
    by (cases "repo_GetByID (us_repo s) i w")
  note law = by_id_law [OF w g]
  have gr: "grows w w1" "grows w (tick w1)" using law by (simp_all add: same_ids_def grows_def)
  show ?thesis
  proof (cases "\<exists>v. y = Inr (Some v)")
    case False
    then show ?thesis
      using run None g law gr by (auto simp: UpdateMe_def split: sum.splits option.splits)
  next
    case True
    then obtain v where v: "y = Inr (Some v)" "store w i = Some v" using law by auto
    define u where "u = (case uu_ProfileImage req of
        None \<Rightarrow> v\<lparr>u_Name := trim_space (ul_sanitize (us_lib s) (uu_Name req))\<rparr>
      | Some p \<Rightarrow> v\<lparr>u_Name := trim_space (ul_sanitize (us_lib s) (uu_Name req)),
                   u_ProfileImage := Some p\<rparr>)\<lparr>u_UpdatedAt := clock w1 (clock_reads w1)\<rparr>"
    obtain x w3 where up: "repo_Update (us_repo s) u (tick w1) = (x, w3)"
      by (cases "repo_Update (us_repo s) u (tick w1)")
    have u: "same_account u v" "u_ID u = i" "u_LastLoginAt u = u_LastLoginAt v"
        "u_Name u = trim_space (ul_sanitize (us_lib s) (uu_Name req))"
      using store_id [OF w v(2)] by (auto simp: u_def same_account_def split: option.splits)
    have "inv (tick w1)" "store (tick w1) (u_ID u) = Some v"
      using law v(2) u(2) by simp_all
    note up_law = update_law [OF this u(1) up]
    have "(case x of Some e \<Rightarrow> (Inl e, w3) | None \<Rightarrow> (Inr u, w3)) = (r, w')"
      using run None g v(1) up
      by (cases "uu_ProfileImage req"; cases x) (simp_all add: UpdateMe_def Let_def time_now_tick u_def)
    then show ?thesis
      using up_law law u v(2) grows_trans [OF gr(2) same_ids_grows, of w3]
      by (cases x) auto
  qed
qed

lemma getMe_spec:
  assumes w: "inv w" and run: "GetMe s i w = (r, w')"
  shows "inv w' \<and> same_ids w w' \<and> store w' = store w \<and>
    (case r of Inl e \<Rightarrow> e = ErrUserNotFound | Inr x \<Rightarrow> \<forall>u. x = Some u \<longrightarrow> store w i = Some u)"
proof -
  obtain y w1 where g: "repo_GetByID (us_repo s) i w = (y, w1)"
    by (cases "repo_GetByID (us_repo s) i w")
  show ?thesis using by_id_law [OF w g] run g by (auto simp: GetMe_def split: sum.splits)
qed

section \<open>Sequences of calls\<close>

text \<open>A state is sound, up to \<open>n\<close> draws, when no identifier still to be drawn is in use.\<close>

definition sound :: "nat \<Rightarrow> 'a runtime_scheme \<Rightarrow> bool" where
  "sound n w \<longleftrightarrow> inv w \<and> fresh_uuids n w
     \<and> (\<forall>k. uuids_drawn w \<le> k \<longrightarrow> k < n \<longrightarrow> store w (uuid_source w k) = None)"

lemma sound_same_store: "sound n w \<Longrightarrow> inv w' \<Longrightarrow> grows w w' \<Longrightarrow> dom (store w') = dom (store w) \<Longrightarrow> sound n w'"
  unfolding sound_def grows_def fresh_uuids_def by (metis domIff order_trans)

lemma register_sound:
  assumes w: "sound n w" and run: "Register s req w = (r, w')" and n: "uuids_drawn w < n"
  shows "sound n w' \<and> grows w w' \<and> accounts_kept (store w) (store w')"
proof -
  let ?i = "uuid_source w (uuids_drawn w)"
  have invw: "inv w" and unused: "store w ?i = None"
    using w n by (simp_all add: sound_def)
  note spec = register_spec [OF invw unused run]
  show ?thesis
  proof (cases "store w' = store w")
    case True
    then show ?thesis using sound_same_store [OF w] spec by simp
  next
    case False
    then obtain u where "registers req w r w' u" using spec by blast
    then have u: "u_ID u = ?i" "u_Role u = ''user''" "store w' = (store w)(?i \<mapsto> u)"
        "uuids_drawn w < uuids_drawn w'"
      unfolding registers_def by auto
    have "store w' (uuid_source w' k) = None" if "uuids_drawn w' \<le> k" "k < n" for k
    proof -
      have "uuid_source w k \<noteq> ?i"
        using fresh_uuids_neq [of n w "uuids_drawn w" k] w u(4) that by (auto simp: sound_def)
      then show ?thesis
        using w u(3,4) that spec by (simp add: sound_def grows_def)
    qed
    then have "sound n w'" using spec w by (simp add: sound_def fresh_uuids_def grows_def)
    moreover have "accounts_kept (store w) (store w')"
      using accounts_kept_new [of "store w" u] u unused by simp
    ultimately show ?thesis using spec by simp
  qed
qed

lemma login_sound:
  assumes w: "sound n w" and run: "Login s req w = (r, w')"
  shows "sound n w' \<and> grows w w' \<and> accounts_kept (store w) (store w')"
proof -
  have invw: "inv w" using w by (simp add: sound_def)
  note spec = login_spec [OF invw run]
  show ?thesis
  proof (cases "store w' = store w")
    case True
    then show ?thesis using sound_same_store [OF w] spec by simp
  next
    case False
    then obtain v u where "logs_in req w w' v u" using spec by blast
    then have u: "store w (u_ID v) = Some v" "same_account u v" "store w' = (store w)(u_ID v \<mapsto> u)"
      using False by (auto simp: logs_in_def same_account_def)
    then have "dom (store w') = dom (store w)" by auto
    with u accounts_kept_update [of "store w", OF u(1,2)] show ?thesis
      using sound_same_store [OF w] spec by simp
  qed
qed

lemma updateMe_sound:
  assumes w: "sound n w" and run: "UpdateMe s i req w = (r, w')"
  shows "sound n w' \<and> grows w w' \<and> accounts_kept (store w) (store w')"
proof -
  have invw: "inv w" using w by (simp add: sound_def)
  note spec = updateMe_spec [OF invw run]
  show ?thesis
  proof (cases r)
    case (Inl e)
    then show ?thesis using sound_same_store [OF w] spec by simp
  next
    case (Inr u)
    then obtain v where v: "store w i = Some v" "same_account u v" "store w' = (store w)(i \<mapsto> u)"
      using spec by auto
    then have "dom (store w') = dom (store w)" by auto
    with v accounts_kept_update [of "store w", OF v(1,2)] show ?thesis
      using sound_same_store [OF w] spec by simp
  qed
qed

lemma call_sound:
  assumes "sound n w" and "uuids_drawn w < n"
  shows "sound n (user_do s c w) \<and> grows w (user_do s c w)
    \<and> accounts_kept (store w) (store (user_do s c w))"
proof -
  have invw: "inv w" using assms(1) by (simp add: sound_def)
  note quiet = sound_same_store [OF assms(1)]
  show ?thesis
  proof (cases c)
    case (CallRegister req)
    then show ?thesis using register_sound [OF assms(1) _ assms(2)] by (simp add: prod_eq_iff)
  next
    case (CallLogin req)
    then show ?thesis using login_sound [OF assms(1)] by (simp add: prod_eq_iff)
  next
    case (CallRefreshToken t)
    then show ?thesis using refresh_spec [OF invw, of t] quiet by (simp add: prod_eq_iff)
  next
    case (CallGetMe i)
    then show ?thesis
      using getMe_spec [OF invw, of i] quiet by (simp add: prod_eq_iff same_ids_def grows_def)
  next
    case (CallUpdateMe i req)
    then show ?thesis using updateMe_sound [OF assms(1)] by (simp add: prod_eq_iff)
  next
    case (CallListUsers flt)
    then show ?thesis
      using list_law [OF invw, of flt] quiet by (simp add: ListUsers_def prod_eq_iff same_ids_def grows_def)
  qed
qed

theorem run_sound:
  assumes "sound n w" and "\<forall>k \<le> length cs. uuids_drawn (user_run s (take k cs) w) < n"
  shows "sound n (user_run s cs w) \<and> accounts_kept (store w) (store (user_run s cs w))"
  using assms
proof (induction cs arbitrary: w)
  case Nil
  then show ?case by (simp add: user_run_def)
next
  case (Cons c cs)
  let ?w = "user_do s c w"
  have "uuids_drawn w < n" using Cons.prems(2) by (auto simp: user_run_def dest: spec [of _ 0])
  then have step: "sound n ?w" "accounts_kept (store w) (store ?w)"
    using call_sound [OF Cons.prems(1)] by simp_all
  have "uuids_drawn (user_run s (take k cs) ?w) < n" if "k \<le> length cs" for k
    using Cons.prems(2) that by (auto simp: user_run_def dest: spec [of _ "Suc k"])
  then have "sound n (user_run s cs ?w) \<and> accounts_kept (store ?w) (store (user_run s cs ?w))"
    using Cons.IH [OF step(1)] by blast
  then show ?case
    using accounts_kept_trans [OF step(2)] by (simp add: user_run_def)
qed

end

end
