(* ===== verification/UserStore.thy ===== *)
theory UserStore
  imports UserAccounts Database TokenProperties
begin

text \<open>
  \<open>internal/infrastructure/db/user_repository.go\<close>: the repository of accounts over the database,
  and its place behind the account service. The row's \<open>last_password_hash\<close> may be NULL and is
  left NULL by the only \<open>INSERT\<close>; the entity's field is a plain Go string, so scanning such a
  row fails.
\<close>

section \<open>The repository\<close>

definition isDuplicate :: "sql_lib \<Rightarrow> string \<Rightarrow> bool" where
  "isDuplicate sl m =
     (let s = to_lower (sl_unicode_lower sl) m in contains s ''duplicate'' \<or> contains s ''unique'')"

definition user_insert_row :: "user \<Rightarrow> user_row" where
  "user_insert_row u =
     \<lparr>ur_id = u_ID u, ur_email = u_Email u, ur_name = u_Name u,
      ur_password_hash = u_PasswordHash u, ur_profile_image = u_ProfileImage u,
      ur_role = u_Role u, ur_refresh_version = u_RefreshVersion u, ur_last_login_at = None,
      ur_password_reset_at = None, ur_last_password_hash = None, ur_created_at = u_CreatedAt u,
      ur_updated_at = u_UpdatedAt u, ur_deleted_at = None\<rparr>"

text \<open>The table's primary key and the unique index on the case-insensitive address.\<close>

definition insert_user :: "sql_lib \<Rightarrow> user_row \<Rightarrow> user_row list \<Rightarrow> string + user_row list \<times> nat" where
  "insert_user sl r rs =
     (if \<exists>q \<in> set rs. ur_id q = ur_id r \<or> sl_lower sl (ur_email q) = sl_lower sl (ur_email r)
      then Inl (sl_duplicate_key sl) else Inr (rs @ [r], 1))"

definition CreateUser ::
  "sql_lib \<Rightarrow> user \<Rightarrow> 'a database_scheme \<Rightarrow> user_error option \<times> 'a database_scheme" where
  "CreateUser sl u w =
     (case exec_users (insert_user sl (user_insert_row u)) w of
        (Inl m, w1) \<Rightarrow>
          if isDuplicate sl m then (Some ErrDuplicateEmail, w1) else (Some (ErrOther m), w1)
      | (Inr _, w1) \<Rightarrow> (None, w1))"

definition set_user_row :: "user \<Rightarrow> user_row \<Rightarrow> user_row" where
  "set_user_row u r =
     r\<lparr>ur_name := u_Name u, ur_profile_image := u_ProfileImage u,
       ur_password_hash := u_PasswordHash u, ur_refresh_version := u_RefreshVersion u,
       ur_updated_at := u_UpdatedAt u, ur_last_login_at := u_LastLoginAt u\<rparr>"

definition UpdateUser ::
  "sql_lib \<Rightarrow> user \<Rightarrow> 'a database_scheme \<Rightarrow> user_error option \<times> 'a database_scheme" where
  "UpdateUser sl u w =
     (case exec_users (sql_update (\<lambda>r. ur_id r = u_ID u) (set_user_row u)) w of
        (Inl m, w1) \<Rightarrow> (Some (ErrOther m), w1)
      | (Inr _, w1) \<Rightarrow> (None, w1))"

text \<open>Scanning a row of \<open>SELECT *\<close> into the entity.\<close>

definition scan_user :: "sql_lib \<Rightarrow> user_row \<Rightarrow> string + user" where
  "scan_user sl r =
     (case ur_last_password_hash r of
        None \<Rightarrow> Inl (sl_null_scan sl)
      | Some h \<Rightarrow>
          Inr \<lparr>u_ID = ur_id r, u_Email = ur_email r, u_Name = ur_name r,
               u_PasswordHash = ur_password_hash r, u_ProfileImage = ur_profile_image r,
               u_Role = ur_role r, u_RefreshVersion = ur_refresh_version r,
               u_LastLoginAt = ur_last_login_at r, u_PasswordResetAt = ur_password_reset_at r,
               u_LastPasswordHash = h, u_CreatedAt = ur_created_at r,
               u_UpdatedAt = ur_updated_at r, u_DeletedAt = ur_deleted_at r\<rparr>)"

fun scan_users :: "sql_lib \<Rightarrow> user_row list \<Rightarrow> string + user list" where
  "scan_users sl [] = Inr []"
| "scan_users sl (r # rs) =
     (case scan_user sl r of
        Inl m \<Rightarrow> Inl m
      | Inr u \<Rightarrow> (case scan_users sl rs of Inl m \<Rightarrow> Inl m | Inr us \<Rightarrow> Inr (u # us)))"

definition scan_first :: "sql_lib \<Rightarrow> user_row list \<Rightarrow> string + user option" where
  "scan_first sl rs =
     (case rs of [] \<Rightarrow> Inr None | r # _ \<Rightarrow> (case scan_user sl r of Inl m \<Rightarrow> Inl m | Inr u \<Rightarrow> Inr (Some u)))"

definition live_row :: "user_row \<Rightarrow> bool" where
  "live_row r \<longleftrightarrow> ur_deleted_at r = None"

definition GetUserByEmail ::
  "sql_lib \<Rightarrow> string \<Rightarrow> 'a database_scheme \<Rightarrow> (user_error + user option) \<times> 'a database_scheme" where
  "GetUserByEmail sl e w =
     (case query (\<lambda>v. scan_first sl (take 1 (filter (\<lambda>r. sl_lower sl (ur_email r) = sl_lower sl e
             \<and> live_row r) (db_users v)))) w of
        (Inl m, w1) \<Rightarrow> (Inl (ErrOther m), w1)
      | (Inr None, w1) \<Rightarrow> (Inr None, w1)
      | (Inr (Some u), w1) \<Rightarrow> (Inr (Some u), w1))"

definition GetUserByID ::
  "sql_lib \<Rightarrow> uuid \<Rightarrow> 'a database_scheme \<Rightarrow> (user_error + user option) \<times> 'a database_scheme" where
  "GetUserByID sl i w =
     (case query (\<lambda>v. scan_first sl (filter (\<lambda>r. ur_id r = i \<and> live_row r) (db_users v))) w of
        (Inl m, w1) \<Rightarrow> (Inl (ErrOther m), w1)
      | (Inr None, w1) \<Rightarrow> (Inl ErrUserNotFound, w1)
      | (Inr (Some u), w1) \<Rightarrow> (Inr (Some u), w1))"

definition user_matches :: "sql_lib \<Rightarrow> user_filter \<Rightarrow> user_row \<Rightarrow> bool" where
  "user_matches sl flt r \<longleftrightarrow>
     live_row r \<and> (uf_Search flt \<noteq> [] \<longrightarrow>
       like_term sl (ur_email r) (uf_Search flt) \<or> like_term sl (ur_name r) (uf_Search flt))"

definition user_order :: "user_filter \<Rightarrow> string" where
  "user_order flt = (if contains (uf_Sort flt) ''name'' then ''name ASC'' else ''created_at DESC'')"

definition ListUserRows ::
  "sql_lib \<Rightarrow> user_filter \<Rightarrow> 'a database_scheme \<Rightarrow>
     (user_error + user list \<times> int) \<times> 'a database_scheme" where
  "ListUserRows sl flt w =
     (case query (\<lambda>v. case sql_page sl (uf_Limit flt) (uf_Offset flt)
               (sl_order_users sl (user_order flt) (filter (user_matches sl flt) (db_users v))) of
             Inl m \<Rightarrow> Inl m | Inr rs \<Rightarrow> scan_users sl rs) w of
        (Inl m, w1) \<Rightarrow> (Inl (ErrOther m), w1)
      | (Inr us, w1) \<Rightarrow>
          (case query (\<lambda>v. Inr (count_where (user_matches sl flt) (db_users v))) w1 of
             (Inl m, w2) \<Rightarrow> (Inl (ErrOther m), w2)
           | (Inr n, w2) \<Rightarrow> (Inr (us, int n), w2)))"

definition NewUserRepository :: "sql_lib \<Rightarrow> 'a database_scheme user_repo" where
  "NewUserRepository sl =
     \<lparr>repo_Create = CreateUser sl, repo_Update = UpdateUser sl,
      repo_GetByEmail = GetUserByEmail sl, repo_GetByID = GetUserByID sl,
      repo_List = ListUserRows sl\<rparr>"

section \<open>The contract of the repository\<close>

definition row_user :: "user_row \<Rightarrow> user" where
  "row_user r =
     \<lparr>u_ID = ur_id r, u_Email = ur_email r, u_Name = ur_name r,
      u_PasswordHash = ur_password_hash r, u_ProfileImage = ur_profile_image r,
      u_Role = ur_role r, u_RefreshVersion = ur_refresh_version r,
      u_LastLoginAt = ur_last_login_at r, u_PasswordResetAt = ur_password_reset_at r,
      u_LastPasswordHash = (case ur_last_password_hash r of None \<Rightarrow> [] | Some h \<Rightarrow> h),
      u_CreatedAt = ur_created_at r, u_UpdatedAt = ur_updated_at r, u_DeletedAt = ur_deleted_at r\<rparr>"

definition live_user :: "user_row list \<Rightarrow> uuid \<Rightarrow> user option" where
  "live_user rs i = map_option row_user (find (\<lambda>r. ur_id r = i \<and> live_row r) rs)"

definition users_ok :: "sql_lib \<Rightarrow> user_row list \<Rightarrow> bool" where
  "users_ok sl rs \<longleftrightarrow>
     distinct (map ur_id rs) \<and> distinct (map (\<lambda>r. sl_lower sl (ur_email r)) rs)"

lemma scan_user_Inr: "scan_user sl r = Inr u \<Longrightarrow> u = row_user r"
  by (auto simp: scan_user_def row_user_def split: option.splits)

lemma scan_first_Inr: "scan_first sl rs = Inr (Some u) \<Longrightarrow> \<exists>r \<in> set rs. u = row_user r"
  by (cases rs) (auto simp: scan_first_def dest: scan_user_Inr split: sum.splits)

lemma row_user_fields [simp]:
  "u_ID (row_user r) = ur_id r" "u_Email (row_user r) = ur_email r" "u_Role (row_user r) = ur_role r"
  "u_PasswordHash (row_user r) = ur_password_hash r" "u_DeletedAt (row_user r) = ur_deleted_at r"
  by (simp_all add: row_user_def)

lemma live_user_SomeE:
  assumes "live_user rs i = Some u"
  obtains r where "r \<in> set rs" "ur_id r = i" "live_row r" "u = row_user r"
  using assms by (auto simp: live_user_def dest: find_Some_iff_first)

lemma live_user_row:
  assumes "distinct (map ur_id rs)" and "r \<in> set rs" and "live_row r"
  shows "live_user rs (ur_id r) = Some (row_user r)"
  using assms by (induction rs) (auto simp: live_user_def rev_image_eqI)

lemma distinct_map_same: "distinct (map f rs) \<Longrightarrow> q \<in> set rs \<Longrightarrow> r \<in> set rs \<Longrightarrow> f q = f r \<Longrightarrow> q = r"
  by (auto simp: distinct_map inj_on_def)

lemma live_user_append:
  assumes "\<And>q. q \<in> set rs \<Longrightarrow> ur_id q \<noteq> ur_id r" and "live_row r"
  shows "live_user (rs @ [r]) = (live_user rs)(ur_id r \<mapsto> row_user r)"
proof -
  have "find P (rs @ [r]) = (case find P rs of None \<Rightarrow> find P [r] | Some q \<Rightarrow> Some q)" for P
    by (induction rs) auto
  moreover have "find (\<lambda>q. ur_id q = ur_id r \<and> live_row q) rs = None"
    using assms(1) by (auto simp: find_None_iff)
  ultimately show ?thesis
    using assms(2) by (auto simp: live_user_def fun_eq_iff split: option.splits)
qed

lemma set_user_row_fields [simp]:
  "ur_id (set_user_row u r) = ur_id r" "ur_email (set_user_row u r) = ur_email r"
  "live_row (set_user_row u r) = live_row r"
  "ur_last_password_hash (set_user_row u r) = ur_last_password_hash r"
  "ur_role (set_user_row u r) = ur_role r"
  by (simp_all add: set_user_row_def live_row_def)

lemma row_user_set: "same_account u (row_user r) \<Longrightarrow> row_user (set_user_row u r) = u"
  by (simp add: same_account_def row_user_def set_user_row_def)

lemma find_update_where:
  assumes "\<And>r. Q (f r) = Q r"
  shows "find Q (update_where P f rs) = map_option (\<lambda>r. if P r then f r else r) (find Q rs)"
  using assms by (induction rs) (auto simp: update_where_def)

lemma live_user_update:
  assumes "live_user rs (u_ID u) = Some v" and "same_account u v"
  shows "live_user (update_where (\<lambda>r. ur_id r = u_ID u) (set_user_row u) rs) = (live_user rs)(u_ID u \<mapsto> u)"
proof
  fix i
  let ?P = "\<lambda>r. ur_id r = i \<and> live_row r" and ?f = "\<lambda>r. if ur_id r = u_ID u then set_user_row u r else r"
  have f: "find ?P (update_where (\<lambda>r. ur_id r = u_ID u) (set_user_row u) rs) = map_option ?f (find ?P rs)"
    by (rule find_update_where) simp
  show "live_user (update_where (\<lambda>r. ur_id r = u_ID u) (set_user_row u) rs) i
      = ((live_user rs)(u_ID u \<mapsto> u)) i"
  proof (cases "i = u_ID u")
    case True
    then obtain r where r: "find ?P rs = Some r" "v = row_user r"
      using assms(1) by (auto simp: live_user_def)
    have "ur_id r = u_ID u" using find_Some_iff_first [OF r(1)] True by simp
    moreover have "row_user (set_user_row u r) = u" using row_user_set assms(2) r(2) by simp
    ultimately have "map_option row_user (map_option ?f (find ?P rs)) = Some u"
      unfolding r(1) by simp
    with f True show ?thesis by (simp only: live_user_def fun_upd_same)
  next
    case False
    have "map_option ?f (find ?P rs) = find ?P rs"
    proof (cases "find ?P rs")
      case (Some r)
      then have "ur_id r = i" using find_Some_iff_first [OF Some] by simp
      with Some False show ?thesis by simp
    qed simp
    with f False show ?thesis by (simp add: live_user_def)
  qed
qed

lemma users_ok_update: "users_ok sl (update_where P (set_user_row u) rs) = users_ok sl rs"
proof -
  have "map ur_id (update_where P (set_user_row u) rs) = map ur_id rs"
    by (rule update_where_keeps) simp
  moreover have "map (\<lambda>r. sl_lower sl (ur_email r)) (update_where P (set_user_row u) rs)
      = map (\<lambda>r. sl_lower sl (ur_email r)) rs"
    by (rule update_where_keeps) simp
  ultimately show ?thesis by (simp add: users_ok_def)
qed

lemma database_draws [simp]:
  "db_users (tick w) = db_users w" "db_users (draw w) = db_users w" "db_users (salted w) = db_users w"
  "db_profiles (tick w) = db_profiles w" "db_profiles (draw w) = db_profiles w"
  "db_profiles (salted w) = db_profiles w" "db_faults (tick w) = db_faults w"
  "db_faults (draw w) = db_faults w" "db_faults (salted w) = db_faults w"
  by (simp_all add: tick_def draw_def salted_def)

lemma stmt_same: "stmt w = (x, w1) \<Longrightarrow> db_users w1 = db_users w \<and> same_ids w w1"
  using stmt_frame [of w] by (auto simp: same_ids_def)

lemma query_frame:
  "query f w = (r, w') \<Longrightarrow> db_users w' = db_users w \<and> same_ids w w' \<and>
    (\<forall>v. r = Inr v \<longrightarrow> (\<exists>w1. f w1 = Inr v \<and> db_users w1 = db_users w))"
  by (auto simp: query_def dest: stmt_same split: prod.splits option.splits)

text \<open>The two writes, as far as the tables are concerned.\<close>

lemma user_insert_fields [simp]:
  "ur_id (user_insert_row u) = u_ID u" "ur_email (user_insert_row u) = u_Email u"
  "live_row (user_insert_row u)" "ur_last_password_hash (user_insert_row u) = None"
  "new_account u \<Longrightarrow> row_user (user_insert_row u) = u"
  by (simp_all add: row_user_def user_insert_row_def live_row_def new_account_def)

lemma CreateUser_table:
  "CreateUser sl u w = (x, w') \<Longrightarrow> same_ids w w' \<and>
    (if x = None
     then db_users w' = db_users w @ [user_insert_row u]
       \<and> (\<forall>q \<in> set (db_users w). ur_id q \<noteq> u_ID u \<and> sl_lower sl (ur_email q) \<noteq> sl_lower sl (u_Email u))
     else db_users w' = db_users w)"
  by (auto simp: CreateUser_def exec_users_def insert_user_def same_ids_def stmt_def
      split: option.splits if_splits)

lemma UpdateUser_table:
  "UpdateUser sl u w = (x, w') \<Longrightarrow> same_ids w w' \<and>
    db_users w' = (if x = None then update_where (\<lambda>r. ur_id r = u_ID u) (set_user_row u) (db_users w)
                   else db_users w)"
  by (auto simp: UpdateUser_def exec_users_def sql_update_def same_ids_def stmt_def
      split: option.splits)

lemma ListUserRows_table:
  "ListUserRows sl flt w = (y, w') \<Longrightarrow> same_ids w w' \<and> db_users w' = db_users w"
  by (auto simp: ListUserRows_def query_def same_ids_def stmt_def split: option.splits sum.splits)

lemma users_ok_append:
  "users_ok sl rs \<Longrightarrow>
    \<forall>q \<in> set rs. ur_id q \<noteq> ur_id r \<and> sl_lower sl (ur_email q) \<noteq> sl_lower sl (ur_email r) \<Longrightarrow>
    users_ok sl (rs @ [r])"
  by (auto simp: users_ok_def)

interpretation sql: user_repository "NewUserRepository sl" "\<lambda>w. live_user (db_users w)"
    "sl_lower sl" "\<lambda>w. users_ok sl (db_users w)" for sl :: sql_lib
proof unfold_locales
  fix w w' :: "'a database_scheme"
  assume ok: "users_ok sl (db_users w)"
  show "u_ID u = i" if "live_user (db_users w) i = Some u" for i u
    using that by (auto elim: live_user_SomeE)
  show "i = j" if iu: "live_user (db_users w) i = Some u" and jv: "live_user (db_users w) j = Some v"
    and eq: "sl_lower sl (u_Email u) = sl_lower sl (u_Email v)" for i j u v
  proof -
    obtain p q where p: "p \<in> set (db_users w)" "ur_id p = i" "u = row_user p"
        and q: "q \<in> set (db_users w)" "ur_id q = j" "v = row_user q"
      using iu jv by (meson live_user_SomeE)
    have "distinct (map (\<lambda>r. sl_lower sl (ur_email r)) (db_users w))"
      using ok by (simp add: users_ok_def)
    from distinct_map_same [OF this p(1) q(1)] eq p q show ?thesis by simp
  qed
  show "users_ok sl (db_users w') \<and> same_ids w w' \<and> live_user (db_users w') = live_user (db_users w)
      \<and> (\<forall>u. r = Inr (Some u) \<longrightarrow> live_user (db_users w) (u_ID u) = Some u
             \<and> sl_lower sl (u_Email u) = sl_lower sl e)"
    if run: "repo_GetByEmail (NewUserRepository sl) e w = (r, w')" for e r
  proof -
    let ?rs = "\<lambda>v. take 1 (filter (\<lambda>r. sl_lower sl (ur_email r) = sl_lower sl e \<and> live_row r) (db_users v))"
    obtain y where y: "query (\<lambda>v. scan_first sl (?rs v)) w = (y, w')"
        "r = Inr (Some u) \<Longrightarrow> y = Inr (Some u)" for u
      using run by (fastforce simp: NewUserRepository_def GetUserByEmail_def split: prod.splits sum.splits option.splits)
    note fr = query_frame [OF y(1)]
    have "live_user (db_users w) (u_ID u) = Some u \<and> sl_lower sl (u_Email u) = sl_lower sl e"
      if u: "r = Inr (Some u)" for u
    proof -
      obtain q where "q \<in> set (?rs w)" "u = row_user q"
        using fr y(2) [OF u] by (auto dest!: scan_first_Inr)
      then have "q \<in> set (db_users w)" "live_row q" "sl_lower sl (ur_email q) = sl_lower sl e"
        by (auto dest!: in_set_takeD)
      with live_user_row [of "db_users w" q] ok \<open>u = row_user q\<close> show ?thesis
        by (simp add: users_ok_def)
    qed
    with fr ok show ?thesis by simp
  qed
  show "users_ok sl (db_users w') \<and> same_ids w w' \<and> live_user (db_users w') = live_user (db_users w)
      \<and> (\<forall>u. r = Inr (Some u) \<longrightarrow> live_user (db_users w) i = Some u)"
    if run: "repo_GetByID (NewUserRepository sl) i w = (r, w')" for i r
  proof -
    let ?rs = "\<lambda>v. filter (\<lambda>r. ur_id r = i \<and> live_row r) (db_users v)"
    obtain y where y: "query (\<lambda>v. scan_first sl (?rs v)) w = (y, w')"
        "r = Inr (Some u) \<Longrightarrow> y = Inr (Some u)" for u
      using run by (fastforce simp: NewUserRepository_def GetUserByID_def split: prod.splits sum.splits option.splits)
    note fr = query_frame [OF y(1)]
    have "live_user (db_users w) i = Some u" if u: "r = Inr (Some u)" for u
    proof -
      obtain q where "q \<in> set (?rs w)" "u = row_user q"
        using fr y(2) [OF u] by (auto dest!: scan_first_Inr)
      with live_user_row [of "db_users w" q] ok show ?thesis by (auto simp: users_ok_def)
    qed
    with fr ok show ?thesis by simp
  qed
  show "users_ok sl (db_users w') \<and> same_ids w w' \<and> live_user (db_users w')
      = (if x = None then (live_user (db_users w))(u_ID u \<mapsto> u) else live_user (db_users w))"
    if new: "new_account u" and run: "repo_Create (NewUserRepository sl) u w = (x, w')" for u x
  proof -
    have "CreateUser sl u w = (x, w')" using run by (simp add: NewUserRepository_def)
    from CreateUser_table [OF this] show ?thesis
      using ok new live_user_append [of "db_users w" "user_insert_row u"]
        users_ok_append [OF ok, of "user_insert_row u"]
      by (cases x) simp_all
  qed
  show "users_ok sl (db_users w') \<and> same_ids w w' \<and> live_user (db_users w')
      = (if x = None then (live_user (db_users w))(u_ID u \<mapsto> u) else live_user (db_users w))"
    if v: "live_user (db_users w) (u_ID u) = Some v" "same_account u v"
      and run: "repo_Update (NewUserRepository sl) u w = (x, w')" for u v x
  proof -
    have "UpdateUser sl u w = (x, w')" using run by (simp add: NewUserRepository_def)
    from UpdateUser_table [OF this] show ?thesis
      using ok live_user_update [OF v] by (cases x) (simp_all add: users_ok_update)
  qed
  show "users_ok sl (db_users w') \<and> same_ids w w' \<and> live_user (db_users w') = live_user (db_users w)"
    if "repo_List (NewUserRepository sl) flt w = (y, w')" for flt y
    using that ok ListUserRows_table [of sl flt w y w'] by (simp add: NewUserRepository_def)
qed auto

section \<open>The account service on the database\<close>

text \<open>The Redis client \<open>cmd/api/main.go\<close> hands the manager: none when the server did not answer (\<open>up\<close> is \<open>False\<close>).\<close>

definition redis_for :: "bool \<Rightarrow> 'a redis_server_scheme redis_client option" where
  "redis_for up = (if up then Some ref_redis else None)"

definition app_tokens ::
  "auth_config \<Rightarrow> bool \<Rightarrow> jwt_lib \<Rightarrow> 'a token_state_scheme token_manager" where
  "app_tokens cfg up jl = jwt_token_manager (NewManager cfg (redis_for up) jl)"

definition app_users ::
  "sql_lib \<Rightarrow> auth_config \<Rightarrow> bool \<Rightarrow> jwt_lib \<Rightarrow> user_lib \<Rightarrow> bool \<Rightarrow> 'a database_scheme user_service" where
  "app_users sl cfg up jl lib allow =
     NewService (NewUserRepository sl) (app_tokens cfg up jl) lib allow"

text \<open>The token calls leave the tables alone.\<close>

definition same_tables :: "'a database_scheme \<Rightarrow> 'a database_scheme \<Rightarrow> bool" where
  "same_tables w w' \<longleftrightarrow> db_users w' = db_users w \<and> db_profiles w' = db_profiles w \<and> grows w w'"

lemma same_tables_refl [simp]: "same_tables w w"
  by (simp add: same_tables_def)

lemma same_tables_trans: "same_tables u v \<Longrightarrow> same_tables v w \<Longrightarrow> same_tables u w"
  using grows_trans by (auto simp: same_tables_def)

lemma same_tables_draws [simp]: "same_tables w (tick w)" "same_tables w (draw w)"
  by (simp_all add: same_tables_def grows_def)

lemma store_calls_tables:
  fixes w :: "'a database_scheme"
  assumes "mg_redis m = redis_for b"
  shows "persistRefresh m c t w = (e, w') \<Longrightarrow> same_tables w w'"
    and "ensureRefreshValid m c t w = (e, w') \<Longrightarrow> same_tables w w'"
    and "revoke m c w = (e, w') \<Longrightarrow> same_tables w w'"
  using assms
  by (auto simp: persistRefresh_def ensureRefreshValid_def revoke_def redis_for_def ref_redis_def
      ref_set_def ref_get_def ref_del_def redis_call_def redis_put_def same_tables_def grows_def
      split: option.splits if_splits)

lemma mint_tables: "issueAccess m u w = (x, w1) \<Longrightarrow> same_tables w w1"
    "issueRefresh m u w = (y, w1) \<Longrightarrow> same_tables w w1"
  for w :: "'a database_scheme"
  by (auto simp: issueAccess_eq issueRefresh_eq Let_def same_tables_def grows_def)

lemma parse_tables: "parse m t k w = (x, w1) \<Longrightarrow> same_tables w w1"
  for w :: "'a database_scheme"
  by (auto simp: parse_pair)

lemma token_calls_tables:
  fixes w :: "'a database_scheme"
  assumes "mg_redis m = redis_for b"
  shows "IssueTokens m u w = (r, w') \<Longrightarrow> same_tables w w'"
    and "RefreshTokens m u t w = (r', w') \<Longrightarrow> same_tables w w'"
    and "ExtractUserID m t w = (i, w') \<Longrightarrow> same_tables w w'"
proof -
  note calls = store_calls_tables [OF assms] mint_tables parse_tables
  show "same_tables w w'" if "IssueTokens m u w = (r, w')"
    using that
    by (auto simp: IssueTokens_def split: prod.splits sum.splits option.splits
        dest!: calls dest: same_tables_trans)
  show "same_tables w w'" if "RefreshTokens m u t w = (r', w')"
    using that
    by (auto simp: RefreshTokens_def split: prod.splits sum.splits option.splits if_splits
        dest!: calls dest: same_tables_trans) (meson same_tables_trans)+
  show "same_tables w w'" if "ExtractUserID m t w = (i, w')"
    using that by (auto simp: ExtractUserID_def split: prod.splits sum.splits dest!: calls)
qed

interpretation accounts: user_accounts "app_users sl cfg up jl lib allow"
    "\<lambda>w. live_user (db_users w)" "sl_lower sl" "\<lambda>w. users_ok sl (db_users w)"
  for sl cfg up jl lib allow
proof -
  have repo: "us_repo (app_users sl cfg up jl lib allow) = NewUserRepository sl"
    by (simp add: app_users_def NewService_def)
  have red: "mg_redis (NewManager cfg (redis_for up) jl) = redis_for up"
    by (simp add: NewManager_def)
  note calls = token_calls_tables [OF red]
  show "user_accounts (app_users sl cfg up jl lib allow :: 'a database_scheme user_service)
      (\<lambda>w. live_user (db_users w)) (sl_lower sl) (\<lambda>w. users_ok sl (db_users w))"
    by (intro user_accounts.intro user_accounts_axioms.intro)
      (auto simp: repo sql.user_repository_axioms app_users_def NewService_def app_tokens_def
        jwt_token_manager_def dest!: calls simp: same_tables_def)
qed

end
