(* ===== verification/ProfileAccess.thy ===== *)
theory ProfileAccess
  imports ProfileStore ProfileContract UserStore
begin

text \<open>
  The database as the profile service's repository: what each statement of \<open>ProfileStore\<close> does to
  the map from ids to profiles, and the interpretation of the contract.
\<close>

section \<open>Rows as a map\<close>

definition stored :: "profile list \<Rightarrow> uuid \<Rightarrow> profile option" where
  "stored ps i = find (\<lambda>p. p_ID p = i) ps"

definition profiles_ok :: "profile list \<Rightarrow> bool" where
  "profiles_ok ps \<longleftrightarrow> distinct (map p_ID ps) \<and> (\<forall>p \<in> set ps. int4 (p_Version p))"

lemma stored_SomeD: "stored ps i = Some p \<Longrightarrow> p \<in> set ps \<and> p_ID p = i"
  unfolding stored_def by (rule find_Some_iff_first)

lemma stored_in: "distinct (map p_ID ps) \<Longrightarrow> p \<in> set ps \<Longrightarrow> stored ps (p_ID p) = Some p"
  unfolding stored_def by (rule find_unique_key) auto

lemma stored_None: "stored ps i = None \<longleftrightarrow> (\<forall>p \<in> set ps. p_ID p \<noteq> i)"
  by (auto simp: stored_def find_None_iff)

lemma stored_append:
  "stored ps (p_ID p) = None \<Longrightarrow> stored (ps @ [p]) = (stored ps)(p_ID p \<mapsto> p)"
proof
  fix i assume none: "stored ps (p_ID p) = None"
  have "find P (ps @ [p]) = (case find P ps of None \<Rightarrow> find P [p] | Some q \<Rightarrow> Some q)" for P
    by (induction ps) auto
  with none show "stored (ps @ [p]) i = ((stored ps)(p_ID p \<mapsto> p)) i"
    by (auto simp: stored_def split: option.splits)
qed

lemma stored_update_where:
  assumes "\<And>p. p_ID (f p) = p_ID p"
  shows "stored (update_where P f ps) i = map_option (\<lambda>p. if P p then f p else p) (stored ps i)"
  unfolding stored_def by (rule find_update_where) (simp add: assms)

lemma stored_filter:
  assumes "distinct (map p_ID ps)"
  shows "stored (filter (\<lambda>p. \<not> P p) ps) i =
    (case stored ps i of None \<Rightarrow> None | Some p \<Rightarrow> if P p then None else Some p)"
  using assms
proof (induction ps)
  case (Cons a ps)
  have "find (\<lambda>p. p_ID p = i) (filter (\<lambda>p. \<not> P p) ps) = None" if "p_ID a = i"
    using Cons.prems that by (auto simp: find_None_iff) (metis imageI)
  with Cons show ?case by (auto simp: stored_def)
qed (simp add: stored_def)

text \<open>A condition that fixes the id holds of the stored profile or of none.\<close>

lemma one_row:
  assumes "distinct (map p_ID ps)" and "\<And>p. P p \<Longrightarrow> p_ID p = i"
  shows "0 < count_where P ps \<longleftrightarrow> (\<exists>q. stored ps i = Some q \<and> P q)"
  using assms stored_in [OF assms(1)] stored_SomeD [of ps i] by (fastforce simp: count_where_pos)

lemma update_one:
  assumes "distinct (map p_ID ps)" and "\<And>p. P p \<Longrightarrow> p_ID p = i" and "\<And>p. p_ID (f p) = p_ID p"
  shows "stored (update_where P f ps) =
    (case stored ps i of None \<Rightarrow> stored ps
     | Some q \<Rightarrow> if P q then (stored ps)(i \<mapsto> f q) else stored ps)"
proof
  fix j
  note upd = stored_update_where [of f P ps j, OF assms(3)]
  show "stored (update_where P f ps) j = (case stored ps i of None \<Rightarrow> stored ps
     | Some q \<Rightarrow> if P q then (stored ps)(i \<mapsto> f q) else stored ps) j"
  proof (cases "j = i")
    case True
    with upd show ?thesis by (auto split: option.split)
  next
    case False
    have "\<not> P q" if "stored ps j = Some q" for q
      using assms(2) [of q] stored_SomeD [OF that] False by blast
    with upd False show ?thesis by (cases "stored ps j") (auto split: option.split)
  qed
qed

lemma delete_one:
  assumes "distinct (map p_ID ps)" and "\<And>p. P p \<Longrightarrow> p_ID p = i"
  shows "stored (filter (\<lambda>p. \<not> P p) ps) =
    (case stored ps i of None \<Rightarrow> stored ps
     | Some q \<Rightarrow> if P q then (stored ps)(i := None) else stored ps)"
proof
  fix j
  note del = stored_filter [OF assms(1), of P j]
  show "stored (filter (\<lambda>p. \<not> P p) ps) j = (case stored ps i of None \<Rightarrow> stored ps
     | Some q \<Rightarrow> if P q then (stored ps)(i := None) else stored ps) j"
  proof (cases "j = i")
    case True
    with del show ?thesis by (auto split: option.split)
  next
    case False
    have "\<not> P q" if "stored ps j = Some q" for q
      using assms(2) [of q] stored_SomeD [OF that] False by blast
    with del False show ?thesis by (cases "stored ps j") (auto split: option.split)
  qed
qed

lemma profiles_ok_update:
  assumes "profiles_ok ps" and "\<And>p. p_ID (f p) = p_ID p" and "\<And>p. p \<in> set ps \<Longrightarrow> P p \<Longrightarrow> int4 (p_Version (f p))"
  shows "profiles_ok (update_where P f ps)"
proof -
  have "map p_ID (update_where P f ps) = map p_ID ps"
    by (rule update_where_keeps) (simp add: assms(2))
  with assms(1,3) show ?thesis by (auto simp: profiles_ok_def set_update_where)
qed

lemma profiles_ok_filter: "profiles_ok ps \<Longrightarrow> profiles_ok (filter P ps)"
  by (auto simp: profiles_ok_def distinct_map_filter)

section \<open>The statements\<close>

lemma exec_profiles_cases:
  assumes "exec_profiles f w = (r, w')"
  shows "(\<exists>m. r = Inl m) \<and> db_profiles w' = db_profiles w
    \<or> (\<exists>ps n. f (db_profiles w) = Inr (ps, n) \<and> r = Inr n \<and> db_profiles w' = ps)"
  using assms by (auto simp: exec_profiles_def stmt_def split: option.splits sum.splits)

lemma query_profiles:
  assumes "query f w = (r, w')"
  shows "db_profiles w' = db_profiles w \<and> (\<forall>v. r = Inr v \<longrightarrow> (\<exists>w1. f w1 = Inr v \<and> db_profiles w1 = db_profiles w))"
  using assms by (auto simp: query_def stmt_def split: option.splits)

lemma CreateProfile_table:
  assumes "CreateProfile sl p w = (e, w')" and "p_DeletedAt p = None"
  shows "if e = None
    then int4 (p_Version p) \<and> stored (db_profiles w) (p_ID p) = None \<and> db_profiles w' = db_profiles w @ [p]
    else db_profiles w' = db_profiles w"
proof -
  obtain r where x: "exec_profiles (insert_profile sl (db_users w) p) w = (r, w')"
      "e = (case r of Inl m \<Rightarrow> Some (ErrProfile m) | Inr _ \<Rightarrow> None)"
    using assms(1) by (auto simp: CreateProfile_def split: prod.splits sum.splits)
  have "p\<lparr>p_DeletedAt := None\<rparr> = p" using assms(2) by (cases p) simp
  then show ?thesis
    using exec_profiles_cases [OF x(1)] x(2)
    by (auto simp: insert_profile_def stored_None split: if_splits)
qed

lemma insert_all_table:
  assumes "insert_all sl ps w = (e, w')" and "\<forall>p \<in> set ps. p_DeletedAt p = None"
  shows "e = None \<Longrightarrow> distinct (map p_ID ps)
    \<and> (\<forall>p \<in> set ps. int4 (p_Version p) \<and> stored (db_profiles w) (p_ID p) = None) \<and> db_profiles w' = db_profiles w @ ps"
  using assms
proof (induction ps arbitrary: w)
  case (Cons p ps)
  obtain x w1 where c: "CreateProfile sl p w = (x, w1)" by (cases "CreateProfile sl p w")
  with Cons.prems have x: "x = None" "insert_all sl ps w1 = (e, w')" by (auto split: option.splits)
  then have t: "stored (db_profiles w) (p_ID p) = None" "db_profiles w1 = db_profiles w @ [p]"
      "int4 (p_Version p)"
    using CreateProfile_table [OF c] Cons.prems(3) by simp_all
  have ih: "distinct (map p_ID ps)
      \<and> (\<forall>q \<in> set ps. int4 (p_Version q) \<and> stored (db_profiles w1) (p_ID q) = None)
      \<and> db_profiles w' = db_profiles w1 @ ps"
    using Cons.IH [OF Cons.prems(1) x(2)] Cons.prems(3) by simp
  have "p_ID q \<noteq> p_ID p \<and> stored (db_profiles w) (p_ID q) = None" if "q \<in> set ps" for q
    using ih that t stored_append [OF t(1)] by (metis fun_upd_apply option.distinct(1))
  moreover from this have "p_ID p \<notin> p_ID ` set ps" by (metis imageE)
  ultimately show ?case using ih t by simp
qed simp

lemma stored_append_list:
  "distinct (map p_ID qs) \<Longrightarrow> \<forall>p \<in> set qs. stored ps (p_ID p) = None \<Longrightarrow>
    stored (ps @ qs) = stored ps ++ map_of (map (\<lambda>p. (p_ID p, p)) qs)"
proof (induction qs arbitrary: ps)
  case (Cons q qs)
  have "stored (ps @ [q]) = (stored ps)(p_ID q \<mapsto> q)"
    using Cons.prems by (simp add: stored_append)
  moreover have "stored ((ps @ [q]) @ qs) = stored (ps @ [q]) ++ map_of (map (\<lambda>p. (p_ID p, p)) qs)"
  proof (rule Cons.IH)
    have "p_ID p \<noteq> p_ID q" if "p \<in> set qs" for p
      using Cons.prems(1) that by auto (metis imageI)
    with Cons.prems calculation show "\<forall>p \<in> set qs. stored (ps @ [q]) (p_ID p) = None" by simp
  qed (use Cons.prems in simp)
  moreover have "map_of (map (\<lambda>p. (p_ID p, p)) qs) (p_ID q) = None"
    using Cons.prems(1) by (auto simp: map_of_eq_None_iff)
  ultimately show ?case
    by (auto simp: fun_eq_iff map_add_def split: option.split)
qed simp

lemma BulkCreate_table:
  assumes "BulkCreateProfiles sl ps w = (e, w')" and "\<forall>p \<in> set ps. p_DeletedAt p = None"
  shows "if e = None
    then distinct (map p_ID ps)
      \<and> (\<forall>p \<in> set ps. int4 (p_Version p) \<and> stored (db_profiles w) (p_ID p) = None)
      \<and> db_profiles w' = db_profiles w @ ps
    else db_profiles w' = db_profiles w"
proof (cases "ps = []")
  case True
  then show ?thesis using assms(1) by (auto simp: BulkCreateProfiles_def)
next
  case False
  obtain f1 w1 where s1: "stmt w = (f1, w1)" by (cases "stmt w")
  obtain x w2 where i: "insert_all sl ps w1 = (x, w2)" by (cases "insert_all sl ps w1")
  obtain f3 w3 where s3: "stmt w2 = (f3, w3)" by (cases "stmt w2")
  have t: "db_profiles w1 = db_profiles w" "db_profiles w3 = db_profiles w2"
    using s1 s3 stmt_frame [of w] stmt_frame [of w2] by simp_all
  show ?thesis
    using assms(1) False s1 i s3 t insert_all_table [OF i assms(2)]
    by (auto simp: BulkCreateProfiles_def split: option.splits)
qed

lemma UpdateProfile_table:
  assumes "UpdateProfile sl p w = (e, w')"
  shows "if e = None
    then int4 (p_Version p) \<and> 0 < count_where (\<lambda>r. p_ID r = p_ID p \<and> p_UserID r = p_UserID p) (db_profiles w)
      \<and> db_profiles w' = update_where (\<lambda>r. p_ID r = p_ID p \<and> p_UserID r = p_UserID p) (set_profile_row p) (db_profiles w)
    else db_profiles w' = db_profiles w"
proof -
  let ?P = "\<lambda>r. p_ID r = p_ID p \<and> p_UserID r = p_UserID p"
  let ?f = "\<lambda>ps. if \<not> int4 (p_Version p) then Inl (sl_out_of_range sl) else sql_update ?P (set_profile_row p) ps"
  obtain r where x: "exec_profiles ?f w = (r, w')"
      "e = (case r of Inl m \<Rightarrow> Some (ErrProfile m) | Inr n \<Rightarrow> if n = 0 then Some ErrNotFound else None)"
    using assms by (auto simp: UpdateProfile_def split: prod.splits sum.splits if_splits)
  show ?thesis
    using exec_profiles_cases [OF x(1)] x(2) update_where_none [of ?P "db_profiles w" "set_profile_row p"]
    by (auto simp: sql_update_def split: if_splits)
qed

lemma set_column_keeps [simp]:
  "same_profile (set_column cv p) p" "p_Version (set_column cv p) = p_Version p"
  "p_DeletedAt (set_column cv p) = p_DeletedAt p"
  by (auto simp: set_column_def same_profile_def Let_def split: prod.split)

lemma set_columns_keep:
  "same_profile (fold set_column cs p) p \<and> p_Version (fold set_column cs p) = p_Version p
   \<and> p_DeletedAt (fold set_column cs p) = p_DeletedAt p"
proof (induction cs arbitrary: p)
  case (Cons cv cs)
  have "same_profile (set_column cv p) p" by simp
  with Cons [of "set_column cv p"] show ?case by (simp add: same_profile_def)
qed simp

definition patched :: "(string \<times> column_value) list \<Rightarrow> timestamp \<Rightarrow> profile \<Rightarrow> profile" where
  "patched cs now p = (fold set_column cs p)\<lparr>p_UpdatedAt := now, p_Version := p_Version p + 1\<rparr>"

lemma patched_keeps [simp]:
  "p_ID (patched cs now p) = p_ID p" "p_UserID (patched cs now p) = p_UserID p"
  "p_Version (patched cs now p) = p_Version p + 1" "same_profile (patched cs now p) p"
  "p_DeletedAt (patched cs now p) = p_DeletedAt p"
  using set_columns_keep [of cs p] by (simp_all add: patched_def same_profile_def)

lemma fetchByID_table:
  fixes w :: "'a database_scheme"
  assumes "fetchByID sl i w = (r, w')" and "distinct (map p_ID (db_profiles w))"
  shows "db_profiles w' = db_profiles w \<and> ((\<exists>e. r = Inl e) \<or> (\<exists>p. r = Inr (Some p) \<and> stored (db_profiles w) i = Some p))"
proof -
  let ?f = "\<lambda>v. case filter (\<lambda>p. p_ID p = i) (db_profiles v) of [] \<Rightarrow> Inl (sl_no_rows sl) | p # _ \<Rightarrow> Inr p"
  obtain y where y: "query ?f w = (y, w')" "r = (case y of Inl m \<Rightarrow> Inl (ErrProfile m) | Inr p \<Rightarrow> Inr (Some p))"
    using assms(1) by (auto simp: fetchByID_def split: prod.splits sum.splits)
  have "stored (db_profiles w) i = Some p" if found: "y = Inr p" for p
  proof -
    obtain w1 :: "'a database_scheme" where "?f w1 = Inr p" "db_profiles w1 = db_profiles w"
      using query_profiles [OF y(1)] found by blast
    then obtain ps where "filter (\<lambda>p. p_ID p = i) (db_profiles w) = p # ps"
      by (auto split: list.splits)
    then have "p \<in> set (filter (\<lambda>p. p_ID p = i) (db_profiles w))" by (metis list.set_intros(1))
    with stored_in [OF assms(2)] show ?thesis by auto
  qed
  with y query_profiles [OF y(1)] show ?thesis by (cases y) auto
qed

lemma patch_rows_Inr:
  assumes "patch_rows sl i owner fs v now ps = Inr (qs, n)"
  shows "n = count_where (\<lambda>p. p_ID p = i \<and> p_UserID p = owner \<and> p_Version p = v) ps"
    and "\<exists>cs. bind_fields sl fs = Inr cs \<and> qs = update_where (\<lambda>p. p_ID p = i \<and> p_UserID p = owner \<and> p_Version p = v) (patched cs now) ps"
    and "0 < n \<Longrightarrow> int4 (v + 1)"
  using assms
  by (auto simp: patch_rows_def sql_update_def Let_def patched_def [abs_def] split: sum.splits if_splits)

text \<open>A patch that reaches a row: which row it was and what it is now.\<close>

lemma patch_written:
  fixes w :: "'a database_scheme" and i owner :: uuid and v :: int
  defines "now \<equiv> clock w (clock_reads w)"
    and "P \<equiv> \<lambda>p. p_ID p = i \<and> p_UserID p = owner \<and> p_Version p = v"
  assumes ok: "profiles_ok (db_profiles w)"
    and x: "exec_profiles (patch_rows sl i owner fs v now) (tick w) = (Inr (Suc n), w2)"
  shows "\<exists>q cs. bind_fields sl fs = Inr cs \<and> stored (db_profiles w) i = Some q \<and> P q
    \<and> stored (db_profiles w2) = (stored (db_profiles w))(i \<mapsto> patched cs now q)
    \<and> profiles_ok (db_profiles w2)"
proof -
  have d: "distinct (map p_ID (db_profiles w))" using ok by (simp add: profiles_ok_def)
  obtain cs where cs: "bind_fields sl fs = Inr cs" "int4 (v + 1)" "0 < count_where P (db_profiles w)"
      "db_profiles w2 = update_where P (patched cs now) (db_profiles w)"
    using exec_profiles_cases [OF x] patch_rows_Inr [of sl i owner fs v now "db_profiles w"]
    by (auto simp: P_def)
  obtain q where q: "stored (db_profiles w) i = Some q" "P q"
    using cs(3) one_row [OF d, of P i] by (auto simp: P_def)
  have "stored (db_profiles w2) = (stored (db_profiles w))(i \<mapsto> patched cs now q)"
    using update_one [OF d, of P i "patched cs now"] q cs(4) by (simp add: P_def)
  moreover have "profiles_ok (db_profiles w2)"
    unfolding cs(4) by (rule profiles_ok_update [OF ok]) (use cs(2) in \<open>auto simp: P_def\<close>)
  ultimately show ?thesis using cs(1) q by blast
qed

lemma PatchProfile_table:
  assumes ok: "profiles_ok (db_profiles w)" and run: "PatchProfile sl i owner fs v w = (r, w')"
  shows "profiles_ok (db_profiles w') \<and> (stored (db_profiles w') = stored (db_profiles w) \<and> (\<exists>e. r = Inl e)
    \<or> (\<exists>q cs. bind_fields sl fs = Inr cs \<and> stored (db_profiles w) i = Some q
        \<and> p_UserID q = owner \<and> p_Version q = v
        \<and> stored (db_profiles w') = (stored (db_profiles w))(i \<mapsto> patched cs (clock w (clock_reads w)) q)
        \<and> (\<forall>x. r = Inr x \<longrightarrow> x = Some (patched cs (clock w (clock_reads w)) q))))"
proof -
  let ?now = "clock w (clock_reads w)"
  let ?P = "\<lambda>p. p_ID p = i \<and> p_UserID p = owner \<and> p_Version p = v"
  obtain x w2 where x: "exec_profiles (patch_rows sl i owner fs v ?now) (tick w) = (x, w2)"
    by (cases "exec_profiles (patch_rows sl i owner fs v ?now) (tick w)")
  show ?thesis
  proof (cases "\<exists>n. x = Inr (Suc n)")
    case False
    have "db_profiles w2 = db_profiles w"
    proof (cases x)
      case (Inl m)
      then show ?thesis using exec_profiles_cases [OF x] by auto
    next
      case (Inr n)
      then have "n = 0" using False by (cases n) auto
      then obtain qs where "patch_rows sl i owner fs v ?now (db_profiles w) = Inr (qs, 0)" "db_profiles w2 = qs"
        using exec_profiles_cases [OF x] Inr by auto
      moreover from patch_rows_Inr(1,2) [OF this(1)] obtain cs where
        "qs = update_where ?P (patched cs ?now) (db_profiles w)" "count_where ?P (db_profiles w) = 0"
        by auto
      ultimately show ?thesis using update_where_none [of ?P "db_profiles w"] by simp
    qed
    moreover have "w' = w2 \<and> (\<exists>e. r = Inl e)"
      using run x False
      by (cases x; cases "projr x") (auto simp: PatchProfile_def draws)
    ultimately show ?thesis using ok by simp
  next
    case True
    then obtain n where n: "x = Inr (Suc n)" by blast
    obtain q cs where q: "bind_fields sl fs = Inr cs" "stored (db_profiles w) i = Some q"
        "p_UserID q = owner" "p_Version q = v"
        "stored (db_profiles w2) = (stored (db_profiles w))(i \<mapsto> patched cs ?now q)"
        "profiles_ok (db_profiles w2)"
      using patch_written [OF ok x [unfolded n]] by blast
    have "fetchByID sl i w2 = (r, w')"
      using run x n by (simp add: PatchProfile_def draws)
    note ft = fetchByID_table [OF this]
    have "profiles_ok (db_profiles w')" "stored (db_profiles w') = stored (db_profiles w2)"
        "\<forall>y. r = Inr y \<longrightarrow> y = Some (patched cs ?now q)"
      using ft q(5,6) by (auto simp: profiles_ok_def)
    then show ?thesis using q by metis
  qed
qed

lemma sql_patch_law:
  assumes ok: "profiles_ok (db_profiles w)"
    and run: "pr_Patch (NewProfileRepository sl) i owner fs v w = (r, w')"
  shows "profiles_ok (db_profiles w') \<and> (stored (db_profiles w') = stored (db_profiles w) \<and> (\<exists>e. r = Inl e)
    \<or> owner_step i owner (\<lambda>q. p_Version q = v)
        (\<lambda>q q'. \<exists>p. q' = Some p \<and> same_profile p q \<and> p_Version p = v + 1 \<and> p_DeletedAt p = p_DeletedAt q
          \<and> (\<forall>x. r = Inr x \<longrightarrow> x = q'))
        (stored (db_profiles w)) (stored (db_profiles w')))"
proof -
  have "PatchProfile sl i owner fs v w = (r, w')" using run by (simp add: NewProfileRepository_def)
  note t = PatchProfile_table [OF ok this]
  then consider "stored (db_profiles w') = stored (db_profiles w)" "\<exists>e. r = Inl e"
    | q cs where "stored (db_profiles w) i = Some q" "p_UserID q = owner" "p_Version q = v"
      "stored (db_profiles w') = (stored (db_profiles w))(i \<mapsto> patched cs (clock w (clock_reads w)) q)"
      "\<forall>x. r = Inr x \<longrightarrow> x = Some (patched cs (clock w (clock_reads w)) q)" by blast
  then show ?thesis
  proof cases
    case (2 q cs)
    let ?p = "patched cs (clock w (clock_reads w)) q"
    have "same_profile ?p q \<and> p_Version ?p = v + 1 \<and> p_DeletedAt ?p = p_DeletedAt q
        \<and> (\<forall>x. r = Inr x \<longrightarrow> x = Some ?p)" using 2(3,5) by simp
    then show ?thesis unfolding owner_step_def using t 2 by blast
  qed (use t in blast)
qed

lemma DeleteProfile_table:
  assumes ok: "profiles_ok (db_profiles w)" and run: "DeleteProfile sl i owner hard v w = (e, w')"
  shows "profiles_ok (db_profiles w') \<and> (if e = None
    then owner_step i owner (\<lambda>q. p_Version q = v)
      (\<lambda>q q'. if hard then q' = None
              else \<exists>t. q' = Some (q\<lparr>p_DeletedAt := Some t, p_Version := v + 1\<rparr>))
      (stored (db_profiles w)) (stored (db_profiles w'))
    else stored (db_profiles w') = stored (db_profiles w))"
proof -
  let ?P = "\<lambda>p. p_ID p = i \<and> p_UserID p = owner \<and> p_Version p = v"
  let ?now = "clock w (clock_reads w)"
  let ?g = "\<lambda>p. p\<lparr>p_DeletedAt := Some ?now, p_Version := p_Version p + 1\<rparr>"
  have d: "distinct (map p_ID (db_profiles w))" using ok by (simp add: profiles_ok_def)
  note one = one_row [OF d, of ?P i]
  show ?thesis
  proof (cases hard)
    case True
    let ?f = "\<lambda>ps. if \<not> int4 v then Inl (sl_out_of_range sl) else sql_delete ?P ps"
    obtain x where x: "exec_profiles ?f w = (x, w')"
        "e = (case x of Inl m \<Rightarrow> Some (ErrProfile m) | Inr n \<Rightarrow> if n = 0 then Some ErrNotFound else None)"
      using run True by (auto simp: DeleteProfile_def Let_def split: prod.splits sum.splits if_splits)
    show ?thesis
    proof (cases "e = None")
      case False
      have same: "count_where ?P (db_profiles w) = 0 \<Longrightarrow> filter (\<lambda>p. \<not> ?P p) (db_profiles w) = db_profiles w"
        by (auto simp: count_where_zero filter_id_conv)
      have "db_profiles w' = db_profiles w \<or> count_where ?P (db_profiles w) = 0
          \<and> db_profiles w' = filter (\<lambda>p. \<not> ?P p) (db_profiles w)"
        using exec_profiles_cases [OF x(1)] x(2) False by (auto simp: sql_delete_def split: if_splits)
      then have "db_profiles w' = db_profiles w" using same by (elim disjE conjE) simp_all
      with False ok show ?thesis by (cases e) simp_all
    next
      case none: True
      then have del: "0 < count_where ?P (db_profiles w)"
          "db_profiles w' = filter (\<lambda>p. \<not> ?P p) (db_profiles w)"
        using exec_profiles_cases [OF x(1)] x(2) by (auto simp: sql_delete_def split: if_splits)
      then obtain q where "stored (db_profiles w) i = Some q" "?P q" using one by auto
      then show ?thesis
        using none True del(2) delete_one [OF d, of ?P i] profiles_ok_filter [OF ok]
        by (auto simp: owner_step_def)
    qed
  next
    case False
    let ?f = "\<lambda>ps. if \<not> int4 v \<or> 0 < count_where ?P ps \<and> \<not> int4 (v + 1)
      then Inl (sl_out_of_range sl) else sql_update ?P ?g ps"
    obtain x where x: "exec_profiles ?f (tick w) = (x, w')"
        "e = (case x of Inl m \<Rightarrow> Some (ErrProfile m) | Inr n \<Rightarrow> if n = 0 then Some ErrVersionConflict else None)"
      using run False by (auto simp: DeleteProfile_def draws Let_def split: prod.splits sum.splits if_splits)
    show ?thesis
    proof (cases "e = None")
      case err: False
      then have "db_profiles w' = db_profiles w"
        using exec_profiles_cases [OF x(1)] x(2) update_where_none [of ?P "db_profiles w" ?g]
        by (auto simp: sql_update_def split: if_splits)
      with err ok show ?thesis by (cases e) simp_all
    next
      case none: True
      then have upd: "0 < count_where ?P (db_profiles w)" "int4 (v + 1)"
          "db_profiles w' = update_where ?P ?g (db_profiles w)"
        using exec_profiles_cases [OF x(1)] x(2) by (auto simp: sql_update_def split: if_splits)
      then obtain q where q: "stored (db_profiles w) i = Some q" "?P q" using one by auto
      have "profiles_ok (db_profiles w')"
        unfolding upd(3) by (rule profiles_ok_update [OF ok]) (use upd(2) in auto)
      then show ?thesis
        using none False upd(3) q update_one [OF d, of ?P i ?g] by (auto simp: owner_step_def)
    qed
  qed
qed

lemma BulkDelete_table:
  assumes ok: "profiles_ok (db_profiles w)" and run: "BulkDeleteProfiles sl owner ids hard w = (r, w')"
  shows "profiles_ok (db_profiles w') \<and> (stored (db_profiles w') = stored (db_profiles w)
    \<or> (\<exists>t. stored (db_profiles w') = (\<lambda>i. case stored (db_profiles w) i of None \<Rightarrow> None | Some q \<Rightarrow>
        if p_UserID q = owner \<and> i \<in> set ids
        then (if hard then None else Some (q\<lparr>p_DeletedAt := Some t\<rparr>)) else Some q)))"
proof -
  let ?P = "\<lambda>p. p_UserID p = owner \<and> p_ID p \<in> set ids" and ?now = "clock w (clock_reads w)"
  let ?g = "\<lambda>p. p\<lparr>p_DeletedAt := Some ?now\<rparr>"
  have d: "distinct (map p_ID (db_profiles w))" using ok by (simp add: profiles_ok_def)
  have id: "p_ID q = i" if "stored (db_profiles w) i = Some q" for i q
    using stored_SomeD [OF that] by simp
  consider "db_profiles w' = db_profiles w"
    | "hard" "db_profiles w' = filter (\<lambda>p. \<not> ?P p) (db_profiles w)"
    | "\<not> hard" "db_profiles w' = update_where ?P ?g (db_profiles w)"
    using run
    by (cases hard) (auto simp: BulkDeleteProfiles_def draws Let_def sql_delete_def sql_update_def
        split: prod.splits sum.splits if_splits dest!: exec_profiles_cases)
  then show ?thesis
  proof cases
    case 1
    with ok show ?thesis by simp
  next
    case 2
    have "stored (db_profiles w') i = (case stored (db_profiles w) i of None \<Rightarrow> None | Some q \<Rightarrow>
        if p_UserID q = owner \<and> i \<in> set ids then None else Some q)" for i
      unfolding 2(2) stored_filter [OF d] using id by (auto split: option.split)
    then have "stored (db_profiles w') = (\<lambda>i. case stored (db_profiles w) i of None \<Rightarrow> None | Some q \<Rightarrow>
        if p_UserID q = owner \<and> i \<in> set ids
        then (if hard then None else Some (q\<lparr>p_DeletedAt := Some ?now\<rparr>)) else Some q)"
      using 2(1) by (simp add: fun_eq_iff split: option.split)
    moreover have "profiles_ok (db_profiles w')" unfolding 2(2) by (rule profiles_ok_filter [OF ok])
    ultimately show ?thesis by blast
  next
    case 3
    have "stored (db_profiles w') i = (case stored (db_profiles w) i of None \<Rightarrow> None | Some q \<Rightarrow>
        if p_UserID q = owner \<and> i \<in> set ids then Some (?g q) else Some q)" for i
      using stored_update_where [of ?g ?P "db_profiles w" i] id 3(2) by (auto split: option.split)
    then have "stored (db_profiles w') = (\<lambda>i. case stored (db_profiles w) i of None \<Rightarrow> None | Some q \<Rightarrow>
        if p_UserID q = owner \<and> i \<in> set ids
        then (if hard then None else Some (q\<lparr>p_DeletedAt := Some ?now\<rparr>)) else Some q)"
      using 3(1) by (simp add: fun_eq_iff split: option.split)
    moreover have "profiles_ok (db_profiles w')"
      unfolding 3(2) by (rule profiles_ok_update [OF ok]) (use ok in \<open>auto simp: profiles_ok_def\<close>)
    ultimately show ?thesis by blast
  qed
qed

lemma GetProfileByID_table:
  fixes w :: "'a database_scheme"
  assumes ok: "profiles_ok (db_profiles w)" and run: "GetProfileByID sl i owner w = (g, w')"
  shows "db_profiles w' = db_profiles w \<and> g \<noteq> Inr None
    \<and> (\<forall>p. g = Inr (Some p) \<longrightarrow> stored (db_profiles w) i = Some p \<and> p_ID p = i \<and> p_UserID p = owner \<and> p_DeletedAt p = None)"
proof -
  let ?P = "\<lambda>p. p_ID p = i \<and> p_UserID p = owner \<and> visible p"
  obtain y v where q: "query (\<lambda>v. Inr (filter ?P (db_profiles v))) w = (y, v)"
    by (cases "query (\<lambda>v. Inr (filter ?P (db_profiles v)) :: string + profile list) w")
  have "v = w' \<and> g = (case y of Inl m \<Rightarrow> Inl (ErrProfile m) | Inr [] \<Rightarrow> Inl ErrNotFound | Inr (p # _) \<Rightarrow> Inr (Some p))"
    using run unfolding GetProfileByID_def q by (cases y; cases "projr y") simp_all
  then have y: "query (\<lambda>v. Inr (filter ?P (db_profiles v))) w = (y, w')"
      "g = (case y of Inl m \<Rightarrow> Inl (ErrProfile m) | Inr [] \<Rightarrow> Inl ErrNotFound | Inr (p # _) \<Rightarrow> Inr (Some p))"
    using q by blast+
  have "stored (db_profiles w) i = Some p \<and> ?P p" if found: "g = Inr (Some p)" for p
  proof -
    obtain ps where ps: "y = Inr (p # ps)" using y(2) found by (auto split: sum.splits list.splits)
    then have "filter ?P (db_profiles w) = p # ps" using query_profiles [OF y(1)] by auto
    then have "p \<in> set (filter ?P (db_profiles w))" by (metis list.set_intros(1))
    then show ?thesis using stored_in [of "db_profiles w" p] ok by (auto simp: profiles_ok_def)
  qed
  moreover have "db_profiles w' = db_profiles w" using query_profiles [OF y(1)] by blast
  moreover have "g \<noteq> Inr None" using y(2) by (auto split: sum.splits list.splits)
  ultimately show ?thesis by (simp add: visible_def)
qed

lemma ListProfileRows_table:
  fixes w :: "'a database_scheme"
  assumes "ListProfileRows sl flt w = (l, w')"
  shows "db_profiles w' = db_profiles w \<and> (\<forall>ps n. l = Inr (ps, n) \<longrightarrow>
    sql_page sl (pf_Limit flt) (pf_Offset flt)
      (sl_order_profiles sl (filter (profile_matches sl flt) (db_profiles w))) = Inr ps
    \<and> n = int (count_where (profile_matches sl flt) (db_profiles w)))"
proof -
  let ?page = "\<lambda>v. sql_page sl (pf_Limit flt) (pf_Offset flt)
    (sl_order_profiles sl (filter (profile_matches sl flt) (db_profiles v)))"
  obtain y w1 where y: "query ?page w = (y, w1)" by (cases "query ?page w")
  obtain z w2 where z: "query (\<lambda>v. Inr (count_where (profile_matches sl flt) (db_profiles v))) w1 = (z, w2)"
    by (cases "query (\<lambda>v. Inr (count_where (profile_matches sl flt) (db_profiles v)) :: string + nat) w1")
  show ?thesis
    using assms y z query_profiles [OF y] query_profiles [OF z]
    by (cases y; cases z) (auto simp: ListProfileRows_def)
qed

lemma page_subset:
  "sql_page sl l n rs = Inr ps \<Longrightarrow> set ps \<subseteq> set rs"
  by (auto simp: sql_page_def split: if_splits dest!: in_set_takeD in_set_dropD)

text \<open>An insert that is accepted keeps the table well formed.\<close>

lemma profiles_ok_append:
  assumes "profiles_ok ps" and "distinct (map p_ID qs)"
    and "\<forall>p \<in> set qs. int4 (p_Version p) \<and> stored ps (p_ID p) = None"
  shows "profiles_ok (ps @ qs)"
  using assms by (auto simp: profiles_ok_def stored_None)

section \<open>The interpretation\<close>

text \<open>The laws of the contract, read off the table lemmas one statement at a time.\<close>

lemma sql_create_law:
  assumes ok: "profiles_ok (db_profiles w)" and p: "p_DeletedAt p = None"
    and run: "pr_Create (NewProfileRepository sl) p w = (e, w')"
  shows "profiles_ok (db_profiles w') \<and> (if e = None
      then stored (db_profiles w) (p_ID p) = None \<and> stored (db_profiles w') = (stored (db_profiles w))(p_ID p \<mapsto> p)
      else stored (db_profiles w') = stored (db_profiles w))"
proof -
  have "CreateProfile sl p w = (e, w')" using run by (simp add: NewProfileRepository_def)
  from CreateProfile_table [OF this p] profiles_ok_append [OF ok, of "[p]"] stored_append [of "db_profiles w" p] ok
  show ?thesis by (auto split: if_splits)
qed

lemma sql_bulk_law:
  assumes ok: "profiles_ok (db_profiles w)" and p: "\<forall>p \<in> set ps. p_DeletedAt p = None"
    and run: "pr_BulkCreate (NewProfileRepository sl) ps w = (e, w')"
  shows "profiles_ok (db_profiles w') \<and> (if e = None
      then (\<forall>p \<in> set ps. stored (db_profiles w) (p_ID p) = None)
        \<and> stored (db_profiles w') = stored (db_profiles w) ++ map_of (map (\<lambda>p. (p_ID p, p)) ps)
      else stored (db_profiles w') = stored (db_profiles w))"
proof -
  have "BulkCreateProfiles sl ps w = (e, w')" using run by (simp add: NewProfileRepository_def)
  note t = BulkCreate_table [OF this p]
  show ?thesis
  proof (cases "e = None")
    case True
    with t have "distinct (map p_ID ps)" and
      new: "\<forall>p \<in> set ps. int4 (p_Version p) \<and> stored (db_profiles w) (p_ID p) = None" and
      "db_profiles w' = db_profiles w @ ps" by simp_all
    with True show ?thesis
      using profiles_ok_append [OF ok _ new] stored_append_list [of ps "db_profiles w"] by simp
  next
    case False
    with t ok show ?thesis by (cases e) simp_all
  qed
qed

lemma sql_update_law:
  assumes ok: "profiles_ok (db_profiles w)" and run: "pr_Update (NewProfileRepository sl) p w = (e, w')"
  shows "profiles_ok (db_profiles w') \<and> (if e = None
      then owner_step (p_ID p) (p_UserID p) (\<lambda>_. True)
        (\<lambda>q q'. q' = Some (p\<lparr>p_CreatedAt := p_CreatedAt q, p_DeletedAt := p_DeletedAt q\<rparr>))
        (stored (db_profiles w)) (stored (db_profiles w'))
      else stored (db_profiles w') = stored (db_profiles w))"
proof -
  let ?P = "\<lambda>r. p_ID r = p_ID p \<and> p_UserID r = p_UserID p"
  have "UpdateProfile sl p w = (e, w')" using run by (simp add: NewProfileRepository_def)
  note t = UpdateProfile_table [OF this]
  have d: "distinct (map p_ID (db_profiles w))" using ok by (simp add: profiles_ok_def)
  have id: "p_ID (set_profile_row p r) = p_ID r" for r by (simp add: set_profile_row_def)
  show ?thesis
  proof (cases "e = None")
    case True
    with t have upd: "int4 (p_Version p)" "0 < count_where ?P (db_profiles w)"
      "db_profiles w' = update_where ?P (set_profile_row p) (db_profiles w)" by simp_all
    from upd(2) obtain q where q: "stored (db_profiles w) (p_ID p) = Some q" "?P q"
      using one_row [OF d, of ?P "p_ID p"] by auto
    have row: "set_profile_row p q = p\<lparr>p_CreatedAt := p_CreatedAt q, p_DeletedAt := p_DeletedAt q\<rparr>"
      using q(2) by (cases p; cases q) (simp add: set_profile_row_def)
    have "stored (db_profiles w') = (stored (db_profiles w))(p_ID p \<mapsto> set_profile_row p q)"
      using update_one [OF d, of ?P "p_ID p" "set_profile_row p"] id q upd(3) by simp
    moreover have "profiles_ok (db_profiles w')"
      unfolding upd(3) by (rule profiles_ok_update [OF ok id]) (simp add: set_profile_row_def upd(1))
    ultimately show ?thesis using True q row by (auto simp: owner_step_def)
  next
    case False
    with t ok show ?thesis by (cases e) simp_all
  qed
qed

interpretation sqlp: profile_repository "NewProfileRepository sl" "\<lambda>w. stored (db_profiles w)"
    "\<lambda>w. profiles_ok (db_profiles w)" for sl :: sql_lib
proof (unfold_locales, goal_cases)
  case (2 w i q)
  then show ?case using stored_SomeD [OF 2(2)] by (auto simp: profiles_ok_def int4_def intro!: wrap64_id)
next
  case (3 w i q)
  then show ?case using stored_SomeD by blast
next
  case (4 w p e w')
  then show ?case by (rule sql_create_law)
next
  case (5 w ps e w')
  then show ?case by (rule sql_bulk_law)
next
  case (6 w p e w')
  then show ?case by (rule sql_update_law)
next
  case (7 w i owner fs v r w')
  then show ?case by (rule sql_patch_law)
next
  case (8 w i owner hard v e w')
  have "DeleteProfile sl i owner hard v w = (e, w')" using 8(2) by (simp add: NewProfileRepository_def)
  from DeleteProfile_table [OF 8(1) this] show ?case .
next
  case (9 w owner ids hard d w')
  have "BulkDeleteProfiles sl owner ids hard w = (d, w')" using 9(2) by (simp add: NewProfileRepository_def)
  from BulkDelete_table [OF 9(1) this] show ?case .
next
  case (10 w i owner g w')
  have "GetProfileByID sl i owner w = (g, w')" using 10(2) by (simp add: NewProfileRepository_def)
  from GetProfileByID_table [OF 10(1) this] 10(1) show ?case by simp
next
  case (11 w flt l w')
  have "ListProfileRows sl flt w = (l, w')" using 11(2) by (simp add: NewProfileRepository_def)
  from ListProfileRows_table [OF this] 11(1) show ?case by simp
qed simp_all

section \<open>The service on the database\<close>

definition app_profiles :: "sql_lib \<Rightarrow> profile_lib \<Rightarrow> 'a database_scheme profile_service" where
  "app_profiles sl lib = NewProfileService (NewProfileRepository sl) lib"

lemma app_profiles_fields [simp]:
  "ps_repo (app_profiles sl lib) = NewProfileRepository sl" "ps_lib (app_profiles sl lib) = lib"
  by (simp_all add: app_profiles_def NewProfileService_def)

lemma repo_profiles [simp]:
  "pr_Create (NewProfileRepository sl) = CreateProfile sl"
  "pr_BulkCreate (NewProfileRepository sl) = BulkCreateProfiles sl"
  "pr_Update (NewProfileRepository sl) = UpdateProfile sl"
  "pr_Patch (NewProfileRepository sl) = PatchProfile sl"
  "pr_Delete (NewProfileRepository sl) = DeleteProfile sl"
  "pr_BulkDelete (NewProfileRepository sl) = BulkDeleteProfiles sl"
  "pr_GetByID (NewProfileRepository sl) = GetProfileByID sl"
  "pr_List (NewProfileRepository sl) = ListProfileRows sl"
  by (simp_all add: NewProfileRepository_def)

interpretation app: profiles "app_profiles sl lib" "\<lambda>w. stored (db_profiles w)"
    "\<lambda>w. profiles_ok (db_profiles w)" for sl :: sql_lib and lib :: profile_lib
  by (simp add: profiles_def sqlp.profile_repository_axioms)

end
