(* ===== verification/UserProperties.thy ===== *)
theory UserProperties
  imports UserStore
begin

text \<open>
  The properties of accounts, stated of the account service on the database (\<open>app_users\<close>), and the
  inputs their witnesses are evaluated at.
\<close>

section \<open>A server to evaluate at\<close>

definition sample_user_lib :: user_lib where
  "sample_user_lib =
     \<lparr>ul_sanitize = (\<lambda>s. s),
      ul_validate = (\<lambda>fs. if \<exists>f \<in> set fs. rejects f then Some [] else None),
      ul_bcrypt_generate = (\<lambda>salt p. Inr (show_nat salt @ CHR ''$'' # p)),
      ul_bcrypt_compare = (\<lambda>h p. if h = [] \<or> CHR ''$'' # p \<noteq> dropWhile (\<lambda>c. c \<noteq> CHR ''$'') h
                                then Some ''mismatch'' else None),
      ul_unicode_lower = (\<lambda>s. s)\<rparr>"

definition sample_sql :: sql_lib where
  "sample_sql =
     \<lparr>sl_lower = map ascii_lower, sl_like = (\<lambda>p s. contains s (filter (\<lambda>c. c \<noteq> CHR ''%'') p)),
      sl_order_users = (\<lambda>_ rs. rs),
      sl_order_profiles = (\<lambda>ps. rev (sort_key p_CreatedAt ps)),
      sl_bind = (\<lambda>c v. case v of JNull \<Rightarrow> Inr CNull
        | JStr s \<Rightarrow> if c = ''date_of_birth'' then Inl ''invalid date'' else Inr (CText s)
        | _ \<Rightarrow> Inl ''cannot encode''),
      sl_duplicate_key = ''duplicate key value violates unique constraint'',
      sl_foreign_key = ''violates foreign key constraint'', sl_not_null = ''violates not-null constraint'',
      sl_no_rows = ''sql: no rows in result set'', sl_out_of_range = ''integer out of range'',
      sl_negative_limit = ''LIMIT must not be negative'',
      sl_null_scan = ''converting NULL to string is unsupported'', sl_unicode_lower = (\<lambda>s. s)\<rparr>"

definition sample_row :: user_row where
  "sample_row =
     \<lparr>ur_id = 1000, ur_email = ''admin@kidpech.app'', ur_name = ''Demo Admin'',
      ur_password_hash = ''0$Passw0rd!'', ur_profile_image = None, ur_role = ''admin'',
      ur_refresh_version = 1, ur_last_login_at = None, ur_password_reset_at = None,
      ur_last_password_hash = None, ur_created_at = 0, ur_updated_at = 0, ur_deleted_at = None\<rparr>"

definition sample_db :: "user_row list \<Rightarrow> profile list \<Rightarrow> database" where
  "sample_db us ps =
     \<lparr>clock = int, clock_reads = 0, uuid_source = of_nat, uuids_drawn = 0, salts_drawn = 0,
      redis_data = Map.empty, redis_faults = Map.empty, redis_calls = 0,
      memoryTokens = Map.empty, db_users = us, db_profiles = ps, db_faults = Map.empty, db_stmts = 0\<rparr>"

abbreviation sample_users :: "database user_service" where
  "sample_users \<equiv> app_users sample_sql sample_auth False ref_jwt sample_user_lib True"

lemma sample_db_fields [simp]:
  "clock (sample_db us ps) = int" "clock_reads (sample_db us ps) = 0"
  "uuid_source (sample_db us ps) = of_nat" "uuids_drawn (sample_db us ps) = 0"
  "db_users (sample_db us ps) = us" "db_profiles (sample_db us ps) = ps"
  "db_faults (sample_db us ps) = Map.empty" "db_stmts (sample_db us ps) = 0"
  "memoryTokens (sample_db us ps) = Map.empty"
  by (simp_all add: sample_db_def)

lemma sample_start [simp]:
  "users_ok sample_sql [sample_row]"
  "live_user [sample_row] i = (if i = 1000 then Some (row_user sample_row) else None)"
  by (simp_all add: users_ok_def live_user_def sample_row_def live_row_def)

section \<open>Registration\<close>

text \<open>A database that answers every statement.\<close>

definition db_reliable :: "'a database_scheme \<Rightarrow> bool" where
  "db_reliable w \<longleftrightarrow> (\<forall>i. db_faults w i = None)"

lemma stmt_reliable: "db_reliable w \<Longrightarrow> stmt w = (None, w\<lparr>db_stmts := Suc (db_stmts w)\<rparr>)"
  by (simp add: stmt_def db_reliable_def)

lemma db_reliable_keeps [simp]:
  "db_reliable (tick w) = db_reliable w" "db_reliable (draw w) = db_reliable w"
  "db_reliable (salted w) = db_reliable w" "db_reliable (w\<lparr>db_stmts := n\<rparr>) = db_reliable w"
  "db_reliable (w\<lparr>db_users := us\<rparr>) = db_reliable w"
  by (simp_all add: db_reliable_def)

lemma app_users_fields [simp]:
  "us_repo (app_users sl cfg up jl lib allow) = NewUserRepository sl"
  "us_tokens (app_users sl cfg up jl lib allow) = app_tokens cfg up jl"
  "us_lib (app_users sl cfg up jl lib allow) = lib"
  "us_allowSignup (app_users sl cfg up jl lib allow) = allow"
  by (simp_all add: app_users_def NewService_def)

lemma memory_response:
  assumes "documented_jwt jl"
  shows "\<exists>a w'. issue_response (app_users sl cfg False jl lib allow) u w = (Inr a, w') \<and> ar_User a = u"
proof -
  obtain ts w' where "IssueTokens (NewManager cfg None jl) u w = (Inr ts, w')"
    using mem.issue_succeeds [where cfg = cfg and jl = jl and u = u and w = w] assms
    by (auto simp: NewManager_def)
  then show ?thesis
    by (simp add: issue_response_def app_tokens_def jwt_token_manager_def redis_for_def)
qed

lemma register_accepts:
  fixes w :: "'a database_scheme"
  assumes "db_reliable w" and "documented_jwt jl"
    and "ul_validate lib (register_fields (register_trim lib req)) = None"
    and "ul_bcrypt_generate lib (salts_drawn w) (trim_space (rr_Password req)) = Inr hash"
    and "\<forall>q \<in> set (db_users w). ur_id q \<noteq> uuid_source w (uuids_drawn w)
      \<and> sl_lower sl (ur_email q) \<noteq> sl_lower sl (to_lower (ul_unicode_lower lib) (trim_space (rr_Email req)))"
  shows "\<exists>a w'. Register (app_users sl cfg False jl lib True) req w = (Inr a, w')"
proof -
  let ?s = "app_users sl cfg False jl lib True :: 'a database_scheme user_service"
  let ?e = "to_lower (ul_unicode_lower lib) (trim_space (rr_Email req))"
  have "filter (\<lambda>r. sl_lower sl (ur_email r) = sl_lower sl ?e \<and> live_row r) (db_users w) = []"
    using assms(5) by (auto simp: filter_empty_conv)
  then have get: "GetUserByEmail sl ?e w = (Inr None, w\<lparr>db_stmts := Suc (db_stmts w)\<rparr>)"
    using assms(1) by (simp add: GetUserByEmail_def query_def stmt_reliable scan_first_def)
  let ?w1 = "w\<lparr>db_stmts := Suc (db_stmts w)\<rparr>"
  let ?w4 = "draw (tick (salted ?w1))"
  let ?u = "registered_user lib (register_trim lib req) hash (clock w (clock_reads w)) (uuid_source w (uuids_drawn w))"
  have "u_Email ?u = ?e" "u_ID ?u = uuid_source w (uuids_drawn w)"
    by (simp_all add: ToLower_def register_trim_def)
  then have "\<exists>w5. CreateUser sl ?u ?w4 = (None, w5)"
    using assms(1,5) by (simp add: CreateUser_def exec_users_def stmt_reliable insert_user_def)
  then obtain w5 where create: "CreateUser sl ?u ?w4 = (None, w5)" by blast
  have "rr_Email (register_trim lib req) = trim_space (rr_Email req)"
      "rr_Password (register_trim lib req) = trim_space (rr_Password req)"
    by (simp_all add: register_trim_def)
  moreover obtain a w' where "issue_response ?s ?u w5 = (Inr a, w')"
    using memory_response [OF assms(2)] by blast
  ultimately show ?thesis
    using get create assms(3,4)
    by (simp add: Register_def NewUserRepository_def ToLower_def draws Let_def)
qed

text \<open>C17 (what a registration does). On a table whose keys are unique, a registration that returns
  an account has added that account and nothing else: role \<open>user\<close>, the trimmed address in lower
  case, an id no live account had, an address no live account had. A registration that fails
  has changed no account, unless only the issuing of the tokens failed, which leaves the new
  account behind. The keys stay unique.\<close>

theorem register_account:
  fixes w :: "'a database_scheme"
  defines "users \<equiv> \<lambda>v :: 'a database_scheme. live_user (db_users v)"
  assumes "users_ok sl (db_users w)" and "users w (uuid_source w (uuids_drawn w)) = None"
    and "Register (app_users sl cfg up jl lib allow) req w = (r, w')"
  shows "users_ok sl (db_users w') \<and>
    (case r of
       Inr a \<Rightarrow> users w' = (users w)(u_ID (ar_User a) \<mapsto> ar_User a) \<and> users w (u_ID (ar_User a)) = None
         \<and> u_Role (ar_User a) = ''user''
         \<and> u_Email (ar_User a) = to_lower (ul_unicode_lower lib) (trim_space (rr_Email req))
         \<and> (\<forall>i u. users w i = Some u \<longrightarrow> sl_lower sl (u_Email u) \<noteq> sl_lower sl (u_Email (ar_User a)))
     | Inl e \<Rightarrow> users w' = users w
         \<or> (\<exists>u m. e = ErrOther m \<and> users w (u_ID u) = None \<and> users w' = (users w)(u_ID u \<mapsto> u)))"
proof -
  note spec = accounts.register_spec [OF assms(2) assms(3) [unfolded users_def] assms(4)]
  have lower: "ToLower lib = to_lower (ul_unicode_lower lib)"
    by (simp add: ToLower_def)
  show ?thesis
  proof (cases "\<exists>u. accounts.registers sl cfg up jl lib allow req w r w' u")
    case False
    then show ?thesis using spec by (auto simp: users_def)
  next
    case True
    then obtain u where reg: "accounts.registers sl cfg up jl lib allow req w r w' u" by blast
    have u: "u_ID u = uuid_source w (uuids_drawn w)" "u_Role u = ''user''"
        "u_Email u = to_lower (ul_unicode_lower lib) (trim_space (rr_Email req))"
        "users w' = (users w)(u_ID u \<mapsto> u)"
        "case r of Inl e \<Rightarrow> \<exists>m. e = ErrOther m | Inr a \<Rightarrow> ar_User a = u"
      using reg by (auto simp: accounts.registers_def lower register_trim_def users_def)
    have other: "sl_lower sl (u_Email v) \<noteq> sl_lower sl (u_Email u)" if "users w i = Some v" for i v
    proof -
      have "i \<noteq> u_ID u" using that u(1) assms(3) by auto
      moreover from this have "users w' i = Some v" "users w' (u_ID u) = Some u"
        using u(4) that by simp_all
      ultimately show ?thesis
        using sql.store_email [of sl w' i v "u_ID u" u] spec by (auto simp: users_def)
    qed
    have new: "users w (u_ID u) = None" "users_ok sl (db_users w')"
      using u(1) assms(3) spec by simp_all
    show ?thesis
    proof (cases r)
      case (Inl e)
      then have "\<exists>m. e = ErrOther m \<and> users w (u_ID u) = None \<and> users w' = (users w)(u_ID u \<mapsto> u)"
        using u(4,5) new(1) by simp
      with Inl new(2) show ?thesis by (simp only: sum.case) blast
    next
      case (Inr a)
      then have "ar_User a = u" using u(5) by simp
      then show ?thesis using Inr u new other by simp
    qed
  qed
qed

theorem register_account_witness:
  "\<exists>a w'. Register sample_users \<lparr>rr_Email = '' Bob@Example.com'', rr_Password = ''Passw0rd!'',
       rr_Name = ''Bob'', rr_ProfileImage = []\<rparr> (sample_db [sample_row] []) = (Inr a, w')
     \<and> u_Email (ar_User a) = ''bob@example.com'' \<and> u_Role (ar_User a) = ''user''
     \<and> live_user (db_users w') (u_ID (ar_User a)) = Some (ar_User a)"
proof -
  let ?req = "\<lparr>rr_Email = '' Bob@Example.com'', rr_Password = ''Passw0rd!'', rr_Name = ''Bob'',
    rr_ProfileImage = []\<rparr>"
  have trims: "trim_space '' Bob@Example.com'' = ''Bob@Example.com''" "trim_space ''Passw0rd!'' = ''Passw0rd!''"
      "trim_space ''Bob'' = ''Bob''" "to_lower (\<lambda>s. s) ''Bob@Example.com'' = ''bob@example.com''"
    by code_simp+
  have runes: "rune_count ''Passw0rd!'' = 9" "rune_count ''Bob'' = 3" by code_simp+
  have lowers: "map ascii_lower ''admin@kidpech.app'' \<noteq> map ascii_lower ''bob@example.com''"
    by code_simp
  have "ul_validate sample_user_lib (register_fields (register_trim sample_user_lib ?req)) = None"
    by (simp add: register_trim_def sample_user_lib_def trims runes register_fields_def rejects_def zero_value_def)
  then obtain a w' where run: "Register sample_users ?req (sample_db [sample_row] []) = (Inr a, w')"
    using register_accepts [of "sample_db [sample_row] []" ref_jwt sample_user_lib ?req _ sample_sql sample_auth]
      documented_ref_jwt lowers
    by (fastforce simp: db_reliable_def sample_user_lib_def sample_sql_def trims sample_row_def)
  have "live_user (db_users w') = (live_user [sample_row])(u_ID (ar_User a) \<mapsto> ar_User a)
      \<and> u_Role (ar_User a) = ''user''
      \<and> u_Email (ar_User a) = to_lower (ul_unicode_lower sample_user_lib) (trim_space (rr_Email ?req))"
    using register_account [OF _ _ run] by simp
  moreover have "ul_unicode_lower sample_user_lib = (\<lambda>s. s)" by (simp add: sample_user_lib_def)
  ultimately show ?thesis using run trims by simp
qed

text \<open>An address in use is refused. When the database answers, and the request is valid, a
  registration with the address of any row of the table, an account deleted or one the
  repository cannot read back included, fails with \<open>ErrDuplicateEmail\<close> and writes nothing.\<close>

theorem register_duplicate:
  fixes w :: "'a database_scheme"
  assumes "db_reliable w" and "documented_duplicate sl"
    and "ul_validate lib (register_fields (register_trim lib req)) = None"
    and "ul_bcrypt_generate lib (salts_drawn w) (trim_space (rr_Password req)) = Inr hash"
    and "q \<in> set (db_users w)"
    and "sl_lower sl (ur_email q) = sl_lower sl (to_lower (ul_unicode_lower lib) (trim_space (rr_Email req)))"
  shows "\<exists>w'. Register (app_users sl cfg up jl lib True) req w = (Inl ErrDuplicateEmail, w')
    \<and> db_users w' = db_users w"
proof -
  let ?s = "app_users sl cfg up jl lib True :: 'a database_scheme user_service"
  let ?e = "to_lower (ul_unicode_lower lib) (trim_space (rr_Email req))"
  let ?w1 = "w\<lparr>db_stmts := Suc (db_stmts w)\<rparr>"
  let ?w4 = "draw (tick (salted ?w1))"
  let ?u = "registered_user lib (register_trim lib req) hash (clock w (clock_reads w)) (uuid_source w (uuids_drawn w))"
  have trim: "rr_Email (register_trim lib req) = trim_space (rr_Email req)"
      "rr_Password (register_trim lib req) = trim_space (rr_Password req)"
    by (simp_all add: register_trim_def)
  have dup: "isDuplicate sl (sl_duplicate_key sl)"
    using assms(2) by (simp add: documented_duplicate_def isDuplicate_def Let_def)
  have "snd (GetUserByEmail sl ?e w) = ?w1"
    using assms(1) by (simp add: GetUserByEmail_def query_def stmt_reliable split: sum.split option.split)
  then obtain y where get: "GetUserByEmail sl ?e w = (y, ?w1)"
    by (cases "GetUserByEmail sl ?e w") auto
  have "u_Email ?u = ?e" by (simp add: ToLower_def trim)
  then have "insert_user sl (user_insert_row ?u) (db_users w) = Inl (sl_duplicate_key sl)"
    using assms(5,6) by (auto simp: insert_user_def)
  then have "CreateUser sl ?u ?w4 = (Some ErrDuplicateEmail, ?w4\<lparr>db_stmts := Suc (db_stmts ?w4)\<rparr>)"
    using assms(1) dup by (simp add: CreateUser_def exec_users_def stmt_reliable)
  then show ?thesis
    using get assms(3,4)
    by (cases y; cases "projr y")
      (simp_all add: Register_def NewUserRepository_def ToLower_def draws Let_def trim)
qed

theorem register_duplicate_witness:
  "\<exists>w'. Register sample_users \<lparr>rr_Email = ''ADMIN@kidpech.app'', rr_Password = ''Passw0rd!'',
       rr_Name = ''Bob'', rr_ProfileImage = []\<rparr> (sample_db [sample_row\<lparr>ur_deleted_at := Some 5\<rparr>] [])
     = (Inl ErrDuplicateEmail, w')"
proof -
  let ?req = "\<lparr>rr_Email = ''ADMIN@kidpech.app'', rr_Password = ''Passw0rd!'', rr_Name = ''Bob'',
    rr_ProfileImage = []\<rparr>"
  have trims: "trim_space ''ADMIN@kidpech.app'' = ''ADMIN@kidpech.app''" "trim_space ''Passw0rd!'' = ''Passw0rd!''"
      "trim_space ''Bob'' = ''Bob''" "to_lower (\<lambda>s. s) ''ADMIN@kidpech.app'' = ''admin@kidpech.app''"
    by code_simp+
  have runes: "rune_count ''Passw0rd!'' = 9" "rune_count ''Bob'' = 3" by code_simp+
  have "contains (to_lower (\<lambda>s. s) ''duplicate key value violates unique constraint'') ''duplicate''"
    by code_simp
  then have dup: "documented_duplicate sample_sql" by (simp add: documented_duplicate_def sample_sql_def)
  have "ul_validate sample_user_lib (register_fields (register_trim sample_user_lib ?req)) = None"
    by (simp add: register_trim_def sample_user_lib_def trims runes register_fields_def rejects_def zero_value_def)
  moreover have "ul_bcrypt_generate sample_user_lib 0 ''Passw0rd!'' = Inr (show_nat 0 @ ''$Passw0rd!'')"
      "ul_unicode_lower sample_user_lib = (\<lambda>s. s)"
    by (simp_all add: sample_user_lib_def)
  moreover have "ur_email sample_row = ''admin@kidpech.app''" "db_reliable (sample_db us ps)"
      "salts_drawn (sample_db us ps) = 0" for us ps
    by (simp_all add: sample_row_def db_reliable_def) (simp add: sample_db_def)
  ultimately show ?thesis
    using register_duplicate [of "sample_db [sample_row\<lparr>ur_deleted_at := Some 5\<rparr>] []" sample_sql
        sample_user_lib ?req "show_nat 0 @ ''$Passw0rd!''" "sample_row\<lparr>ur_deleted_at := Some 5\<rparr>" sample_auth False ref_jwt]
      dup trims by auto
qed

section \<open>Accounts over time\<close>

text \<open>C18 (what calls of the service do to the accounts). Take any calls of the account service, one
  after the other, from a table whose keys are unique and none of whose ids is drawn again. The
  keys stay unique, so no two accounts ever share an address; no account disappears or changes its address, role or
  password; and every account that is new has the role \<open>user\<close>.\<close>

theorem accounts_over_time:
  fixes w :: "'a database_scheme" and sl cfg jl lib and up allow :: bool
  defines "users \<equiv> \<lambda>v :: 'a database_scheme. live_user (db_users v)"
    and "run \<equiv> \<lambda>cs. user_run (app_users sl cfg up jl lib allow) cs w"
  assumes "users_ok sl (db_users w)" and "fresh_uuids n w"
    and "\<forall>k. uuids_drawn w \<le> k \<and> k < n \<longrightarrow> users w (uuid_source w k) = None"
    and "\<forall>k \<le> length cs. uuids_drawn (run (take k cs)) < n"
  shows "users_ok sl (db_users (run cs))
    \<and> (\<forall>i u. users w i = Some u \<longrightarrow> (\<exists>u'. users (run cs) i = Some u' \<and> same_account u' u))
    \<and> (\<forall>i u. users w i = None \<longrightarrow> users (run cs) i = Some u \<longrightarrow> u_Role u = ''user'')"
proof -
  have "accounts.sound sl n w"
    using assms(3-5) by (simp add: accounts.sound_def users_def)
  from accounts.run_sound [OF this, of cs cfg up jl lib allow] assms(6)
  have "accounts.sound sl n (run cs) \<and> accounts_kept (users w) (users (run cs))"
    by (simp add: run_def users_def)
  then show ?thesis by (simp add: accounts.sound_def accounts_kept_def)
qed

theorem accounts_over_time_witness:
  "\<exists>u. live_user (db_users (user_run sample_users [CallGetMe 1000] (sample_db [sample_row] []))) 1000 = Some u
     \<and> u_Role u = ''admin''"
proof -
  let ?w = "sample_db [sample_row] []"
  have draws: "k \<le> length [CallGetMe 1000] \<Longrightarrow> uuids_drawn (user_run sample_users (take k [CallGetMe 1000]) ?w) < 1" for k
    by (cases k) (auto simp: user_run_def GetMe_def NewUserRepository_def GetUserByID_def query_def
        stmt_def scan_first_def scan_user_def sample_row_def live_row_def)
  have "live_user [sample_row] (uuid_source ?w k) = None" if "k < 1" for k
    using that by (simp add: live_user_def sample_row_def)
  then have "\<exists>u. live_user (db_users (user_run sample_users [CallGetMe 1000] ?w)) 1000 = Some u
      \<and> same_account u (row_user sample_row)"
    using accounts_over_time [of sample_sql ?w 1 "[CallGetMe 1000]" sample_auth False ref_jwt sample_user_lib True]
      draws fresh_of_nat [of ?w 1] by simp
  then show ?thesis by (auto simp: same_account_def sample_row_def)
qed

section \<open>Logging in\<close>

text \<open>C19 (what a login does). A login that returns tokens found a live account whose address matches
  case-insensitively and whose stored hash the trimmed password matches, and wrote at most that
  account's login and update times. A login that fails before the tokens are issued changes no
  account and fails with \<open>ErrInvalidCreds\<close> or a validation error, the same for an unknown address and
  for a wrong password; only a failure to issue the tokens is reported as another error.\<close>

theorem login_account:
  fixes w :: "'a database_scheme"
  defines "users \<equiv> \<lambda>v :: 'a database_scheme. live_user (db_users v)"
  assumes "users_ok sl (db_users w)"
    and "Login (app_users sl cfg up jl lib allow) req w = (r, w')"
  shows "case r of
      Inr a \<Rightarrow> \<exists>v now. users w (u_ID v) = Some v
        \<and> sl_lower sl (u_Email v) = sl_lower sl (to_lower (ul_unicode_lower lib) (trim_space (lr_Email req)))
        \<and> ul_bcrypt_compare lib (u_PasswordHash v) (trim_space (lr_Password req)) = None
        \<and> ar_User a = v\<lparr>u_LastLoginAt := Some now, u_UpdatedAt := now\<rparr>
        \<and> (users w' = users w \<or> users w' = (users w)(u_ID v \<mapsto> ar_User a))
    | Inl e \<Rightarrow> (\<exists>m. e = ErrOther m) \<or> users w' = users w \<and> (e = ErrInvalidCreds \<or> (\<exists>es. e = ErrValidation es))"
proof (cases r)
  case (Inl e)
  then show ?thesis
    using accounts.login_spec [OF assms(2,3)] by (auto simp: users_def)
next
  case (Inr a)
  then obtain v u where "accounts.logs_in sl cfg up jl lib allow req w w' v u" "ar_User a = u"
    using accounts.login_spec [OF assms(2,3)] by auto
  then show ?thesis
    using Inr by (auto simp: accounts.logs_in_def ToLower_def users_def)
qed

lemma filter_unique:
  "distinct (map f rs) \<Longrightarrow> r \<in> set rs \<Longrightarrow> P r \<Longrightarrow> filter (\<lambda>q. f q = f r \<and> P q) rs = [r]"
proof (induction rs)
  case (Cons a rs)
  show ?case
  proof (cases "a = r")
    case True
    with Cons.prems(1) have "filter (\<lambda>q. f q = f r \<and> P q) rs = []"
      by (auto simp: filter_empty_conv) (metis imageI)
    with True Cons.prems(3) show ?thesis by simp
  next
    case False
    with Cons show ?thesis by auto
  qed
qed simp

text \<open>A login with the right password succeeds when the account's row can be read back.\<close>

lemma login_accepts:
  fixes w :: "'a database_scheme"
  assumes "db_reliable w" and "documented_jwt jl" and "users_ok sl (db_users w)"
    and "ul_validate lib (login_fields (req\<lparr>lr_Email := trim_space (lr_Email req),
      lr_Password := trim_space (lr_Password req)\<rparr>)) = None"
    and q: "q \<in> set (db_users w)" "live_row q" "ur_last_password_hash q = Some h"
    and "sl_lower sl (to_lower (ul_unicode_lower lib) (trim_space (lr_Email req))) = sl_lower sl (ur_email q)"
    and "ul_bcrypt_compare lib (ur_password_hash q) (trim_space (lr_Password req)) = None"
  shows "\<exists>a w'. Login (app_users sl cfg False jl lib allow) req w = (Inr a, w')"
proof -
  let ?s = "app_users sl cfg False jl lib allow :: 'a database_scheme user_service"
  let ?e = "to_lower (ul_unicode_lower lib) (trim_space (lr_Email req))"
  let ?w1 = "w\<lparr>db_stmts := Suc (db_stmts w)\<rparr>"
  have "filter (\<lambda>r. sl_lower sl (ur_email r) = sl_lower sl ?e \<and> live_row r) (db_users w) = [q]"
    using filter_unique [of "\<lambda>r. sl_lower sl (ur_email r)" "db_users w" q live_row] assms(3,8) q
    by (simp add: users_ok_def)
  moreover have "scan_user sl q = Inr (row_user q)"
    using q(3) by (simp add: scan_user_def row_user_def)
  ultimately have get: "GetUserByEmail sl ?e w = (Inr (Some (row_user q)), ?w1)"
    using assms(1) by (simp add: GetUserByEmail_def query_def stmt_reliable scan_first_def)
  let ?now = "clock w (clock_reads w)"
  let ?u = "(row_user q)\<lparr>u_LastLoginAt := Some ?now, u_UpdatedAt := ?now\<rparr>"
  obtain x w3 where "UpdateUser sl ?u (tick ?w1) = (x, w3)"
    by (cases "UpdateUser sl ?u (tick ?w1)")
  moreover obtain a w' where "issue_response ?s ?u w3 = (Inr a, w')"
    using memory_response [OF assms(2)] by blast
  ultimately show ?thesis
    using get assms(4,9)
    by (simp add: Login_def NewUserRepository_def ToLower_def draws Let_def)
qed

theorem login_account_witness:
  "\<exists>a w'. Login sample_users \<lparr>lr_Email = ''Admin@kidpech.app '', lr_Password = ''Passw0rd!''\<rparr>
       (sample_db [sample_row\<lparr>ur_last_password_hash := Some []\<rparr>] []) = (Inr a, w')
     \<and> u_ID (ar_User a) = 1000 \<and> u_Role (ar_User a) = ''admin''"
proof -
  let ?q = "sample_row\<lparr>ur_last_password_hash := Some []\<rparr>"
  let ?req = "\<lparr>lr_Email = ''Admin@kidpech.app '', lr_Password = ''Passw0rd!''\<rparr>"
  let ?w = "sample_db [?q] []"
  have trims: "trim_space ''Admin@kidpech.app '' = ''Admin@kidpech.app''" "trim_space ''Passw0rd!'' = ''Passw0rd!''"
      "to_lower (\<lambda>s. s) ''Admin@kidpech.app'' = ''admin@kidpech.app''" "rune_count ''Passw0rd!'' = 9"
    by code_simp+
  have "ul_validate sample_user_lib (login_fields (?req\<lparr>lr_Email := trim_space (lr_Email ?req),
      lr_Password := trim_space (lr_Password ?req)\<rparr>)) = None"
    by (simp add: sample_user_lib_def trims login_fields_def rejects_def zero_value_def)
  moreover have "ul_bcrypt_compare sample_user_lib ''0$Passw0rd!'' ''Passw0rd!'' = None"
      "ul_unicode_lower sample_user_lib = (\<lambda>s. s)"
    by (simp_all add: sample_user_lib_def)
  moreover have "db_reliable ?w" by (simp add: db_reliable_def)
  moreover have ok: "users_ok sample_sql (db_users ?w)" by (simp add: users_ok_def)
  ultimately obtain a w' where run: "Login sample_users ?req ?w = (Inr a, w')"
    using login_accepts [of ?w ref_jwt sample_sql sample_user_lib ?req ?q "[]" sample_auth True]
      documented_ref_jwt trims by (force simp: sample_row_def live_row_def)
  have "live_user (db_users ?w) i = Some v \<Longrightarrow> i = 1000 \<and> v = row_user ?q" for i v
    by (auto simp: live_user_def sample_row_def live_row_def split: if_splits)
  then show ?thesis
    using login_account [OF ok run] run by (fastforce simp: sample_row_def)
qed

section \<open>The schema and the entity\<close>

text \<open>Rows whose \<open>last_password_hash\<close> is NULL: every row the migrations, the seed and \<open>Create\<close> write.\<close>

definition unreadable :: "user_row list \<Rightarrow> bool" where
  "unreadable rs \<longleftrightarrow> (\<forall>r \<in> set rs. ur_last_password_hash r = None)"

lemma unreadable_scan: "unreadable rs \<Longrightarrow> set qs \<subseteq> set rs \<Longrightarrow> scan_first sl qs \<noteq> Inr (Some u)"
  by (cases qs) (auto simp: scan_first_def scan_user_def unreadable_def)

lemma unreadable_gets:
  assumes "unreadable (db_users w)"
  shows "fst (GetUserByEmail sl e w) \<noteq> Inr (Some u)"
    and "\<exists>x. fst (GetUserByID sl i w) = Inl x"
proof -
  show "fst (GetUserByEmail sl e w) \<noteq> Inr (Some u)"
  proof -
    let ?qs = "take 1 (filter (\<lambda>r. sl_lower sl (ur_email r) = sl_lower sl e \<and> live_row r) (db_users w))"
    have "set ?qs \<subseteq> set (db_users w)" by (auto dest: in_set_takeD)
    from unreadable_scan [OF assms this, where sl = sl] show ?thesis
      by (auto simp: GetUserByEmail_def query_def stmt_def split: sum.splits option.splits)
  qed
  show "\<exists>x. fst (GetUserByID sl i w) = Inl x"
    using unreadable_scan [OF assms, where sl = sl]
    by (auto simp: GetUserByID_def query_def stmt_def split: sum.splits option.splits)
qed

lemma unreadable_writes:
  "unreadable (db_users w) \<Longrightarrow> CreateUser sl u w = (x, w') \<Longrightarrow> unreadable (db_users w')"
  "unreadable (db_users w) \<Longrightarrow> UpdateUser sl u w = (x, w') \<Longrightarrow> unreadable (db_users w')"
  using CreateUser_table [of sl u w x w'] UpdateUser_table [of sl u w x w']
  by (auto simp: unreadable_def set_update_where split: if_splits)

lemma app_token_tables:
  "tm_IssueTokens (app_tokens cfg up jl) u w = (r, w') \<Longrightarrow> same_tables w w'"
  "tm_RefreshTokens (app_tokens cfg up jl) u t w = (r, w') \<Longrightarrow> same_tables w w'"
  "tm_ExtractUserID (app_tokens cfg up jl) t w = (i, w') \<Longrightarrow> same_tables w w'"
  for w :: "'a database_scheme"
  using token_calls_tables [of "NewManager cfg (redis_for up) jl" up]
  by (auto simp: app_tokens_def jwt_token_manager_def NewManager_def)

lemma get_tables:
  "GetUserByEmail sl e w = (y, w') \<Longrightarrow> db_users w' = db_users w"
  "GetUserByID sl i w = (y, w') \<Longrightarrow> db_users w' = db_users w"
  by (auto simp: GetUserByEmail_def GetUserByID_def query_def stmt_def
      split: sum.splits option.splits prod.splits)

lemma repo_fields [simp]:
  "repo_Create (NewUserRepository sl) = CreateUser sl"
  "repo_Update (NewUserRepository sl) = UpdateUser sl"
  "repo_GetByEmail (NewUserRepository sl) = GetUserByEmail sl"
  "repo_GetByID (NewUserRepository sl) = GetUserByID sl"
  "repo_List (NewUserRepository sl) = ListUserRows sl"
  by (simp_all add: NewUserRepository_def)

lemma response_tables:
  "issue_response (app_users sl cfg up jl lib allow) u w = (r, w') \<Longrightarrow> db_users w' = db_users w"
  for w :: "'a database_scheme"
  by (auto simp: issue_response_def same_tables_def split: prod.splits sum.splits
      dest!: app_token_tables)

text \<open>With unreadable rows every lookup fails, and the calls that start with one fail.\<close>

lemma unreadable_fails:
  fixes w :: "'a database_scheme" and sl cfg jl lib and up allow :: bool
  assumes w: "unreadable (db_users w)"
  defines "s \<equiv> app_users sl cfg up jl lib allow"
  shows "\<exists>e w'. Login s req w = (Inl e, w') \<and> db_users w' = db_users w
      \<and> (e = ErrInvalidCreds \<or> (\<exists>es. e = ErrValidation es))"
    and "\<exists>w'. Refresh s t w = (Inl ErrInvalidToken, w') \<and> db_users w' = db_users w"
    and "\<exists>w'. GetMe s i w = (Inl ErrUserNotFound, w') \<and> db_users w' = db_users w"
    and "\<exists>e w'. UpdateMe s i upd w = (Inl e, w') \<and> db_users w' = db_users w"
proof -
  have get: "\<exists>x v. GetUserByID sl i w = (Inl x, v) \<and> db_users v = db_users w"
    if "unreadable (db_users w)" for i and w :: "'a database_scheme"
    using unreadable_gets(2) [OF that, of sl i] get_tables(2) [of sl i w]
    by (cases "GetUserByID sl i w") auto
  have mail: "\<exists>y v. GetUserByEmail sl e w = (y, v) \<and> db_users v = db_users w \<and> (\<forall>u. y \<noteq> Inr (Some u))" for e
    using unreadable_gets(1) [OF w, of sl e] get_tables(1) [of sl e w]
    by (cases "GetUserByEmail sl e w") auto
  show "\<exists>w'. GetMe s i w = (Inl ErrUserNotFound, w') \<and> db_users w' = db_users w"
    using get [OF w, of i] by (auto simp: GetMe_def s_def)
  show "\<exists>e w'. UpdateMe s i upd w = (Inl e, w') \<and> db_users w' = db_users w"
    using get [OF w, of i] by (auto simp: UpdateMe_def s_def split: option.split)
  show "\<exists>w'. Refresh s t w = (Inl ErrInvalidToken, w') \<and> db_users w' = db_users w"
  proof -
    obtain x w1 where x: "tm_ExtractUserID (app_tokens cfg up jl) t w = (x, w1)"
      by (cases "tm_ExtractUserID (app_tokens cfg up jl) t w")
    then have "db_users w1 = db_users w" using app_token_tables(3) [OF x] by (simp add: same_tables_def)
    moreover from this obtain z v where "GetUserByID sl (projr x) w1 = (Inl z, v)" "db_users v = db_users w1"
      using get [of w1 "projr x"] w by auto
    ultimately show ?thesis using x by (cases x) (simp_all add: Refresh_def s_def)
  qed
  show "\<exists>e w'. Login s req w = (Inl e, w') \<and> db_users w' = db_users w
      \<and> (e = ErrInvalidCreds \<or> (\<exists>es. e = ErrValidation es))"
  proof -
    obtain y v where y: "GetUserByEmail sl (ToLower lib (trim_space (lr_Email req))) w = (y, v)"
        "db_users v = db_users w" "\<forall>u. y \<noteq> Inr (Some u)"
      using mail by blast
    then show ?thesis
      by (cases y; cases "projr y") (auto simp: Login_def s_def Let_def split: option.split)
  qed
qed

lemma unreadable_register:
  fixes w :: "'a database_scheme"
  assumes "unreadable (db_users w)" and "Register (app_users sl cfg up jl lib allow) req w = (r, w')"
  shows "unreadable (db_users w')"
  using assms
  by (auto simp: Register_def draws Let_def split: if_splits option.splits prod.splits sum.splits
      dest!: get_tables(1) response_tables CreateUser_table simp: unreadable_def)

lemma unreadable_call:
  fixes w :: "'a database_scheme"
  assumes w: "unreadable (db_users w)"
  shows "unreadable (db_users (user_do (app_users sl cfg up jl lib allow) c w))"
proof (cases c)
  case (CallRegister req)
  then show ?thesis using unreadable_register [OF w] by (simp add: prod_eq_iff)
next
  case (CallLogin req)
  then show ?thesis using unreadable_fails(1) [OF w, of sl cfg up jl lib allow req] w by auto
next
  case (CallRefreshToken t)
  then show ?thesis using unreadable_fails(2) [OF w, of sl cfg up jl lib allow t] w by auto
next
  case (CallGetMe i)
  then show ?thesis using unreadable_fails(3) [OF w, of sl cfg up jl lib allow i] w by auto
next
  case (CallUpdateMe i req)
  then show ?thesis using unreadable_fails(4) [OF w, of sl cfg up jl lib allow i req] w by auto
next
  case (CallListUsers flt)
  then show ?thesis
    using ListUserRows_table [of sl flt w] w by (simp add: ListUsers_def prod_eq_iff)
qed

text \<open>C20 (accounts the server cannot read). From a table in which every \<open>last_password_hash\<close> is NULL,
  as the migrations leave it, no calls of the service make one that is not; so, whatever was
  called before, every login fails with \<open>ErrInvalidCreds\<close> or a validation error, every
  refresh with \<open>ErrInvalidToken\<close>, every \<open>GetMe\<close> with \<open>ErrUserNotFound\<close> and every update with an error.\<close>

theorem accounts_unreadable:
  fixes w0 :: "'a database_scheme" and sl cfg jl lib and up allow :: bool
  defines "s \<equiv> app_users sl cfg up jl lib allow"
  assumes "unreadable (db_users w0)" and "w = user_run s cs w0"
  shows "unreadable (db_users w)
    \<and> fst (Login s req w) \<in> Inl ` ({ErrInvalidCreds} \<union> range ErrValidation)
    \<and> fst (Refresh s t w) = Inl ErrInvalidToken \<and> fst (GetMe s i w) = Inl ErrUserNotFound
    \<and> (\<exists>e. fst (UpdateMe s i upd w) = Inl e)"
proof -
  have "unreadable (db_users (fold (user_do s) cs v))" if "unreadable (db_users v)" for v
    using that by (induction cs arbitrary: v) (simp_all add: unreadable_call s_def)
  then have "unreadable (db_users w)" using assms(2,3) by (simp add: user_run_def)
  note un = unreadable_fails [OF this, of sl cfg up jl lib allow, folded s_def]
  have "fst (Login s req w) \<in> Inl ` ({ErrInvalidCreds} \<union> range ErrValidation)"
    using un(1) [of req] by auto
  moreover have "fst (Refresh s t w) = Inl ErrInvalidToken" using un(2) [of t] by auto
  moreover have "fst (GetMe s i w) = Inl ErrUserNotFound" using un(3) [of i] by auto
  moreover have "\<exists>e. fst (UpdateMe s i upd w) = Inl e" using un(4) [of i upd] by auto
  ultimately show ?thesis using \<open>unreadable (db_users w)\<close> by blast
qed

theorem accounts_unreadable_witness:
  "unreadable [sample_row] \<and> fst (GetMe sample_users 1000 (sample_db [sample_row] [])) = Inl ErrUserNotFound"
proof -
  have "unreadable [sample_row]" by (simp add: unreadable_def sample_row_def)
  with accounts_unreadable [of "sample_db [sample_row] []" "sample_db [sample_row] []" sample_sql sample_auth
      False ref_jwt sample_user_lib True "[]" undefined undefined 1000]
  show ?thesis by (simp add: user_run_def)
qed

section \<open>The caller's own account\<close>

text \<open>\<open>UpdateMe\<close> changes the caller's name, image and update time. A successful update leaves
  every other account as it was, and of the caller's own keeps all but those three fields; the
  new name is the sanitized, trimmed name of the request. A failed one changes nothing.\<close>

theorem update_me_scope:
  fixes w :: "'a database_scheme" and sl cfg jl lib and up allow :: bool
  defines "users \<equiv> \<lambda>v :: 'a database_scheme. live_user (db_users v)"
  assumes "users_ok sl (db_users w)"
    and "UpdateMe (app_users sl cfg up jl lib allow) i req w = (r, w')"
  shows "case r of
      Inl e \<Rightarrow> users w' = users w
    | Inr u \<Rightarrow> users w' = (users w)(i \<mapsto> u) \<and> u_Name u = trim_space (ul_sanitize lib (uu_Name req))
        \<and> (\<exists>v. users w i = Some v \<and> same_account u v \<and> u_LastLoginAt u = u_LastLoginAt v)"
  using accounts.updateMe_spec [OF assms(2,3)] by (cases r) (auto simp: users_def)

theorem update_me_scope_witness:
  "\<exists>u w'. UpdateMe sample_users 1000 \<lparr>uu_Name = '' New '', uu_ProfileImage = None\<rparr>
       (sample_db [sample_row\<lparr>ur_last_password_hash := Some []\<rparr>] []) = (Inr u, w')
     \<and> u_Name u = ''New'' \<and> u_Role u = ''admin'' \<and> live_user (db_users w') 1000 = Some u"
proof -
  let ?q = "sample_row\<lparr>ur_last_password_hash := Some []\<rparr>"
  let ?req = "\<lparr>uu_Name = '' New '', uu_ProfileImage = None\<rparr>" and ?w = "sample_db [?q] []"
  have trims: "trim_space '' New '' = ''New''" "rune_count '' New '' = 5" by code_simp+
  have ok: "users_ok sample_sql (db_users ?w)" by (simp add: users_ok_def)
  have rel: "db_reliable ?w" "\<And>n. db_reliable (?w\<lparr>db_stmts := n\<rparr>)" by (simp_all add: db_reliable_def)
  obtain u w' where run: "UpdateMe sample_users 1000 ?req ?w = (Inr u, w')"
    using rel
    by (simp add: UpdateMe_def sample_user_lib_def update_user_fields_def rejects_def zero_value_def trims
        GetUserByID_def query_def stmt_reliable scan_first_def scan_user_def sample_row_def live_row_def
        time_now_tick UpdateUser_def exec_users_def sql_update_def Let_def)
  have "live_user [?q] i = Some v \<Longrightarrow> u_Role v = ''admin''" for i v
    by (auto simp: live_user_def sample_row_def split: if_splits)
  moreover have "ul_sanitize sample_user_lib = (\<lambda>s. s)" by (simp add: sample_user_lib_def)
  ultimately show ?thesis
    using update_me_scope [OF ok run] run trims by (auto simp: same_account_def)
qed

text \<open>The JSON of a user holds no secret. The response does not depend on the password hash,
  the previous hash, the refresh version or the deletion and reset times, and has no key for them.\<close>

theorem user_json_no_secrets:
  "user_json (u\<lparr>u_PasswordHash := a, u_LastPasswordHash := b, u_RefreshVersion := c,
     u_PasswordResetAt := d, u_DeletedAt := e\<rparr>) = user_json u
   \<and> set (map fst (user_json u)) \<subseteq>
     {''id'', ''email'', ''name'', ''profile_image'', ''role'', ''last_login_at'', ''created_at'', ''updated_at''}"
  by (auto simp: user_json_def omit_empty_def split: option.splits)

end
