(* ===== verification/ProfileProperties.thy ===== *)
theory ProfileProperties
  imports ProfileAccess UserProperties
begin

text \<open>
  The properties of profiles, stated of the profile service on the database (\<open>app_profiles\<close>), and
  the inputs their witnesses are evaluated at.
\<close>

abbreviation profile_at :: "'a database_scheme \<Rightarrow> uuid \<Rightarrow> profile option" where
  "profile_at w \<equiv> stored (db_profiles w)"

section \<open>A profile to evaluate at\<close>

definition sample_profile_lib :: profile_lib where
  "sample_profile_lib =
     \<lparr>pl_sanitize = (\<lambda>s. s),
      pl_validate = (\<lambda>fs. if \<exists>f \<in> set fs. rejects f then Some [] else None),
      pl_parse_day = (\<lambda>_. None)\<rparr>"

definition sample_profile :: profile where
  "sample_profile =
     \<lparr>p_ID = 5, p_UserID = 1000, p_FirstName = ''Ada'', p_LastName = ''L'', p_Bio = Some ''hi'',
      p_ProfileImage = None, p_CoverImage = None, p_DateOfBirth = None, p_Phone = None,
      p_Website = None, p_Location = None, p_CreatedAt = 0, p_UpdatedAt = 0, p_DeletedAt = None,
      p_Version = 1\<rparr>"

definition sample_payload :: "string \<Rightarrow> create_request" where
  "sample_payload n =
     \<lparr>cr_FirstName = n, cr_LastName = ''X'', cr_Bio = None, cr_ProfileImage = None,
      cr_CoverImage = None, cr_DateOfBirth = None, cr_Phone = None, cr_Website = None,
      cr_Location = None\<rparr>"

abbreviation sample_profiles :: "database profile_service" where
  "sample_profiles \<equiv> app_profiles sample_sql sample_profile_lib"

lemma sample_profile_stored [simp]:
  "stored [sample_profile] i = (if i = 5 then Some sample_profile else None)"
  "profiles_ok [sample_profile]" "p_UserID sample_profile = 1000" "p_ID sample_profile = 5"
  "p_Version sample_profile = 1" "p_DeletedAt sample_profile = None"
  by (simp_all add: stored_def sample_profile_def profiles_ok_def int4_def)

section \<open>Owners\<close>

text \<open>C21 (owners are isolated). Whatever other users call, in whatever order and with whatever
  input, an owner has exactly the profiles it had: none is changed, removed or added.\<close>

theorem profile_isolation:
  assumes "profiles_ok (db_profiles w)" and "\<forall>(u, c) \<in> set cs. u \<noteq> owner" and "p_UserID p = owner"
  shows "profile_at (profile_run (app_profiles sl lib) cs w) i = Some p \<longleftrightarrow> profile_at w i = Some p"
  using app.run_isolated [OF assms(1)] assms(2,3) by blast

theorem profile_isolation_witness:
  "profile_at (profile_run sample_profiles [(7, CallDelete 5 True 1)] (sample_db [] [sample_profile])) 5
     = Some sample_profile"
  using profile_isolation [of "sample_db [] [sample_profile]" "[(7, CallDelete 5 True 1)]" 1000
      sample_profile sample_sql sample_profile_lib 5] by simp

text \<open>C22 (the life of a profile). As long as no call removes a profile, it keeps its id, owner and
  creation time, its version never falls, and once deleted it stays deleted, whoever calls what.\<close>

theorem profile_life:
  fixes w :: "'a database_scheme"
  assumes "profiles_ok (db_profiles w)" and "profile_at w i = Some q"
    and "\<forall>k. profile_at (profile_run (app_profiles sl lib) (take k cs) w) i \<noteq> None"
  shows "\<exists>p. profile_at (profile_run (app_profiles sl lib) cs w) i = Some p \<and> successor q p"
  using app.run_life [OF assms] .

theorem profile_life_witness:
  "\<exists>p. profile_at (profile_run sample_profiles [(7, CallDelete 5 True 1)] (sample_db [] [sample_profile])) 5
     = Some p \<and> successor sample_profile p"
proof (rule profile_life)
  let ?w = "sample_db [] [sample_profile]" and ?cs = "[(7::uuid, CallDelete 5 True 1)]"
  have "\<forall>(u, c) \<in> set (take k ?cs). u \<noteq> 1000" for k by (cases k) auto
  then have "profile_at (profile_run sample_profiles (take k ?cs) ?w) 5 = Some sample_profile" for k
    using app.run_isolated [where w = ?w and cs = "take k ?cs" and owner = 1000 and sl = sample_sql and lib = sample_profile_lib] by fastforce
  then show "\<forall>k. profile_at (profile_run sample_profiles (take k ?cs) ?w) 5 \<noteq> None" by simp
qed simp_all

section \<open>Reading one\<close>

lemma filter_stored:
  assumes "distinct (map p_ID ps)"
  shows "filter (\<lambda>p. p_ID p = i \<and> Q p) ps =
    (case stored ps i of Some p \<Rightarrow> if Q p then [p] else [] | None \<Rightarrow> [])"
  using assms
proof (induction ps)
  case (Cons a ps)
  have "stored ps i = None" if "p_ID a = i"
    using Cons.prems that by (auto simp: stored_None) (metis imageI)
  with Cons show ?case by (auto simp: stored_def)
qed (simp add: stored_def)

lemma Get_reliable:
  assumes "profiles_ok (db_profiles w)" and "db_reliable w"
  shows "GetProfileByID sl i u w =
    (case profile_at w i of
       Some p \<Rightarrow> if p_UserID p = u \<and> visible p then Inr (Some p) else Inl ErrNotFound
     | None \<Rightarrow> Inl ErrNotFound, w\<lparr>db_stmts := Suc (db_stmts w)\<rparr>)"
  using assms
  by (simp add: GetProfileByID_def query_def stmt_reliable filter_stored profiles_ok_def split: option.split)

lemma Get_answers:
  assumes "profiles_ok (db_profiles w)" and "db_reliable w"
  shows "fst (Get (app_profiles sl lib) i u w) =
    (case profile_at w i of
       Some p \<Rightarrow> if p_UserID p = u \<and> p_DeletedAt p = None then Inr p else Inl ErrNotFound
     | None \<Rightarrow> Inl ErrNotFound)"
  using Get_reliable [OF assms] by (auto simp: Get_def visible_def split: option.splits)

text \<open>C27 (\<open>Get\<close> answers with the caller's own). When the database answers, \<open>Get\<close> returns the stored
  profile if it is the caller's and not deleted, and \<open>ErrNotFound\<close> in every other case, the
  same for a profile of someone else as for one that does not exist.\<close>

theorem Get_exact:
  assumes "profiles_ok (db_profiles w)" and "db_reliable w"
  shows "(fst (Get (app_profiles sl lib) i u w) = Inr p \<longleftrightarrow>
      profile_at w i = Some p \<and> p_UserID p = u \<and> p_DeletedAt p = None)
    \<and> fst (Get (app_profiles sl lib) i u w) \<in> insert (Inl ErrNotFound) (range Inr)"
  using Get_answers [OF assms, of sl lib i u] by (auto split: option.splits if_splits)

theorem Get_exact_witness:
  "fst (Get sample_profiles 5 1000 (sample_db [] [sample_profile])) = Inr sample_profile
   \<and> fst (Get sample_profiles 5 7 (sample_db [] [sample_profile])) \<noteq> Inr sample_profile"
proof -
  have "db_reliable (sample_db [] [sample_profile])" by (simp add: db_reliable_def)
  then show ?thesis
    using Get_exact [of "sample_db [] [sample_profile]" sample_sql sample_profile_lib 5 _ sample_profile] by simp
qed

section \<open>Creating\<close>

text \<open>\<open>Create\<close> adds one profile of the caller: on success exactly one profile is added, under an
  id that was free, owned by the caller, at version 1, not deleted, with the cleaned names and
  the given optional fields and nothing else; on an error no profile changes.\<close>

theorem create_profile:
  assumes "profiles_ok (db_profiles w)" and "Create (app_profiles sl lib) u req w = (r, w')"
  shows "case r of
      Inl e \<Rightarrow> profile_at w' = profile_at w
    | Inr p \<Rightarrow> profile_at w (p_ID p) = None \<and> profile_at w' = (profile_at w)(p_ID p \<mapsto> p)
        \<and> p_UserID p = u \<and> p_Version p = 1 \<and> p_DeletedAt p = None
        \<and> merged lib req (new_profile lib u req (p_CreatedAt p) (p_ID p)) p"
  using app.create_spec [OF assms] by (cases r) simp_all

theorem create_profile_witness:
  "\<exists>p w'. Create sample_profiles 1000 (sample_payload ''Ada'') (sample_db [sample_row] [sample_profile]) = (Inr p, w')
     \<and> p_UserID p = 1000 \<and> profile_at w' 0 = Some p \<and> profile_at w' 5 = Some sample_profile"
proof -
  let ?w = "sample_db [sample_row] [sample_profile]"
  have "db_reliable ?w" "\<And>n. db_reliable (?w\<lparr>db_stmts := n\<rparr>)" by (simp_all add: db_reliable_def)
  then obtain p w' where run: "Create sample_profiles 1000 (sample_payload ''Ada'') ?w = (Inr p, w')" "p_ID p = 0"
    by (simp add: Create_def sample_payload_def create_fields_def rejects_def zero_value_def draws
        sample_profile_lib_def assignOptionalFields_def given_def CreateProfile_def exec_profiles_def
        stmt_reliable insert_profile_def int4_def sample_row_def new_profile_def Let_def)
  with create_profile [OF _ run(1)] show ?thesis by simp
qed

section \<open>Updating\<close>

lemma UpdateProfile_reliable:
  assumes "profiles_ok (db_profiles w)" and "db_reliable w" and "int4 (p_Version p)"
    and "profile_at w (p_ID p) = Some q" and "p_UserID q = p_UserID p"
  shows "\<exists>w'. UpdateProfile sl p w = (None, w') \<and> db_reliable w'"
proof -
  let ?P = "\<lambda>r. p_ID r = p_ID p \<and> p_UserID r = p_UserID p"
  have "distinct (map p_ID (db_profiles w))" using assms(1) by (simp add: profiles_ok_def)
  then have "0 < count_where ?P (db_profiles w)"
    using one_row [of "db_profiles w" ?P "p_ID p"] stored_SomeD [OF assms(4)] assms(4,5) by auto
  then show ?thesis
    using assms(2,3) by (simp add: UpdateProfile_def exec_profiles_def stmt_reliable sql_update_def db_reliable_def)
qed

lemma update_accepts:
  assumes ok: "profiles_ok (db_profiles w)" and rel: "db_reliable w"
    and valid: "pl_validate lib (update_fields req) = None"
    and q: "profile_at w i = Some q" "p_UserID q = u" "p_DeletedAt q = None" "p_Version q = pu_Version req"
      "int4 (p_Version q + 1)"
    and day: "\<And>d. cr_DateOfBirth (pu_Create req) = Some d \<Longrightarrow> d = [] \<or> pl_parse_day lib d \<noteq> None"
  shows "\<exists>p w'. Update (app_profiles sl lib) i u req w = (Inr p, w') \<and> db_reliable w'"
proof -
  let ?w1 = "w\<lparr>db_stmts := Suc (db_stmts w)\<rparr>"
  have get: "GetProfileByID sl i u w = (Inr (Some q), ?w1)"
    using Get_reliable [OF ok rel] q by (simp add: visible_def)
  let ?p1 = "q\<lparr>p_FirstName := sanitizeField lib (cr_FirstName (pu_Create req)),
      p_LastName := sanitizeField lib (cr_LastName (pu_Create req))\<rparr>"
  obtain x p2 where a: "assignOptionalFields lib ?p1 (pu_Create req) = (x, p2)"
    by (cases "assignOptionalFields lib ?p1 (pu_Create req)")
  have x: "x = None" using a day by (auto simp: assignOptionalFields_def Let_def split: option.splits if_splits)
  have p2: "p_ID p2 = i" "p_UserID p2 = u" "p_Version p2 = p_Version q"
    using app.optional_fields [OF a] q stored_SomeD [OF q(1)] by (simp_all add: same_profile_def)
  have wrap: "wrap64 (p_Version q + 1) = p_Version q + 1"
    using q(5) by (auto simp: int4_def intro!: wrap64_id)
  let ?p3 = "p2\<lparr>p_Version := wrap64 (p_Version p2 + 1), p_UpdatedAt := clock w (clock_reads w)\<rparr>"
  obtain w' where "UpdateProfile sl ?p3 (tick ?w1) = (None, w') \<and> db_reliable w'"
    using UpdateProfile_reliable [of "tick ?w1" ?p3 q sl] ok rel q p2 wrap by auto
  then show ?thesis
    using valid get q(4) a x p2 wrap by (simp add: Update_def draws Let_def)
qed

lemma sample_update:
  assumes "n \<noteq> []"
  shows "\<exists>p w'. Update sample_profiles 5 1000 \<lparr>pu_Create = sample_payload n, pu_Version = 1\<rparr>
     (sample_db [] [sample_profile]) = (Inr p, w') \<and> db_reliable w'"
proof (rule update_accepts)
  show "pl_validate sample_profile_lib (update_fields \<lparr>pu_Create = sample_payload n, pu_Version = 1\<rparr>) = None"
    using assms by (simp add: sample_profile_lib_def update_fields_def create_fields_def sample_payload_def
        rejects_def zero_value_def)
  show "int4 (p_Version sample_profile + 1)" by (simp add: int4_def)
qed (simp_all add: db_reliable_def sample_payload_def)

text \<open>C23 (\<open>Update\<close> holds the version). A successful update was asked for the version the profile
  had, of a profile of the caller that is not deleted; it raises the version by one, replaces
  the names and the given optional fields (an omitted one keeps its value), and touches no other
  profile. A refused one changes nothing.\<close>

theorem update_profile:
  assumes "profiles_ok (db_profiles w)" and "Update (app_profiles sl lib) i u req w = (r, w')"
  shows "case r of
      Inl e \<Rightarrow> profile_at w' = profile_at w
    | Inr p \<Rightarrow> \<exists>q. profile_at w i = Some q \<and> p_UserID q = u \<and> p_DeletedAt q = None
        \<and> p_Version q = pu_Version req \<and> profile_at w' = (profile_at w)(i \<mapsto> p)
        \<and> same_profile p q \<and> p_Version p = p_Version q + 1 \<and> merged lib (pu_Create req) q p"
  using app.update_spec [OF assms] by (cases r) auto

theorem update_profile_witness:
  "\<exists>p w'. Update sample_profiles 5 1000 \<lparr>pu_Create = sample_payload ''Eve'', pu_Version = 1\<rparr>
       (sample_db [] [sample_profile]) = (Inr p, w')
     \<and> p_Version p = 2 \<and> p_Bio p = Some ''hi'' \<and> profile_at w' 5 = Some p"
proof -
  from sample_update [of "''Eve''"] obtain p w' where
    run: "Update sample_profiles 5 1000 \<lparr>pu_Create = sample_payload ''Eve'', pu_Version = 1\<rparr>
       (sample_db [] [sample_profile]) = (Inr p, w')" by auto
  have "p_Bio sample_profile = Some ''hi''" by (simp add: sample_profile_def)
  with update_profile [OF _ run] run show ?thesis
    by (simp add: merged_def given_def sample_payload_def)
qed

section \<open>Patching\<close>

text \<open>What a column a patch may name holds.\<close>

definition column :: "string \<Rightarrow> profile \<Rightarrow> column_value" where
  "column c p =
     (let t = (\<lambda>v. case v of None \<Rightarrow> CNull | Some s \<Rightarrow> CText s);
          d = (case p_DateOfBirth p of None \<Rightarrow> CNull | Some x \<Rightarrow> CDate x)
      in case map_of [(''first_name'', CText (p_FirstName p)), (''last_name'', CText (p_LastName p)),
                      (''bio'', t (p_Bio p)), (''profile_image'', t (p_ProfileImage p)),
                      (''cover_image'', t (p_CoverImage p)), (''date_of_birth'', d),
                      (''phone'', t (p_Phone p)), (''website'', t (p_Website p)),
                      (''location'', t (p_Location p))] c of
           None \<Rightarrow> CNull | Some v \<Rightarrow> v)"

lemma column_set_other: "c \<noteq> fst cv \<Longrightarrow> column c (set_column cv p) = column c p"
  by (cases cv) (auto simp: column_def set_column_def Let_def)

lemma column_patched: "c \<notin> fst ` set cs \<Longrightarrow> column c (patched cs now p) = column c p"
proof -
  assume "c \<notin> fst ` set cs"
  then have "column c (fold set_column cs p) = column c p"
    by (induction cs arbitrary: p) (simp_all add: column_set_other)
  moreover have "column c (q\<lparr>p_UpdatedAt := now, p_Version := v\<rparr>) = column c q" for q v
    by (simp add: column_def)
  ultimately show ?thesis by (simp add: patched_def)
qed

lemma bind_fields_keys: "bind_fields sl fs = Inr cs \<Longrightarrow> map fst cs = map fst fs"
  by (induction fs arbitrary: cs) (auto split: sum.splits)

lemma patch_update_keys: "fst ` set (patch_update lib fs) = fst ` set fs \<inter> set allowed_columns"
  by (induction lib fs rule: patch_update.induct) (auto split: json.splits)

abbreviation patch_request_fields :: "patch_request \<Rightarrow> (string \<times> json) list" where
  "patch_request_fields req \<equiv> (case pp_Fields req of None \<Rightarrow> [] | Some fs \<Rightarrow> fs)"

lemma Patch_stored:
  assumes "pl_validate lib (patch_fields req) = None"
    and "patch_update lib (patch_request_fields req) \<noteq> []"
  shows "Patch (app_profiles sl lib) i u req w =
    PatchProfile sl i u (patch_update lib (patch_request_fields req)) (pp_Version req) w"
  using assms
  by (cases "PatchProfile sl i u (patch_update lib (patch_request_fields req)) (pp_Version req) w")
    (auto simp: Patch_def Let_def split: sum.split)

text \<open>C25 (what \<open>Patch\<close> can change). Either nothing changes and an error is returned, or one profile
  of the caller, at the version that was asked for, changes: its version rises by one, its id,
  owner, creation and deletion times stay, and so does every column the request does not name or
  that is not one of the nine allowed.\<close>

theorem patch_profile:
  fixes w :: "'a database_scheme" and lib :: profile_lib and req :: patch_request
  defines "named \<equiv> fst ` set (patch_request_fields req) \<inter> set allowed_columns"
  assumes ok: "profiles_ok (db_profiles w)" and run: "Patch (app_profiles sl lib) i u req w = (r, w')"
  shows "profile_at w' = profile_at w \<and> (\<exists>e. r = Inl e)
    \<or> (\<exists>q p. profile_at w i = Some q \<and> p_UserID q = u \<and> p_Version q = pp_Version req
        \<and> profile_at w' = (profile_at w)(i \<mapsto> p) \<and> p_Version p = p_Version q + 1
        \<and> same_profile p q \<and> p_DeletedAt p = p_DeletedAt q \<and> (\<forall>c. c \<in> named \<or> column c p = column c q))"
proof (cases "pl_validate lib (patch_fields req) = None \<and> patch_update lib (patch_request_fields req) \<noteq> []")
  case False
  then have "w' = w \<and> (\<exists>e. r = Inl e)"
    using run by (auto simp: Patch_def Let_def split: option.splits if_splits)
  then show ?thesis by simp
next
  case True
  then have "PatchProfile sl i u (patch_update lib (patch_request_fields req)) (pp_Version req) w = (r, w')"
    using run Patch_stored [of lib req sl i u w] by simp
  from PatchProfile_table [OF ok this] show ?thesis
  proof (elim conjE disjE exE, goal_cases)
    case (2 q cs)
    have "fst ` set cs = named"
      using bind_fields_keys [OF 2(2)] patch_update_keys [of lib] by (metis named_def list.set_map)
    with 2 show ?thesis
      using column_patched [of _ cs "clock w (clock_reads w)" q]
      by (intro disjI2 exI [of _ q] exI [of _ "patched cs (clock w (clock_reads w)) q"]) auto
  qed simp
qed

text \<open>A patch that meets its row.\<close>

lemma patch_accepts:
  fixes w :: "'a database_scheme"
  assumes ok: "profiles_ok (db_profiles w)" and rel: "db_reliable w"
    and valid: "pl_validate lib (patch_fields req) = None" "patch_update lib (patch_request_fields req) \<noteq> []"
    and q: "profile_at w i = Some q" "p_UserID q = u" "p_Version q = pp_Version req" "int4 (p_Version q + 1)"
    and bind: "bind_fields sl (patch_update lib (patch_request_fields req)) = Inr cs" "\<not> nulls_required cs"
  shows "\<exists>w'. Patch (app_profiles sl lib) i u req w = (Inr (Some (patched cs (clock w (clock_reads w)) q)), w')
    \<and> profile_at w' i = Some (patched cs (clock w (clock_reads w)) q)"
proof -
  let ?upd = "patch_update lib (patch_request_fields req)" and ?now = "clock w (clock_reads w)"
  let ?P = "\<lambda>p. p_ID p = i \<and> p_UserID p = u \<and> p_Version p = pp_Version req"
  have d: "distinct (map p_ID (db_profiles w))" using ok by (simp add: profiles_ok_def)
  obtain n where n: "count_where ?P (db_profiles w) = Suc n"
    using one_row [OF d, of ?P i] q stored_SomeD [OF q(1)] by (auto simp: gr0_conv_Suc)
  have int: "int4 (pp_Version req)" "int4 (pp_Version req + 1)"
    using ok stored_SomeD [OF q(1)] q(3,4) by (auto simp: profiles_ok_def)
  let ?w1 = "(tick w)\<lparr>db_stmts := Suc (db_stmts (tick w))\<rparr>"
  let ?w2 = "?w1\<lparr>db_profiles := update_where ?P (patched cs ?now) (db_profiles w)\<rparr>"
  have x: "exec_profiles (patch_rows sl i u ?upd (pp_Version req) ?now) (tick w) = (Inr (Suc n), ?w2)"
    using rel bind int n
    by (simp add: exec_profiles_def stmt_reliable patch_rows_def Let_def sql_update_def patched_def [abs_def])
  from patch_written [OF ok x] bind(1) q(1) have st:
    "profile_at ?w2 = (profile_at w)(i \<mapsto> patched cs ?now q)" "profiles_ok (db_profiles ?w2)" by auto
  obtain r w' where f: "fetchByID sl i ?w2 = (r, w')" by (cases "fetchByID sl i ?w2")
  have "db_faults ?w2 k = None" for k using rel by (simp add: db_reliable_def)
  moreover have "filter (\<lambda>p. p_ID p = i) (db_profiles ?w2) = [patched cs ?now q]"
    using filter_stored [of "db_profiles ?w2" i "\<lambda>_. True"] st by (simp add: profiles_ok_def)
  ultimately have "r = Inr (Some (patched cs ?now q))" "db_profiles w' = db_profiles ?w2"
    using f by (auto simp: fetchByID_def query_def stmt_def)
  moreover have "Patch (app_profiles sl lib) i u req w = (r, w')"
    using Patch_stored [OF valid, of sl i u w] x f by (simp add: PatchProfile_def draws)
  ultimately show ?thesis using st(1) by auto
qed

definition sample_patch :: patch_request where
  "sample_patch = \<lparr>pp_Fields = Some [(''bio'', JStr ''x''), (''user_id'', JStr ''7'')], pp_Version = 1\<rparr>"

definition sample_patched :: "timestamp option \<Rightarrow> profile" where
  "sample_patched d = patched [(''bio'', CText ''x'')] 0 (sample_profile\<lparr>p_DeletedAt := d\<rparr>)"

lemma sample_patch_applies:
  fixes d :: "timestamp option"
  defines "w \<equiv> sample_db [] [sample_profile\<lparr>p_DeletedAt := d\<rparr>]"
  shows "profiles_ok (db_profiles w)" and "db_reliable w"
    and "pl_validate sample_profile_lib (patch_fields sample_patch) = None"
    and "patch_update sample_profile_lib (patch_request_fields sample_patch) \<noteq> []"
    and "profile_at w 5 = Some (sample_profile\<lparr>p_DeletedAt := d\<rparr>)"
    and "pp_Version sample_patch = 1" and "int4 (1 + 1)"
    and "bind_fields sample_sql (patch_update sample_profile_lib (patch_request_fields sample_patch))
      = Inr [(''bio'', CText ''x'')]" and "\<not> nulls_required [(''bio'', CText ''x'')]"
proof -
  have x: "trim_space ''x'' = ''x''" by code_simp
  have upd: "patch_update sample_profile_lib (patch_request_fields sample_patch) = [(''bio'', JStr ''x'')]"
    by (simp add: allowed_columns_def sanitizeField_def sample_profile_lib_def x sample_patch_def)
  show "patch_update sample_profile_lib (patch_request_fields sample_patch) \<noteq> []" unfolding upd by simp
  show "bind_fields sample_sql (patch_update sample_profile_lib (patch_request_fields sample_patch))
      = Inr [(''bio'', CText ''x'')]"
    unfolding upd by (simp add: sample_sql_def)
  show "pl_validate sample_profile_lib (patch_fields sample_patch) = None"
    by (simp add: sample_profile_lib_def patch_fields_def rejects_def zero_value_def sample_patch_def)
qed (simp_all add: w_def profiles_ok_def int4_def db_reliable_def stored_def sample_patch_def nulls_required_def)

lemma sample_patch_accepted:
  "\<exists>w'. Patch sample_profiles 5 1000 sample_patch (sample_db [] [sample_profile\<lparr>p_DeletedAt := d\<rparr>])
      = (Inr (Some (sample_patched d)), w') \<and> profile_at w' 5 = Some (sample_patched d)"
  using patch_accepts [OF sample_patch_applies(1-5) _ _ _ sample_patch_applies(8,9), where u = 1000]
    sample_patch_applies(6,7)
  by (simp add: sample_patched_def)

theorem patch_profile_witness:
  "\<exists>p w'. Patch sample_profiles 5 1000 sample_patch (sample_db [] [sample_profile]) = (Inr (Some p), w')
    \<and> profile_at w' 5 = Some p \<and> p_Version p = 2 \<and> p_UserID p = 1000
    \<and> column ''first_name'' p = CText ''Ada'' \<and> column ''bio'' p = CText ''x''"
proof -
  let ?w = "sample_db [] [sample_profile]" and ?p = "sample_patched None"
  have eq: "sample_profile\<lparr>p_DeletedAt := None\<rparr> = sample_profile" by (simp add: sample_profile_def)
  obtain w' where run: "Patch sample_profiles 5 1000 sample_patch ?w = (Inr (Some ?p), w')"
      "profile_at w' 5 = Some ?p"
    using sample_patch_accepted [of None] unfolding eq by blast
  have "profiles_ok (db_profiles ?w)" by simp
  note patch_profile [OF this run(1)]
  then have "\<exists>q p. profile_at ?w 5 = Some q \<and> profile_at w' = (profile_at ?w)(5 \<mapsto> p)
      \<and> p_Version p = p_Version q + 1 \<and> same_profile p q
      \<and> (''first_name'' \<in> fst ` set (patch_request_fields sample_patch) \<inter> set allowed_columns
        \<or> column ''first_name'' p = column ''first_name'' q)"
    by (rule disjE) (simp, blast)
  then obtain q p where q: "profile_at ?w 5 = Some q" "profile_at w' = (profile_at ?w)(5 \<mapsto> p)"
      "p_Version p = p_Version q + 1" "same_profile p q"
      "''first_name'' \<notin> fst ` set (patch_request_fields sample_patch) \<Longrightarrow>
        column ''first_name'' p = column ''first_name'' q" by blast
  have "''first_name'' \<notin> fst ` set (patch_request_fields sample_patch)" by (simp add: sample_patch_def)
  with q run(2) have "p_Version ?p = 2 \<and> p_UserID ?p = 1000
      \<and> column ''first_name'' ?p = column ''first_name'' sample_profile"
    by (simp add: same_profile_def)
  moreover have "column ''first_name'' sample_profile = CText ''Ada''" "column ''bio'' ?p = CText ''x''"
    by (simp_all add: column_def sample_profile_def sample_patched_def patched_def set_column_def)
  ultimately show ?thesis using run by (intro exI [of _ ?p] exI [of _ w']) simp
qed

section \<open>Deleting\<close>

text \<open>C26 (a deleted profile is gone for reading). A successful delete was asked for the version the
  caller's own profile had; a hard one removes the row, a soft one marks it and raises the
  version; no other profile changes, and from then on \<open>Get\<close> answers \<open>ErrNotFound\<close> to everyone. A
  refused delete changes nothing.\<close>

theorem delete_profile:
  assumes ok: "profiles_ok (db_profiles w)" and run: "Delete (app_profiles sl lib) i u hard v w = (e, w')"
    and rel: "db_reliable w'"
  shows "if e = None
    then (\<exists>q. profile_at w i = Some q \<and> p_UserID q = u \<and> p_DeletedAt q = None \<and> p_Version q = v
        \<and> (if hard then profile_at w' = (profile_at w)(i := None)
           else \<exists>t. profile_at w' = (profile_at w)(i \<mapsto> q\<lparr>p_DeletedAt := Some t, p_Version := v + 1\<rparr>)))
      \<and> (\<forall>x. fst (Get (app_profiles sl lib) i x w') = Inl ErrNotFound)
    else profile_at w' = profile_at w"
proof -
  note spec = app.delete_spec [OF ok run]
  then have ok': "profiles_ok (db_profiles w')" by blast
  show ?thesis
  proof (cases "e = None")
    case True
    with spec have "case profile_at w' i of None \<Rightarrow> True | Some p \<Rightarrow> p_DeletedAt p \<noteq> None"
      by (auto split: if_splits)
    then have "fst (Get (app_profiles sl lib) i x w') = Inl ErrNotFound" for x
      using Get_answers [OF ok' rel, of sl lib i x] by (auto split: option.splits)
    with spec True show ?thesis by simp
  next
    case False
    with spec show ?thesis by (cases e) simp_all
  qed
qed

theorem delete_profile_witness:
  "\<exists>w'. Delete sample_profiles 5 1000 False 1 (sample_db [] [sample_profile]) = (None, w')
     \<and> fst (Get sample_profiles 5 1000 w') = Inl ErrNotFound"
proof -
  let ?w = "sample_db [] [sample_profile]"
  have rel: "db_reliable ?w" "db_reliable (?w\<lparr>db_stmts := n\<rparr>)" for n by (simp_all add: db_reliable_def)
  have "count_where (\<lambda>p. p_ID p = 5 \<and> p_UserID p = 1000 \<and> p_Version p = 1) [sample_profile] = Suc 0"
    by (simp add: count_where_def)
  then obtain w' where run: "Delete sample_profiles 5 1000 False 1 ?w = (None, w')" "db_reliable w'"
    using rel Get_reliable [of ?w sample_sql 5 1000]
    by (simp add: Delete_def DeleteProfile_def draws exec_profiles_def stmt_reliable int4_def sql_update_def
        visible_def Let_def) (simp add: db_reliable_def)
  with delete_profile [OF _ run] show ?thesis by simp
qed

text \<open>C31 (a patch reaches a deleted profile). \<open>Patch\<close> does not look at \<open>deleted_at\<close>: a valid patch of a
  soft-deleted profile, at its version, is written and answered with the profile, though \<open>Get\<close>
  and \<open>Update\<close> do not find it.\<close>

theorem patch_reaches_deleted:
  fixes w :: "'a database_scheme"
  assumes ok: "profiles_ok (db_profiles w)" and rel: "db_reliable w"
    and valid: "pl_validate lib (patch_fields req) = None" "patch_update lib (patch_request_fields req) \<noteq> []"
    and q: "profile_at w i = Some q" "p_UserID q = u" "p_Version q = pp_Version req" "int4 (p_Version q + 1)"
      "p_DeletedAt q = Some t"
    and bind: "bind_fields sl (patch_update lib (patch_request_fields req)) = Inr cs" "\<not> nulls_required cs"
  shows "fst (Get (app_profiles sl lib) i u w) = Inl ErrNotFound
    \<and> (\<exists>p w'. Patch (app_profiles sl lib) i u req w = (Inr (Some p), w') \<and> profile_at w' i = Some p
        \<and> p_DeletedAt p = Some t \<and> p_Version p = p_Version q + 1)"
proof
  show "fst (Get (app_profiles sl lib) i u w) = Inl ErrNotFound"
    using Get_answers [OF ok rel] q by simp
  have "p_DeletedAt (patched cs now q) = Some t \<and> p_Version (patched cs now q) = p_Version q + 1" for now
    using q(5) by simp
  with patch_accepts [OF ok rel valid q(1-4) bind]
  show "\<exists>p w'. Patch (app_profiles sl lib) i u req w = (Inr (Some p), w') \<and> profile_at w' i = Some p
        \<and> p_DeletedAt p = Some t \<and> p_Version p = p_Version q + 1" by blast
qed

theorem patch_reaches_deleted_witness:
  "\<exists>p w'. Patch sample_profiles 5 1000 sample_patch (sample_db [] [sample_profile\<lparr>p_DeletedAt := Some 3\<rparr>])
      = (Inr (Some p), w') \<and> p_DeletedAt p = Some 3"
  using patch_reaches_deleted [where w = "sample_db [] [sample_profile\<lparr>p_DeletedAt := Some 3\<rparr>]" and u = 1000 and t = 3,
      OF sample_patch_applies(1-5) _ _ _ _ sample_patch_applies(8,9)]
    sample_patch_applies(6,7)
  by auto

section \<open>Creating many\<close>

lemma payload_answers:
  "bulk_payloads lib u reqs w = ((ps, errs), w') \<Longrightarrow>
    length errs = length reqs \<and> length ps = count_where (\<lambda>e. e = None) errs
    \<and> db_profiles w' = db_profiles w \<and> db_faults w' = db_faults w" for w :: "'a database_scheme"
proof (induction reqs arbitrary: w ps errs)
  case (Cons req reqs)
  let ?n = "new_profile lib u req (clock w (clock_reads w)) (uuid_source w (uuids_drawn w))"
  obtain x p where a: "assignOptionalFields lib ?n req = (x, p)" by (cases "assignOptionalFields lib ?n req")
  obtain ps1 errs1 w1 where r1: "bulk_payloads lib u reqs w = ((ps1, errs1), w1)" by (metis prod.exhaust)
  obtain ps2 errs2 w2 where r2: "bulk_payloads lib u reqs (draw (tick w)) = ((ps2, errs2), w2)"
    by (metis prod.exhaust)
  have "w1 = w'" if "pl_validate lib (create_fields req) \<noteq> None" using Cons.prems r1 that by auto
  moreover have "w2 = w'" if "pl_validate lib (create_fields req) = None"
    using Cons.prems r2 a that by (cases x) (auto simp: draws)
  ultimately show ?case
    using Cons.prems Cons.IH [of w ps1 errs1] Cons.IH [of "draw (tick w)" ps2 errs2] r1 r2 a
    by (cases "pl_validate lib (create_fields req)"; cases x) (auto simp: draws count_where_def)
qed (simp add: count_where_def)

text \<open>C30 (what \<open>BulkCreate\<close> answers). There is one answer per payload, an error or a profile, and the
  answers do not depend on the repository: with any other one they are the same, also when a
  failing database stores nothing.\<close>

theorem bulk_create_unreported:
  fixes w :: "'a database_scheme"
  assumes run: "BulkCreate (app_profiles sl lib) u req w = ((ps, errs), w')"
  shows "length errs = length (bc_Profiles req) \<and> length ps = count_where (\<lambda>e. e = None) errs
    \<and> fst (BulkCreate (NewProfileService repo lib) u req w) = (ps, errs)
    \<and> ((\<forall>n. db_faults w n \<noteq> None) \<longrightarrow> db_profiles w' = db_profiles w)"
proof -
  obtain w1 where b: "bulk_payloads lib u (bc_Profiles req) w = ((ps, errs), w1)"
    using run by (auto simp: BulkCreate_def split: prod.splits if_splits)
  note n = payload_answers [OF b]
  have "fst (BulkCreate (NewProfileService repo lib) u req w) = (ps, errs)"
    using b by (simp add: BulkCreate_def NewProfileService_def split: prod.split)
  moreover have "db_profiles w' = db_profiles w" if faulty: "\<forall>n. db_faults w n \<noteq> None"
  proof (cases "ps = []")
    case True
    then show ?thesis using run b n by (simp add: BulkCreate_def)
  next
    case False
    obtain m where "db_faults w1 (db_stmts w1) = Some m" using faulty n by auto
    then have "BulkCreateProfiles sl ps w1 = (Some (ErrProfile m), w1\<lparr>db_stmts := Suc (db_stmts w1)\<rparr>)"
      using False by (simp add: BulkCreateProfiles_def stmt_def)
    then show ?thesis using run b n False by (auto simp: BulkCreate_def)
  qed
  ultimately show ?thesis using n by blast
qed

theorem bulk_create_unreported_witness:
  "\<exists>p w'. BulkCreate sample_profiles 1000 \<lparr>bc_Profiles = [sample_payload ''Ada'']\<rparr>
       ((sample_db [sample_row] [])\<lparr>db_faults := \<lambda>_. Some ''down''\<rparr>) = (([p], [None]), w')
     \<and> db_profiles w' = []"
proof -
  let ?w = "(sample_db [sample_row] [])\<lparr>db_faults := \<lambda>_. Some ''down''\<rparr>"
  have "\<exists>p w'. BulkCreate sample_profiles 1000 \<lparr>bc_Profiles = [sample_payload ''Ada'']\<rparr> ?w = (([p], [None]), w')"
    by (simp add: BulkCreate_def sample_payload_def create_fields_def rejects_def zero_value_def draws
        sample_profile_lib_def assignOptionalFields_def given_def Let_def split: prod.split)
  then obtain p w' where run: "BulkCreate sample_profiles 1000 \<lparr>bc_Profiles = [sample_payload ''Ada'']\<rparr> ?w
      = (([p], [None]), w')" by blast
  from bulk_create_unreported [OF run] run show ?thesis by auto
qed

end
