(* ===== verification/ProfileRace.thy ===== *)
theory ProfileRace
  imports ProfileProperties
begin

text \<open>
  Two requests that update one profile at the same time. \<open>Service.Update\<close> reads the row, compares
  the version in memory, and writes with an \<open>UPDATE\<close> whose \<open>WHERE\<close> has no version:
  \<open>update_step\<close> is the method cut between the read and the write.
\<close>

datatype update_phase =
    Reading
  | Writing profile
  | Answered "profile_error + profile"

fun update_step ::
  "'a runtime_scheme profile_service \<Rightarrow> uuid \<Rightarrow> uuid \<Rightarrow> update_request \<Rightarrow>
     update_phase \<times> 'a runtime_scheme \<Rightarrow> update_phase \<times> 'a runtime_scheme" where
  "update_step s i owner req (Reading, w) =
     (case pl_validate (ps_lib s) (update_fields req) of
        Some es \<Rightarrow> (Answered (Inl (ErrInvalidProfile es)), w)
      | None \<Rightarrow>
          (case pr_GetByID (ps_repo s) i owner w of
             (Inl e, w1) \<Rightarrow> (Answered (Inl e), w1)
           | (Inr None, w1) \<Rightarrow> (Answered (Inl ErrNotFound), w1)
           | (Inr (Some p), w1) \<Rightarrow>
               if p_Version p \<noteq> pu_Version req then (Answered (Inl ErrVersionConflict), w1)
               else
                 let p1 = p\<lparr>p_FirstName := sanitizeField (ps_lib s) (cr_FirstName (pu_Create req)),
                            p_LastName := sanitizeField (ps_lib s) (cr_LastName (pu_Create req))\<rparr>
                 in case assignOptionalFields (ps_lib s) p1 (pu_Create req) of
                      (Some e, _) \<Rightarrow> (Answered (Inl e), w1)
                    | (None, p2) \<Rightarrow>
                        (case time_now w1 of (now, w2) \<Rightarrow>
                           (Writing (p2\<lparr>p_Version := wrap64 (p_Version p2 + 1), p_UpdatedAt := now\<rparr>), w2))))"
| "update_step s i owner req (Writing p, w) =
     (case pr_Update (ps_repo s) p w of
        (Some e, w1) \<Rightarrow> (Answered (Inl e), w1)
      | (None, w1) \<Rightarrow> (Answered (Inr p), w1))"
| "update_step s i owner req (Answered r, w) = (Answered r, w)"

lemma update_steps:
  "update_step s i owner req (update_step s i owner req (Reading, w)) =
     (case Update s i owner req w of (r, w') \<Rightarrow> (Answered r, w'))"
  by (simp add: Update_def draws Let_def split: sum.split prod.split option.split)

text \<open>The two steps are the method: a request whose two steps run without interruption ends
  with the answer and the state of \<open>Update\<close>.\<close>

theorem update_steps_alone:
  "update_step s i owner req (update_step s i owner req (Reading, w)) =
     (case Update s i owner req w of (r, w') \<Rightarrow> (Answered r, w'))"
  by (rule update_steps)

text \<open>
  A request that would succeed alone has a first step that ends before its write, and that step
  does the same from every state with the same table.
\<close>

lemma update_reads:
  assumes ok: "profiles_ok (db_profiles w)" and rel: "db_reliable w" "db_reliable v"
    and same: "db_profiles v = db_profiles w"
    and run: "Update (app_profiles sl lib) i u req w = (Inr p, w')"
  shows "update_step (app_profiles sl lib) i u req (Reading, v) =
    (Writing (p\<lparr>p_UpdatedAt := clock v (clock_reads v)\<rparr>), tick (v\<lparr>db_stmts := Suc (db_stmts v)\<rparr>))"
  using run Get_reliable [OF ok rel(1), of sl i u] Get_reliable [of v sl i u] ok rel same
  by (auto simp: Update_def draws Let_def split: sum.splits prod.splits option.splits if_splits)

lemma update_writes:
  assumes ok: "profiles_ok (db_profiles w)" and rel: "db_reliable w" and "int4 (p_Version p)"
    and q: "profile_at w (p_ID p) = Some q" "p_UserID q = p_UserID p"
  shows "\<exists>w'. update_step (app_profiles sl lib) i u req (Writing p, w) = (Answered (Inr p), w') \<and> db_reliable w'
    \<and> profiles_ok (db_profiles w')
    \<and> profile_at w' = (profile_at w)(p_ID p \<mapsto> p\<lparr>p_CreatedAt := p_CreatedAt q, p_DeletedAt := p_DeletedAt q\<rparr>)"
proof -
  obtain w' where run: "UpdateProfile sl p w = (None, w')" "db_reliable w'"
    using UpdateProfile_reliable [OF ok rel assms(3) q] by blast
  then have "pr_Update (NewProfileRepository sl) p w = (None, w')" by simp
  from sql_update_law [OF ok this] q run show ?thesis by (auto simp: owner_step_def)
qed

text \<open>Both read, then both write.\<close>

definition both_read :: "bool list" where
  "both_read = [True, False, True, False]"

text \<open>C24 (an update can be lost). When two updates of one profile, both for the version it has, would
  each be accepted alone, there is an order of their steps in which both are accepted with the
  same new version and the second one's row is what stays, made from the row before the first:
  nothing of the first is left. One after the other, the second is refused.\<close>

theorem lost_update:
  fixes w :: "'a database_scheme" and sl lib
  defines "s \<equiv> app_profiles sl lib"
  assumes ok: "profiles_ok (db_profiles w)" and rel: "db_reliable w" "db_reliable wa"
    and a: "Update s i u req w = (Inr p, wa)" and b: "Update s i u req' w = (Inr p', wb)"
  shows "(\<exists>p2 wc. interleaved (update_step s i u req) (update_step s i u req')
      (Reading, Reading, w) (Answered (Inr p), Answered (Inr p2), wc)
      \<and> profile_at wc i = Some p2 \<and> p_Version p2 = p_Version p
      \<and> (\<exists>q. profile_at w i = Some q \<and> merged lib (pu_Create req') q p2))
    \<and> fst (Update s i u req' wa) = Inl ErrVersionConflict"
proof -
  note A = app.update_spec [OF ok a [unfolded s_def]] and B = app.update_spec [OF ok b [unfolded s_def]]
  from A obtain q where q: "profile_at w i = Some q" "p_UserID q = u" "p_DeletedAt q = None"
      "p_Version q = pu_Version req" "same_profile p q" "p_Version p = p_Version q + 1"
      "p_DeletedAt p = None" "profile_at wa = (profile_at w)(i \<mapsto> p)" by auto
  from B q(1) have q': "same_profile p' q" "p_Version p' = p_Version q + 1" "p_Version q = pu_Version req'"
      "merged lib (pu_Create req') q p'" "p_DeletedAt p' = None" by auto
  have ids: "p_ID p = i" "p_ID p' = i" "p_UserID p = u" "p_UserID p' = u" "p_CreatedAt p' = p_CreatedAt q"
      "p_CreatedAt p = p_CreatedAt q"
    using q q' stored_SomeD [OF q(1)] by (auto simp: same_profile_def)
  have oka: "profiles_ok (db_profiles wa)" using A by simp
  have small: "int4 (p_Version p)"
    using oka q(8) stored_SomeD [of "db_profiles wa" i p] by (simp add: profiles_ok_def)
  let ?t = "\<lambda>v :: 'a database_scheme. tick (v\<lparr>db_stmts := Suc (db_stmts v)\<rparr>)"
  let ?p = "p\<lparr>p_UpdatedAt := clock w (clock_reads w)\<rparr>"
  let ?p2 = "p'\<lparr>p_UpdatedAt := clock (?t w) (clock_reads (?t w))\<rparr>"
  note r1 = update_reads [OF ok rel(1) rel(1) refl a [unfolded s_def], folded s_def]
  have r2: "update_step s i u req' (Reading, ?t w) = (Writing ?p2, ?t (?t w))"
    using update_reads [OF ok rel(1) _ _ b [unfolded s_def], of "?t w"] rel(1) by (simp add: s_def)
  have "?p = p"
    using update_steps [of s i u req w] a r1 by (simp split: prod.splits option.splits)
  obtain v1 where v1: "update_step s i u req (Writing p, ?t (?t w)) = (Answered (Inr p), v1)" "db_reliable v1"
      "profiles_ok (db_profiles v1)" "profile_at v1 = (profile_at w)(i \<mapsto> p\<lparr>p_CreatedAt := p_CreatedAt q, p_DeletedAt := p_DeletedAt q\<rparr>)"
    using update_writes [of "?t (?t w)" p q sl lib i u req] ok rel(1) small q(1,2) ids by (auto simp: s_def)
  have row: "profile_at v1 i = Some p" using v1(4) q(3,7) ids(6) by (cases p) simp
  obtain v2 where v2: "update_step s i u req' (Writing ?p2, v1) = (Answered (Inr ?p2), v2)"
      "profile_at v2 = (profile_at v1)(i \<mapsto> ?p2\<lparr>p_CreatedAt := p_CreatedAt p, p_DeletedAt := p_DeletedAt p\<rparr>)"
    using update_writes [of v1 ?p2 p sl lib i u req'] v1(2,3) small row ids q q' by (auto simp: s_def)
  have "scheduled (update_step s i u req) (update_step s i u req') both_read (Reading, Reading, w)
      = (Answered (Inr p), Answered (Inr ?p2), v2)"
    using r1 r2 v1(1) v2(1) \<open>?p = p\<close> by (simp add: both_read_def del: update_step.simps)
  then have "interleaved (update_step s i u req) (update_step s i u req')
      (Reading, Reading, w) (Answered (Inr p), Answered (Inr ?p2), v2)"
    using scheduled_interleaved [of "update_step s i u req" "update_step s i u req'" "(Reading, Reading, w)" both_read]
    by simp
  moreover have "profile_at v2 i = Some ?p2"
    using v2(2) q(7) q'(5) ids by (cases p') simp
  moreover have "merged lib (pu_Create req') q ?p2"
    using q'(4) by (simp add: merged_def cong: option.case_cong if_cong)
  moreover have "fst (Update s i u req' wa) = Inl ErrVersionConflict"
  proof -
    have "pl_validate lib (update_fields req') = None"
      using b by (auto simp: s_def Update_def split: option.splits)
    moreover have "GetProfileByID sl i u wa = (Inr (Some p), wa\<lparr>db_stmts := Suc (db_stmts wa)\<rparr>)"
      using Get_reliable [OF oka rel(2)] q(7,8) ids(3) by (simp add: visible_def)
    ultimately show ?thesis using q(6) q'(3) by (simp add: Update_def s_def)
  qed
  moreover have "p_Version ?p2 = p_Version p" using q(6) q'(2) by simp
  ultimately show ?thesis using q(1) by blast
qed

theorem lost_update_witness:
  "\<exists>p p2 w'. interleaved
      (update_step sample_profiles 5 1000 \<lparr>pu_Create = sample_payload ''Eve'', pu_Version = 1\<rparr>)
      (update_step sample_profiles 5 1000 \<lparr>pu_Create = sample_payload ''Bob'', pu_Version = 1\<rparr>)
      (Reading, Reading, sample_db [] [sample_profile]) (Answered (Inr p), Answered (Inr p2), w')
    \<and> profile_at w' 5 = Some p2 \<and> p_FirstName p2 = ''Bob''"
proof -
  let ?w = "sample_db [] [sample_profile]"
  have bob: "trim_space ''Bob'' = ''Bob''" by code_simp
  have rel: "db_reliable ?w" by (simp add: db_reliable_def)
  obtain p wa where a: "Update sample_profiles 5 1000 \<lparr>pu_Create = sample_payload ''Eve'', pu_Version = 1\<rparr> ?w
      = (Inr p, wa)" "db_reliable wa" using sample_update [of "''Eve''"] by auto
  obtain p' wb where b: "Update sample_profiles 5 1000 \<lparr>pu_Create = sample_payload ''Bob'', pu_Version = 1\<rparr> ?w
      = (Inr p', wb)" using sample_update [of "''Bob''"] by auto
  have "profiles_ok (db_profiles ?w)" by simp
  from lost_update [OF this rel a(2,1) b] bob show ?thesis
    by (auto simp: merged_def sample_payload_def sample_profile_lib_def sanitizeField_def)
qed

end
