(* ===== verification/Bodies.thy ===== *)
theory Bodies
  imports ProfileModel "HOL-Library.AList"
begin

text \<open>
  The bodies of requests: what \<open>c.ShouldBindJSON(&req)\<close> makes of a body, by the \<open>json\<close> and \<open>binding\<close>
  tags of the request structs. The text of the body is read by the library's JSON parser, a
  parameter; its value is then decoded into the struct as \<open>encoding/json\<close> documents it: the members
  of an object in their order, each into the field whose name it has up to case, others ignored; a
  \<open>null\<close> empties a pointer, a map or a slice and leaves any other field; a value of the wrong kind
  fails the whole body. Nothing is checked beyond that but the token of a refresh, the one field
  with a \<open>binding\<close> tag.
\<close>

datatype bind_error = BindValidation "field_error list" | BindFailure

text \<open>The parser reads the first value of a body; \<open>hl_float64\<close> rounds a number to a \<open>float64\<close>, if it
  is in range.\<close>

record body_lib =
  hl_parse_json :: "string \<Rightarrow> json option"
  hl_float64 :: "real \<Rightarrow> real option"
  hl_parse_uuid :: "string \<Rightarrow> uuid option"

section \<open>Values into fields\<close>

text \<open>A decoder takes a value and the target as it is, and gives the target as it becomes.\<close>

type_synonym 'r decoder = "json \<Rightarrow> 'r \<Rightarrow> 'r option"

definition into_string :: "((string \<Rightarrow> string) \<Rightarrow> 'r \<Rightarrow> 'r) \<Rightarrow> 'r decoder" where
  "into_string upd j r =
     (case j of JNull \<Rightarrow> Some r | JStr s \<Rightarrow> Some (upd (\<lambda>_. s) r) | _ \<Rightarrow> None)"

definition into_string_ptr :: "((string option \<Rightarrow> string option) \<Rightarrow> 'r \<Rightarrow> 'r) \<Rightarrow> 'r decoder" where
  "into_string_ptr upd j r =
     (case j of JNull \<Rightarrow> Some (upd (\<lambda>_. None) r) | JStr s \<Rightarrow> Some (upd (\<lambda>_. Some s) r) | _ \<Rightarrow> None)"

definition into_int :: "((int \<Rightarrow> int) \<Rightarrow> 'r \<Rightarrow> 'r) \<Rightarrow> 'r decoder" where
  "into_int upd j r =
     (case j of JNull \<Rightarrow> Some r
      | JInt n \<Rightarrow> if in_int64 n then Some (upd (\<lambda>_. n) r) else None | _ \<Rightarrow> None)"

definition into_bool :: "((bool \<Rightarrow> bool) \<Rightarrow> 'r \<Rightarrow> 'r) \<Rightarrow> 'r decoder" where
  "into_bool upd j r =
     (case j of JNull \<Rightarrow> Some r | JBool b \<Rightarrow> Some (upd (\<lambda>_. b) r) | _ \<Rightarrow> None)"

definition into_uuid :: "(string \<Rightarrow> uuid option) \<Rightarrow> uuid decoder" where
  "into_uuid pu j i = (case j of JNull \<Rightarrow> Some i | JStr s \<Rightarrow> pu s | _ \<Rightarrow> None)"

text \<open>A value of type \<open>interface{}\<close>: numbers become \<open>float64\<close>, the last of equal keys counts. A parsed
  body has no \<open>JUuid\<close> and no \<open>JTime\<close>, which only replies have.\<close>

fun to_interface :: "(real \<Rightarrow> real option) \<Rightarrow> json \<Rightarrow> json option"
  and to_interfaces :: "(real \<Rightarrow> real option) \<Rightarrow> json list \<Rightarrow> json list option"
  and to_entries :: "(real \<Rightarrow> real option) \<Rightarrow> (string \<times> json) list \<Rightarrow> (string \<times> json) list \<Rightarrow>
    (string \<times> json) list option" where
  "to_interface f JNull = Some JNull"
| "to_interface f (JBool b) = Some (JBool b)"
| "to_interface f (JInt n) = map_option JNum (f (of_int n))"
| "to_interface f (JNum x) = map_option JNum (f x)"
| "to_interface f (JStr s) = Some (JStr s)"
| "to_interface f (JUuid i) = None"
| "to_interface f (JTime t) = None"
| "to_interface f (JArr js) = map_option JArr (to_interfaces f js)"
| "to_interface f (JObj kvs) = map_option JObj (to_entries f kvs [])"
| "to_interfaces f [] = Some []"
| "to_interfaces f (j # js) =
     (case to_interface f j of None \<Rightarrow> None | Some x \<Rightarrow> map_option (Cons x) (to_interfaces f js))"
| "to_entries f [] m = Some m"
| "to_entries f ((k, v) # kvs) m =
     (case to_interface f v of None \<Rightarrow> None | Some x \<Rightarrow> to_entries f kvs (AList.update k x m))"

text \<open>Into a map that is there already, members are added.\<close>

definition into_map ::
  "(real \<Rightarrow> real option) \<Rightarrow> ('r \<Rightarrow> (string \<times> json) list option) \<Rightarrow>
     (((string \<times> json) list option \<Rightarrow> (string \<times> json) list option) \<Rightarrow> 'r \<Rightarrow> 'r) \<Rightarrow> 'r decoder" where
  "into_map f get upd j r =
     (case j of
        JNull \<Rightarrow> Some (upd (\<lambda>_. None) r)
      | JObj kvs \<Rightarrow>
          map_option (\<lambda>m. upd (\<lambda>_. Some m) r) (to_entries f kvs (case get r of None \<Rightarrow> [] | Some m \<Rightarrow> m))
      | _ \<Rightarrow> None)"

text \<open>A slice is its length and the cells of its array: an element is decoded into the cell that is
  there, which an earlier member of the same name may have filled.\<close>

type_synonym 'a slice = "nat \<times> 'a list"

fun decode_cells :: "'a decoder \<Rightarrow> 'a \<Rightarrow> json list \<Rightarrow> 'a list \<Rightarrow> 'a list option" where
  "decode_cells dec zero [] cells = Some cells"
| "decode_cells dec zero (j # js) cells =
     (case dec j (case cells of [] \<Rightarrow> zero | c # _ \<Rightarrow> c) of
        None \<Rightarrow> None
      | Some c \<Rightarrow> map_option (Cons c) (decode_cells dec zero js (tl cells)))"

definition into_slice :: "'a decoder \<Rightarrow> 'a \<Rightarrow> 'a slice decoder" where
  "into_slice dec zero j s =
     (case j of
        JNull \<Rightarrow> Some (0, [])
      | JArr js \<Rightarrow>
          if js = [] then Some (0, [])
          else map_option (Pair (length js)) (decode_cells dec zero js (snd s))
      | _ \<Rightarrow> None)"

definition elements :: "'a slice \<Rightarrow> 'a list" where
  "elements s = take (fst s) (snd s)"

section \<open>Objects into structs\<close>

text \<open>Names are compared under Unicode's simple folding, under which a letter of ASCII is also the
  Kelvin sign or the long s, here in UTF-8.\<close>

fun fold_name :: "string \<Rightarrow> string" where
  "fold_name [] = []"
| "fold_name (c # s) =
     (if c = CHR 0xC5 \<and> take 1 s = [CHR 0xBF] then CHR ''s'' # fold_name (drop 1 s)
      else if c = CHR 0xE2 \<and> take 2 s = [CHR 0x84, CHR 0xAA] then CHR ''k'' # fold_name (drop 2 s)
      else ascii_lower c # fold_name s)"

type_synonym 'r members = "(string \<times> 'r decoder) list"

fun decode_members :: "'r members \<Rightarrow> (string \<times> json) list \<Rightarrow> 'r \<Rightarrow> 'r option" where
  "decode_members ms [] r = Some r"
| "decode_members ms ((k, v) # kvs) r =
     (case find (\<lambda>m. fst m = fold_name k) ms of
        None \<Rightarrow> decode_members ms kvs r
      | Some (_, dec) \<Rightarrow>
          (case dec v r of None \<Rightarrow> None | Some r' \<Rightarrow> decode_members ms kvs r'))"

definition decode_struct :: "'r members \<Rightarrow> 'r decoder" where
  "decode_struct ms j r =
     (case j of JNull \<Rightarrow> Some r | JObj kvs \<Rightarrow> decode_members ms kvs r | _ \<Rightarrow> None)"

definition ShouldBindJSON :: "'b body_lib_scheme \<Rightarrow> 'r decoder \<Rightarrow> 'r \<Rightarrow> string \<Rightarrow> bind_error + 'r" where
  "ShouldBindJSON hl dec zero body =
     (case hl_parse_json hl body of
        None \<Rightarrow> Inl BindFailure
      | Some j \<Rightarrow> (case dec j zero of None \<Rightarrow> Inl BindFailure | Some r \<Rightarrow> Inr r))"

section \<open>The payloads of accounts\<close>

definition register_members :: "register_request members" where
  "register_members =
     [(''email'', into_string rr_Email_update), (''password'', into_string rr_Password_update),
      (''name'', into_string rr_Name_update), (''profile_image'', into_string rr_ProfileImage_update)]"

definition login_members :: "login_request members" where
  "login_members =
     [(''email'', into_string lr_Email_update), (''password'', into_string lr_Password_update)]"

definition update_user_members :: "update_user_request members" where
  "update_user_members =
     [(''name'', into_string uu_Name_update), (''profile_image'', into_string_ptr uu_ProfileImage_update)]"

definition bind_register :: "'b body_lib_scheme \<Rightarrow> string \<Rightarrow> bind_error + register_request" where
  "bind_register hl = ShouldBindJSON hl (decode_struct register_members)
     \<lparr>rr_Email = [], rr_Password = [], rr_Name = [], rr_ProfileImage = []\<rparr>"

definition bind_login :: "'b body_lib_scheme \<Rightarrow> string \<Rightarrow> bind_error + login_request" where
  "bind_login hl = ShouldBindJSON hl (decode_struct login_members) \<lparr>lr_Email = [], lr_Password = []\<rparr>"

definition bind_update_user :: "'b body_lib_scheme \<Rightarrow> string \<Rightarrow> bind_error + update_user_request" where
  "bind_update_user hl =
     ShouldBindJSON hl (decode_struct update_user_members) \<lparr>uu_Name = [], uu_ProfileImage = None\<rparr>"

text \<open>The body of a refresh has one field, a string; its tag \<open>binding:"required"\<close> is checked by gin.\<close>

definition bind_refresh :: "'b body_lib_scheme \<Rightarrow> string \<Rightarrow> bind_error + string" where
  "bind_refresh hl body =
     (case ShouldBindJSON hl (decode_struct [(''refresh_token'', into_string (\<lambda>f s. f s))]) [] body of
        Inl e \<Rightarrow> Inl e
      | Inr token \<Rightarrow>
          if token = [] then Inl (BindValidation [\<lparr>fe_field = ''RefreshToken'', fe_tag = ''required''\<rparr>])
          else Inr token)"

section \<open>The payloads of profiles\<close>

definition zero_create :: create_request where
  "zero_create =
     \<lparr>cr_FirstName = [], cr_LastName = [], cr_Bio = None, cr_ProfileImage = None, cr_CoverImage = None,
      cr_DateOfBirth = None, cr_Phone = None, cr_Website = None, cr_Location = None\<rparr>"

definition create_members :: "create_request members" where
  "create_members =
     [(''first_name'', into_string cr_FirstName_update), (''last_name'', into_string cr_LastName_update),
      (''bio'', into_string_ptr cr_Bio_update),
      (''profile_image'', into_string_ptr cr_ProfileImage_update),
      (''cover_image'', into_string_ptr cr_CoverImage_update),
      (''date_of_birth'', into_string_ptr cr_DateOfBirth_update),
      (''phone'', into_string_ptr cr_Phone_update), (''website'', into_string_ptr cr_Website_update),
      (''location'', into_string_ptr cr_Location_update)]"

text \<open>The fields of an embedded struct are fields of the struct.\<close>

definition embedded :: "('r \<Rightarrow> 'e) \<Rightarrow> (('e \<Rightarrow> 'e) \<Rightarrow> 'r \<Rightarrow> 'r) \<Rightarrow> 'e members \<Rightarrow> 'r members" where
  "embedded get upd =
     map (\<lambda>(n, dec). (n, \<lambda>j r. map_option (\<lambda>e. upd (\<lambda>_. e) r) (dec j (get r))))"

definition update_members :: "update_request members" where
  "update_members =
     embedded pu_Create pu_Create_update create_members @ [(''version'', into_int pu_Version_update)]"

definition patch_members :: "(real \<Rightarrow> real option) \<Rightarrow> patch_request members" where
  "patch_members f =
     [(''fields'', into_map f pp_Fields pp_Fields_update), (''version'', into_int pp_Version_update)]"

definition bind_create :: "'b body_lib_scheme \<Rightarrow> string \<Rightarrow> bind_error + create_request" where
  "bind_create hl = ShouldBindJSON hl (decode_struct create_members) zero_create"

definition bind_update :: "'b body_lib_scheme \<Rightarrow> string \<Rightarrow> bind_error + update_request" where
  "bind_update hl =
     ShouldBindJSON hl (decode_struct update_members) \<lparr>pu_Create = zero_create, pu_Version = 0\<rparr>"

definition bind_patch :: "'b body_lib_scheme \<Rightarrow> string \<Rightarrow> bind_error + patch_request" where
  "bind_patch hl =
     ShouldBindJSON hl (decode_struct (patch_members (hl_float64 hl))) \<lparr>pp_Fields = None, pp_Version = 0\<rparr>"

definition bind_bulk_create :: "'b body_lib_scheme \<Rightarrow> string \<Rightarrow> bind_error + bulk_create_request" where
  "bind_bulk_create hl body =
     (case ShouldBindJSON hl
             (decode_struct [(''profiles'', into_slice (decode_struct create_members) zero_create)]) (0, []) body of
        Inl e \<Rightarrow> Inl e
      | Inr s \<Rightarrow> Inr \<lparr>bc_Profiles = elements s\<rparr>)"

record bulk_delete_target =
  bt_IDs :: "uuid slice"
  bt_Hard :: bool
  bt_Reason :: string

definition bulk_delete_members :: "(string \<Rightarrow> uuid option) \<Rightarrow> bulk_delete_target members" where
  "bulk_delete_members pu =
     [(''ids'', \<lambda>j r. map_option (\<lambda>s. r\<lparr>bt_IDs := s\<rparr>) (into_slice (into_uuid pu) uuid_nil j (bt_IDs r))),
      (''hard_delete'', into_bool bt_Hard_update), (''reason'', into_string bt_Reason_update)]"

definition bind_bulk_delete :: "'b body_lib_scheme \<Rightarrow> string \<Rightarrow> bind_error + bulk_delete_request" where
  "bind_bulk_delete hl body =
     (case ShouldBindJSON hl (decode_struct (bulk_delete_members (hl_parse_uuid hl)))
             \<lparr>bt_IDs = (0, []), bt_Hard = False, bt_Reason = []\<rparr> body of
        Inl e \<Rightarrow> Inl e
      | Inr t \<Rightarrow> Inr \<lparr>bd_IDs = elements (bt_IDs t), bd_Hard = bt_Hard t, bd_Reason = bt_Reason t\<rparr>)"

lemmas decoders =
  into_string_def into_string_ptr_def into_int_def into_bool_def into_uuid_def into_map_def
  into_slice_def decode_struct_def

lemmas members =
  register_members_def login_members_def update_user_members_def create_members_def
  update_members_def patch_members_def bulk_delete_members_def embedded_def

end
