(* ===== verification/HttpContext.thy ===== *)
theory HttpContext
  imports Bodies
begin

text \<open>
  \<open>pkg/response/response.go\<close>, and what the handlers ask of gin. \<open>gin_context\<close> is the part of
  \<open>*gin.Context\<close> the code reads and writes: the request, the values set along the chain, the
  headers and the replies written so far with the status they have, and whether the chain is
  aborted. What the libraries do behind a request is the record \<open>http_lib\<close>.
\<close>

section \<open>The context\<close>

record http_request =
  rq_Method :: string
  rq_Path :: string
  rq_FullPath :: string
  rq_Header :: "string \<Rightarrow> string"
  rq_Query :: "string \<Rightarrow> string option"
  rq_Param :: "string \<Rightarrow> string"
  rq_Body :: string
  rq_ClientIP :: string

datatype ctx_value = CUuid uuid | CString string

record gin_context =
  gc_request :: http_request
  gc_values :: "string \<Rightarrow> ctx_value option"
  gc_headers :: "string \<Rightarrow> string option"
  gc_status :: int
  gc_replies :: "json list"
  gc_aborted :: bool
  gc_errors :: nat
  gc_panicked :: bool

definition new_context :: "http_request \<Rightarrow> gin_context" where
  "new_context r =
     \<lparr>gc_request = r, gc_values = Map.empty, gc_headers = Map.empty, gc_status = 200,
      gc_replies = [], gc_aborted = False, gc_errors = 0,
      gc_panicked = False\<rparr>"

definition c_GetHeader :: "gin_context \<Rightarrow> string \<Rightarrow> string" where
  "c_GetHeader c k = rq_Header (gc_request c) k"

definition c_Query :: "gin_context \<Rightarrow> string \<Rightarrow> string" where
  "c_Query c k = (case rq_Query (gc_request c) k of None \<Rightarrow> [] | Some v \<Rightarrow> v)"

definition c_DefaultQuery :: "gin_context \<Rightarrow> string \<Rightarrow> string \<Rightarrow> string" where
  "c_DefaultQuery c k dflt = (case rq_Query (gc_request c) k of None \<Rightarrow> dflt | Some v \<Rightarrow> v)"

definition c_Param :: "gin_context \<Rightarrow> string \<Rightarrow> string" where
  "c_Param c k = rq_Param (gc_request c) k"

definition c_Set :: "string \<Rightarrow> ctx_value \<Rightarrow> gin_context \<Rightarrow> gin_context" where
  "c_Set k v c = c\<lparr>gc_values := (gc_values c)(k \<mapsto> v)\<rparr>"

definition c_Header :: "string \<Rightarrow> string \<Rightarrow> gin_context \<Rightarrow> gin_context" where
  "c_Header k v c = c\<lparr>gc_headers := (gc_headers c)(k \<mapsto> v)\<rparr>"

text \<open>The status of a response is fixed by its first write.\<close>

definition c_Status :: "int \<Rightarrow> gin_context \<Rightarrow> gin_context" where
  "c_Status code c = (if gc_replies c = [] then c\<lparr>gc_status := code\<rparr> else c)"

definition c_JSON :: "int \<Rightarrow> json \<Rightarrow> gin_context \<Rightarrow> gin_context" where
  "c_JSON code j c = (c_Status code c)\<lparr>gc_replies := gc_replies c @ [j]\<rparr>"

definition c_Abort :: "gin_context \<Rightarrow> gin_context" where
  "c_Abort c = c\<lparr>gc_aborted := True\<rparr>"

text \<open>A panic skips what is left of every function of the chain up to \<open>gin.Recovery\<close>, which answers 500
  without a body.\<close>

definition panicking :: "gin_context \<Rightarrow> gin_context" where
  "panicking c = c\<lparr>gc_panicked := True\<rparr>"

definition recovered :: "gin_context \<Rightarrow> gin_context" where
  "recovered c = c_Abort (c_Status 500 (c\<lparr>gc_panicked := False\<rparr>))"

type_synonym 'w handler = "gin_context \<Rightarrow> 'w \<Rightarrow> gin_context \<times> 'w"

section \<open>The libraries behind a request\<close>

record http_lib = body_lib +
  hl_uuid_string :: "uuid \<Rightarrow> string"
  hl_parse_rfc3339 :: "string \<Rightarrow> timestamp option"
  hl_format_rfc3339 :: "timestamp \<Rightarrow> string"  \<comment> \<open>in the zone of the server\<close>
  hl_format_utc :: "timestamp \<Rightarrow> string"
  hl_validation_text :: "field_error list \<Rightarrow> string"
  hl_unicode_lower :: "string \<Rightarrow> string"
  hl_nil_slice :: json
  hl_debugging :: bool

text \<open>What the documentation says of identifiers and of instants in RFC 3339: whole seconds, in whatever
  zone, as long as the year has four digits in each zone.\<close>

definition four_digit_year :: "timestamp \<Rightarrow> bool" where
  "four_digit_year t \<longleftrightarrow>
     - 62167132800 * nanos_per_second \<le> t \<and> t < 253402214400 * nanos_per_second"

definition documented_texts :: "http_lib \<Rightarrow> bool" where
  "documented_texts hl \<longleftrightarrow>
     (\<forall>i. hl_parse_uuid hl (hl_uuid_string hl i) = Some i)
     \<and> (\<forall>t. four_digit_year t \<longrightarrow>
          hl_parse_rfc3339 hl (hl_format_rfc3339 hl t) = Some (t - t mod nanos_per_second)
          \<and> hl_format_rfc3339 hl t \<noteq> [])"

section \<open>\<open>pkg/response\<close>\<close>

definition error_body :: "string \<Rightarrow> string \<Rightarrow> json" where
  "error_body code message = JObj [(''error'', JStr code), (''message'', JStr message)]"

text \<open>The details of a validation error: a map from the field's name in lower case to its tag.\<close>

definition error_details :: "http_lib \<Rightarrow> field_error list \<Rightarrow> (string \<times> json) list" where
  "error_details hl es =
     fold (\<lambda>e m. AList.update (to_lower (hl_unicode_lower hl) (fe_field e)) (JStr (fe_tag e)) m) es []"

definition ValidationError :: "http_lib \<Rightarrow> bind_error \<Rightarrow> gin_context \<Rightarrow> gin_context" where
  "ValidationError hl err c =
     c_JSON 400
       (JObj ([(''error'', JStr ''validation_error''), (''message'', JStr ''invalid request'')]
              @ (case err of BindValidation es \<Rightarrow> [(''details'', JObj (error_details hl es))]
                 | BindFailure \<Rightarrow> []))) c"

definition Unauthorized :: "string \<Rightarrow> gin_context \<Rightarrow> gin_context" where
  "Unauthorized message c = c_JSON 401 (error_body ''unauthorized'' message) c"

definition Forbidden :: "string \<Rightarrow> gin_context \<Rightarrow> gin_context" where
  "Forbidden message c = c_JSON 403 (error_body ''forbidden'' message) c"

definition NotFound :: "string \<Rightarrow> gin_context \<Rightarrow> gin_context" where
  "NotFound resource c =
     (let msg = (if resource \<noteq> [] then resource @ '' not found'' else ''resource not found'')
      in c_JSON 404 (error_body ''not_found'' msg) c)"

definition Conflict :: "string \<Rightarrow> string \<Rightarrow> gin_context \<Rightarrow> gin_context" where
  "Conflict code message c = c_JSON 409 (error_body code message) c"

text \<open>\<open>time.Until(reset)\<close> reads the clock.\<close>

definition TooManyRequests :: "timestamp \<Rightarrow> 'a runtime_scheme handler" where
  "TooManyRequests reset c w =
     (case time_now w of (now, w1) \<Rightarrow>
        let retryAfter = max 0 (duration_seconds (reset - now))
        in (c_JSON 429 (error_body ''rate_limited'' ''slow down'')
              (c_Header ''X-RateLimit-Reset'' (itoa (unix_seconds reset))
                (c_Header ''Retry-After'' (itoa retryAfter) c)), w1))"

definition InternalServerError :: "http_lib \<Rightarrow> gin_context \<Rightarrow> gin_context" where
  "InternalServerError hl c =
     (let c1 = c_JSON 500 (error_body ''internal_error'' ''unexpected error'') c
      in if hl_debugging hl then c1\<lparr>gc_errors := Suc (gc_errors c1)\<rparr> else c1)"

definition Paginated :: "json \<Rightarrow> int \<Rightarrow> int \<Rightarrow> int \<Rightarrow> gin_context \<Rightarrow> gin_context" where
  "Paginated data tot offset limit c =
     c_JSON 200 (JObj [(''data'', data), (''total'', JInt tot), (''offset'', JInt offset),
                       (''limit'', JInt limit)]) c"

definition GetLimit :: "gin_context \<Rightarrow> int \<Rightarrow> int \<Rightarrow> int" where
  "GetLimit c fallback maximum =
     (let limitStr = c_Query c ''limit''
      in if limitStr = [] then fallback
         else case atoi limitStr of
                None \<Rightarrow> fallback
              | Some limit \<Rightarrow>
                  if limit \<le> 0 then fallback
                  else if 0 < maximum \<and> maximum < limit then maximum else limit)"

definition GetOffset :: "gin_context \<Rightarrow> int" where
  "GetOffset c =
     (let offsetStr = c_Query c ''offset''
      in if offsetStr = [] then 0
         else case atoi offsetStr of
                None \<Rightarrow> 0
              | Some offset \<Rightarrow> if offset < 0 then 0 else offset)"

text \<open>The message of an error, empty for a nil one; a nil slice for no errors.\<close>

definition profile_error_text :: "http_lib \<Rightarrow> profile_error \<Rightarrow> string" where
  "profile_error_text hl e =
     (case e of ErrNotFound \<Rightarrow> ''profile not found'' | ErrProfileForbidden \<Rightarrow> ''forbidden''
      | ErrVersionConflict \<Rightarrow> ''version mismatch''
      | ErrInvalidProfile es \<Rightarrow> hl_validation_text hl es | ErrProfile m \<Rightarrow> m)"

definition SerializeErrors :: "http_lib \<Rightarrow> profile_error option list \<Rightarrow> json" where
  "SerializeErrors hl errs =
     (if errs = [] then JNull
      else JArr (map (\<lambda>e. JStr (case e of None \<Rightarrow> [] | Some x \<Rightarrow> profile_error_text hl x)) errs))"

definition MustUserID :: "gin_context \<Rightarrow> uuid \<times> gin_context" where
  "MustUserID c =
     (case gc_values c ''user_id'' of
        None \<Rightarrow> (uuid_nil, c_Abort (Unauthorized ''missing user context'' c))
      | Some (CUuid i) \<Rightarrow> (i, c)
      | Some (CString _) \<Rightarrow> (uuid_nil, c_Abort (Unauthorized ''invalid user context'' c)))"

definition UserIDFromContext :: "http_lib \<Rightarrow> gin_context \<Rightarrow> string" where
  "UserIDFromContext hl c =
     (case gc_values c ''user_id'' of Some (CUuid i) \<Rightarrow> hl_uuid_string hl i | _ \<Rightarrow> [])"

section \<open>What a reply does to the context\<close>

lemma reply_simps [simp]:
  "gc_replies (c_JSON code j c) = gc_replies c @ [j]"
  "gc_replies (c_Header k v c) = gc_replies c" "gc_replies (c_Abort c) = gc_replies c"
  "gc_replies (c_Set k x c) = gc_replies c" "gc_replies (c_Status code c) = gc_replies c"
  "gc_status (c_JSON code j c) = (if gc_replies c = [] then code else gc_status c)"
  "gc_status (c_Header k v c) = gc_status c" "gc_status (c_Abort c) = gc_status c"
  "gc_status (c_Set k x c) = gc_status c"
  "gc_status (c_Status code c) = (if gc_replies c = [] then code else gc_status c)"
  "gc_request (c_JSON code j c) = gc_request c" "gc_request (c_Header k v c) = gc_request c"
  "gc_request (c_Abort c) = gc_request c" "gc_request (c_Set k x c) = gc_request c"
  "gc_request (c_Status code c) = gc_request c"
  "gc_values (c_JSON code j c) = gc_values c" "gc_values (c_Header k v c) = gc_values c"
  "gc_values (c_Abort c) = gc_values c" "gc_values (c_Set k x c) = (gc_values c)(k \<mapsto> x)"
  "gc_values (c_Status code c) = gc_values c"
  "gc_aborted (c_JSON code j c) = gc_aborted c" "gc_aborted (c_Header k v c) = gc_aborted c"
  "gc_aborted (c_Abort c)" "gc_aborted (c_Set k x c) = gc_aborted c"
  "gc_headers (c_JSON code j c) = gc_headers c" "gc_headers (c_Header k v c) = (gc_headers c)(k \<mapsto> v)"
  "gc_headers (c_Abort c) = gc_headers c" "gc_headers (c_Set k x c) = gc_headers c"
  "gc_panicked (c_JSON code j c) = gc_panicked c" "gc_panicked (c_Header k v c) = gc_panicked c"
  "gc_panicked (c_Abort c) = gc_panicked c" "gc_panicked (c_Set k x c) = gc_panicked c"
  "gc_panicked (c_Status code c) = gc_panicked c"
  by (simp_all add: c_JSON_def c_Header_def c_Abort_def c_Set_def c_Status_def)

lemma panicking_simps [simp]:
  "gc_panicked (panicking c)" "gc_replies (panicking c) = gc_replies c" "gc_status (panicking c) = gc_status c"
  "gc_request (panicking c) = gc_request c" "gc_values (panicking c) = gc_values c"
  "\<not> gc_panicked (recovered c)" "gc_replies (recovered c) = gc_replies c"
  "gc_status (recovered c) = (if gc_replies c = [] then 500 else gc_status c)"
  by (simp_all add: panicking_def recovered_def c_Status_def)

lemmas replies =
  ValidationError_def Unauthorized_def Forbidden_def NotFound_def Conflict_def
  InternalServerError_def Paginated_def Let_def

end
