(* ===== verification/RateLimiter.thy ===== *)
theory RateLimiter
  imports Database
begin

text \<open>
  \<open>internal/infrastructure/ratelimit/limiter.go\<close>: the limiter in memory and the one over Redis. A
  \<open>float64\<close> is a real number that every operation rounds: the rounding \<open>fl\<close> is an argument, and
  \<open>binary64\<close> states what IEEE 754 promises of it. The mutex of \<open>MemoryLimiter\<close> makes \<open>Allow\<close> one
  step; its map is an object in the state, at the address \<open>ml_store\<close>.
\<close>

section \<open>Floating point\<close>

text \<open>Rounding keeps the order and is exact on 53-bit integers over small powers of two.\<close>

definition binary64 :: "(real \<Rightarrow> real) \<Rightarrow> bool" where
  "binary64 fl \<longleftrightarrow>
     (\<forall>x y. x \<le> y \<longrightarrow> fl x \<le> fl y)
     \<and> (\<forall>m k. \<bar>m\<bar> \<le> 2 ^ 53 \<longrightarrow> k \<le> 1000 \<longrightarrow> fl (of_int m / 2 ^ k) = of_int m / 2 ^ k)"

lemma binary64_mono: "binary64 fl \<Longrightarrow> x \<le> y \<Longrightarrow> fl x \<le> fl y"
  by (simp add: binary64_def)

lemma binary64_frac: "binary64 fl \<Longrightarrow> \<bar>m\<bar> \<le> 2 ^ 53 \<Longrightarrow> k \<le> 1000 \<Longrightarrow> fl (of_int m / 2 ^ k) = of_int m / 2 ^ k"
  by (simp add: binary64_def)

lemma binary64_int: "binary64 fl \<Longrightarrow> \<bar>m\<bar> \<le> 2 ^ 53 \<Longrightarrow> fl (of_int m) = of_int m"
  using binary64_frac [of fl m 0] by simp

lemma binary64_exact [simp]: "binary64 (\<lambda>x. x)"
  by (simp add: binary64_def)

text \<open>\<open>t.Sub(u)\<close> saturates; \<open>d.Minutes()\<close> adds the whole minutes and the rest, each a \<open>float64\<close>.\<close>

definition time_sub :: "timestamp \<Rightarrow> timestamp \<Rightarrow> duration" where
  "time_sub t u = max (- (2 ^ 63)) (min (2 ^ 63 - 1) (t - u))"

definition go_quot :: "int \<Rightarrow> int \<Rightarrow> int" where
  "go_quot a b = (if 0 \<le> a then a div b else - ((- a) div b))"

definition minutes :: "(real \<Rightarrow> real) \<Rightarrow> duration \<Rightarrow> real" where
  "minutes fl d =
     (let q = go_quot d nanos_per_minute
      in fl (fl (of_int q) + fl (fl (of_int (d - q * nanos_per_minute)) / of_int nanos_per_minute)))"

section \<open>The limiter in memory\<close>

record rate_info =
  ri_Allowed :: bool
  ri_Limit :: int
  ri_Remaining :: int
  ri_Reset :: timestamp

record bucket =
  bk_tokens :: real
  bk_last :: timestamp

record limiter_state = database +
  buckets :: "nat \<Rightarrow> string \<Rightarrow> bucket option"

record memory_limiter =
  ml_limit :: int
  ml_burst :: int
  ml_store :: nat

definition NewMemoryLimiter ::
  "int \<Rightarrow> int \<Rightarrow> nat \<Rightarrow> 'a limiter_state_scheme \<Rightarrow> memory_limiter \<times> 'a limiter_state_scheme" where
  "NewMemoryLimiter limit burst a w =
     (\<lparr>ml_limit = limit, ml_burst = burst, ml_store = a\<rparr>, w\<lparr>buckets := (buckets w)(a := Map.empty)\<rparr>)"

definition min_float :: "real \<Rightarrow> real \<Rightarrow> real" where
  "min_float a b = (if a < b then a else b)"

definition put_bucket ::
  "nat \<Rightarrow> string \<Rightarrow> bucket \<Rightarrow> 'a limiter_state_scheme \<Rightarrow> 'a limiter_state_scheme" where
  "put_bucket a key b w = w\<lparr>buckets := (buckets w)(a := (buckets w a)(key \<mapsto> b))\<rparr>"

definition refilled :: "(real \<Rightarrow> real) \<Rightarrow> memory_limiter \<Rightarrow> timestamp \<Rightarrow> bucket \<Rightarrow> real" where
  "refilled fl m now b =
     min_float (fl (of_int (wrap64 (ml_limit m + ml_burst m))))
       (fl (bk_tokens b + fl (minutes fl (time_sub now (bk_last b)) * fl (of_int (ml_limit m)))))"

definition MemoryAllow ::
  "(real \<Rightarrow> real) \<Rightarrow> memory_limiter \<Rightarrow> string \<Rightarrow> 'a limiter_state_scheme \<Rightarrow>
     (string + rate_info) \<times> 'a limiter_state_scheme" where
  "MemoryAllow fl m key w =
     (case time_now w of (now, w1) \<Rightarrow>
      (case buckets w1 (ml_store m) key of
         None \<Rightarrow>
           (Inr \<lparr>ri_Allowed = True, ri_Limit = ml_limit m, ri_Remaining = wrap64 (ml_limit m - 1),
                 ri_Reset = now + nanos_per_minute\<rparr>,
            put_bucket (ml_store m) key
              \<lparr>bk_tokens = fl (of_int (wrap64 (ml_limit m + ml_burst m - 1))), bk_last = now\<rparr> w1)
       | Some b \<Rightarrow>
           let tokens = refilled fl m now b
           in if 1 \<le> tokens
              then
                let rest = fl (tokens - 1)
                in (Inr \<lparr>ri_Allowed = True, ri_Limit = ml_limit m, ri_Remaining = \<lfloor>rest\<rfloor>,
                         ri_Reset = now + nanos_per_minute\<rparr>,
                    put_bucket (ml_store m) key \<lparr>bk_tokens = rest, bk_last = now\<rparr> w1)
              else
                (Inr \<lparr>ri_Allowed = False, ri_Limit = ml_limit m, ri_Remaining = 0,
                      ri_Reset = now + nanos_per_minute\<rparr>,
                 put_bucket (ml_store m) key (b\<lparr>bk_tokens := tokens\<rparr>) w1)))"

section \<open>The limiter over Redis\<close>

record 'w redis_limiter =
  rd_client :: "'w redis_client"
  rd_limit :: int
  rd_prefix :: string

definition NewRedisLimiter :: "'w redis_client \<Rightarrow> int \<Rightarrow> string \<Rightarrow> 'w redis_limiter" where
  "NewRedisLimiter client limit pre = \<lparr>rd_client = client, rd_limit = limit, rd_prefix = pre\<rparr>"

definition RedisAllow ::
  "'a runtime_scheme redis_limiter \<Rightarrow> string \<Rightarrow> 'a runtime_scheme \<Rightarrow>
     (string + rate_info) \<times> 'a runtime_scheme" where
  "RedisAllow r key w =
     (let k = rd_prefix r @ '':'' @ key
      in case rc_Decr (rd_client r) k w of
           (Inl RedisNil, w1) \<Rightarrow>
             (case rc_TxSet (rd_client r) k (wrap64 (rd_limit r - 1)) nanos_per_minute w1 of
                (Some e, w2) \<Rightarrow> (case time_now w2 of (_, w3) \<Rightarrow> (Inl (redis_message e), w3))
              | (None, w2) \<Rightarrow>
                  (case time_now w2 of (now, w3) \<Rightarrow>
                     (Inr \<lparr>ri_Allowed = True, ri_Limit = rd_limit r, ri_Remaining = wrap64 (rd_limit r - 1),
                           ri_Reset = now + nanos_per_minute\<rparr>, w3)))
         | (Inl (RedisFailure m), w1) \<Rightarrow> (Inl m, w1)
         | (Inr remaining, w1) \<Rightarrow>
             (case time_now w1 of (now, w2) \<Rightarrow>
                if 0 \<le> remaining
                then (Inr \<lparr>ri_Allowed = True, ri_Limit = rd_limit r, ri_Remaining = remaining,
                           ri_Reset = now + nanos_per_minute\<rparr>, w2)
                else (Inr \<lparr>ri_Allowed = False, ri_Limit = rd_limit r, ri_Remaining = 0,
                           ri_Reset = now + nanos_per_minute\<rparr>, w2)))"

section \<open>The interface\<close>

text \<open>The answers to a sequence of requests.\<close>

fun answers ::
  "(string \<Rightarrow> 'w \<Rightarrow> (string + rate_info) \<times> 'w) \<Rightarrow> string list \<Rightarrow> 'w \<Rightarrow> (string + rate_info) list" where
  "answers allow [] w = []"
| "answers allow (k # ks) w = (case allow k w of (a, w1) \<Rightarrow> a # answers allow ks w1)"

text \<open>
  What the middleware relies on: every answer carries the configured limit, a refusal leaves
  nothing, an admission never a negative rest, and asking does not touch the tables.
\<close>

locale limiter =
  fixes allow :: "string \<Rightarrow> 'a database_scheme \<Rightarrow> (string + rate_info) \<times> 'a database_scheme"
    and limit :: int and inv :: "'a database_scheme \<Rightarrow> bool"
  assumes answer_law: "inv w \<Longrightarrow> allow k w = (Inr i, w') \<Longrightarrow>
      ri_Limit i = limit \<and> (if ri_Allowed i then 0 \<le> ri_Remaining i else ri_Remaining i = 0)"
    and inv_law: "inv w \<Longrightarrow> allow k w = (r, w') \<Longrightarrow> inv w'"
    and table_law: "allow k w = (r, w') \<Longrightarrow> db_users w' = db_users w \<and> db_profiles w' = db_profiles w"
begin

theorem answers_well_formed:
  "inv w \<Longrightarrow> Inr i \<in> set (answers allow ks w) \<Longrightarrow>
    ri_Limit i = limit \<and> (if ri_Allowed i then 0 \<le> ri_Remaining i else ri_Remaining i = 0)"
proof (induction ks arbitrary: w)
  case (Cons k ks)
  obtain a w1 where a: "allow k w = (a, w1)" by (cases "allow k w")
  show ?case
  proof (cases "a = Inr i")
    case True
    then show ?thesis using answer_law [OF Cons.prems(1)] a by blast
  next
    case False
    then show ?thesis using Cons.IH [OF inv_law [OF Cons.prems(1) a]] Cons.prems(2) a by simp
  qed
qed simp

end

end
