(* ===== verification/LogBuffer.thy ===== *)
theory LogBuffer
  imports Prelude
begin

text \<open>
  \<open>internal/app/diagnostics/logbuffer.go\<close>: the buffer of recent log lines. \<open>b.data[1:]\<close> of an empty
  slice panics, so \<open>Append\<close> is an option, \<open>None\<close> for the panic. The mutex makes each method one
  step. The contract is a list of lines from which a bounded buffer keeps the end.
\<close>

section \<open>The buffer\<close>

record log_buffer =
  lb_data :: "string list"
  lb_cap :: int

definition NewLogBuffer :: "int \<Rightarrow> log_buffer" where
  "NewLogBuffer limit = \<lparr>lb_data = [], lb_cap = (if limit \<le> 0 then 100 else limit)\<rparr>"

definition Append :: "string \<Rightarrow> log_buffer \<Rightarrow> log_buffer option" where
  "Append entry b =
     (if lb_cap b \<le> int (length (lb_data b))
      then (case lb_data b of
              [] \<Rightarrow> None
            | _ # rest \<Rightarrow> Some (b\<lparr>lb_data := rest @ [entry]\<rparr>))
      else Some (b\<lparr>lb_data := lb_data b @ [entry]\<rparr>))"

definition Snapshot :: "log_buffer \<Rightarrow> string list" where
  "Snapshot b = lb_data b"

text \<open>One line after the other, as long as none panics.\<close>

fun write_all :: "(string \<Rightarrow> 's \<Rightarrow> 's option) \<Rightarrow> string list \<Rightarrow> 's \<Rightarrow> 's option" where
  "write_all put [] b = Some b"
| "write_all put (e # es) b = (case put e b of None \<Rightarrow> None | Some b1 \<Rightarrow> write_all put es b1)"

section \<open>The last lines of a list\<close>

definition last_lines :: "nat \<Rightarrow> 'a list \<Rightarrow> 'a list" where
  "last_lines n xs = drop (length xs - n) xs"

lemma last_lines_short: "length xs \<le> n \<Longrightarrow> last_lines n xs = xs"
  by (simp add: last_lines_def)

lemma last_lines_full:
  assumes "n \<le> length xs"
  shows "last_lines (Suc n) (xs @ [x]) = last_lines n xs @ [x]"
  using assms by (simp add: last_lines_def)

lemma length_last_lines [simp]: "length (last_lines n xs) = min n (length xs)"
  by (simp add: last_lines_def)

lemma tl_last_lines: "n < length xs \<Longrightarrow> tl (last_lines (Suc n) xs) = last_lines n xs"
  by (simp add: last_lines_def tl_drop Suc_diff_Suc flip: drop_Suc)

section \<open>The contract\<close>

text \<open>A sink of lines: what it shows is the end of what was written, and writing never fails.\<close>

locale recent_lines =
  fixes put :: "string \<Rightarrow> 's \<Rightarrow> 's option" and shown :: "'s \<Rightarrow> string list"
    and abs :: "'s \<Rightarrow> string list \<Rightarrow> bool" and bound :: nat
  assumes write_law: "abs b xs \<Longrightarrow> \<exists>b'. put e b = Some b' \<and> abs b' (xs @ [e])"
    and shown_law: "abs b xs \<Longrightarrow> shown b = last_lines bound xs"
begin

theorem shows_last:
  "abs b xs \<Longrightarrow> \<exists>b'. write_all put es b = Some b' \<and> abs b' (xs @ es) \<and> shown b' = last_lines bound (xs @ es)"
proof (induction es arbitrary: b xs)
  case Nil
  then show ?case using shown_law by simp
next
  case (Cons e es)
  from write_law [OF Cons.prems, of e] obtain b' where b': "put e b = Some b'" "abs b' (xs @ [e])" by blast
  from Cons.IH [OF b'(2)] b'(1) show ?case by auto
qed

end

section \<open>The buffer meets it\<close>

text \<open>The buffer \<open>b\<close> stands for the lines \<open>xs\<close> written so far.\<close>

definition buffer_of :: "nat \<Rightarrow> log_buffer \<Rightarrow> string list \<Rightarrow> bool" where
  "buffer_of n b xs \<longleftrightarrow> lb_cap b = int (Suc n) \<and> lb_data b = last_lines (Suc n) xs"

lemma buffer_append:
  assumes "buffer_of n b xs"
  shows "\<exists>b'. Append e b = Some b' \<and> buffer_of n b' (xs @ [e])"
proof (cases "Suc n \<le> length xs")
  case False
  with assms show ?thesis by (auto simp: buffer_of_def Append_def last_lines_short)
next
  case True
  then have full: "length (lb_data b) = Suc n" and tl: "tl (lb_data b) = last_lines n xs"
    using assms tl_last_lines [of n xs] by (simp_all add: buffer_of_def)
  then obtain l where "lb_data b = l # last_lines n xs" by (cases "lb_data b") auto
  moreover have "lb_cap b = int (Suc n)" using assms by (simp add: buffer_of_def)
  ultimately show ?thesis
    using full last_lines_full [of n xs e] True by (auto simp: buffer_of_def Append_def)
qed

interpretation lines: recent_lines Append Snapshot "buffer_of n" "Suc n" for n
  by unfold_locales (erule buffer_append, simp add: Snapshot_def buffer_of_def)


end
