(* ===== verification/Logger.thy ===== *)
theory Logger
  imports Prelude
begin

text \<open>
  \<open>internal/infrastructure/logging/logger.go\<close>. zap is a parameter: its two presets and whether a
  configuration builds are the record \<open>zap_lib\<close>. A logger is \<open>Nop\<close> or the configuration it was built
  from with the fields attached to it; an entry is what the program hands to zap, after the level of
  the configuration has let it pass.
\<close>

section \<open>Levels\<close>

datatype log_level =
    DebugLevel | InfoLevel | WarnLevel | ErrorLevel | DPanicLevel | PanicLevel | FatalLevel

fun level_rank :: "log_level \<Rightarrow> int" where
  "level_rank DebugLevel = -1"
| "level_rank InfoLevel = 0"
| "level_rank WarnLevel = 1"
| "level_rank ErrorLevel = 2"
| "level_rank DPanicLevel = 3"
| "level_rank PanicLevel = 4"
| "level_rank FatalLevel = 5"

lemma level_rank_inject: "level_rank a = level_rank b \<longleftrightarrow> a = b"
  by (cases a; cases b) simp_all

instantiation log_level :: linorder
begin

definition less_eq_log_level :: "log_level \<Rightarrow> log_level \<Rightarrow> bool" where
  "less_eq_log_level a b \<longleftrightarrow> level_rank a \<le> level_rank b"

definition less_log_level :: "log_level \<Rightarrow> log_level \<Rightarrow> bool" where
  "less_log_level a b \<longleftrightarrow> level_rank a < level_rank b"

instance
  by standard (auto simp: less_eq_log_level_def less_log_level_def level_rank_inject)

end

section \<open>Configuration\<close>

record zap_config =
  zc_Level :: log_level
  zc_Development :: bool
  zc_Encoding :: string
  zc_OutputPaths :: "string list"
  zc_ErrorOutputPaths :: "string list"
  zc_TimeKey :: string
  zc_EncodeTime :: string

record zap_lib =
  zl_production :: zap_config
  zl_development :: zap_config
  zl_build :: "zap_config \<Rightarrow> string option"

datatype log_field =
    LString string string
  | LInt string int
  | LDuration string duration

datatype zap_logger = Nop | Built zap_config "log_field list"

definition logger_config :: "zap_lib \<Rightarrow> string \<Rightarrow> zap_config" where
  "logger_config zl env =
     (if env = ''development'' then zl_development zl else zl_production zl)
       \<lparr>zc_OutputPaths := [''stdout''], zc_ErrorOutputPaths := [''stderr''],
        zc_TimeKey := ''timestamp'', zc_EncodeTime := ''ISO8601''\<rparr>"

definition New :: "zap_lib \<Rightarrow> string \<Rightarrow> string + zap_logger" where
  "New zl env =
     (let config = logger_config zl env
      in case zl_build zl config of Some e \<Rightarrow> Inl e | None \<Rightarrow> Inr (Built config []))"

section \<open>Loggers\<close>

text \<open>\<open>logger.With(field)\<close>.\<close>

fun with_field :: "log_field \<Rightarrow> zap_logger \<Rightarrow> zap_logger" where
  "with_field f Nop = Nop"
| "with_field f (Built cfg fs) = Built cfg (fs @ [f])"

definition WithRequestID :: "zap_logger option \<Rightarrow> string \<Rightarrow> zap_logger" where
  "WithRequestID logger requestID =
     (case logger of None \<Rightarrow> Nop | Some l \<Rightarrow> with_field (LString ''request_id'' requestID) l)"

text \<open>The loggers of the package zap, which nothing in the program replaces.\<close>

definition ReplaceGlobals :: "zap_logger \<Rightarrow> zap_logger \<Rightarrow> zap_logger" where
  "ReplaceGlobals logger globals = logger"

text \<open>The error of the library's \<open>Sync\<close> is dropped.\<close>

definition Sync :: "(zap_logger \<Rightarrow> 'w \<Rightarrow> string option \<times> 'w) \<Rightarrow> zap_logger option \<Rightarrow> 'w \<Rightarrow> 'w" where
  "Sync sync logger w = (case logger of None \<Rightarrow> w | Some l \<Rightarrow> snd (sync l w))"

record log_entry =
  le_Level :: log_level
  le_Message :: string
  le_Fields :: "log_field list"

fun log_entries :: "zap_logger \<Rightarrow> log_level \<Rightarrow> string \<Rightarrow> log_field list \<Rightarrow> log_entry list" where
  "log_entries Nop lvl msg fs = []"
| "log_entries (Built cfg gs) lvl msg fs =
     (if zc_Level cfg \<le> lvl
      then [\<lparr>le_Level = lvl, le_Message = msg, le_Fields = gs @ fs\<rparr>] else [])"

lemma no_logger_silent: "log_entries (WithRequestID None i) lvl msg fs = []"
  by (simp add: WithRequestID_def)

text \<open>What is attached to a logger comes first in its entries, and raising the level of a configuration
  only drops entries.\<close>

lemma request_entry:
  "log_entries (WithRequestID (Some (Built cfg gs)) i) lvl msg fs =
     log_entries (Built cfg gs) lvl msg (LString ''request_id'' i # fs)"
  by (simp add: WithRequestID_def)

lemma level_monotone:
  "zc_Level cfg \<le> zc_Level cfg' \<Longrightarrow>
    set (log_entries (Built cfg' gs) lvl msg fs) \<subseteq> set (log_entries (Built cfg gs) lvl msg fs)"
  by auto

end
