(* ===== verification/Middleware.thy ===== *)
theory Middleware
  imports HttpContext RateLimiter LogBuffer Logger
begin

text \<open>
  \<open>internal/app/middleware\<close>, \<open>internal/app/diagnostics/handler.go\<close> and the collectors of
  \<open>internal/infrastructure/monitoring/metrics.go\<close>. A middleware takes the rest of the chain as an
  argument: \<open>c.Next()\<close> is calling it, and a middleware that aborts and returns does not. What a
  request may change beyond the limiters' state is the log buffer, the counters and the entries of the
  log.
\<close>

type_synonym 'w middleware = "'w handler \<Rightarrow> 'w handler"

type_synonym 'w allow = "string \<Rightarrow> 'w \<Rightarrow> (string + rate_info) \<times> 'w"

record app_state = limiter_state +
  app_log :: log_buffer
  app_requests :: "string \<times> string \<times> string \<Rightarrow> nat"
  app_latencies :: "string \<times> string \<Rightarrow> duration list"
  app_entries :: "log_entry list"

section \<open>Authentication\<close>

definition extractBearer :: "string \<Rightarrow> string" where
  "extractBearer header =
     (if header = [] then []
      else case split_n2 (CHR 0x20) header of
             [scheme, rest] \<Rightarrow> if equal_fold scheme ''Bearer'' then trim_space rest else []
           | _ \<Rightarrow> [])"

definition set_claims :: "claims \<Rightarrow> gin_context \<Rightarrow> gin_context" where
  "set_claims cl c = c_Set ''user_role'' (CString (jc_Role cl)) (c_Set ''user_id'' (CUuid (jc_UserID cl)) c)"

definition AuthMiddleware :: "'a token_state_scheme manager \<Rightarrow> 'a token_state_scheme middleware" where
  "AuthMiddleware m k c w =
     (let token = extractBearer (c_GetHeader c ''Authorization'')
      in if token = [] then (c_Abort (Unauthorized ''missing bearer token'' c), w)
         else case ParseAccessToken m token w of
                (Inl _, w1) \<Rightarrow> (c_Abort (Unauthorized ''invalid token'' c), w1)
              | (Inr cl, w1) \<Rightarrow> k (set_claims cl c) w1)"

definition OptionalAuth :: "'a token_state_scheme manager \<Rightarrow> 'a token_state_scheme middleware" where
  "OptionalAuth m k c w =
     (let token = extractBearer (c_GetHeader c ''Authorization'')
      in if token = [] then k c w
         else case ParseAccessToken m token w of
                (Inl _, w1) \<Rightarrow> k c w1
              | (Inr cl, w1) \<Rightarrow> k (set_claims cl c) w1)"

definition AdminOnly :: "'w middleware" where
  "AdminOnly k c w =
     (let role = (case gc_values c ''user_role'' of Some (CString r) \<Rightarrow> r | _ \<Rightarrow> [])
      in if gc_values c ''user_role'' = None \<or> role \<noteq> ''admin''
         then (c_Abort (Forbidden ''admin only'' c), w)
         else k c w)"

section \<open>CORS and request identifiers\<close>

definition CORS :: "cors_config \<Rightarrow> 'w middleware" where
  "CORS cfg k c w =
     (let origin = c_GetHeader c ''Origin'';
          allowed = set (cors_AllowedOrigins cfg);
          c1 = (if origin \<noteq> [] \<and> (origin \<in> allowed \<or> allowed = {})
                then
                  let c0 = c_Header ''Vary'' ''Origin'' (c_Header ''Access-Control-Allow-Origin'' origin c)
                  in if cors_AllowCredentials cfg
                     then c_Header ''Access-Control-Allow-Credentials'' ''true'' c0 else c0
                else c);
          c2 = c_Header ''Access-Control-Allow-Headers'' (join '', '' (cors_AllowedHeaders cfg))
                 (c_Header ''Access-Control-Allow-Methods'' (join '', '' (cors_AllowedMethods cfg)) c1)
      in if rq_Method (gc_request c2) = ''OPTIONS'' then (c_Abort (c_Status 204 c2), w) else k c2 w)"

definition RequestID :: "http_lib \<Rightarrow> 'a runtime_scheme middleware" where
  "RequestID hl k c w =
     (let given_id = c_GetHeader c ''X-Request-ID''
      in case (if given_id = [] then (case uuid_new w of (i, w1) \<Rightarrow> (hl_uuid_string hl i, w1)) else (given_id, w)) of
           (reqID, w1) \<Rightarrow>
             k (c_Header ''X-Request-ID'' reqID (c_Set ''request_id'' (CString reqID) c)) w1)"

section \<open>Rate limits\<close>

definition setHeaders :: "rate_info \<Rightarrow> 'a runtime_scheme handler" where
  "setHeaders info c w =
     (let c1 = c_Header ''X-RateLimit-Remaining'' (itoa (ri_Remaining info))
                 (c_Header ''X-RateLimit-Limit'' (itoa (ri_Limit info)) c)
      in case time_now w of (now, w1) \<Rightarrow>
           let reset = max 0 (ri_Reset info - now);
               c2 = c_Header ''X-RateLimit-Reset'' (itoa (unix_seconds (ri_Reset info))) c1
           in (if \<not> ri_Allowed info then c_Header ''Retry-After'' (itoa (duration_seconds reset)) c2 else c2, w1))"

text \<open>One limiter of the two: an error of the limiter lets the request pass.\<close>

definition check_limit ::
  "'a runtime_scheme allow option \<Rightarrow> string \<Rightarrow> 'a runtime_scheme middleware" where
  "check_limit lm key k c w =
     (case lm of
        None \<Rightarrow> k c w
      | Some allow \<Rightarrow>
          (case allow key w of
             (Inl _, w1) \<Rightarrow> k c w1
           | (Inr info, w1) \<Rightarrow>
               (case setHeaders info c w1 of (c1, w2) \<Rightarrow>
                  if \<not> ri_Allowed info
                  then (case TooManyRequests (ri_Reset info) c1 w2 of (c2, w3) \<Rightarrow> (c_Abort c2, w3))
                  else k c1 w2)))"

definition RateLimit ::
  "http_lib \<Rightarrow> 'a runtime_scheme allow option \<Rightarrow> 'a runtime_scheme allow option \<Rightarrow>
     'a runtime_scheme middleware" where
  "RateLimit hl ipLimiter userLimiter k =
     (\<lambda>c. check_limit ipLimiter (''ip:'' @ rq_ClientIP (gc_request c))
        (\<lambda>c1. let userID = UserIDFromContext hl c1
              in if userID = [] then k c1 else check_limit userLimiter (''user:'' @ userID) k c1) c)"

section \<open>Logging and metrics\<close>

definition httpStatus :: "int \<Rightarrow> string" where
  "httpStatus status = itoa status"

text \<open>The histogram is the list of what it observed; the code passes the latency in seconds.\<close>

definition ObserveRequest ::
  "string \<Rightarrow> string \<Rightarrow> string \<Rightarrow> duration \<Rightarrow> 'a app_state_scheme \<Rightarrow> 'a app_state_scheme" where
  "ObserveRequest path meth status latency w =
     w\<lparr>app_requests := (app_requests w)((path, meth, status) := Suc (app_requests w (path, meth, status))),
       app_latencies := (app_latencies w)((path, meth) := app_latencies w (path, meth) @ [latency])\<rparr>"

definition request_path :: "http_request \<Rightarrow> string" where
  "request_path r = (if rq_FullPath r = [] then rq_Path r else rq_FullPath r)"

text \<open>The entry of a request: its identifier is the one in the context \<open>before\<close> the rest of the chain.\<close>

definition log_request ::
  "zap_logger option \<Rightarrow> gin_context \<Rightarrow> gin_context \<Rightarrow> string \<Rightarrow> duration \<Rightarrow>
     'a app_state_scheme \<Rightarrow> 'a app_state_scheme" where
  "log_request logger before c path latency w =
     (let i = (case gc_values before ''request_id'' of Some (CString v) \<Rightarrow> v | _ \<Rightarrow> [])
      in w\<lparr>app_entries := app_entries w @
            log_entries (WithRequestID logger i) InfoLevel ''request''
              [LString ''method'' (rq_Method (gc_request c)), LString ''path'' path,
               LInt ''status'' (gc_status c), LDuration ''latency'' latency]\<rparr>)"

definition RequestLogger ::
  "http_lib \<Rightarrow> zap_logger option \<Rightarrow> bool \<Rightarrow> 'a app_state_scheme middleware" where
  "RequestLogger hl logger buffered k c w =
     (case time_now w of (start, w1) \<Rightarrow>
      (case k c w1 of (c1, w2) \<Rightarrow>
       if gc_panicked c1 then (c1, w2)
       else
       (case time_now w2 of (finish, w3) \<Rightarrow>
          let latency = time_sub finish start;
              path = request_path (gc_request c1);
              meth = rq_Method (gc_request c1);
              status = httpStatus (gc_status c1)
          in case time_now (log_request logger c c1 path latency w3) of (now, w4) \<Rightarrow>
               let entry = hl_format_utc hl now @ '' '' @ meth @ '' '' @ path @ '' -> '' @ status
               in if buffered
                  then (case Append entry (app_log w4) of
                          None \<Rightarrow> (panicking c1, w4)
                        | Some b \<Rightarrow> (c1, ObserveRequest path meth status latency (w4\<lparr>app_log := b\<rparr>)))
                  else (c1, ObserveRequest path meth status latency w4))))"

text \<open>\<open>gin.Recovery\<close>, around the whole chain.\<close>

definition Recovery :: "'w middleware" where
  "Recovery k c w = (case k c w of (c1, w1) \<Rightarrow> (if gc_panicked c1 then recovered c1 else c1, w1))"

section \<open>Diagnostics\<close>

definition health_h :: "'w handler" where
  "health_h c w = (c_JSON 200 (JObj [(''status'', JStr ''ok'')]) c, w)"

definition logs_h :: "'a app_state_scheme handler" where
  "logs_h c w = (c_JSON 200 (JObj [(''logs'', JArr (map JStr (Snapshot (app_log w))))]) c, w)"

end
