(* ===== verification/ProfileHandler.thy ===== *)
theory ProfileHandler
  imports HttpContext ProfileService
begin

text \<open>
  \<open>internal/domain/profile/handler.go\<close>: the HTTP handlers of profiles. Each binds its body or
  parameters, takes the caller from the context, calls the service and writes the reply; a
  \<open>uuid.Nil\<close> caller makes it return at once.
\<close>

definition handleProfileError :: "http_lib \<Rightarrow> profile_error \<Rightarrow> gin_context \<Rightarrow> gin_context" where
  "handleProfileError hl e c =
     (case e of
        ErrNotFound \<Rightarrow> NotFound ''profile'' c
      | ErrProfileForbidden \<Rightarrow> Forbidden ''forbidden'' c
      | ErrVersionConflict \<Rightarrow> Conflict ''version_conflict'' ''profile updated elsewhere'' c
      | _ \<Rightarrow> InternalServerError hl c)"

abbreviation profile_body :: "profile \<Rightarrow> json" where
  "profile_body p \<equiv> JObj (profile_json p)"

definition create_h ::
  "http_lib \<Rightarrow> 'a runtime_scheme profile_service \<Rightarrow> 'a runtime_scheme handler" where
  "create_h hl s c w =
     (case bind_create hl (rq_Body (gc_request c)) of
        Inl err \<Rightarrow> (ValidationError hl err c, w)
      | Inr req \<Rightarrow>
          (case MustUserID c of (userID, c1) \<Rightarrow>
             if userID = uuid_nil then (c1, w)
             else (case Create s userID req w of
                     (Inl e, w1) \<Rightarrow> (handleProfileError hl e c1, w1)
                   | (Inr p, w1) \<Rightarrow>
                       (c_JSON 201 (profile_body p)
                          (c_Header ''Location'' (''/api/v1/profiles/'' @ hl_uuid_string hl (p_ID p)) c1), w1))))"

definition bulkCreate_h ::
  "http_lib \<Rightarrow> 'a runtime_scheme profile_service \<Rightarrow> 'a runtime_scheme handler" where
  "bulkCreate_h hl s c w =
     (case bind_bulk_create hl (rq_Body (gc_request c)) of
        Inl err \<Rightarrow> (ValidationError hl err c, w)
      | Inr req \<Rightarrow>
          (case MustUserID c of (userID, c1) \<Rightarrow>
             if userID = uuid_nil then (c1, w)
             else (case BulkCreate s userID req w of
                     ((created, errs), w1) \<Rightarrow>
                       (c_JSON 207 (JObj [(''created'', JArr (map profile_body created)),
                                          (''errors'', SerializeErrors hl errs)]) c1, w1))))"

text \<open>The handlers on one profile parse the path parameter \<open>id\<close> after the caller is known.\<close>

definition with_id ::
  "http_lib \<Rightarrow> (uuid \<Rightarrow> uuid \<Rightarrow> 'w handler) \<Rightarrow> 'w handler" where
  "with_id hl act c w =
     (case MustUserID c of (userID, c1) \<Rightarrow>
        if userID = uuid_nil then (c1, w)
        else (case hl_parse_uuid hl (c_Param c1 ''id'') of
                None \<Rightarrow> (NotFound ''profile'' c1, w)
              | Some i \<Rightarrow> act i userID c1 w))"

definition get_h :: "http_lib \<Rightarrow> 'w profile_service \<Rightarrow> 'w handler" where
  "get_h hl s =
     with_id hl (\<lambda>i userID c w.
       case Get s i userID w of
         (Inl e, w1) \<Rightarrow> (handleProfileError hl e c, w1)
       | (Inr p, w1) \<Rightarrow> (c_JSON 200 (profile_body p) c, w1))"

definition list_filter :: "http_lib \<Rightarrow> gin_context \<Rightarrow> uuid \<Rightarrow> profile_filter" where
  "list_filter hl c userID =
     (let cursor = c_Query c ''cursor''
      in \<lparr>pf_Search = c_Query c ''search'', pf_Limit = GetLimit c 20 100, pf_Offset = GetOffset c,
          pf_Cursor = cursor,
          pf_CursorTime = (if cursor \<noteq> [] then hl_parse_rfc3339 hl cursor else None),
          pf_UserID = userID\<rparr>)"

definition next_cursor :: "http_lib \<Rightarrow> profile list \<Rightarrow> string" where
  "next_cursor hl ps = (if ps \<noteq> [] then hl_format_rfc3339 hl (p_CreatedAt (last ps)) else [])"

definition list_h :: "http_lib \<Rightarrow> 'w profile_service \<Rightarrow> 'w handler" where
  "list_h hl s c w =
     (case MustUserID c of (userID, c1) \<Rightarrow>
        if userID = uuid_nil then (c1, w)
        else
          let flt = list_filter hl c1 userID
          in case ListProfiles s flt w of
               (Inl e, w1) \<Rightarrow> (handleProfileError hl e c1, w1)
             | (Inr (ps, n), w1) \<Rightarrow>
                 (c_JSON 200
                    (JObj [(''data'', if ps = [] then hl_nil_slice hl else JArr (map profile_body ps)),
                           (''total'', JInt n), (''offset'', JInt (pf_Offset flt)),
                           (''limit'', JInt (pf_Limit flt)), (''next_cursor'', JStr (next_cursor hl ps))]) c1, w1))"

definition update_h ::
  "http_lib \<Rightarrow> 'a runtime_scheme profile_service \<Rightarrow> 'a runtime_scheme handler" where
  "update_h hl s c w =
     (case bind_update hl (rq_Body (gc_request c)) of
        Inl err \<Rightarrow> (ValidationError hl err c, w)
      | Inr req \<Rightarrow>
          with_id hl (\<lambda>i userID c1 w1.
            case Update s i userID req w1 of
              (Inl e, w2) \<Rightarrow> (handleProfileError hl e c1, w2)
            | (Inr p, w2) \<Rightarrow> (c_JSON 200 (profile_body p) c1, w2)) c w)"

definition patch_h :: "http_lib \<Rightarrow> 'w profile_service \<Rightarrow> 'w handler" where
  "patch_h hl s c w =
     (case bind_patch hl (rq_Body (gc_request c)) of
        Inl err \<Rightarrow> (ValidationError hl err c, w)
      | Inr req \<Rightarrow>
          with_id hl (\<lambda>i userID c1 w1.
            case Patch s i userID req w1 of
              (Inl e, w2) \<Rightarrow> (handleProfileError hl e c1, w2)
            | (Inr p, w2) \<Rightarrow>
                (c_JSON 200 (case p of None \<Rightarrow> JNull | Some q \<Rightarrow> profile_body q) c1, w2)) c w)"

definition parseVersion :: "string \<Rightarrow> int" where
  "parseVersion val =
     (if val = [] then 0 else case atoi val of None \<Rightarrow> 0 | Some version \<Rightarrow> version)"

definition delete_h :: "http_lib \<Rightarrow> 'w profile_service \<Rightarrow> 'w handler" where
  "delete_h hl s =
     with_id hl (\<lambda>i userID c w.
       let hard = (c_Query c ''hard'' = ''true''); version = parseVersion (c_Query c ''version'')
       in case Delete s i userID hard version w of
            (Some e, w1) \<Rightarrow> (handleProfileError hl e c, w1)
          | (None, w1) \<Rightarrow> (c_Status 204 c, w1))"

definition bulkDelete_h :: "http_lib \<Rightarrow> 'w profile_service \<Rightarrow> 'w handler" where
  "bulkDelete_h hl s c w =
     (case bind_bulk_delete hl (rq_Body (gc_request c)) of
        Inl err \<Rightarrow> (ValidationError hl err c, w)
      | Inr req \<Rightarrow>
          (case MustUserID c of (userID, c1) \<Rightarrow>
             if userID = uuid_nil then (c1, w)
             else (case BulkDelete s userID req w of
                     (Inl e, w1) \<Rightarrow> (handleProfileError hl e c1, w1)
                   | (Inr n, w1) \<Rightarrow> (c_JSON 200 (JObj [(''deleted'', JInt n)]) c1, w1))))"

end
