(* ===== verification/UserHandler.thy ===== *)
theory UserHandler
  imports HttpContext UserService
begin

text \<open>
  \<open>internal/domain/user/handler.go\<close>: the HTTP handlers of accounts. \<open>getMe\<close> and \<open>updateMe\<close> assert the
  type of \<open>user_id\<close>: a value of another type is a panic, as is a service that runs into one.
\<close>

definition tokens_json :: "auth_tokens \<Rightarrow> json" where
  "tokens_json t =
     JObj [(''access_token'', JStr (at_AccessToken t)), (''refresh_token'', JStr (at_RefreshToken t)),
           (''expires_in'', JInt (at_ExpiresIn t)), (''token_type'', JStr (at_TokenType t))]"

definition auth_json :: "auth_response \<Rightarrow> json" where
  "auth_json r = JObj [(''user'', JObj (user_json (ar_User r))), (''tokens'', tokens_json (ar_Tokens r))]"

definition handleUserError :: "http_lib \<Rightarrow> user_error \<Rightarrow> gin_context \<Rightarrow> gin_context" where
  "handleUserError hl e c =
     (case e of
        ErrDuplicateEmail \<Rightarrow> Conflict ''duplicate_email'' ''email already registered'' c
      | ErrInvalidCreds \<Rightarrow> Unauthorized ''invalid credentials'' c
      | ErrRegistrationDisabled \<Rightarrow> Forbidden ''registration disabled'' c
      | ErrForbidden \<Rightarrow> Forbidden ''forbidden'' c
      | ErrUserNotFound \<Rightarrow> NotFound ''user'' c
      | ErrInvalidToken \<Rightarrow> Unauthorized ''invalid token'' c
      | Panic \<Rightarrow> panicking c
      | _ \<Rightarrow> InternalServerError hl c)"

definition register_h :: "http_lib \<Rightarrow> 'a runtime_scheme user_service \<Rightarrow> 'a runtime_scheme handler" where
  "register_h hl s c w =
     (case bind_register hl (rq_Body (gc_request c)) of
        Inl err \<Rightarrow> (ValidationError hl err c, w)
      | Inr req \<Rightarrow>
          (case Register s req w of
             (Inl e, w1) \<Rightarrow> (handleUserError hl e c, w1)
           | (Inr res, w1) \<Rightarrow>
               (c_JSON 201 (auth_json res) (c_Header ''Location'' ''/api/v1/users/me'' c), w1)))"

definition login_h :: "http_lib \<Rightarrow> 'a runtime_scheme user_service \<Rightarrow> 'a runtime_scheme handler" where
  "login_h hl s c w =
     (case bind_login hl (rq_Body (gc_request c)) of
        Inl err \<Rightarrow> (ValidationError hl err c, w)
      | Inr req \<Rightarrow>
          (case Login s req w of
             (Inl e, w1) \<Rightarrow> (handleUserError hl e c, w1)
           | (Inr res, w1) \<Rightarrow> (c_JSON 200 (auth_json res) c, w1)))"

definition refresh_h :: "http_lib \<Rightarrow> 'w user_service \<Rightarrow> 'w handler" where
  "refresh_h hl s c w =
     (case bind_refresh hl (rq_Body (gc_request c)) of
        Inl err \<Rightarrow> (ValidationError hl err c, w)
      | Inr token \<Rightarrow>
          (case Refresh s token w of
             (Inl e, w1) \<Rightarrow> (handleUserError hl e c, w1)
           | (Inr res, w1) \<Rightarrow> (c_JSON 200 (auth_json res) c, w1)))"

definition getMe_h :: "http_lib \<Rightarrow> 'w user_service \<Rightarrow> 'w handler" where
  "getMe_h hl s c w =
     (case gc_values c ''user_id'' of
        None \<Rightarrow> (Unauthorized ''missing auth context'' c, w)
      | Some (CString _) \<Rightarrow> (panicking c, w)
      | Some (CUuid userID) \<Rightarrow>
          (case GetMe s userID w of
             (Inl e, w1) \<Rightarrow> (handleUserError hl e c, w1)
           | (Inr u, w1) \<Rightarrow>
               (c_JSON 200 (case u of None \<Rightarrow> JNull | Some v \<Rightarrow> JObj (user_json v)) c, w1)))"

definition updateMe_h :: "http_lib \<Rightarrow> 'a runtime_scheme user_service \<Rightarrow> 'a runtime_scheme handler" where
  "updateMe_h hl s c w =
     (case bind_update_user hl (rq_Body (gc_request c)) of
        Inl err \<Rightarrow> (ValidationError hl err c, w)
      | Inr req \<Rightarrow>
          (case gc_values c ''user_id'' of
             None \<Rightarrow> (Unauthorized ''missing auth context'' c, w)
           | Some (CString _) \<Rightarrow> (panicking c, w)
           | Some (CUuid userID) \<Rightarrow>
               (case UpdateMe s userID req w of
                  (Inl e, w1) \<Rightarrow> (handleUserError hl e c, w1)
                | (Inr u, w1) \<Rightarrow> (c_JSON 200 (JObj (user_json u)) c, w1))))"

definition listUsers_h :: "http_lib \<Rightarrow> 'w user_service \<Rightarrow> 'w handler" where
  "listUsers_h hl s c w =
     (let flt = \<lparr>uf_Search = c_Query c ''search'', uf_Limit = GetLimit c 50 200, uf_Offset = GetOffset c,
                 uf_Sort = c_DefaultQuery c ''sort'' ''created_at_desc'', uf_TenantID = uuid_nil\<rparr>
      in case ListUsers s flt w of
           (Inl e, w1) \<Rightarrow> (handleUserError hl e c, w1)
         | (Inr (us, n), w1) \<Rightarrow>
             (Paginated (if us = [] then hl_nil_slice hl else JArr (map (\<lambda>u. JObj (user_json u)) us))
                n (uf_Offset flt) (uf_Limit flt) c, w1))"

end
