(* ===== verification/Router.thy ===== *)
theory Router
  imports Middleware ProfileHandler UserHandler
begin

text \<open>
  \<open>internal/app/router.go\<close> and the \<open>RegisterRoutes\<close> of the handlers: the table of routes, each with
  the middlewares of its group around its handler, and the engine. gin finds the route of a
  request before the chain starts: \<open>rq_FullPath\<close> is the pattern it found, empty for none, and
  \<open>rq_Param\<close> its parameters.
\<close>

type_synonym 'w route = "string \<times> string \<times> 'w handler"

section \<open>The table of routes\<close>

definition user_routes ::
  "http_lib \<Rightarrow> 'a runtime_scheme user_service \<Rightarrow> 'a runtime_scheme middleware \<Rightarrow>
     'a runtime_scheme middleware \<Rightarrow> 'a runtime_scheme route list" where
  "user_routes hl s authMW adminMW =
     [(''POST'', ''/api/v1/auth/register'', register_h hl s),
      (''POST'', ''/api/v1/auth/login'', login_h hl s),
      (''POST'', ''/api/v1/auth/refresh'', refresh_h hl s),
      (''GET'', ''/api/v1/users/me'', authMW (getMe_h hl s)),
      (''PUT'', ''/api/v1/users/me'', authMW (updateMe_h hl s)),
      (''GET'', ''/api/v1/admin/users'', authMW (adminMW (listUsers_h hl s)))]"

definition profile_routes ::
  "http_lib \<Rightarrow> 'a runtime_scheme profile_service \<Rightarrow> 'a runtime_scheme middleware \<Rightarrow>
     'a runtime_scheme route list" where
  "profile_routes hl s authMW =
     [(''POST'', ''/api/v1/profiles'', authMW (create_h hl s)),
      (''POST'', ''/api/v1/profiles/bulk'', authMW (bulkCreate_h hl s)),
      (''GET'', ''/api/v1/profiles'', authMW (list_h hl s)),
      (''GET'', ''/api/v1/profiles/:id'', authMW (get_h hl s)),
      (''PUT'', ''/api/v1/profiles/:id'', authMW (update_h hl s)),
      (''PATCH'', ''/api/v1/profiles/:id'', authMW (patch_h hl s)),
      (''DELETE'', ''/api/v1/profiles/:id'', authMW (delete_h hl s)),
      (''DELETE'', ''/api/v1/profiles/bulk'', authMW (bulkDelete_h hl s))]"

record 'a router_deps =
  rd_Config :: "config option"
  rd_Users :: "'a app_state_scheme user_service"
  rd_Profiles :: "'a app_state_scheme profile_service"
  rd_AuthManager :: "'a app_state_scheme manager option"
  rd_Logger :: "zap_logger option"
  rd_LogBuffer :: bool
  rd_IPLimiter :: "'a app_state_scheme allow option"
  rd_UserLimiter :: "'a app_state_scheme allow option"
  rd_Metrics :: "'a app_state_scheme handler"
  rd_Lib :: http_lib

definition auth_mw :: "'a router_deps \<Rightarrow> 'a app_state_scheme middleware" where
  "auth_mw d = (case rd_AuthManager d of None \<Rightarrow> (\<lambda>k. k) | Some m \<Rightarrow> AuthMiddleware m)"

definition routes :: "'a router_deps \<Rightarrow> 'a app_state_scheme route list" where
  "routes d =
     [(''GET'', ''/api/v1/health'', health_h),
      (''GET'', ''/api/v1/debug/logs'', auth_mw d (AdminOnly logs_h)),
      (''GET'', ''/api/v1/metrics'', rd_Metrics d)]
     @ user_routes (rd_Lib d) (rd_Users d) (auth_mw d) AdminOnly
     @ profile_routes (rd_Lib d) (rd_Profiles d) (auth_mw d)"

section \<open>The engine\<close>

definition find_route :: "'w route list \<Rightarrow> string \<Rightarrow> string \<Rightarrow> 'w handler option" where
  "find_route rs meth path =
     map_option (\<lambda>r. snd (snd r)) (find (\<lambda>r. fst r = meth \<and> fst (snd r) = path) rs)"

definition dispatch :: "'w route list \<Rightarrow> 'w handler" where
  "dispatch rs c w =
     (case find_route rs (rq_Method (gc_request c)) (rq_FullPath (gc_request c)) of
        None \<Rightarrow> (c_Status 404 c, w)
      | Some h \<Rightarrow> h c w)"

definition when_some :: "'b option \<Rightarrow> ('b \<Rightarrow> 'w middleware) \<Rightarrow> 'w middleware" where
  "when_some x f k = (case x of None \<Rightarrow> k | Some y \<Rightarrow> f y k)"

definition rate_limited :: "'a router_deps \<Rightarrow> bool" where
  "rate_limited d = (case rd_Config d of None \<Rightarrow> True | Some cfg \<Rightarrow> rl_Enabled (cfg_RateLimit cfg))"

text \<open>In production \<open>NewRouter\<close> turns gin's debug mode off.\<close>

definition release_mode :: "'a router_deps \<Rightarrow> 'a router_deps" where
  "release_mode d =
     (case rd_Config d of
        None \<Rightarrow> d
      | Some cfg \<Rightarrow> if app_Env (cfg_App cfg) = ''production''
                    then d\<lparr>rd_Lib := (rd_Lib d)\<lparr>hl_debugging := False\<rparr>\<rparr> else d)"

definition engine :: "'a router_deps \<Rightarrow> 'a app_state_scheme handler" where
  "engine d =
     Recovery
       (RequestID (rd_Lib d)
         (when_some (rd_Config d) (\<lambda>cfg. CORS (cfg_Cors cfg))
           (when_some (rd_AuthManager d) OptionalAuth
             ((if rate_limited d then RateLimit (rd_Lib d) (rd_IPLimiter d) (rd_UserLimiter d) else (\<lambda>k. k))
               (RequestLogger (rd_Lib d) (rd_Logger d) (rd_LogBuffer d) (dispatch (routes d)))))))"

definition NewRouter :: "'a router_deps \<Rightarrow> 'a app_state_scheme handler" where
  "NewRouter d = engine (release_mode d)"

definition ServeHTTP ::
  "'a router_deps \<Rightarrow> http_request \<Rightarrow> 'a app_state_scheme \<Rightarrow> gin_context \<times> 'a app_state_scheme" where
  "ServeHTTP d r w = NewRouter d (new_context r) w"

lemma release_mode_simps [simp]:
  "rd_Config (release_mode d) = rd_Config d" "rd_Users (release_mode d) = rd_Users d"
  "rd_Profiles (release_mode d) = rd_Profiles d" "rd_AuthManager (release_mode d) = rd_AuthManager d"
  "rd_Logger (release_mode d) = rd_Logger d" "rd_LogBuffer (release_mode d) = rd_LogBuffer d" "rd_IPLimiter (release_mode d) = rd_IPLimiter d"
  "rd_UserLimiter (release_mode d) = rd_UserLimiter d" "rd_Metrics (release_mode d) = rd_Metrics d"
  by (simp_all add: release_mode_def split: option.split)

text \<open>The methods and patterns of the table do not depend on what is behind them.\<close>

definition route_key :: "'w route \<Rightarrow> string \<times> string" where
  "route_key r = (fst r, fst (snd r))"

lemma route_keys: "map route_key (routes d) = map route_key (routes d')"
  by (simp add: routes_def user_routes_def profile_routes_def route_key_def)

text \<open>What holds of every handler of the services, and is passed on by the two guards, holds of every route.\<close>

lemma route_rule:
  fixes d :: "'a router_deps"
  assumes r: "(n, p, h) \<in> set (routes d)"
    and diagnostics: "K health_h" "K logs_h" "K (rd_Metrics d)"
    and users: "\<And>h. h \<in> {register_h (rd_Lib d) (rd_Users d), login_h (rd_Lib d) (rd_Users d),
        refresh_h (rd_Lib d) (rd_Users d), getMe_h (rd_Lib d) (rd_Users d),
        updateMe_h (rd_Lib d) (rd_Users d), listUsers_h (rd_Lib d) (rd_Users d)} \<Longrightarrow> K h"
    and profiles: "\<And>h. h \<in> {create_h (rd_Lib d) (rd_Profiles d), bulkCreate_h (rd_Lib d) (rd_Profiles d),
        get_h (rd_Lib d) (rd_Profiles d), list_h (rd_Lib d) (rd_Profiles d),
        update_h (rd_Lib d) (rd_Profiles d), patch_h (rd_Lib d) (rd_Profiles d),
        delete_h (rd_Lib d) (rd_Profiles d), bulkDelete_h (rd_Lib d) (rd_Profiles d)} \<Longrightarrow> K h"
    and guards: "\<And>h. K h \<Longrightarrow> K (auth_mw d h)" "\<And>h. K h \<Longrightarrow> K (AdminOnly h)"
  shows "K h"
proof -
  have users': "K (register_h (rd_Lib d) (rd_Users d))" "K (login_h (rd_Lib d) (rd_Users d))"
      "K (refresh_h (rd_Lib d) (rd_Users d))" "K (getMe_h (rd_Lib d) (rd_Users d))"
      "K (updateMe_h (rd_Lib d) (rd_Users d))" "K (listUsers_h (rd_Lib d) (rd_Users d))"
    by (rule users; simp)+
  have profiles': "K (create_h (rd_Lib d) (rd_Profiles d))" "K (bulkCreate_h (rd_Lib d) (rd_Profiles d))"
      "K (get_h (rd_Lib d) (rd_Profiles d))" "K (list_h (rd_Lib d) (rd_Profiles d))"
      "K (update_h (rd_Lib d) (rd_Profiles d))" "K (patch_h (rd_Lib d) (rd_Profiles d))"
      "K (delete_h (rd_Lib d) (rd_Profiles d))" "K (bulkDelete_h (rd_Lib d) (rd_Profiles d))"
    by (rule profiles; simp)+
  note facts = diagnostics users' profiles' users'(4,5) [THEN guards(1)] profiles' [THEN guards(1)]
    diagnostics(2) [THEN guards(2), THEN guards(1)] users'(6) [THEN guards(2), THEN guards(1)]
  show ?thesis
    using r unfolding routes_def user_routes_def profile_routes_def
    by (simp only: set_append set_simps Un_iff insert_iff empty_iff prod.inject)
      (elim disjE conjE FalseE; simp only: facts)
qed

end
