(* ===== verification/Startup.thy ===== *)
theory Startup
  imports Router UserStore ProfileAccess
begin

text \<open>
  How the server is put together: \<open>internal/infrastructure/db/db.go\<close>, \<open>internal/infrastructure/redis/client.go\<close>,
  \<open>internal/app/server.go\<close> and \<open>cmd/api/main.go\<close>, with the small parts it starts (\<open>sentry.go\<close>,
  \<open>oauth_stub.go\<close>). The handles sqlx opens live in a list and are named
  by their position; whether opening, pinging and closing work is the record \<open>sqlx_lib\<close>.
\<close>

section \<open>The handles of the database\<close>

record db_handle =
  dh_driver :: string
  dh_dsn :: string
  dh_limits :: "(int \<times> int \<times> duration) option"
  dh_closed :: bool

record sqlx_lib =
  sx_open :: "string \<Rightarrow> string \<Rightarrow> string option"
  sx_ping :: "db_handle \<Rightarrow> string option"
  sx_close :: "db_handle \<Rightarrow> string option"

record db_manager =
  dm_Write :: nat
  dm_Read :: nat

definition open_handle ::
  "sqlx_lib \<Rightarrow> string \<Rightarrow> string \<Rightarrow> db_handle list \<Rightarrow> (string + nat) \<times> db_handle list" where
  "open_handle sx driver dsn hs =
     (case sx_open sx driver dsn of
        Some e \<Rightarrow> (Inl e, hs)
      | None \<Rightarrow> (Inr (length hs),
          hs @ [\<lparr>dh_driver = driver, dh_dsn = dsn, dh_limits = None, dh_closed = False\<rparr>]))"

definition set_limits :: "database_config \<Rightarrow> nat \<Rightarrow> db_handle list \<Rightarrow> db_handle list" where
  "set_limits cfg h hs =
     hs[h := (hs ! h)\<lparr>dh_limits := Some (db_MaxOpenConns cfg, db_MaxIdleConns cfg, db_ConnMaxLifetime cfg)\<rparr>]"

definition close_handle :: "sqlx_lib \<Rightarrow> nat \<Rightarrow> db_handle list \<Rightarrow> string option \<times> db_handle list" where
  "close_handle sx h hs = (sx_close sx (hs ! h), hs[h := (hs ! h)\<lparr>dh_closed := True\<rparr>])"

definition driver_name :: "database_config \<Rightarrow> string" where
  "driver_name cfg = (if db_Driver cfg = ''postgres'' then ''pgx'' else db_Driver cfg)"

text \<open>The handle for reading, with the one for writing in its place when it cannot be had.\<close>

definition connect_read ::
  "sqlx_lib \<Rightarrow> database_config \<Rightarrow> nat \<Rightarrow> db_handle list \<Rightarrow> nat \<times> db_handle list" where
  "connect_read sx cfg write_h hs =
     (if db_ReadOnlyDSN cfg = [] then (write_h, hs)
      else case open_handle sx (driver_name cfg) (db_ReadOnlyDSN cfg) hs of
             (Inl _, hs1) \<Rightarrow> (write_h, hs1)
           | (Inr r, hs1) \<Rightarrow>
               let hs2 = set_limits cfg r hs1
               in case sx_ping sx (hs2 ! r) of
                    Some _ \<Rightarrow> (write_h, snd (close_handle sx r hs2))
                  | None \<Rightarrow> (r, hs2))"

definition Connect ::
  "sqlx_lib \<Rightarrow> database_config \<Rightarrow> db_handle list \<Rightarrow> (string + db_manager) \<times> db_handle list" where
  "Connect sx cfg hs =
     (case open_handle sx (driver_name cfg) (db_DSN cfg) hs of
        (Inl e, hs1) \<Rightarrow> (Inl (''open db: '' @ e), hs1)
      | (Inr h, hs1) \<Rightarrow>
          let hs2 = set_limits cfg h hs1
          in case sx_ping sx (hs2 ! h) of
               Some e \<Rightarrow> (Inl (''ping db: '' @ e), hs2)
             | None \<Rightarrow>
                 (case connect_read sx cfg h hs2 of
                    (r, hs3) \<Rightarrow> (Inr \<lparr>dm_Write = h, dm_Read = r\<rparr>, hs3)))"

definition Close :: "sqlx_lib \<Rightarrow> db_manager option \<Rightarrow> db_handle list \<Rightarrow> string option \<times> db_handle list" where
  "Close sx m hs =
     (case m of
        None \<Rightarrow> (None, hs)
      | Some mgr \<Rightarrow>
          (case close_handle sx (dm_Write mgr) hs of
             (Some e, hs1) \<Rightarrow> (Some e, hs1)
           | (None, hs1) \<Rightarrow>
               if dm_Read mgr \<noteq> dm_Write mgr then close_handle sx (dm_Read mgr) hs1 else (None, hs1)))"

section \<open>The Redis client\<close>

record redis_options =
  ro_Addr :: string
  ro_Username :: string
  ro_Password :: string
  ro_DB :: int
  ro_TLS12 :: bool

definition redis_client_options :: "redis_config \<Rightarrow> redis_options" where
  "redis_client_options cfg =
     \<lparr>ro_Addr = redis_Addr cfg, ro_Username = redis_Username cfg, ro_Password = redis_Password cfg,
      ro_DB = redis_DB cfg, ro_TLS12 = redis_TLS cfg\<rparr>"

definition redis_Connect :: "(redis_options \<Rightarrow> string option) \<Rightarrow> redis_config \<Rightarrow> string + redis_options" where
  "redis_Connect ping cfg =
     (let options = redis_client_options cfg
      in case ping options of Some e \<Rightarrow> Inl e | None \<Rightarrow> Inr options)"

text \<open>Whether \<open>main\<close> ends up with a client.\<close>

definition redis_up :: "(redis_options \<Rightarrow> string option) \<Rightarrow> redis_config \<Rightarrow> bool" where
  "redis_up ping cfg =
     (redis_Addr cfg \<noteq> [] \<and> (case redis_Connect ping cfg of Inl _ \<Rightarrow> False | Inr _ \<Rightarrow> True))"

text \<open>A client may be nil, and so may the library's client in it.\<close>

definition redis_Close :: "('n \<Rightarrow> 'w \<Rightarrow> string option \<times> 'w) \<Rightarrow> 'n option option \<Rightarrow> 'w \<Rightarrow> string option \<times> 'w" where
  "redis_Close close c w = (case c of Some (Some n) \<Rightarrow> close n w | _ \<Rightarrow> (None, w))"

section \<open>Monitoring and the OAuth stub\<close>

record sentry_options =
  so_Dsn :: string
  so_Release :: string
  so_Environment :: string
  so_TracesSampleRate :: real

definition InitSentry ::
  "(sentry_options \<Rightarrow> string option) \<Rightarrow> monitoring_config \<Rightarrow> app_config \<Rightarrow> string option" where
  "InitSentry init cfg app =
     (if mon_SentryDSN cfg = [] then None
      else init \<lparr>so_Dsn = mon_SentryDSN cfg, so_Release = app_Version app, so_Environment = app_Env app,
                 so_TracesSampleRate = mon_SentrySampleRate cfg\<rparr>)"

definition Flush :: "(duration \<Rightarrow> 'w \<Rightarrow> 'w) \<Rightarrow> 'w \<Rightarrow> 'w" where
  "Flush flush = flush (2 * nanos_per_second)"

text \<open>The collectors by their names, with the labels of each; \<open>MustRegister\<close> panics on a name that is
  registered already.\<close>

definition collectors :: "(string \<times> string list) list" where
  "collectors =
     [(''http_requests_total'', [''path'', ''method'', ''status'']),
      (''http_request_duration_seconds'', [''path'', ''method''])]"

definition Init :: "(string \<times> string list) list \<Rightarrow> (string \<times> string list) list option" where
  "Init registered =
     (if \<exists>c \<in> set collectors. fst c \<in> fst ` set registered then None else Some (registered @ collectors))"

definition GetAuthURL :: "string \<Rightarrow> string" where
  "GetAuthURL oauth_state = ''https://accounts.google.com/o/oauth2/v2/auth?state='' @ oauth_state"

definition Exchange :: "string \<Rightarrow> string + (string \<times> json) list" where
  "Exchange code =
     Inr [(''email'', JStr ''demo-google@kidpech.app''), (''name'', JStr ''Google Demo''),
          (''external_id'', JStr code)]"

section \<open>The server\<close>

text \<open>What the \<open>select\<close> sees first: the signal, and then how \<open>Shutdown\<close> ends, or the end of the listener.\<close>

datatype server_event = Interrupted "string option" | ListenerEnded "string option"

definition ErrServerClosed :: string where
  "ErrServerClosed = ''http: Server closed''"

definition Run :: "'e option \<Rightarrow> server_event \<Rightarrow> string option" where
  "Run eng ev =
     (case eng of
        None \<Rightarrow> Some ''engine not configured''
      | Some _ \<Rightarrow>
          (case ev of
             Interrupted (Some err) \<Rightarrow> Some err
           | Interrupted None \<Rightarrow> None
           | ListenerEnded err \<Rightarrow> if err \<noteq> None \<and> err \<noteq> Some ErrServerClosed then err else None))"

section \<open>\<open>main\<close>\<close>

record 'a main_libs =
  mn_config :: config_lib
  mn_sqlx :: sqlx_lib
  mn_zap :: zap_lib
  mn_ping :: "redis_options \<Rightarrow> string option"
  mn_sql :: sql_lib
  mn_jwt :: jwt_lib
  mn_user :: user_lib
  mn_profile :: profile_lib
  mn_http :: http_lib
  mn_round :: "real \<Rightarrow> real"
  mn_metrics :: "'a app_state_scheme handler"

definition redis_limiter_for ::
  "rate_limit_config \<Rightarrow> string \<Rightarrow> 'a redis_server_scheme redis_limiter" where
  "redis_limiter_for rl part =
     NewRedisLimiter ref_redis (rl_RequestsPerMinute rl) (rl_RedisPrefix rl @ part)"

definition main_limiters ::
  "(real \<Rightarrow> real) \<Rightarrow> rate_limit_config \<Rightarrow> bool \<Rightarrow> 'a app_state_scheme \<Rightarrow>
     ('a app_state_scheme allow option \<times> 'a app_state_scheme allow option) \<times> 'a app_state_scheme" where
  "main_limiters fl rl up w =
     (if \<not> rl_Enabled rl then ((None, None), w)
      else if up then
        ((Some (RedisAllow (redis_limiter_for rl '':ip'')), Some (RedisAllow (redis_limiter_for rl '':user''))), w)
      else
        (case NewMemoryLimiter (rl_RequestsPerMinute rl) (rl_Burst rl) 0 w of (m1, w1) \<Rightarrow>
         (case NewMemoryLimiter (rl_RequestsPerMinute rl) (rl_Burst rl) 1 w1 of (m2, w2) \<Rightarrow>
            ((Some (MemoryAllow fl m1), Some (MemoryAllow fl m2)), w2))))"

definition main_deps ::
  "'a main_libs \<Rightarrow> config \<Rightarrow> zap_logger \<Rightarrow> bool \<Rightarrow> 'a app_state_scheme \<Rightarrow>
     'a router_deps \<times> 'a app_state_scheme" where
  "main_deps libs cfg logger up w =
     (let w1 = w\<lparr>app_log := NewLogBuffer (diag_MaxLogLines (cfg_Diagnostics cfg))\<rparr>
      in case main_limiters (mn_round libs) (cfg_RateLimit cfg) up w1 of ((ipLimiter, userLimiter), w2) \<Rightarrow>
           (\<lparr>rd_Config = Some cfg,
             rd_Users = app_users (mn_sql libs) (cfg_Auth cfg) up (mn_jwt libs) (mn_user libs)
                          (sec_AllowRegistration (cfg_Security cfg)),
             rd_Profiles = app_profiles (mn_sql libs) (mn_profile libs),
             rd_AuthManager = Some (NewManager (cfg_Auth cfg) (redis_for up) (mn_jwt libs)),
             rd_Logger = Some logger, rd_LogBuffer = True, rd_IPLimiter = ipLimiter, rd_UserLimiter = userLimiter,
             rd_Metrics = mn_metrics libs, rd_Lib = mn_http libs\<rparr>, w2))"

text \<open>How the process ends. \<open>log.Fatalf\<close> and \<open>logger.Fatal\<close> leave without running the deferred calls.\<close>

datatype exit = LoadFailed config_error | LoggerFailed string | DatabaseFailed string | ServerFailed string | Stopped

text \<open>The deferred calls a return runs, the last first; that of Redis is deferred only with a client.\<close>

datatype deferred_call = CloseRedis | CloseDatabase | FlushSentry | SyncLogger | StopSignals

fun deferred :: "bool \<Rightarrow> exit \<Rightarrow> deferred_call list" where
  "deferred up Stopped =
     (if up then [CloseRedis] else []) @ [CloseDatabase, FlushSentry, SyncLogger, StopSignals]"
| "deferred up _ = []"

fun serve ::
  "'a router_deps \<Rightarrow> http_request list \<Rightarrow> 'a app_state_scheme \<Rightarrow> gin_context list \<times> 'a app_state_scheme" where
  "serve d [] w = ([], w)"
| "serve d (r # rs) w =
     (case ServeHTTP d r w of (c, w1) \<Rightarrow> (case serve d rs w1 of (cs, w2) \<Rightarrow> (c # cs, w2)))"

definition main ::
  "'a main_libs \<Rightarrow> environment \<Rightarrow> http_request list \<Rightarrow> server_event \<Rightarrow> db_handle list \<Rightarrow> 'a app_state_scheme \<Rightarrow>
     exit \<times> gin_context list \<times> db_handle list \<times> 'a app_state_scheme" where
  "main libs env rs ev hs w =
     (case Load (mn_config libs) env of
        Inl e \<Rightarrow> (LoadFailed e, [], hs, w)
      | Inr cfg \<Rightarrow>
          (case New (mn_zap libs) (app_Env (cfg_App cfg)) of
             Inl e \<Rightarrow> (LoggerFailed e, [], hs, w)
           | Inr logger \<Rightarrow>
               (case Connect (mn_sqlx libs) (cfg_Database cfg) hs of
                  (Inl e, hs1) \<Rightarrow> (DatabaseFailed e, [], hs1, w)
                | (Inr mgr, hs1) \<Rightarrow>
                    (case main_deps libs cfg logger (redis_up (mn_ping libs) (cfg_Redis cfg)) w of (d, w1) \<Rightarrow>
                     (case serve d rs w1 of (cs, w2) \<Rightarrow>
                        (case Run (Some (NewRouter d)) ev of
                           Some e \<Rightarrow> (ServerFailed e, cs, hs1, w2)
                         | None \<Rightarrow> (Stopped, cs, snd (Close (mn_sqlx libs) (Some mgr) hs1), w2)))))))"

end
