(* ===== verification/RateLimits.thy ===== *)
theory RateLimits
  imports RateLimiter UserProperties
begin

text \<open>
  The properties of the two limiters: the laws of the interface for both, what a burst gets from
  the one in memory, how retrying defeats it, and why the one over Redis refuses everything.
\<close>

section \<open>The laws of the interface\<close>

definition memory_ready :: "(real \<Rightarrow> real) \<Rightarrow> memory_limiter \<Rightarrow> bool" where
  "memory_ready fl m \<longleftrightarrow> binary64 fl \<and> 1 \<le> ml_limit m \<and> ml_limit m < 2 ^ 63"

lemma put_bucket_fields [simp]:
  "db_users (put_bucket a k b w) = db_users w" "db_profiles (put_bucket a k b w) = db_profiles w"
  "clock (put_bucket a k b w) = clock w" "clock_reads (put_bucket a k b w) = clock_reads w"
  "buckets (put_bucket a k b w) a' = (if a' = a then (buckets w a)(k \<mapsto> b) else buckets w a')"
  "buckets (tick v) = buckets v"
  by (simp_all add: put_bucket_def tick_def)

lemma tick_tables [simp]: "db_users (tick w) = db_users w" "db_profiles (tick w) = db_profiles w"
  by (simp_all add: tick_def)

interpretation mem: limiter "MemoryAllow fl m" "ml_limit m" "\<lambda>_. memory_ready fl m"
  for fl :: "real \<Rightarrow> real" and m :: memory_limiter
proof unfold_locales
  fix w w' :: "'a limiter_state_scheme" and i k
  assume ready: "memory_ready fl m" and run: "MemoryAllow fl m k w = (Inr i, w')"
  have rest: "0 \<le> fl (x - 1)" if "1 \<le> x" for x
    using binary64_mono [of fl 0 "x - 1"] binary64_int [of fl 0] ready that by (simp add: memory_ready_def)
  have "0 \<le> wrap64 (ml_limit m - 1)"
    using ready wrap64_id [of "ml_limit m - 1"] by (simp add: memory_ready_def)
  with run rest show "ri_Limit i = ml_limit m \<and> (if ri_Allowed i then 0 \<le> ri_Remaining i else ri_Remaining i = 0)"
    by (auto simp: MemoryAllow_def draws Let_def split: option.splits if_splits)
next
  fix w w' :: "'a limiter_state_scheme" and k r
  assume "MemoryAllow fl m k w = (r, w')"
  then show "db_users w' = db_users w \<and> db_profiles w' = db_profiles w"
    by (auto simp: MemoryAllow_def draws Let_def split: option.splits if_splits)
qed

interpretation redis: limiter "RedisAllow (NewRedisLimiter ref_redis l pre)" l "\<lambda>_. 1 \<le> l \<and> l < 2 ^ 63"
  for l :: int and pre :: string
proof unfold_locales
  fix w w' :: "'a database_scheme" and i k
  assume l: "1 \<le> l \<and> l < 2 ^ 63" and run: "RedisAllow (NewRedisLimiter ref_redis l pre) k w = (Inr i, w')"
  have "0 \<le> wrap64 (l - 1)" using l wrap64_id [of "l - 1"] by simp
  with run show "ri_Limit i = l \<and> (if ri_Allowed i then 0 \<le> ri_Remaining i else ri_Remaining i = 0)"
    by (auto simp: RedisAllow_def NewRedisLimiter_def draws Let_def
        split: prod.splits sum.splits option.splits redis_error.splits if_splits)
next
  fix w w' :: "'a database_scheme" and k r
  assume "RedisAllow (NewRedisLimiter ref_redis l pre) k w = (r, w')"
  then show "db_users w' = db_users w \<and> db_profiles w' = db_profiles w"
    by (auto simp: RedisAllow_def NewRedisLimiter_def ref_redis_def redis_defs draws Let_def
        split: prod.splits sum.splits option.splits redis_error.splits if_splits)
qed

section \<open>A burst\<close>

text \<open>One request, with the clock standing still.\<close>

lemma minutes_zero: "binary64 fl \<Longrightarrow> minutes fl 0 = 0"
  using binary64_int [of fl 0] by (simp add: minutes_def go_quot_def)

lemma refilled_now:
  assumes "binary64 fl" and "0 \<le> k" and "k \<le> ml_limit m + ml_burst m" and "ml_limit m + ml_burst m \<le> 2 ^ 53"
  shows "refilled fl m t \<lparr>bk_tokens = of_int k, bk_last = t\<rparr> = of_int k"
proof -
  have "wrap64 (ml_limit m + ml_burst m) = ml_limit m + ml_burst m" using assms by (auto intro!: wrap64_id)
  then show ?thesis
    using assms binary64_int [OF assms(1), of k] binary64_int [OF assms(1), of 0]
      binary64_int [OF assms(1), of "ml_limit m + ml_burst m"]
    by (auto simp: refilled_def time_sub_def minutes_zero min_float_def)
qed

lemma burst_step:
  assumes fl: "binary64 fl" and cap: "0 \<le> k" "k \<le> ml_limit m + ml_burst m" "ml_limit m + ml_burst m \<le> 2 ^ 53"
    and clock: "\<forall>n. clock w n = t" and b: "buckets w (ml_store m) key = Some \<lparr>bk_tokens = of_int k, bk_last = t\<rparr>"
  shows "\<exists>i w'. MemoryAllow fl m key w = (Inr i, w') \<and> (ri_Allowed i \<longleftrightarrow> 0 < k) \<and> (\<forall>n. clock w' n = t)
    \<and> buckets w' (ml_store m) key = Some \<lparr>bk_tokens = of_int (max 0 (k - 1)), bk_last = t\<rparr>"
proof -
  have r: "refilled fl m t \<lparr>bk_tokens = of_int k, bk_last = t\<rparr> = of_int k" by (rule refilled_now [OF fl cap])
  have one: "1 \<le> (of_int k :: real) \<longleftrightarrow> 0 < k" by linarith
  have rest: "fl (of_int k - 1) = of_int (k - 1)" if "0 < k"
    using binary64_int [OF fl, of "k - 1"] that cap by simp
  show ?thesis
    using clock b r one rest cap(1)
    by (cases "0 < k") (simp_all add: MemoryAllow_def draws Let_def)
qed

lemma burst_run:
  assumes fl: "binary64 fl" and cap: "ml_limit m + ml_burst m \<le> 2 ^ 53"
  shows "0 \<le> k \<Longrightarrow> k \<le> ml_limit m + ml_burst m \<Longrightarrow> \<forall>n. clock w n = t \<Longrightarrow>
    buckets w (ml_store m) key = Some \<lparr>bk_tokens = of_int k, bk_last = t\<rparr> \<Longrightarrow>
    map (map_sum (\<lambda>_. ()) ri_Allowed) (answers (MemoryAllow fl m) (replicate n key) w)
      = map (\<lambda>j. Inr (int j < k)) [0..<n]"
proof (induction n arbitrary: k w)
  case (Suc n)
  obtain i w' where s: "MemoryAllow fl m key w = (Inr i, w')" "ri_Allowed i \<longleftrightarrow> 0 < k" "\<forall>n. clock w' n = t"
      "buckets w' (ml_store m) key = Some \<lparr>bk_tokens = of_int (max 0 (k - 1)), bk_last = t\<rparr>"
    using burst_step [OF fl Suc.prems(1,2) cap Suc.prems(3,4)] by blast
  have "map (map_sum (\<lambda>_. ()) ri_Allowed) (answers (MemoryAllow fl m) (replicate n key) w')
      = map (\<lambda>j. Inr (int j < max 0 (k - 1))) [0..<n]"
    using Suc.IH [OF _ _ s(3,4)] Suc.prems(1,2) by simp
  also have "\<dots> = map (\<lambda>j. Inr (int (Suc j) < k)) [0..<n]" using Suc.prems(1) by auto
  finally show ?case
    using s(1,2) by (simp add: upt_conv_Cons map_Suc_upt [symmetric] comp_def del: upt_Suc)
qed simp

text \<open>C32 (a burst gets limit plus burst). Of any number of requests of one new client that arrive at one
  instant, the limiter in memory admits the first \<open>limit + burst\<close> and refuses the rest.\<close>

theorem memory_burst:
  assumes "binary64 fl" and "1 \<le> ml_limit m" and "0 \<le> ml_burst m" and "ml_limit m + ml_burst m \<le> 2 ^ 53"
    and "\<forall>n. clock w n = t" and "buckets w (ml_store m) key = None"
  shows "map (map_sum (\<lambda>_. ()) ri_Allowed) (answers (MemoryAllow fl m) (replicate n key) w)
    = map (\<lambda>j. Inr (int j < ml_limit m + ml_burst m)) [0..<n]"
proof (cases n)
  case (Suc n')
  let ?c = "ml_limit m + ml_burst m"
  have "wrap64 (?c - 1) = ?c - 1" using assms(2-4) by (auto intro!: wrap64_id)
  then have tokens: "fl (of_int (wrap64 (?c - 1))) = of_int (?c - 1)"
    using binary64_int [OF assms(1), of "?c - 1"] assms(2-4) by simp
  obtain i w' where s: "MemoryAllow fl m key w = (Inr i, w')" "ri_Allowed i" "\<forall>n. clock w' n = t"
      "buckets w' (ml_store m) key = Some \<lparr>bk_tokens = of_int (?c - 1), bk_last = t\<rparr>"
    using assms(5,6) tokens by (simp add: MemoryAllow_def draws)
  have "map (map_sum (\<lambda>_. ()) ri_Allowed) (answers (MemoryAllow fl m) (replicate n' key) w')
      = map (\<lambda>j. Inr (int j < ?c - 1)) [0..<n']"
    using burst_run [OF assms(1,4) _ _ s(3,4)] assms(2,3) by simp
  also have "\<dots> = map (\<lambda>j. Inr (int (Suc j) < ?c)) [0..<n']" by auto
  finally show ?thesis
    using s(1,2) Suc assms(2,3) by (simp add: upt_conv_Cons map_Suc_upt [symmetric] comp_def del: upt_Suc)
qed simp

definition sample_limits :: "(nat \<Rightarrow> timestamp) \<Rightarrow> (string \<Rightarrow> bucket option) \<Rightarrow> limiter_state" where
  "sample_limits c bs =
     \<lparr>clock = c, clock_reads = 0, uuid_source = of_nat, uuids_drawn = 0, salts_drawn = 0,
      redis_data = Map.empty, redis_faults = Map.empty, redis_calls = 0, memoryTokens = Map.empty,
      db_users = [], db_profiles = [], db_faults = Map.empty, db_stmts = 0, buckets = (\<lambda>_. bs)\<rparr>"

lemma sample_limits_fields [simp]:
  "clock (sample_limits c bs) = c" "buckets (sample_limits c bs) a = bs"
  by (simp_all add: sample_limits_def)

theorem memory_burst_witness:
  "map (map_sum (\<lambda>_. ()) ri_Allowed)
     (answers (MemoryAllow (\<lambda>x. x) \<lparr>ml_limit = 2, ml_burst = 1, ml_store = 0\<rparr>) (replicate 4 ''ip:::1'')
        (sample_limits (\<lambda>_. 0) Map.empty))
   = [Inr True, Inr True, Inr True, Inr False]"
  using memory_burst [of "\<lambda>x. x" "\<lparr>ml_limit = 2, ml_burst = 1, ml_store = 0\<rparr>" "sample_limits (\<lambda>_. 0) Map.empty" 0
      "''ip:::1''" 4]
  by (simp add: upt_rec)

section \<open>Retrying\<close>

text \<open>The fraction \<open>1 / 2 ^ j\<close> of a minute is a whole number of nanoseconds up to \<open>j = 11\<close>.\<close>

lemma minute_split:
  assumes "j \<le> 11"
  shows "\<exists>d. nanos_per_minute = 2 ^ j * d \<and> nanos_per_minute div 2 ^ j = d \<and> 0 < d \<and> d \<le> 60000000000"
proof -
  have "(2::int) ^ 11 = 2 ^ j * 2 ^ (11 - j)" using assms by (simp flip: power_add)
  then have eq: "nanos_per_minute = 2 ^ j * (2 ^ (11 - j) * 29296875)" by (simp add: nanos_defs)
  moreover have "nanos_per_minute div 2 ^ j = 2 ^ (11 - j) * 29296875" unfolding eq by simp
  moreover have "(2::int) ^ (11 - j) \<le> 2 ^ 11" by (rule power_increasing) simp_all
  ultimately show ?thesis by (intro exI [of _ "2 ^ (11 - j) * 29296875"]) simp
qed

lemma minutes_fraction:
  assumes fl: "binary64 fl" and j: "1 \<le> j" "j \<le> 11"
  shows "minutes fl (nanos_per_minute div 2 ^ j) = 1 / 2 ^ j"
proof -
  obtain d where d: "nanos_per_minute = 2 ^ j * d" "0 < d" "d \<le> 60000000000" "nanos_per_minute div 2 ^ j = d" using minute_split [OF j(2)] by blast
  have two: "(2::int) \<le> 2 ^ j" using power_increasing [of 1 j "2::int"] j(1) by simp
  have "d < 2 ^ j * d" using two d(2) by (simp add: mult_less_cancel_right1)
  then have "go_quot d nanos_per_minute = 0" using d by (simp add: go_quot_def)
  moreover have "(of_int d / of_int nanos_per_minute :: real) = 1 / 2 ^ j"
    unfolding d(1) using d(2) by simp
  moreover have "fl (of_int d) = of_int d" "fl (of_int 0) = of_int 0"
    using binary64_int [OF fl, of d] binary64_int [OF fl, of 0] d(2,3) by simp_all
  moreover have "fl (1 / 2 ^ j) = 1 / 2 ^ j" using binary64_frac [OF fl, of 1 j] j(2) by simp
  ultimately show ?thesis by (simp add: minutes_def d(4))
qed

lemma refilled_retry:
  fixes t :: timestamp and k :: int
  assumes fl: "binary64 fl" and j: "1 \<le> j" "j \<le> 11"
    and lim: "1 \<le> ml_limit m" "ml_limit m \<le> 2 ^ 20" "0 \<le> ml_burst m" "ml_limit m + ml_burst m \<le> 2 ^ 53"
    and k: "0 \<le> k" "k < 2 ^ j"
    and x_def: "x = refilled fl m (t + nanos_per_minute div 2 ^ j) \<lparr>bk_tokens = of_int k / 2 ^ j, bk_last = t\<rparr>"
  shows "if k + ml_limit m < 2 ^ j then x = of_int (k + ml_limit m) / 2 ^ j else 1 \<le> x"
proof -
  have pow: "(0::int) < 2 ^ j" "(2::int) ^ j \<le> 2 ^ 11" using power_increasing [of j 11 "2::int"] j by simp_all
  have "0 \<le> nanos_per_minute div 2 ^ j" "nanos_per_minute div 2 ^ j \<le> 60000000000"
    using minute_split [OF j(2)] by auto
  then have sub: "time_sub (t + nanos_per_minute div 2 ^ j) t = nanos_per_minute div 2 ^ j"
    by (simp add: time_sub_def)
  have L: "fl (of_int (ml_limit m)) = of_int (ml_limit m)" using binary64_int [OF fl, of "ml_limit m"] lim by simp
  have step: "fl (of_int (ml_limit m) / 2 ^ j) = of_int (ml_limit m) / 2 ^ j"
    using binary64_frac [OF fl, of "ml_limit m" j] lim(1,2) j(2) by simp
  have "fl (of_int (k + ml_limit m) / 2 ^ j) = of_int (k + ml_limit m) / 2 ^ j"
    using binary64_frac [OF fl, of "k + ml_limit m" j] lim(1,2) k pow j(2) by simp
  moreover have "wrap64 (ml_limit m + ml_burst m) = ml_limit m + ml_burst m"
    using lim by (auto intro!: wrap64_id)
  moreover have "fl (of_int (ml_limit m + ml_burst m)) = of_int (ml_limit m + ml_burst m)"
    using binary64_int [OF fl, of "ml_limit m + ml_burst m"] lim by simp
  ultimately have x: "x = min_float (of_int (ml_limit m + ml_burst m)) (of_int (k + ml_limit m) / 2 ^ j)"
    using step L by (simp add: x_def refilled_def sub minutes_fraction [OF fl j] add_divide_distrib)
  have one: "1 \<le> (of_int (ml_limit m + ml_burst m) :: real)" using lim(1,3) by linarith
  have frac: "(of_int (k + ml_limit m) :: real) / 2 ^ j < 1 \<longleftrightarrow> k + ml_limit m < 2 ^ j"
    using of_int_less_iff [of "k + ml_limit m" "2 ^ j", where 'a = real] by (simp add: field_simps del: of_int_less_iff)
  show ?thesis
  proof (cases "k + ml_limit m < 2 ^ j")
    case True
    with one frac have "\<not> of_int (ml_limit m + ml_burst m) < (of_int (k + ml_limit m) :: real) / 2 ^ j" by linarith
    with x True show ?thesis unfolding min_float_def by simp
  next
    case False
    with frac have "1 \<le> (of_int (k + ml_limit m) :: real) / 2 ^ j" by linarith
    with x False one show ?thesis unfolding min_float_def by simp
  qed
qed

lemma retry_run:
  assumes fl: "binary64 fl" and j: "1 \<le> j" "j \<le> 11"
    and lim: "1 \<le> ml_limit m" "ml_limit m \<le> 2 ^ 20" "0 \<le> ml_burst m" "ml_limit m + ml_burst m \<le> 2 ^ 53"
  shows "0 \<le> k \<Longrightarrow> k < 2 ^ j \<Longrightarrow> 2 ^ j \<le> k + int n * ml_limit m \<Longrightarrow>
    \<forall>i. clock w i = t + nanos_per_minute div 2 ^ j \<Longrightarrow>
    buckets w (ml_store m) key = Some \<lparr>bk_tokens = of_int k / 2 ^ j, bk_last = t\<rparr> \<Longrightarrow>
    \<exists>i. Inr i \<in> set (answers (MemoryAllow fl m) (replicate n key) w) \<and> ri_Allowed i"
proof (induction n arbitrary: k w)
  case (Suc n)
  let ?b = "\<lparr>bk_tokens = of_int k / 2 ^ j, bk_last = t\<rparr>"
  let ?x = "refilled fl m (t + nanos_per_minute div 2 ^ j) ?b"
  note x = refilled_retry [OF fl j lim Suc.prems(1,2) refl, of t]
  show ?case
  proof (cases "k + ml_limit m < 2 ^ j")
    case False
    then show ?thesis
      using x Suc.prems(4,5) by (simp add: MemoryAllow_def draws Let_def) fastforce
  next
    case True
    then have x': "?x = of_int (k + ml_limit m) / 2 ^ j" using x by simp
    have less: "\<not> 1 \<le> (of_int (k + ml_limit m) :: real) / 2 ^ j"
      using True of_int_less_iff [of "k + ml_limit m" "2 ^ j", where 'a = real]
      by (simp add: field_simps del: of_int_less_iff)
    let ?w = "put_bucket (ml_store m) key \<lparr>bk_tokens = of_int (k + ml_limit m) / 2 ^ j, bk_last = t\<rparr> (tick w)"
    have "snd (MemoryAllow fl m key w) = ?w"
      using Suc.prems(4,5) x' less by (simp add: MemoryAllow_def draws Let_def)
    moreover have "\<exists>i. Inr i \<in> set (answers (MemoryAllow fl m) (replicate n key) ?w) \<and> ri_Allowed i"
      by (rule Suc.IH [of "k + ml_limit m"]) (use Suc.prems True lim(1) in \<open>simp_all add: algebra_simps\<close>)
    ultimately show ?thesis by (cases "MemoryAllow fl m key w") auto
  qed
qed simp

text \<open>C33 (retrying defeats the limit). A refused request adds the tokens of the time since the last
  admitted one but does not move that time, so the next one adds them again: a client with no
  token left that waits only the fraction \<open>1 / 2 ^ j\<close> of a minute (29 ms for \<open>j = 11\<close>) and then
  repeats its request at that instant \<open>n\<close> times, \<open>n * limit \<ge> 2 ^ j\<close>, is admitted, whatever the
  limit is. A token bucket would have refilled less than one token.\<close>

theorem retry_defeats_limit:
  assumes "binary64 fl" and "1 \<le> j" and "j \<le> 11"
    and "1 \<le> ml_limit m" and "ml_limit m \<le> 2 ^ 20" and "0 \<le> ml_burst m" and "ml_limit m + ml_burst m \<le> 2 ^ 53"
    and "buckets w (ml_store m) key = Some \<lparr>bk_tokens = 0, bk_last = t\<rparr>"
    and "\<forall>i. clock w i = t + nanos_per_minute div 2 ^ j" and "2 ^ j \<le> int n * ml_limit m"
  shows "\<exists>i. Inr i \<in> set (answers (MemoryAllow fl m) (replicate n key) w) \<and> ri_Allowed i"
  using retry_run [OF assms(1-7), of 0 n w t key] assms(8-10) by simp

theorem retry_defeats_limit_witness:
  "\<exists>i. Inr i \<in> set (answers (MemoryAllow (\<lambda>x. x) \<lparr>ml_limit = 1, ml_burst = 0, ml_store = 0\<rparr>) (replicate 2048 ''ip:::1'')
     (sample_limits (\<lambda>_. nanos_per_minute div 2 ^ 11) [''ip:::1'' \<mapsto> \<lparr>bk_tokens = 0, bk_last = 0\<rparr>])) \<and> ri_Allowed i"
  using retry_defeats_limit [of "\<lambda>x. x" 11 "\<lparr>ml_limit = 1, ml_burst = 0, ml_store = 0\<rparr>"
      "sample_limits (\<lambda>_. nanos_per_minute div 2 ^ 11) [''ip:::1'' \<mapsto> \<lparr>bk_tokens = 0, bk_last = 0\<rparr>]" "''ip:::1''" 0 2048]
  by simp

section \<open>The limiter over Redis\<close>

text \<open>What the program relies on: \<open>DECR\<close> as documented, and keys only expire as time passes.\<close>

definition clock_forward :: "'a runtime_scheme \<Rightarrow> bool" where
  "clock_forward w \<longleftrightarrow> (\<forall>n. clock w n \<le> clock w (Suc n))"

definition documented_counter ::
  "'a runtime_scheme redis_client \<Rightarrow> ('a runtime_scheme \<Rightarrow> string \<Rightarrow> int option) \<Rightarrow> bool" where
  "documented_counter rc cnt \<longleftrightarrow>
     documented_decr rc cnt \<and> (\<forall>k w. clock (snd (rc_Decr rc k w)) = clock w)
     \<and> (\<forall>w k. clock_forward w \<longrightarrow> cnt (tick w) k \<in> {None, cnt w k})"

definition none_left :: "('w \<Rightarrow> string \<Rightarrow> int option) \<Rightarrow> 'w \<Rightarrow> bool" where
  "none_left cnt w \<longleftrightarrow> (\<forall>k v. cnt w k = Some v \<longrightarrow> v \<le> 0)"

lemma none_left_tick:
  "documented_counter rc cnt \<Longrightarrow> clock_forward w \<Longrightarrow> none_left cnt w \<Longrightarrow> none_left cnt (tick w)"
  unfolding none_left_def documented_counter_def by (metis insertE option.distinct(1) singletonD)

lemma redis_refuses:
  assumes doc: "documented_counter (rd_client r) cnt" and w: "none_left cnt w" "clock_forward w"
    and run: "RedisAllow r key w = (a, w')"
  shows "none_left cnt w' \<and> clock_forward w' \<and> (\<forall>i. a = Inr i \<longrightarrow> \<not> ri_Allowed i)"
proof -
  let ?k = "rd_prefix r @ '':'' @ key"
  obtain x w1 where x: "rc_Decr (rd_client r) ?k w = (x, w1)" by (cases "rc_Decr (rd_client r) ?k w")
  have decr: "documented_decr (rd_client r) cnt" and "clock w1 = clock w"
    using doc x unfolding documented_counter_def by (blast, metis snd_conv)
  then have fwd: "clock_forward w1" "clock_forward (tick w1)" using w(2) by (simp_all add: clock_forward_def)
  note law = decr [unfolded documented_decr_def, rule_format, of w ?k, unfolded x]
  show ?thesis
  proof (cases x)
    case (Inl e)
    then obtain m where "e = RedisFailure m" using law by (cases e) auto
    with Inl run x law w fwd show ?thesis by (auto simp: RedisAllow_def none_left_def)
  next
    case (Inr n)
    with law have n: "n = (case cnt w ?k of None \<Rightarrow> 0 | Some v \<Rightarrow> v) - 1" "cnt w1 = (cnt w)(?k \<mapsto> n)" by auto
    then have "n < 0" using w(1) unfolding none_left_def by (fastforce split: option.splits)
    moreover from this have "none_left cnt w1" using n(2) w by (auto simp: none_left_def)
    then have "none_left cnt (tick w1)" using none_left_tick [OF doc fwd(1)] by blast
    ultimately show ?thesis using run x Inr fwd by (auto simp: RedisAllow_def draws Let_def)
  qed
qed

text \<open>The limiter over Redis admits nobody: \<open>DECR\<close> of a key that does not exist replies \<open>-1\<close> and never
  nil, so the branch that would set the counter is dead: from a Redis that holds no positive
  counter, as a new one, no sequence of requests of any clients gets one admission.\<close>

theorem redis_limiter_denies:
  assumes "documented_counter (rd_client r) cnt" and "none_left cnt w" and "clock_forward w"
  shows "\<forall>i. Inr i \<in> set (answers (RedisAllow r) keys w) \<longrightarrow> \<not> ri_Allowed i"
  using assms(2,3)
proof (induction keys arbitrary: w)
  case (Cons key keys)
  obtain a w1 where a: "RedisAllow r key w = (a, w1)" by (cases "RedisAllow r key w")
  note d = redis_refuses [OF assms(1) Cons.prems a]
  then have "none_left cnt w1" "clock_forward w1" by blast+
  from Cons.IH [OF this] d a show ?case by auto
qed simp

lemma redis_get_tick:
  assumes "clock_forward w"
  shows "redis_get (tick w) k = None \<or> redis_get (tick w) k = redis_get w k"
proof -
  have "redis_data (tick w) = redis_data w" by (simp add: tick_def)
  moreover have "redis_time w \<le> redis_time (tick w)"
    using assms by (simp add: redis_time_def clock_forward_def)
  moreover have "entry_at b x = None \<or> entry_at b x = entry_at a x" if "a \<le> b" for a b x
    using that by (cases "(a, x)" rule: entry_at.cases) auto
  ultimately show ?thesis by (simp add: redis_get_def)
qed

lemma ref_documented_counter: "documented_counter ref_redis redis_count"
proof -
  have "clock (snd (rc_Decr ref_redis k w)) = clock w" for k and w :: "'a redis_server_scheme"
    by (simp add: ref_redis_def redis_defs Let_def split: option.split prod.split)
  moreover have "redis_count (tick w) k \<in> {None, redis_count w k}" if "clock_forward w"
    for k and w :: "'a redis_server_scheme"
    using redis_get_tick [OF that, of k] by (auto simp: redis_count_def)
  ultimately show ?thesis using ref_redis_documented_decr by (auto simp: documented_counter_def)
qed

theorem redis_limiter_denies_witness:
  "\<exists>i. answers (RedisAllow (NewRedisLimiter ref_redis 60 ''ratelimit:ip'')) [''ip:::1''] (sample_db [] []) = [Inr i]
     \<and> \<not> ri_Allowed i"
proof -
  let ?r = "NewRedisLimiter ref_redis 60 ''ratelimit:ip'' :: database redis_limiter" and ?w = "sample_db [] []"
  have "none_left redis_count ?w" "clock_forward ?w"
    by (simp_all add: none_left_def redis_count_def redis_get_def sample_db_def clock_forward_def)
  moreover have "documented_counter (rd_client ?r) redis_count"
    using ref_documented_counter by (simp add: NewRedisLimiter_def)
  moreover have "\<exists>i. answers (RedisAllow ?r) [''ip:::1''] ?w = [Inr i]"
    by (simp add: RedisAllow_def NewRedisLimiter_def ref_redis_def redis_defs sample_db_def draws
        in_int64_def Let_def)
  then obtain i where i: "answers (RedisAllow ?r) [''ip:::1''] ?w = [Inr i]" by blast
  ultimately show ?thesis
    using redis_limiter_denies [of ?r redis_count ?w "[''ip:::1'']"] unfolding i by simp
qed

end
