(* ===== verification/HttpFrame.thy ===== *)
theory HttpFrame
  imports Router ProfileAccess RateLimits
begin

text \<open>
  How the chain of middlewares carries a property of the handlers over to the server. \<open>yields P R h\<close>
  says that \<open>h\<close>, called in a context with \<open>P\<close>, ends in a context and with tables that \<open>R\<close> relates
  to the tables before. The locale \<open>chain\<close> proves once, for any such \<open>P\<close> and \<open>R\<close>, that each
  middleware passes this on from the rest of the chain to itself.
\<close>

section \<open>What a handler yields\<close>

type_synonym tables = "user_row list \<times> profile list"

definition tables :: "'a database_scheme \<Rightarrow> tables" where
  "tables w = (db_users w, db_profiles w)"

definition yields ::
  "(gin_context \<Rightarrow> bool) \<Rightarrow> (gin_context \<Rightarrow> tables \<Rightarrow> tables \<Rightarrow> bool) \<Rightarrow> 'a database_scheme handler \<Rightarrow> bool" where
  "yields P R h \<longleftrightarrow> (\<forall>c w. P c \<longrightarrow> R (fst (h c w)) (tables w) (tables (snd (h c w))))"

lemma yieldsI: "(\<And>c w. P c \<Longrightarrow> R (fst (h c w)) (tables w) (tables (snd (h c w)))) \<Longrightarrow> yields P R h"
  by (simp add: yields_def)

lemma yieldsD: "yields P R h \<Longrightarrow> P c \<Longrightarrow> R (fst (h c w)) (tables w) (tables (snd (h c w)))"
  by (simp add: yields_def)

lemma tables_simps [simp]:
  "tables (w\<lparr>clock_reads := n\<rparr>) = tables w" "tables (w\<lparr>uuids_drawn := n\<rparr>) = tables w"
  "tables (tick w) = tables w" "tables (draw w) = tables w"
  "tables (v\<lparr>app_log := b\<rparr>) = tables v" "tables (log_request lg c0 c1 path lat v) = tables v" "tables (v\<lparr>app_requests := r, app_latencies := l\<rparr>) = tables v"
  for v :: "'a app_state_scheme"
  by (simp_all add: tables_def tick_def draw_def log_request_def Let_def)

text \<open>A limiter that does not touch the tables, as both do by their laws.\<close>

definition quiet :: "'a database_scheme allow option \<Rightarrow> bool" where
  "quiet lm \<longleftrightarrow> (\<forall>allow k w. lm = Some allow \<longrightarrow> tables (snd (allow k w)) = tables w)"

lemma quietI:
  assumes "\<And>k w r w'. allow k w = (r, w') \<Longrightarrow> db_users w' = db_users w \<and> db_profiles w' = db_profiles w"
  shows "quiet (Some allow)"
  unfolding quiet_def tables_def
proof (intro allI impI)
  fix allow' k w assume "Some allow = Some allow'"
  then show "(db_users (snd (allow' k w)), db_profiles (snd (allow' k w))) = (db_users w, db_profiles w)"
    using assms [of k w] by (cases "allow k w") simp
qed

lemma quiet_memory: "quiet (Some (MemoryAllow fl m))"
  by (rule quietI) (rule mem.table_law)

lemma quiet_redis: "quiet (Some (RedisAllow (NewRedisLimiter ref_redis l pre)))"
  by (rule quietI) (rule redis.table_law)

text \<open>What a limiter changes does not matter to \<open>R\<close>.\<close>

definition unnoticed ::
  "(gin_context \<Rightarrow> tables \<Rightarrow> tables \<Rightarrow> bool) \<Rightarrow> 'a database_scheme allow option \<Rightarrow> bool" where
  "unnoticed R lm \<longleftrightarrow> (\<forall>allow k w c t. lm = Some allow \<longrightarrow> R c (tables (snd (allow k w))) t \<longrightarrow> R c (tables w) t)"

lemma quiet_unnoticed: "quiet lm \<Longrightarrow> unnoticed R lm"
  by (simp add: quiet_def unnoticed_def)

lemma quiet_none [simp]: "quiet None"
  by (simp add: quiet_def)

lemma parse_tables_same: "ParseAccessToken m t w = (r, w') \<Longrightarrow> tables w' = tables w"
  for w :: "'a database_scheme"
  by (simp add: ParseAccessToken_def) (drule parse_tables, simp add: same_tables_def tables_def)

lemma setHeaders_same:
  fixes w :: "'a database_scheme"
  assumes "setHeaders info c w = (c', w')"
  shows "tables w' = tables w" and "gc_request c' = gc_request c" and "gc_values c' = gc_values c"
    and "gc_replies c' = gc_replies c"
  using assms by (auto simp: setHeaders_def draws Let_def tables_def split: if_splits)

lemma TooManyRequests_same:
  fixes w :: "'a database_scheme"
  assumes "TooManyRequests t c w = (c', w')"
  shows "\<exists>c1 j. tables w' = tables w \<and> c' = c_JSON 429 j c1 \<and> gc_request c1 = gc_request c
    \<and> gc_values c1 = gc_values c \<and> gc_replies c1 = gc_replies c"
  using assms
  by (intro exI [of _ "c_Header ''X-RateLimit-Reset'' (itoa (unix_seconds t))
        (c_Header ''Retry-After'' (itoa (max 0 (duration_seconds (t - fst (time_now w))))) c)"]
      exI [of _ "error_body ''rate_limited'' ''slow down''"])
    (auto simp: TooManyRequests_def draws Let_def tables_def)

section \<open>The chain\<close>

text \<open>\<open>P\<close> survives a change of the headers and the identifier of the request; \<open>R\<close> holds of the
  answers the middlewares give in place of the chain and of what a panic of the logger leaves.\<close>

locale chain =
  fixes P :: "gin_context \<Rightarrow> bool" and R :: "gin_context \<Rightarrow> tables \<Rightarrow> tables \<Rightarrow> bool"
  assumes stable: "P c \<Longrightarrow> gc_request c' = gc_request c \<Longrightarrow> gc_replies c' = gc_replies c \<Longrightarrow>
      gc_values c' ''user_id'' = gc_values c ''user_id'' \<Longrightarrow> P c'"
    and refuse: "P c \<Longrightarrow> code \<in> {401, 429} \<Longrightarrow> R (c_Abort (c_JSON code j c)) t t"
    and preflight: "P c \<Longrightarrow> rq_Method (gc_request c) = ''OPTIONS'' \<Longrightarrow> R (c_Abort (c_Status 204 c)) t t"
    and panics: "R c t t' \<Longrightarrow> R (panicking c) t t'"
    and recovers: "R c t t' \<Longrightarrow> gc_panicked c \<Longrightarrow> R (recovered c) t t'"
begin

lemma yields_RequestID:
  fixes k :: "'a database_scheme handler"
  assumes k: "yields P R k"
  shows "yields P R (RequestID hl k)"
proof (rule yieldsI)
  fix c and w :: "'a database_scheme" assume "P c"
  then have c: "P (c_Header ''X-Request-ID'' i (c_Set ''request_id'' (CString i) c))" for i
    by (rule stable) simp_all
  show "R (fst (RequestID hl k c w)) (tables w) (tables (snd (RequestID hl k c w)))"
    using yieldsD [OF k c, where w = w] yieldsD [OF k c, where w = "draw w"]
    by (auto simp: RequestID_def draws Let_def)
qed

lemma yields_CORS:
  assumes k: "yields P R k"
  shows "yields P R (CORS cfg k)"
proof (rule yieldsI)
  fix c w assume c: "P c"
  obtain c2 where same: "gc_request c2 = gc_request c" "gc_values c2 = gc_values c" "gc_replies c2 = gc_replies c"
    and run: "CORS cfg k c w = (if rq_Method (gc_request c2) = ''OPTIONS'' then (c_Abort (c_Status 204 c2), w) else k c2 w)"
    by (rule that [OF _ _ _ CORS_def [unfolded Let_def]]) simp_all
  have "P c2" using c same by (rule_tac stable) simp_all
  then show "R (fst (CORS cfg k c w)) (tables w) (tables (snd (CORS cfg k c w)))"
    using preflight yieldsD [OF k] by (simp add: run)
qed

lemma yields_OptionalAuth:
  fixes k :: "'a database_scheme handler"
  assumes k: "yields P R k"
    and P: "\<And>c cl (w :: 'a database_scheme) w'. P c \<Longrightarrow> ParseAccessToken m (extractBearer (c_GetHeader c ''Authorization'')) w = (Inr cl, w') \<Longrightarrow>
      P (set_claims cl c)"
  shows "yields P R (OptionalAuth m k)"
proof (rule yieldsI)
  fix c and w :: "'a database_scheme" assume c: "P c"
  obtain r w1 where r: "ParseAccessToken m (extractBearer (c_GetHeader c ''Authorization'')) w = (r, w1)"
    by (cases "ParseAccessToken m (extractBearer (c_GetHeader c ''Authorization'')) w")
  then show "R (fst (OptionalAuth m k c w)) (tables w) (tables (snd (OptionalAuth m k c w)))"
    using parse_tables_same [OF r] yieldsD [OF k c, of w] yieldsD [OF k c, of w1]
      yieldsD [OF k P [OF c], where w = w1]
    by (cases r) (auto simp: OptionalAuth_def Let_def)
qed

lemma yields_AuthMiddleware:
  fixes k :: "'a database_scheme handler"
  assumes k: "\<And>c cl (w :: 'a database_scheme) w'. P c \<Longrightarrow>
      ParseAccessToken m (extractBearer (c_GetHeader c ''Authorization'')) w = (Inr cl, w') \<Longrightarrow>
      R (fst (k (set_claims cl c) w')) (tables w') (tables (snd (k (set_claims cl c) w')))"
  shows "yields P R (AuthMiddleware m k)"
proof (rule yieldsI)
  fix c and w :: "'a database_scheme" assume c: "P c"
  obtain r w1 where r: "ParseAccessToken m (extractBearer (c_GetHeader c ''Authorization'')) w = (r, w1)"
    by (cases "ParseAccessToken m (extractBearer (c_GetHeader c ''Authorization'')) w")
  then show "R (fst (AuthMiddleware m k c w)) (tables w) (tables (snd (AuthMiddleware m k c w)))"
    using parse_tables_same [OF r] k [OF c, of w] refuse [OF c, of 401]
    by (cases r) (auto simp: AuthMiddleware_def Unauthorized_def Let_def)
qed

lemma yields_check_limit:
  fixes k :: "'a database_scheme handler"
  assumes k: "yields P R k" and lm: "unnoticed R lm"
  shows "yields P R (check_limit lm key k)"
proof (rule yieldsI)
  fix c and w :: "'a database_scheme" assume c: "P c"
  show "R (fst (check_limit lm key k c w)) (tables w) (tables (snd (check_limit lm key k c w)))"
  proof (cases lm)
    case None
    then show ?thesis using yieldsD [OF k c] by (simp add: check_limit_def)
  next
    case (Some allow)
    obtain r w1 where r: "allow key w = (r, w1)" by (cases "allow key w")
    have w1: "R c' (tables w) t" if "R c' (tables w1) t" for c' t
      using lm Some r that unfolding unnoticed_def by (metis snd_conv)
    show ?thesis
    proof (cases r)
      case (Inl e)
      then show ?thesis using Some r w1 yieldsD [OF k c, of w1] by (simp add: check_limit_def)
    next
      case (Inr info)
      obtain c1 w2 where h: "setHeaders info c w1 = (c1, w2)" by (cases "setHeaders info c w1")
      obtain c2 w3 where t: "TooManyRequests (ri_Reset info) c1 w2 = (c2, w3)"
        by (cases "TooManyRequests (ri_Reset info) c1 w2")
      note h' = setHeaders_same [OF h]
      obtain c3 j where t': "tables w3 = tables w2" "c2 = c_JSON 429 j c3" "gc_request c3 = gc_request c1"
          "gc_values c3 = gc_values c1" "gc_replies c3 = gc_replies c1"
        using TooManyRequests_same [OF t] by blast
      have "P c1" by (rule stable [OF c]) (simp_all add: h')
      moreover have "P c3" by (rule stable [OF c]) (simp_all add: h' t')
      ultimately show ?thesis
        using Some r Inr h t h' w1 t'(1,2) yieldsD [OF k, of c1 w2] refuse [of c3 429 j]
        by (simp add: check_limit_def)
    qed
  qed
qed

lemma yields_RateLimit:
  assumes k: "yields P R k" and lm: "unnoticed R ipl" "unnoticed R ul"
  shows "yields P R (RateLimit hl ipl ul k)"
proof -
  have user: "yields P R (check_limit ul key k)" for key
    by (rule yields_check_limit [OF k lm(2)])
  then have inner: "yields P R (\<lambda>c1. let userID = UserIDFromContext hl c1
      in if userID = [] then k c1 else check_limit ul (''user:'' @ userID) k c1)"
    using k unfolding yields_def Let_def by (simp del: append.simps)
  have "yields P R (check_limit ipl key (\<lambda>c1. let userID = UserIDFromContext hl c1
      in if userID = [] then k c1 else check_limit ul (''user:'' @ userID) k c1))" for key
    by (rule yields_check_limit [OF inner lm(1)])
  then show ?thesis unfolding yields_def RateLimit_def by (simp del: append.simps)
qed

lemma yields_RequestLogger:
  fixes k :: "'a app_state_scheme handler"
  assumes k: "yields P R k"
  shows "yields P R (RequestLogger hl logger buffered k)"
proof (rule yieldsI)
  fix c and w :: "'a app_state_scheme" assume c: "P c"
  obtain c1 w2 where r: "k c (tick w) = (c1, w2)" by (cases "k c (tick w)")
  have "R c1 (tables w) (tables w2)" using yieldsD [OF k c, of "tick w"] r by simp
  then show "R (fst (RequestLogger hl logger buffered k c w)) (tables w) (tables (snd (RequestLogger hl logger buffered k c w)))"
    using r panics [of c1 "tables w" "tables w2"]
    by (auto simp: RequestLogger_def draws Let_def ObserveRequest_def split: option.split)
qed

lemma yields_Recovery: "yields P R k \<Longrightarrow> yields P R (Recovery k)"
  by (auto simp: yields_def Recovery_def split: prod.split) (metis fst_conv snd_conv recovers)+

lemma yields_dispatch:
  assumes "\<And>c m p h. P c \<Longrightarrow> m = rq_Method (gc_request c) \<Longrightarrow> p = rq_FullPath (gc_request c) \<Longrightarrow>
      find_route rs m p = Some h \<Longrightarrow> yields P R h"
    and "\<And>c t. P c \<Longrightarrow> find_route rs (rq_Method (gc_request c)) (rq_FullPath (gc_request c)) = None \<Longrightarrow>
      R (c_Status 404 c) t t"
  shows "yields P R (dispatch rs)"
proof (rule yieldsI)
  fix c w assume c: "P c"
  show "R (fst (dispatch rs c w)) (tables w) (tables (snd (dispatch rs c w)))"
    using assms(2) [OF c] yieldsD [OF assms(1) [OF c refl refl] c]
    by (auto simp: dispatch_def split: option.split)
qed

lemma yields_when_some: "yields P R k \<Longrightarrow> (\<And>y. x = Some y \<Longrightarrow> yields P R (f y k)) \<Longrightarrow> yields P R (when_some x f k)"
  by (cases x) (simp_all add: when_some_def)

text \<open>The server yields what the dispatch of its routes does.\<close>

lemma yields_engine:
  fixes d :: "'a router_deps"
  assumes k: "yields P R (dispatch (routes d))" and lims: "unnoticed R (rd_IPLimiter d)" "unnoticed R (rd_UserLimiter d)"
    and P: "\<And>m c cl (w :: 'a app_state_scheme) w'. rd_AuthManager d = Some m \<Longrightarrow> P c \<Longrightarrow>
      ParseAccessToken m (extractBearer (c_GetHeader c ''Authorization'')) w = (Inr cl, w') \<Longrightarrow> P (set_claims cl c)"
  shows "yields P R (engine d)"
proof -
  let ?k1 = "RequestLogger (rd_Lib d) (rd_Logger d) (rd_LogBuffer d) (dispatch (routes d))"
  let ?k2 = "(if rate_limited d then RateLimit (rd_Lib d) (rd_IPLimiter d) (rd_UserLimiter d) else (\<lambda>k. k)) ?k1"
  let ?k3 = "when_some (rd_AuthManager d) OptionalAuth ?k2"
  have k1: "yields P R ?k1" by (rule yields_RequestLogger [OF k])
  have k2: "yields P R ?k2" using k1 yields_RateLimit [OF k1 lims] by simp
  have "yields P R (OptionalAuth m ?k2)" if "rd_AuthManager d = Some m" for m
    by (rule yields_OptionalAuth [OF k2]) (rule P [OF that])
  then have k3: "yields P R ?k3" by (rule yields_when_some [OF k2])
  have "yields P R (when_some (rd_Config d) (\<lambda>cfg. CORS (cfg_Cors cfg)) ?k3)"
    by (rule yields_when_some [OF k3]) (rule yields_CORS [OF k3])
  then show ?thesis unfolding engine_def by (intro yields_Recovery yields_RequestID)
qed

lemma yields_server:
  fixes d :: "'a router_deps"
  assumes "yields P R (dispatch (routes (release_mode d)))"
    and "unnoticed R (rd_IPLimiter d)" "unnoticed R (rd_UserLimiter d)"
    and "\<And>m c cl (w :: 'a app_state_scheme) w'. rd_AuthManager d = Some m \<Longrightarrow> P c \<Longrightarrow>
      ParseAccessToken m (extractBearer (c_GetHeader c ''Authorization'')) w = (Inr cl, w') \<Longrightarrow> P (set_claims cl c)"
  shows "yields P R (NewRouter d)"
  unfolding NewRouter_def by (rule yields_engine) (use assms in simp_all)

lemma server:
  assumes "yields P R (NewRouter d)" and "P (new_context r)"
  shows "R (fst (ServeHTTP d r w)) (tables w) (tables (snd (ServeHTTP d r w)))"
  using yieldsD [OF assms] by (simp add: ServeHTTP_def)

end

lemma not_panicked: "\<not> gc_panicked (fst (ServeHTTP d r w))"
  by (simp add: ServeHTTP_def NewRouter_def engine_def Recovery_def split: prod.split)

lemma find_route_member: "find_route rs m p = Some h \<Longrightarrow> (m, p, h) \<in> set rs"
  by (induction rs) (auto simp: find_route_def split: if_splits)

end
