(* ===== verification/ProfileListing.thy ===== *)
theory ProfileListing
  imports ProfileProperties
begin

text \<open>
  What \<open>Service.List\<close> returns: the caller's visible profiles, newest first, and how the pages of a
  listing fit together.
\<close>

section \<open>One page\<close>

lemma page_sorted: "sorted_wrt R rs \<Longrightarrow> sql_page sl l n rs = Inr ps \<Longrightarrow> sorted_wrt R ps"
  by (auto simp: sql_page_def sorted_wrt_take sorted_wrt_drop split: if_splits)

lemma page_length: "sql_page sl l n rs = Inr ps \<Longrightarrow> int (length ps) \<le> l"
  by (auto simp: sql_page_def split: if_splits)

lemma ordered_rows:
  assumes "documented_order sl"
  shows "set (sl_order_profiles sl rs) = set rs" and "length (sl_order_profiles sl rs) = length rs"
    and "sorted_wrt (\<lambda>p q. p_CreatedAt q \<le> p_CreatedAt p) (sl_order_profiles sl rs)"
  using assms unfolding documented_order_def by (metis set_mset_mset, metis size_mset, blast)

text \<open>C28 (a page of profiles). A page holds stored profiles of the user of the filter only, none that is
  deleted, newest first, at most as many as the limit; the total is the number of profiles that
  match, and listing changes nothing.\<close>

theorem list_profiles:
  assumes order: "documented_order sl"
    and run: "ListProfiles (app_profiles sl lib) flt w = (Inr (ps, n), w')"
  shows "sorted_wrt (\<lambda>p q. p_CreatedAt q \<le> p_CreatedAt p) ps \<and> int (length ps) \<le> pf_Limit flt
    \<and> (\<forall>p \<in> set ps. p \<in> set (db_profiles w) \<and> p_UserID p = pf_UserID flt \<and> p_DeletedAt p = None
        \<and> profile_matches sl flt p)
    \<and> n = int (count_where (profile_matches sl flt) (db_profiles w)) \<and> db_profiles w' = db_profiles w"
proof -
  let ?rows = "sl_order_profiles sl (filter (profile_matches sl flt) (db_profiles w))"
  have t: "db_profiles w' = db_profiles w" "sql_page sl (pf_Limit flt) (pf_Offset flt) ?rows = Inr ps"
      "n = int (count_where (profile_matches sl flt) (db_profiles w))"
    using run ListProfileRows_table [of sl flt w] by (auto simp: ListProfiles_def)
  have "set ps \<subseteq> {p \<in> set (db_profiles w). profile_matches sl flt p}"
    using page_subset [OF t(2)] ordered_rows(1) [OF order] by auto
  moreover have "p_UserID p = pf_UserID flt \<and> p_DeletedAt p = None" if "profile_matches sl flt p" for p
    using that by (simp add: profile_matches_def visible_def)
  ultimately show ?thesis
    using t(1,3) page_length [OF t(2)] page_sorted [OF ordered_rows(3) [OF order] t(2)] by blast
qed

definition plain_filter :: "uuid \<Rightarrow> profile_filter" where
  "plain_filter u = \<lparr>pf_Search = [], pf_Limit = 20, pf_Offset = 0, pf_Cursor = [], pf_CursorTime = None,
     pf_UserID = u\<rparr>"

lemma documented_sample_order: "documented_order sample_sql"
proof -
  have "sorted_wrt (\<lambda>p q. p_CreatedAt q \<le> p_CreatedAt p) (rev (sort_key p_CreatedAt rs))"
    for rs :: "profile list"
    using sorted_sort_key [of p_CreatedAt rs] by (simp add: sorted_wrt_rev sorted_map)
  then show ?thesis unfolding documented_order_def by (simp add: sample_sql_def)
qed

text \<open>What a listing answers when the database does.\<close>

lemma List_reliable:
  assumes "db_reliable w" and "0 \<le> pf_Limit flt" and "0 \<le> pf_Offset flt"
  shows "fst (ListProfiles (app_profiles sl lib) flt w) =
    Inr (take (nat (pf_Limit flt)) (drop (nat (pf_Offset flt))
          (sl_order_profiles sl (filter (profile_matches sl flt) (db_profiles w)))),
        int (count_where (profile_matches sl flt) (db_profiles w)))"
  using assms by (simp add: ListProfiles_def ListProfileRows_def query_def stmt_reliable sql_page_def)

theorem list_profiles_witness:
  "\<exists>w'. ListProfiles sample_profiles (plain_filter 1000) (sample_db [] [sample_profile]) = (Inr ([sample_profile], 1), w')
     \<and> db_profiles w' = [sample_profile]"
proof -
  let ?w = "sample_db [] [sample_profile]"
  have "db_reliable ?w" by (simp add: db_reliable_def)
  moreover have "profile_matches sample_sql (plain_filter 1000) sample_profile"
    by (simp add: profile_matches_def plain_filter_def visible_def)
  ultimately have "fst (ListProfiles sample_profiles (plain_filter 1000) ?w) = Inr ([sample_profile], 1)"
    by (simp add: List_reliable plain_filter_def sample_sql_def count_where_def)
  then obtain w' where run: "ListProfiles sample_profiles (plain_filter 1000) ?w = (Inr ([sample_profile], 1), w')"
    by (cases "ListProfiles sample_profiles (plain_filter 1000) ?w") simp
  from list_profiles [OF documented_sample_order run] run show ?thesis by simp
qed

section \<open>Page after page\<close>

lemma pages_concat: "concat (map (\<lambda>k. take l (drop (k * l) xs)) [0..<m]) = take (m * l) xs"
proof (induction m)
  case (Suc m)
  have "take (Suc m * l) xs = take (m * l) xs @ take l (drop (m * l) xs)"
    by (simp only: mult_Suc add.commute [of l] take_add)
  with Suc show ?case by simp
qed simp

definition page_rows :: "profile_error + profile list \<times> int \<Rightarrow> profile list" where
  "page_rows r = (case r of Inl _ \<Rightarrow> [] | Inr (ps, _) \<Rightarrow> ps)"



end
