(* ===== verification/HttpIsolation.thy ===== *)
theory HttpIsolation
  imports HttpFrame ProfileListing
begin

text \<open>
  The isolation of owners at the level of HTTP requests: a request whose token is not the owner's
  cannot touch the owner's profiles, through the whole chain of the router.
\<close>

section \<open>What a handler asks of its service\<close>

lemma MustUserID_cases:
  "MustUserID c = (u, c1) \<Longrightarrow> u \<noteq> uuid_nil \<Longrightarrow> gc_values c ''user_id'' = Some (CUuid u) \<and> c1 = c"
  by (auto simp: MustUserID_def split: option.splits ctx_value.splits)

definition asks :: "'a runtime_scheme profile_service \<Rightarrow> 'a runtime_scheme handler \<Rightarrow> bool" where
  "asks s h \<longleftrightarrow> (\<forall>c w. snd (h c w) = w
     \<or> (\<exists>u x. gc_values c ''user_id'' = Some (CUuid u) \<and> snd (h c w) = profile_do s (u, x) w))"

lemma asksI:
  assumes "\<And>c w u. gc_values c ''user_id'' = Some (CUuid u) \<Longrightarrow> snd (h c w) = w \<or> (\<exists>x. snd (h c w) = profile_do s (u, x) w)"
    and "\<And>c w. \<nexists>u. gc_values c ''user_id'' = Some (CUuid u) \<Longrightarrow> snd (h c w) = w"
  shows "asks s h"
  unfolding asks_def using assms by blast

lemma no_caller:
  "\<nexists>u. gc_values c ''user_id'' = Some (CUuid u) \<Longrightarrow> \<exists>c1. MustUserID c = (uuid_nil, c1)"
  by (auto simp: MustUserID_def split: option.splits ctx_value.splits)

lemma some_caller: "gc_values c ''user_id'' = Some (CUuid u) \<Longrightarrow> MustUserID c = (u, c)"
  by (simp add: MustUserID_def)

lemma with_id_asks:
  assumes "\<And>i u c w. \<exists>x. snd (act i u c w) = profile_do s (u, x) w"
  shows "asks s (with_id hl act)"
proof (rule asksI)
  fix c :: gin_context and w u assume "gc_values c ''user_id'' = Some (CUuid u)"
  then show "snd (with_id hl act c w) = w \<or> (\<exists>x. snd (with_id hl act c w) = profile_do s (u, x) w)"
    using some_caller [of c u] assms by (simp add: with_id_def split: option.split)
next
  fix c :: gin_context and w assume "\<nexists>u. gc_values c ''user_id'' = Some (CUuid u)"
  from no_caller [OF this] show "snd (with_id hl act c w) = w" by (auto simp: with_id_def)
qed

lemma asks_bind:
  assumes "\<And>req. asks s (h req)"
  shows "asks s (\<lambda>c w. case b (rq_Body (gc_request c)) of Inl err \<Rightarrow> (e err c, w) | Inr req \<Rightarrow> h req c w)"
  using assms unfolding asks_def by (auto split: sum.split)

lemma asks_caller:
  assumes "\<And>u c w. \<exists>x. snd (act u c w) = profile_do s (u, x) w"
  shows "asks s (\<lambda>c w. case MustUserID c of (u, c1) \<Rightarrow> if u = uuid_nil then (c1, w) else act u c1 w)"
proof (rule asksI)
  fix c :: gin_context and w u assume "gc_values c ''user_id'' = Some (CUuid u)"
  then show "snd (case MustUserID c of (u, c1) \<Rightarrow> if u = uuid_nil then (c1, w) else act u c1 w) = w
      \<or> (\<exists>x. snd (case MustUserID c of (u, c1) \<Rightarrow> if u = uuid_nil then (c1, w) else act u c1 w) = profile_do s (u, x) w)"
    using some_caller [of c u] assms [of u c w] by simp
next
  fix c :: gin_context and w assume "\<nexists>u. gc_values c ''user_id'' = Some (CUuid u)"
  from no_caller [OF this]
  show "snd (case MustUserID c of (u, c1) \<Rightarrow> if u = uuid_nil then (c1, w) else act u c1 w) = w" by auto
qed

lemma snd_answers [simp]:
  "snd (case x of (Inl e, w1) \<Rightarrow> (f e, w1) | (Inr p, w1) \<Rightarrow> (g p, w1)) = snd x"
  "snd (case y of (Some e, w1) \<Rightarrow> (f' e, w1) | (None, w1) \<Rightarrow> (d, w1)) = snd y"
  "snd (case z of ((ps, es), w1) \<Rightarrow> (k ps es, w1)) = snd z"
  "snd (case v of (Inl e, w1) \<Rightarrow> (f e, w1) | (Inr (ps, n), w1) \<Rightarrow> (m ps n, w1)) = snd v"
  by (auto split: prod.split sum.split option.split)

lemma create_asks: "asks s (create_h hl s)"
  unfolding create_h_def
  by (rule asks_bind, rule asks_caller, rule exI [of _ "CallCreate _"])
    simp

lemma bulkCreate_asks: "asks s (bulkCreate_h hl s)"
  unfolding bulkCreate_h_def
  by (rule asks_bind, rule asks_caller, rule exI [of _ "CallBulkCreate _"]) simp

lemma get_asks: "asks s (get_h hl s)"
  unfolding get_h_def
  by (rule with_id_asks, rule exI [of _ "CallGet _"]) simp

lemma list_asks: "asks s (list_h hl s)"
  unfolding list_h_def
proof (rule asks_caller)
  fix u c w
  have "(list_filter hl c u)\<lparr>pf_UserID := u\<rparr> = list_filter hl c u" by (simp add: list_filter_def Let_def)
  then show "\<exists>x. snd (let flt = list_filter hl c u
      in case ListProfiles s flt w of (Inl e, w1) \<Rightarrow> (handleProfileError hl e c, w1)
         | (Inr (ps, n), w1) \<Rightarrow> (c_JSON 200
                    (JObj [(''data'', if ps = [] then hl_nil_slice hl else JArr (map profile_body ps)),
                           (''total'', JInt n), (''offset'', JInt (pf_Offset flt)),
                           (''limit'', JInt (pf_Limit flt)), (''next_cursor'', JStr (next_cursor hl ps))]) c, w1))
      = profile_do s (u, x) w"
    by (intro exI [of _ "CallList (list_filter hl c u)"]) (simp add: Let_def)
qed

lemma update_asks: "asks s (update_h hl s)"
  unfolding update_h_def
  by (rule asks_bind, rule with_id_asks, rule exI [of _ "CallUpdate _ _"]) simp

lemma patch_asks: "asks s (patch_h hl s)"
  unfolding patch_h_def
  by (rule asks_bind, rule with_id_asks, rule exI [of _ "CallPatch _ _"]) simp

lemma delete_asks: "asks s (delete_h hl s)"
  unfolding delete_h_def
proof (rule with_id_asks)
  fix i u c w
  show "\<exists>x. snd (let hard = (c_Query c ''hard'' = ''true''); version = parseVersion (c_Query c ''version'')
       in case Delete s i u hard version w of
            (Some e, w1) \<Rightarrow> (handleProfileError hl e c, w1)
          | (None, w1) \<Rightarrow> (c_Status 204 c, w1)) = profile_do s (u, x) w"
    by (intro exI [of _ "CallDelete i (c_Query c ''hard'' = ''true'') (parseVersion (c_Query c ''version''))"])
      (simp add: Let_def)
qed

lemma bulkDelete_asks: "asks s (bulkDelete_h hl s)"
  unfolding bulkDelete_h_def
  by (rule asks_bind, rule asks_caller, rule exI [of _ "CallBulkDelete _"]) simp

lemmas profile_handlers_ask =
  create_asks bulkCreate_asks get_asks list_asks update_asks patch_asks delete_asks bulkDelete_asks

section \<open>The handlers of accounts leave profiles alone\<close>

lemma user_repo_profiles:
  fixes w :: "'a database_scheme"
  shows "GetUserByEmail sl e w = (r1, w') \<Longrightarrow> db_profiles w' = db_profiles w"
    and "GetUserByID sl i w = (r1, w') \<Longrightarrow> db_profiles w' = db_profiles w"
    and "ListUserRows sl flt w = (r2, w') \<Longrightarrow> db_profiles w' = db_profiles w"
    and "CreateUser sl u w = (r3, w') \<Longrightarrow> db_profiles w' = db_profiles w"
    and "UpdateUser sl u w = (r3, w') \<Longrightarrow> db_profiles w' = db_profiles w"
  by (auto simp: GetUserByEmail_def GetUserByID_def ListUserRows_def CreateUser_def UpdateUser_def sql_defs
      split: prod.splits sum.splits option.splits if_splits)

lemma app_token_profiles:
  fixes w :: "'a database_scheme"
  shows "tm_IssueTokens (app_tokens cfg up jl) u w = (r, w') \<Longrightarrow> db_profiles w' = db_profiles w"
    and "tm_RefreshTokens (app_tokens cfg up jl) u t w = (r, w') \<Longrightarrow> db_profiles w' = db_profiles w"
    and "tm_ExtractUserID (app_tokens cfg up jl) t w = (i, w') \<Longrightarrow> db_profiles w' = db_profiles w"
proof -
  have red: "mg_redis (NewManager cfg (redis_for up) jl) = redis_for up" by (simp add: NewManager_def)
  note calls = token_calls_tables [OF red]
  show "db_profiles w' = db_profiles w" if "tm_IssueTokens (app_tokens cfg up jl) u w = (r, w')"
    using that by (auto simp: app_tokens_def jwt_token_manager_def dest!: calls(1) simp: same_tables_def)
  show "db_profiles w' = db_profiles w" if "tm_RefreshTokens (app_tokens cfg up jl) u t w = (r, w')"
    using that by (auto simp: app_tokens_def jwt_token_manager_def dest!: calls(2) simp: same_tables_def)
  show "db_profiles w' = db_profiles w" if "tm_ExtractUserID (app_tokens cfg up jl) t w = (i, w')"
    using that by (auto simp: app_tokens_def jwt_token_manager_def dest!: calls(3) simp: same_tables_def)
qed

lemmas user_frames = user_repo_profiles app_token_profiles

lemma issue_profiles:
  "issue_response (app_users sl cfg up jl lib allow) u w = (r, w') \<Longrightarrow> db_profiles w' = db_profiles w"
  by (auto simp: issue_response_def split: prod.splits sum.splits dest!: app_token_profiles)

lemma user_repo_fields [simp]:
  "repo_Create (NewUserRepository sl) = CreateUser sl" "repo_Update (NewUserRepository sl) = UpdateUser sl"
  "repo_GetByEmail (NewUserRepository sl) = GetUserByEmail sl"
  "repo_GetByID (NewUserRepository sl) = GetUserByID sl" "repo_List (NewUserRepository sl) = ListUserRows sl"
  by (simp_all add: NewUserRepository_def)

lemma salted_profiles [simp]: "db_profiles (salted w) = db_profiles w"
  by (simp add: salted_def)

lemma user_service_profiles:
  fixes w :: "'a database_scheme" and sl cfg up jl lib allow
  defines "s \<equiv> app_users sl cfg up jl lib allow"
  shows "Register s req w = (r, w') \<Longrightarrow> db_profiles w' = db_profiles w"
    and "Login s lreq w = (r, w') \<Longrightarrow> db_profiles w' = db_profiles w"
    and "Refresh s t w = (r, w') \<Longrightarrow> db_profiles w' = db_profiles w"
    and "GetMe s i w = (g, w') \<Longrightarrow> db_profiles w' = db_profiles w"
    and "UpdateMe s i ureq w = (x, w') \<Longrightarrow> db_profiles w' = db_profiles w"
    and "ListUsers s flt w = (l, w') \<Longrightarrow> db_profiles w' = db_profiles w"
proof -
  note splits = prod.splits sum.splits option.splits if_splits
  show "db_profiles w' = db_profiles w" if "Register s req w = (r, w')"
    using that unfolding s_def
    by (auto simp: Register_def Let_def draws split: splits dest!: user_repo_profiles issue_profiles)
  show "db_profiles w' = db_profiles w" if "Login s lreq w = (r, w')"
    using that unfolding s_def
    by (auto simp: Login_def Let_def draws split: splits dest!: user_repo_profiles issue_profiles)
  show "db_profiles w' = db_profiles w" if "Refresh s t w = (r, w')"
    using that unfolding s_def by (auto simp: Refresh_def split: splits dest!: user_frames)
  show "db_profiles w' = db_profiles w" if "GetMe s i w = (g, w')"
    using that unfolding s_def by (auto simp: GetMe_def split: splits dest!: user_repo_profiles)
  show "db_profiles w' = db_profiles w" if "UpdateMe s i ureq w = (x, w')"
    using that unfolding s_def
    by (auto simp: UpdateMe_def Let_def draws split: splits dest!: user_repo_profiles)
  show "db_profiles w' = db_profiles w" if "ListUsers s flt w = (l, w')"
    using that unfolding s_def by (auto simp: ListUsers_def dest!: user_repo_profiles)
qed

section \<open>The whole chain\<close>

text \<open>The table is well formed as before and has the same profiles of the owner.\<close>

definition isolated :: "uuid \<Rightarrow> profile list \<Rightarrow> profile list \<Rightarrow> bool" where
  "isolated owner ps ps' \<longleftrightarrow> (profiles_ok ps \<longrightarrow> profiles_ok ps'
     \<and> (\<forall>i p. p_UserID p = owner \<longrightarrow> stored ps' i = Some p \<longleftrightarrow> stored ps i = Some p))"

lemma isolated_refl [simp]: "isolated owner ps ps"
  by (simp add: isolated_def)

lemma isolated_trans: "isolated owner ps qs \<Longrightarrow> isolated owner qs rs \<Longrightarrow> isolated owner ps rs"
  by (auto simp: isolated_def)

text \<open>What stays true of the context along the chain: the header, and that the caller is not the owner.\<close>

definition not_owner :: "string \<Rightarrow> uuid \<Rightarrow> gin_context \<Rightarrow> bool" where
  "not_owner hdr owner c \<longleftrightarrow>
     c_GetHeader c ''Authorization'' = hdr \<and> gc_values c ''user_id'' \<noteq> Some (CUuid owner)"

definition others_only :: "uuid \<Rightarrow> gin_context \<Rightarrow> tables \<Rightarrow> tables \<Rightarrow> bool" where
  "others_only owner c t t' \<longleftrightarrow> isolated owner (snd t) (snd t')"

interpretation iso: chain "not_owner hdr owner" "others_only owner" for hdr :: string and owner :: uuid
  by unfold_locales (simp_all add: not_owner_def others_only_def isolated_def c_GetHeader_def)

lemma yields_asks:
  assumes "asks (app_profiles sl lib) h"
  shows "yields (not_owner hdr owner) (others_only owner) h"
proof (rule yieldsI)
  fix c and w :: "'a database_scheme" assume c: "not_owner hdr owner c"
  consider "snd (h c w) = w"
    | u x where "gc_values c ''user_id'' = Some (CUuid u)" "snd (h c w) = profile_do (app_profiles sl lib) (u, x) w"
    using assms unfolding asks_def by blast
  then show "others_only owner (fst (h c w)) (tables w) (tables (snd (h c w)))"
  proof cases
    case 1
    then show ?thesis by (simp add: others_only_def isolated_def)
  next
    case (2 u x)
    then have "u \<noteq> owner" using c by (auto simp: not_owner_def)
    moreover have "snd (h c w) = profile_run (app_profiles sl lib) [(u, x)] w"
      using 2(2) by (simp add: profile_run_def)
    ultimately show ?thesis
      using app.run_isolated [where cs = "[(u, x)]" and w = w and sl = sl and lib = lib and owner = owner]
      by (auto simp: isolated_def others_only_def tables_def)
  qed
qed

lemma user_service_frames [simp]:
  fixes w :: "'a database_scheme" and sl cfg up jl lib allow
  shows "db_profiles (snd (Register (app_users sl cfg up jl lib allow) req w)) = db_profiles w"
    and "db_profiles (snd (Login (app_users sl cfg up jl lib allow) lreq w)) = db_profiles w"
    and "db_profiles (snd (Refresh (app_users sl cfg up jl lib allow) t w)) = db_profiles w"
    and "db_profiles (snd (GetMe (app_users sl cfg up jl lib allow) i w)) = db_profiles w"
    and "db_profiles (snd (UpdateMe (app_users sl cfg up jl lib allow) i ureq w)) = db_profiles w"
    and "db_profiles (snd (ListUsers (app_users sl cfg up jl lib allow) flt w)) = db_profiles w"
  by (rule user_service_profiles, rule surjective_pairing)+

lemma user_handlers_profiles:
  fixes w :: "'a database_scheme" and sl cfg up jl lib allow
  defines "s \<equiv> app_users sl cfg up jl lib allow"
  shows "db_profiles (snd (register_h hl s c w)) = db_profiles w"
    and "db_profiles (snd (login_h hl s c w)) = db_profiles w"
    and "db_profiles (snd (refresh_h hl s c w)) = db_profiles w"
    and "db_profiles (snd (getMe_h hl s c w)) = db_profiles w"
    and "db_profiles (snd (updateMe_h hl s c w)) = db_profiles w"
    and "db_profiles (snd (listUsers_h hl s c w)) = db_profiles w"
  unfolding s_def
  by (auto simp: register_h_def login_h_def refresh_h_def getMe_h_def updateMe_h_def listUsers_h_def Let_def
      split: sum.split prod.split option.split ctx_value.split dest!: user_service_profiles)

definition foreign_token :: "'a app_state_scheme manager \<Rightarrow> uuid \<Rightarrow> string \<Rightarrow> bool" where
  "foreign_token m owner hdr \<longleftrightarrow>
     (\<forall>w cl w'. ParseAccessToken m (extractBearer hdr) (w :: 'a app_state_scheme) = (Inr cl, w') \<longrightarrow> jc_UserID cl \<noteq> owner)"

lemma not_owner_claims:
  fixes m :: "'a app_state_scheme manager"
  assumes "foreign_token m owner hdr" and "not_owner hdr owner c"
    and "ParseAccessToken m (extractBearer (c_GetHeader c ''Authorization'')) (w :: 'a app_state_scheme) = (Inr cl, w')"
  shows "not_owner hdr owner (set_claims cl c)"
proof -
  have "c_GetHeader c ''Authorization'' = hdr" using assms(2) by (simp add: not_owner_def)
  then have "ParseAccessToken m (extractBearer hdr) w = (Inr cl, w')" using assms(3) by simp
  then have "jc_UserID cl \<noteq> owner"
    using assms(1) [unfolded foreign_token_def, THEN spec, THEN spec, THEN spec] by (rule mp [rotated])
  with assms(2) show ?thesis by (simp add: not_owner_def set_claims_def c_GetHeader_def)
qed

lemma routes_isolated:
  fixes d :: "'a router_deps"
  assumes services: "rd_Profiles d = app_profiles sl lib" "rd_Users d = app_users sl' cfg up jl ulib allow"
    and metrics: "\<And>c w. db_profiles (snd (rd_Metrics d c w)) = db_profiles w"
    and m: "rd_AuthManager d = Some m" and token: "foreign_token m owner hdr"
    and r: "(meth, path, h) \<in> set (routes d)"
  shows "yields (not_owner hdr owner) (others_only owner) h"
proof -
  let ?K = "yields (not_owner hdr owner) (others_only owner) :: 'a app_state_scheme handler \<Rightarrow> bool"
  have same: "?K h" if "\<And>c w. db_profiles (snd (h c w)) = db_profiles w" for h
    using that by (simp add: yields_def others_only_def isolated_def tables_def)
  show ?thesis
  proof (rule route_rule [OF r, where K = ?K])
    show "?K (auth_mw d h)" if "?K h" for h
    proof -
      have "?K (AuthMiddleware m h)"
        by (rule iso.yields_AuthMiddleware) (rule yieldsD [OF that not_owner_claims [OF token]])
      then show ?thesis using m by (simp add: auth_mw_def)
    qed
    show "?K (AdminOnly h)" if "?K h" for h
      using that by (auto simp: yields_def AdminOnly_def Let_def others_only_def isolated_def)
    show "?K health_h" "?K logs_h" by (rule same, simp add: health_h_def logs_h_def)+
    show "?K (rd_Metrics d)" using metrics by (rule same)
  qed (auto simp: services user_handlers_profiles intro: same yields_asks profile_handlers_ask)
qed

lemma serve_isolated:
  fixes d :: "'a router_deps"
  assumes services: "rd_Profiles d = app_profiles sl lib" "rd_Users d = app_users sl' cfg up jl ulib allow"
    and metrics: "\<And>c w. db_profiles (snd (rd_Metrics d c w)) = db_profiles w"
    and lims: "quiet (rd_IPLimiter d)" "quiet (rd_UserLimiter d)"
    and m: "rd_AuthManager d = Some m" and token: "foreign_token m owner (rq_Header r ''Authorization'')"
  shows "isolated owner (db_profiles w) (db_profiles (snd (ServeHTTP d r w)))"
proof -
  let ?P = "not_owner (rq_Header r ''Authorization'') owner"
  have "yields ?P (others_only owner) (dispatch (routes (release_mode d)))"
  proof (rule iso.yields_dispatch)
    show "yields ?P (others_only owner) h" if "find_route (routes (release_mode d)) n p = Some h" for n p h
      by (rule routes_isolated [OF _ _ _ _ token find_route_member [OF that]]) (simp_all add: services metrics m)
  qed (simp add: others_only_def isolated_def)
  then have "yields ?P (others_only owner) (NewRouter d)"
    by (rule iso.yields_server [OF _ lims [THEN quiet_unnoticed]]) (use m not_owner_claims [OF token] in auto)
  moreover have "?P (new_context r)" by (simp add: not_owner_def new_context_def c_GetHeader_def)
  ultimately have "others_only owner (fst (ServeHTTP d r w)) (tables w) (tables (snd (ServeHTTP d r w)))"
    by (rule iso.server)
  then show ?thesis by (simp add: others_only_def tables_def)
qed

definition serve_all :: "'a router_deps \<Rightarrow> http_request list \<Rightarrow> 'a app_state_scheme \<Rightarrow> 'a app_state_scheme" where
  "serve_all d rs w = fold (\<lambda>r v. snd (ServeHTTP d r v)) rs w"

text \<open>C5 (requests of others do not reach an owner's profiles). Whatever requests the server answers,
  with whatever methods, paths, bodies and limiter states, as long as none carries an access
  token of the owner, the owner has the same profiles after them as before.\<close>

theorem http_isolation:
  fixes d :: "'a router_deps" and w :: "'a app_state_scheme"
  assumes "rd_Profiles d = app_profiles sl lib" and "rd_Users d = app_users sl' cfg up jl ulib allow"
    and "\<And>c w. db_profiles (snd (rd_Metrics d c w)) = db_profiles w"
    and "quiet (rd_IPLimiter d)" and "quiet (rd_UserLimiter d)" and "rd_AuthManager d = Some m"
    and "\<forall>r \<in> set rs. foreign_token m owner (rq_Header r ''Authorization'')"
    and "profiles_ok (db_profiles w)" and "p_UserID p = owner"
  shows "profile_at (serve_all d rs w) i = Some p \<longleftrightarrow> profile_at w i = Some p"
proof -
  have "isolated owner (db_profiles w) (db_profiles (fold (\<lambda>r v. snd (ServeHTTP d r v)) rs w))"
    using assms(7)
  proof (induction rs arbitrary: w)
    case (Cons r rs)
    then have "isolated owner (db_profiles w) (db_profiles (snd (ServeHTTP d r w)))"
      by (intro serve_isolated [OF assms(1-6)]) simp
    with Cons show ?case by (auto intro: isolated_trans)
  qed simp
  then show ?thesis using assms(8,9) by (simp add: isolated_def serve_all_def)
qed

text \<open>A server to evaluate at: no limiters, identifiers in decimal, and a parser of bodies that reads
  objects whose members are strings without escapes, written without spaces.\<close>

fun read_members :: "string list \<Rightarrow> (string \<times> json) list option" where
  "read_members (k # colon # v # sep # ps) =
     (if colon \<noteq> '':'' then None
      else if sep = ''}'' \<and> ps = [] then Some [(k, JStr v)]
      else if sep = '','' then map_option (Cons (k, JStr v)) (read_members ps)
      else None)"
| "read_members ps = None"

definition sample_parse :: "string \<Rightarrow> json option" where
  "sample_parse body =
     (if body = ''{}'' then Some (JObj [])
      else case split_char (CHR 0x22) body of
             p # ps \<Rightarrow> if p = ''{'' then map_option JObj (read_members ps) else None
           | [] \<Rightarrow> None)"

definition sample_http :: http_lib where
  "sample_http =
     \<lparr>hl_parse_json = sample_parse, hl_float64 = Some, hl_parse_uuid = (\<lambda>s. Some (uuid_of_text s)),
      hl_uuid_string = uuid_text,
      hl_parse_rfc3339 = (\<lambda>s. map_option (\<lambda>n. n * nanos_per_second) (read_int s)),
      hl_format_rfc3339 = (\<lambda>t. itoa (t div nanos_per_second)),
      hl_format_utc = (\<lambda>t. itoa (t div nanos_per_second)),
      hl_validation_text = (\<lambda>_. ''invalid''), hl_unicode_lower = (\<lambda>s. s), hl_nil_slice = JNull,
      hl_debugging = False\<rparr>"

definition sample_deps :: "unit router_deps" where
  "sample_deps =
     \<lparr>rd_Config = None, rd_Users = app_users sample_sql sample_auth False ref_jwt sample_user_lib True,
      rd_Profiles = app_profiles sample_sql sample_profile_lib,
      rd_AuthManager = Some (NewManager sample_auth None ref_jwt), rd_Logger = None, rd_LogBuffer = True,
      rd_IPLimiter = Some (MemoryAllow (\<lambda>x. x) \<lparr>ml_limit = 60, ml_burst = 10, ml_store = 0\<rparr>),
      rd_UserLimiter = None, rd_Metrics = (\<lambda>c w. (c_JSON 200 JNull c, w)), rd_Lib = sample_http\<rparr>"

definition sample_app :: "profile list \<Rightarrow> app_state" where
  "sample_app ps =
     \<lparr>clock = int, clock_reads = 0, uuid_source = of_nat, uuids_drawn = 0, salts_drawn = 0,
      redis_data = Map.empty, redis_faults = Map.empty, redis_calls = 0, memoryTokens = Map.empty,
      db_users = [], db_profiles = ps, db_faults = Map.empty, db_stmts = 0, buckets = (\<lambda>_. Map.empty),
      app_log = NewLogBuffer 200, app_requests = (\<lambda>_. 0), app_latencies = (\<lambda>_. []),
      app_entries = []\<rparr>"

definition sample_request :: "string \<Rightarrow> string \<Rightarrow> http_request" where
  "sample_request meth path =
     \<lparr>rq_Method = meth, rq_Path = path, rq_FullPath = path, rq_Header = (\<lambda>_. []), rq_Query = Map.empty,
      rq_Param = (\<lambda>_. ''5''), rq_Body = [], rq_ClientIP = ''::1''\<rparr>"

lemma sample_server [simp]:
  "rd_Users sample_deps = app_users sample_sql sample_auth False ref_jwt sample_user_lib True"
  "rd_Profiles sample_deps = app_profiles sample_sql sample_profile_lib"
  "rd_AuthManager sample_deps = Some (NewManager sample_auth None ref_jwt)"
  "rd_Metrics sample_deps = (\<lambda>c w. (c_JSON 200 JNull c, w))"
  "quiet (rd_IPLimiter sample_deps)" "quiet (rd_UserLimiter sample_deps)"
  "rq_Method (sample_request n p) = n" "rq_FullPath (sample_request n p) = p"
  "rq_Header (sample_request n p) k = []" "db_profiles (sample_app ps) = ps"
  by (simp_all add: sample_deps_def quiet_memory sample_request_def sample_app_def)

text \<open>No token at all.\<close>

lemma read_no_token: "read_token [] = None"
  by (simp add: read_token_def numeral_eq_Suc split_n2_def)

lemma no_token:
  "ParseAccessToken (NewManager cfg rc ref_jwt) (extractBearer []) w \<noteq> (Inr cl, w')"
  by (simp add: ParseAccessToken_def parse_def time_now_def extractBearer_def NewManager_def ref_jwt_def
      ref_parse_def read_no_token)

theorem http_isolation_witness:
  "profile_at (serve_all sample_deps
      [sample_request ''DELETE'' ''/api/v1/profiles/:id'', sample_request ''PATCH'' ''/api/v1/profiles/:id'']
      (sample_app [sample_profile])) 5 = Some sample_profile"
  using http_isolation [where d = sample_deps and w = "sample_app [sample_profile]" and p = sample_profile
      and owner = 1000 and i = 5 and rs = "[sample_request ''DELETE'' ''/api/v1/profiles/:id'',
        sample_request ''PATCH'' ''/api/v1/profiles/:id'']"]
  by (simp add: foreign_token_def no_token)

end
