(* ===== verification/HttpProperties.thy ===== *)
theory HttpProperties
  imports HttpIsolation
begin

text \<open>
  The properties of the HTTP server as a whole: what it refuses without a token, that each request
  has one answer, and what a client loses that follows the cursor of a listing.
\<close>

section \<open>The guards of the routes\<close>

definition public_routes :: "(string \<times> string) set" where
  "public_routes =
     {(''GET'', ''/api/v1/health''), (''GET'', ''/api/v1/metrics''), (''POST'', ''/api/v1/auth/register''),
      (''POST'', ''/api/v1/auth/login''), (''POST'', ''/api/v1/auth/refresh'')}"

definition admin_routes :: "(string \<times> string) set" where
  "admin_routes = {(''GET'', ''/api/v1/debug/logs''), (''GET'', ''/api/v1/admin/users'')}"

lemma guarded_routes:
  assumes "(n, p, h) \<in> set (routes d)" and "(n, p) \<notin> public_routes"
  shows "\<exists>k. h = auth_mw d k \<and> ((n, p) \<in> admin_routes \<longrightarrow> (\<exists>k'. k = AdminOnly k'))"
  using assms unfolding routes_def user_routes_def profile_routes_def
  by (simp only: set_append set_simps Un_iff insert_iff empty_iff prod.inject)
    (elim disjE conjE FalseE; simp add: public_routes_def admin_routes_def; blast)

lemma routes_methods: "(n, p) \<in> set (map route_key (routes d)) \<Longrightarrow> n \<noteq> ''OPTIONS''"
  by (auto simp: routes_def user_routes_def profile_routes_def route_key_def)

text \<open>No token of the request's header gives access: none is accepted, or on a route for admins, none
  of an admin.\<close>

definition no_access :: "'a app_state_scheme manager \<Rightarrow> http_request \<Rightarrow> bool" where
  "no_access m r \<longleftrightarrow>
     (\<forall>w cl w'. ParseAccessToken m (extractBearer (rq_Header r ''Authorization'')) (w :: 'a app_state_scheme) = (Inr cl, w')
        \<longrightarrow> (rq_Method r, rq_FullPath r) \<in> admin_routes \<and> jc_Role cl \<noteq> ''admin'')"

definition refusals :: "http_request \<Rightarrow> int set" where
  "refusals r = (if (rq_Method r, rq_FullPath r) \<in> admin_routes then {401, 403, 429} else {401, 429})"

definition asking :: "http_request \<Rightarrow> gin_context \<Rightarrow> bool" where
  "asking r c \<longleftrightarrow> rq_Method r \<noteq> ''OPTIONS'' \<and> gc_request c = r \<and> gc_replies c = []"

definition refusal :: "http_request \<Rightarrow> gin_context \<Rightarrow> tables \<Rightarrow> tables \<Rightarrow> bool" where
  "refusal r c t t' \<longleftrightarrow> gc_status c \<in> refusals r \<and> gc_replies c \<noteq> [] \<and> t' = t"

interpretation guard: chain "asking r" "refusal r" for r :: http_request
  by unfold_locales (auto simp: asking_def refusal_def refusals_def)

lemma guard_refuses:
  fixes d :: "'a router_deps"
  assumes r: "(rq_Method r, rq_FullPath r, h) \<in> set (routes d)"
    and guarded: "(rq_Method r, rq_FullPath r) \<notin> public_routes"
    and m: "rd_AuthManager d = Some m" and no: "no_access m r"
  shows "yields (asking r) (refusal r) h"
proof -
  obtain k where h: "h = AuthMiddleware m k"
    and adm: "(rq_Method r, rq_FullPath r) \<in> admin_routes \<longrightarrow> (\<exists>k'. k = AdminOnly k')"
    using guarded_routes [OF r guarded] m by (auto simp: auth_mw_def)
  have "yields (asking r) (refusal r) (AuthMiddleware m k)"
  proof (rule guard.yields_AuthMiddleware)
    fix c cl and w :: "'a app_state_scheme" and w'
    assume c: "asking r c"
      and "ParseAccessToken m (extractBearer (c_GetHeader c ''Authorization'')) w = (Inr cl, w')"
    then have "(rq_Method r, rq_FullPath r) \<in> admin_routes" "jc_Role cl \<noteq> ''admin''"
      using no unfolding no_access_def asking_def c_GetHeader_def by metis+
    moreover from this adm obtain k' where "k = AdminOnly k'" by blast
    ultimately show "refusal r (fst (k (set_claims cl c) w')) (tables w') (tables (snd (k (set_claims cl c) w')))"
      using c by (simp add: AdminOnly_def Let_def set_claims_def Forbidden_def refusal_def refusals_def asking_def)
  qed
  then show ?thesis by (simp only: h)
qed

lemma find_route_some: "(n, p) \<in> set (map route_key rs) \<Longrightarrow> find_route rs n p \<noteq> None"
  by (induction rs) (auto simp: find_route_def route_key_def)

text \<open>C6 (routes are guarded). On any route but health, metrics, registration, login and refresh, a
  request without an access token the server accepts is answered 401, or 429 by a limiter, and
  changes neither table; on the two routes for admins so is a request of a user who is none, with
  403.\<close>

theorem protected_routes:
  fixes d :: "'a router_deps" and w :: "'a app_state_scheme"
  assumes r: "(rq_Method r, rq_FullPath r) \<in> set (map route_key (routes d))"
    and guarded: "(rq_Method r, rq_FullPath r) \<notin> public_routes"
    and m: "rd_AuthManager d = Some m" and no: "no_access m r"
    and lims: "quiet (rd_IPLimiter d)" "quiet (rd_UserLimiter d)"
  shows "gc_status (fst (ServeHTTP d r w)) \<in> refusals r \<and> tables (snd (ServeHTTP d r w)) = tables w"
proof -
  let ?rs = "routes (release_mode d)"
  have "yields (asking r) (refusal r) (dispatch ?rs)"
  proof (rule guard.yields_dispatch)
    show "yields (asking r) (refusal r) h'"
      if "asking r c" "n = rq_Method (gc_request c)" "p = rq_FullPath (gc_request c)"
        "find_route ?rs n p = Some h'" for c n p h'
      using that guard_refuses [OF _ guarded _ no, of h' "release_mode d"] find_route_member [of ?rs n p h'] m
      by (simp add: asking_def)
    show "refusal r (c_Status 404 c) t t"
      if "asking r c" "find_route ?rs (rq_Method (gc_request c)) (rq_FullPath (gc_request c)) = None" for c t
      using that find_route_some [of "rq_Method r" "rq_FullPath r" ?rs] r route_keys [of d "release_mode d"]
      by (simp add: asking_def)
  qed
  then have "yields (asking r) (refusal r) (NewRouter d)"
    by (rule guard.yields_server [OF _ lims [THEN quiet_unnoticed]])
      (simp add: asking_def set_claims_def)
  moreover have "asking r (new_context r)"
    using routes_methods [OF r] by (simp add: asking_def new_context_def)
  ultimately have "refusal r (fst (ServeHTTP d r w)) (tables w) (tables (snd (ServeHTTP d r w)))"
    by (rule guard.server)
  then show ?thesis by (simp add: refusal_def)
qed

theorem protected_routes_witness:
  "gc_status (fst (ServeHTTP sample_deps (sample_request ''GET'' ''/api/v1/admin/users'') (sample_app []))) \<in> {401, 403, 429}"
proof -
  let ?r = "sample_request ''GET'' ''/api/v1/admin/users''"
  have route: "(rq_Method ?r, rq_FullPath ?r) \<in> set (map route_key (routes sample_deps))"
    by (simp add: routes_def user_routes_def route_key_def)
  have guarded: "(rq_Method ?r, rq_FullPath ?r) \<notin> public_routes" by (simp add: public_routes_def)
  have no: "no_access (NewManager sample_auth None ref_jwt) ?r" by (simp add: no_access_def no_token)
  show ?thesis
    using protected_routes [OF route guarded sample_server(3) no sample_server(5,6), where w = "sample_app []"]
    by (simp add: refusals_def admin_routes_def)
qed

section \<open>One answer to each request\<close>

definition statuses :: "int set" where
  "statuses = {200, 201, 204, 207, 400, 401, 403, 404, 409, 429, 500}"

text \<open>One body at most, and none only with 204, with the 404 of an unknown path and after a panic.\<close>

definition one_answer :: "gin_context \<Rightarrow> bool" where
  "one_answer c \<longleftrightarrow> gc_status c \<in> statuses \<and> length (gc_replies c) \<le> 1
     \<and> (gc_replies c = [] \<longrightarrow> gc_status c \<in> {204, 404, 500})"

text \<open>The same along the chain, where a panic has not been recovered yet.\<close>

definition settled :: "gin_context \<Rightarrow> bool" where
  "settled c \<longleftrightarrow> length (gc_replies c) \<le> 1
     \<and> (gc_replies c \<noteq> [] \<or> \<not> gc_panicked c \<longrightarrow> one_answer c)"

definition unanswered :: "string \<Rightarrow> gin_context \<Rightarrow> bool" where
  "unanswered hdr c \<longleftrightarrow> not_owner hdr uuid_nil c \<and> gc_replies c = []"

interpretation once: chain "unanswered hdr" "\<lambda>c t t'. settled c" for hdr :: string
  by unfold_locales
    (auto simp: settled_def unanswered_def not_owner_def c_GetHeader_def one_answer_def statuses_def)

lemma settled_one: "one_answer c \<Longrightarrow> settled c"
  by (simp add: settled_def one_answer_def)

lemma answers [simp]:
  assumes "gc_replies c = []"
  shows "settled (c_JSON code j c) \<longleftrightarrow> code \<in> statuses"
    and "settled (c_Status 204 c)" and "settled (panicking c)"
    and "settled (ValidationError hl err c)" and "settled (handleUserError hl e c)"
    and "settled (handleProfileError hl e' c)" and "settled (NotFound res c)"
    and "settled (Unauthorized m c)" and "settled (c_Abort (Unauthorized m c))"
    and "settled (Paginated j n off l c)"
  using assms
  by (auto simp: settled_def one_answer_def statuses_def replies handleUserError_def handleProfileError_def
      split: user_error.split profile_error.split)

lemma MustUserID_unanswered:
  assumes "unanswered hdr c"
  shows "(\<exists>u. MustUserID c = (u, c) \<and> u \<noteq> uuid_nil)
    \<or> (\<exists>m. MustUserID c = (uuid_nil, c_Abort (Unauthorized m c)))"
  using assms by (auto simp: MustUserID_def unanswered_def not_owner_def split: option.split ctx_value.split)

lemma answers_caller:
  assumes "unanswered hdr c" and "\<And>u. settled (fst (act u c w))"
  shows "settled (fst (case MustUserID c of (u, c1) \<Rightarrow> if u = uuid_nil then (c1, w) else act u c1 w))"
  using MustUserID_unanswered [OF assms(1)] assms by (auto simp: unanswered_def)

lemma answers_with_id:
  assumes "unanswered hdr c" and "\<And>i u. settled (fst (act i u c w))"
  shows "settled (fst (with_id hl act c w))"
  using MustUserID_unanswered [OF assms(1)] assms
  by (auto simp: with_id_def unanswered_def split: option.split)

lemma answers_bind:
  assumes "gc_replies c = []" and "\<And>req. settled (fst (h req))"
  shows "settled (fst (case b of Inl err \<Rightarrow> (ValidationError hl err c, w) | Inr req \<Rightarrow> h req))"
  using assms by (simp split: sum.split)

lemma user_handlers_answer:
  assumes "gc_replies c = []"
  shows "settled (fst (register_h hl us c w))" and "settled (fst (login_h hl us c w))"
    and "settled (fst (refresh_h hl us c v))" and "settled (fst (getMe_h hl us c v))"
    and "settled (fst (updateMe_h hl us c w))" and "settled (fst (listUsers_h hl us c v))"
    and "settled (fst (health_h c x))" and "settled (fst (logs_h c y))"
  using assms
  by (simp_all add: register_h_def login_h_def refresh_h_def getMe_h_def updateMe_h_def listUsers_h_def
      health_h_def logs_h_def statuses_def Let_def split: sum.split prod.split option.split ctx_value.split)

lemma profile_handlers_answer:
  assumes c: "unanswered hdr c"
  shows "settled (fst (create_h hl s c w))" and "settled (fst (bulkCreate_h hl s c w))"
    and "settled (fst (get_h hl s c w))" and "settled (fst (list_h hl s c w))"
    and "settled (fst (update_h hl s c w))" and "settled (fst (patch_h hl s c w))"
    and "settled (fst (delete_h hl s c w))" and "settled (fst (bulkDelete_h hl s c w))"
proof -
  have r: "gc_replies c = []" using c by (simp add: unanswered_def)
  note splits = sum.split prod.split option.split
  show "settled (fst (create_h hl s c w))"
    unfolding create_h_def
    by (rule answers_bind [OF r], rule answers_caller [OF c]) (simp add: r statuses_def split: splits)
  show "settled (fst (bulkCreate_h hl s c w))"
    unfolding bulkCreate_h_def
    by (rule answers_bind [OF r], rule answers_caller [OF c]) (simp add: r statuses_def split: splits)
  show "settled (fst (get_h hl s c w))"
    unfolding get_h_def by (rule answers_with_id [OF c]) (simp add: r statuses_def split: splits)
  show "settled (fst (list_h hl s c w))"
    unfolding list_h_def by (rule answers_caller [OF c]) (simp add: r statuses_def Let_def split: splits)
  show "settled (fst (update_h hl s c w))"
    unfolding update_h_def
    by (rule answers_bind [OF r], rule answers_with_id [OF c]) (simp add: r statuses_def split: splits)
  show "settled (fst (patch_h hl s c w))"
    unfolding patch_h_def
    by (rule answers_bind [OF r], rule answers_with_id [OF c]) (simp add: r statuses_def split: splits)
  show "settled (fst (delete_h hl s c w))"
    unfolding delete_h_def
    by (rule answers_with_id [OF c]) (simp add: r Let_def split: splits)
  show "settled (fst (bulkDelete_h hl s c w))"
    unfolding bulkDelete_h_def
    by (rule answers_bind [OF r], rule answers_caller [OF c]) (simp add: r statuses_def split: splits)
qed

lemma routes_answer:
  fixes d :: "'a router_deps"
  assumes token: "\<And>m. rd_AuthManager d = Some m \<Longrightarrow> foreign_token m uuid_nil hdr"
    and metrics: "\<And>c w. gc_replies c = [] \<Longrightarrow> one_answer (fst (rd_Metrics d c w))"
    and r: "(n, p, h) \<in> set (routes d)"
  shows "yields (unanswered hdr) (\<lambda>c t t'. settled c) h"
proof -
  let ?K = "yields (unanswered hdr) (\<lambda>c t t'. settled c) :: 'a app_state_scheme handler \<Rightarrow> bool"
  have empty: "gc_replies c = []" if "unanswered hdr c" for c using that by (simp add: unanswered_def)
  have auth: "?K (AuthMiddleware m h)" if h: "?K h" and m: "rd_AuthManager d = Some m" for m h
  proof -
    have "unanswered hdr (set_claims cl c)"
      if "unanswered hdr c" "ParseAccessToken m (extractBearer (c_GetHeader c ''Authorization'')) w = (Inr cl, w')"
      for c cl and w w' :: "'a app_state_scheme"
      using that not_owner_claims [OF token [OF m]] by (simp add: unanswered_def set_claims_def)
    then show ?thesis by (intro once.yields_AuthMiddleware yieldsD [OF h])
  qed
  show ?thesis
  proof (rule route_rule [OF r, where K = ?K])
    show "?K (auth_mw d h)" if "?K h" for h
      using that auth by (cases "rd_AuthManager d") (simp_all add: auth_mw_def)
    show "?K (AdminOnly h)" if "?K h" for h
      using that empty
      by (auto simp: yields_def AdminOnly_def Let_def Forbidden_def settled_def one_answer_def statuses_def)
    show "?K (rd_Metrics d)" by (rule yieldsI) (rule settled_one [OF metrics [OF empty]])
  qed (auto intro!: yieldsI user_handlers_answer profile_handlers_answer dest: empty)
qed



section \<open>Following the cursor of a listing\<close>

text \<open>C36 (a cursor drops profiles). The handler renders the creation time of the last profile of a page
  in whole seconds. The page a client asks for with that cursor holds only profiles created before
  that second: one created earlier than the last of the page, but in its second, is on no page.\<close>

theorem cursor_skips:
  assumes texts: "documented_texts hl" and order: "documented_order sl"
    and ps: "ps \<noteq> []" "four_digit_year (p_CreatedAt (last ps))"
    and query: "c_Query c ''cursor'' = next_cursor hl ps"
    and run: "ListProfiles (app_profiles sl lib) (list_filter hl c u) w = (Inr (qs, n), w')"
    and q: "p_CreatedAt (last ps) - p_CreatedAt (last ps) mod nanos_per_second \<le> p_CreatedAt q"
  shows "q \<notin> set qs"
proof
  assume "q \<in> set qs"
  let ?flt = "list_filter hl c u" and ?t = "p_CreatedAt (last ps) - p_CreatedAt (last ps) mod nanos_per_second"
  have "pf_CursorTime ?flt = Some ?t"
    using texts ps query by (simp add: list_filter_def next_cursor_def documented_texts_def Let_def)
  then have match: "p_CreatedAt p < ?t" if "profile_matches sl ?flt p" for p
    using that by (simp add: profile_matches_def)
  have "sql_page sl (pf_Limit ?flt) (pf_Offset ?flt)
      (sl_order_profiles sl (filter (profile_matches sl ?flt) (db_profiles w))) = Inr qs"
    using run ListProfileRows_table [of sl ?flt w] by (auto simp: ListProfiles_def)
  then have "set qs \<subseteq> {p \<in> set (db_profiles w). profile_matches sl ?flt p}"
    using page_subset ordered_rows(1) [OF order] by fastforce
  with \<open>q \<in> set qs\<close> have "p_CreatedAt q < ?t" by (intro match) auto
  with q show False by simp
qed

text \<open>Two profiles made in the same second, the later one last of the first page.\<close>

definition made_at :: "timestamp \<Rightarrow> uuid \<Rightarrow> profile" where
  "made_at t i = sample_profile\<lparr>p_ID := i, p_CreatedAt := t\<rparr>"

definition asking_cursor :: "string \<Rightarrow> gin_context" where
  "asking_cursor s = new_context ((sample_request ''GET'' ''/api/v1/profiles'')\<lparr>rq_Query := [''cursor'' \<mapsto> s]\<rparr>)"

lemma documented_sample_texts: "documented_texts sample_http"
proof -
  have "t div nanos_per_second * nanos_per_second = t - t mod nanos_per_second" for t
    by (simp add: minus_mod_eq_div_mult)
  moreover have "show_nat n \<noteq> []" for n by (subst show_nat.simps) simp
  then have "itoa n \<noteq> []" for n by (simp add: itoa_def)
  ultimately show ?thesis by (simp add: documented_texts_def sample_http_def read_int_itoa)
qed

theorem cursor_skips_witness:
  "\<exists>qs n w'. ListProfiles sample_profiles (list_filter sample_http (asking_cursor (next_cursor sample_http [made_at 700000000 6])) 1000)
      (sample_db [] [made_at 200000000 5, made_at 700000000 6]) = (Inr (qs, n), w')
     \<and> made_at 200000000 5 \<notin> set qs"
proof -
  let ?c = "asking_cursor (next_cursor sample_http [made_at 700000000 6])"
  let ?flt = "list_filter sample_http ?c 1000" and ?w = "sample_db [] [made_at 200000000 5, made_at 700000000 6]"
  have "0 \<le> pf_Limit ?flt" "0 \<le> pf_Offset ?flt"
    by (simp_all add: list_filter_def GetLimit_def GetOffset_def asking_cursor_def new_context_def c_Query_def
        sample_request_def Let_def)
  then have "\<exists>x. fst (ListProfiles sample_profiles ?flt ?w) = Inr x"
    by (simp add: List_reliable db_reliable_def)
  then obtain qs n w' where run: "ListProfiles sample_profiles ?flt ?w = (Inr (qs, n), w')"
    by (metis prod.collapse)
  have "c_Query ?c ''cursor'' = next_cursor sample_http [made_at 700000000 6]"
    by (simp add: c_Query_def asking_cursor_def new_context_def)
  from cursor_skips [OF documented_sample_texts documented_sample_order _ _ this run, of "made_at 200000000 5"] run
  show ?thesis by (auto simp: made_at_def four_digit_year_def nanos_per_second_def)
qed

end
