(* ===== verification/StartupProperties.thy ===== *)
theory StartupProperties
  imports Startup HttpProperties
begin

text \<open>
  What the program does as \<open>main\<close> puts it together: with Redis no request passes the limiter, and
  which handles of the database are left open when the process ends.
\<close>

section \<open>The counters of the limiter\<close>

text \<open>No counter under the prefix is positive, and none is below \<open>- n\<close>, as after \<open>n\<close> requests to a new
  Redis that answers.\<close>

definition drained :: "string \<Rightarrow> nat \<Rightarrow> 'a redis_server_scheme \<Rightarrow> bool" where
  "drained pre n w \<longleftrightarrow> redis_faults w = Map.empty \<and> clock_forward w
     \<and> (\<forall>k v. redis_get w (pre @ k) = Some v \<longrightarrow> (\<exists>m. v = itoa m \<and> - int n \<le> m \<and> m \<le> 0))"

lemma drainedD: "drained pre n w \<Longrightarrow> redis_get w (pre @ k) = Some v \<Longrightarrow> \<exists>m. v = itoa m \<and> - int n \<le> m \<and> m \<le> 0"
  by (simp add: drained_def)

lemma drained_later:
  assumes "drained pre n w" and "redis_faults v = redis_faults w" and "clock v = clock w" and "n \<le> n'"
    and "\<And>k x. redis_get v (pre @ k) = Some x \<Longrightarrow>
      redis_get w (pre @ k) = Some x \<or> (\<exists>m. x = itoa m \<and> - int n' \<le> m \<and> m \<le> 0)"
  shows "drained pre n' v"
  unfolding drained_def
proof (intro conjI allI impI)
  show "redis_faults v = Map.empty" "clock_forward v"
    using assms(1-3) by (simp_all add: drained_def clock_forward_def)
  fix k x assume "redis_get v (pre @ k) = Some x"
  from assms(5) [OF this] show "\<exists>m. x = itoa m \<and> - int n' \<le> m \<and> m \<le> 0"
    using drainedD [OF assms(1), of k x] assms(4) by fastforce
qed

lemma drained_tick:
  assumes w: "drained pre n w"
  shows "drained pre n (tick w)"
proof (rule drained_later [OF w])
  have "clock_forward w" using w by (simp add: drained_def)
  then show "redis_get w (pre @ k) = Some x \<or> (\<exists>m. x = itoa m \<and> - int n \<le> m \<and> m \<le> 0)"
    if "redis_get (tick w) (pre @ k) = Some x" for k x
    using that redis_get_tick [of w "pre @ k"] by simp
qed (simp_all add: tick_def)

lemma drained_draw: "drained pre n w \<Longrightarrow> drained pre n (draw w)"
  by (erule drained_later) (simp_all add: draw_def redis_get_def redis_time_def)

lemma drained_decr:
  assumes w: "drained pre n w" and n: "Suc n \<le> 2 ^ 63"
  shows "\<exists>m w'. ref_decr (pre @ k) w = (Inr m, w') \<and> m < 0 \<and> drained pre (Suc n) w'"
proof -
  obtain w1 where w1: "redis_call w = (None, w1)" using w by (simp add: redis_call_def drained_def)
  have same: "redis_get w1 = redis_get w" "clock w1 = clock w" "redis_faults w1 = redis_faults w"
    using redis_call_frame(1,3) [of w] w1 by (auto simp: redis_call_def)
  have "\<exists>m. (case redis_get w1 (pre @ k) of None \<Rightarrow> Some 0 | Some v \<Rightarrow> atoi v) = Some m \<and> - int n \<le> m \<and> m \<le> 0"
  proof (cases "redis_get w1 (pre @ k)")
    case (Some v)
    then obtain m where "v = itoa m" "- int n \<le> m" "m \<le> 0" using drainedD [OF w] same(1) by fastforce
    moreover from this n have "in_int64 m" by (simp add: in_int64_def)
    ultimately show ?thesis using Some by (simp add: atoi_itoa)
  qed simp
  then obtain m where m: "(case redis_get w1 (pre @ k) of None \<Rightarrow> Some 0 | Some v \<Rightarrow> atoi v) = Some m"
      "- int n \<le> m" "m \<le> 0" by blast
  then have "in_int64 (m - 1)" using n by (simp add: in_int64_def)
  then have run: "ref_decr (pre @ k) w = (Inr (m - 1), redis_put (pre @ k) (itoa (m - 1)) (redis_ttl w1 (pre @ k)) w1)"
    using w1 m(1) by (simp add: ref_decr_def)
  have "drained pre (Suc n) (redis_put (pre @ k) (itoa (m - 1)) (redis_ttl w1 (pre @ k)) w1)"
  proof (rule drained_later [OF w])
    fix k' x assume "redis_get (redis_put (pre @ k) (itoa (m - 1)) (redis_ttl w1 (pre @ k)) w1) (pre @ k') = Some x"
    then show "redis_get w (pre @ k') = Some x \<or> (\<exists>m. x = itoa m \<and> - int (Suc n) \<le> m \<and> m \<le> 0)"
      using redis_get_put [of "redis_ttl w1 (pre @ k)" _ w1 "pre @ k" "itoa (m - 1)"] m(2,3) same(1)
      by (auto split: if_splits)
  qed (simp_all add: redis_put_def same)
  with run m(3) show ?thesis by auto
qed

section \<open>The chain behind it\<close>

definition limiter_prefix :: "rate_limit_config \<Rightarrow> string" where
  "limiter_prefix rl = rl_RedisPrefix rl @ '':ip:''"

text \<open>A handler that answers 429 and leaves the counters drained.\<close>

definition denies :: "string \<Rightarrow> nat \<Rightarrow> 'a redis_server_scheme handler \<Rightarrow> bool" where
  "denies pre n h \<longleftrightarrow> (\<forall>c w. gc_replies c = [] \<longrightarrow> \<not> gc_panicked c \<longrightarrow> rq_Method (gc_request c) \<noteq> ''OPTIONS'' \<longrightarrow>
     drained pre n w \<longrightarrow>
     (\<exists>c' w'. h c w = (c', w') \<and> gc_status c' = 429 \<and> \<not> gc_panicked c' \<and> drained pre (Suc n) w'))"

lemma deniesD:
  assumes "denies pre n h" and "gc_replies c = []" and "\<not> gc_panicked c"
    and "rq_Method (gc_request c) \<noteq> ''OPTIONS''" and "drained pre n w"
  shows "\<exists>c' w'. h c w = (c', w') \<and> gc_status c' = 429 \<and> \<not> gc_panicked c' \<and> drained pre (Suc n) w'"
  using assms unfolding denies_def by blast

lemma denies_limiter:
  fixes k :: "'a redis_server_scheme handler"
  assumes n: "Suc n \<le> 2 ^ 63"
  shows "denies (limiter_prefix rl) n (RateLimit hl (Some (RedisAllow (redis_limiter_for rl '':ip''))) ul k)"
  unfolding denies_def
proof (intro allI impI)
  fix c :: gin_context and w :: "'a redis_server_scheme"
  assume c: "gc_replies c = []" "\<not> gc_panicked c" and w: "drained (limiter_prefix rl) n w"
  let ?ip = "''ip:'' @ rq_ClientIP (gc_request c)"
  obtain m w1 where d: "ref_decr (limiter_prefix rl @ ?ip) w = (Inr m, w1)" "m < 0"
      "drained (limiter_prefix rl) (Suc n) w1"
    using drained_decr [OF w n, of ?ip] by blast
  then obtain i where i: "RedisAllow (redis_limiter_for rl '':ip'') ?ip w = (Inr i, tick w1)" "\<not> ri_Allowed i"
    by (auto simp: RedisAllow_def redis_limiter_for_def NewRedisLimiter_def ref_redis_def limiter_prefix_def
        draws Let_def)
  from d(3) have "drained (limiter_prefix rl) (Suc n) (tick (tick (tick w1)))" by (intro drained_tick)
  with i c show "\<exists>c' w'. RateLimit hl (Some (RedisAllow (redis_limiter_for rl '':ip''))) ul k c w = (c', w')
      \<and> gc_status c' = 429 \<and> \<not> gc_panicked c' \<and> drained (limiter_prefix rl) (Suc n) w'"
    by (simp add: RateLimit_def check_limit_def setHeaders_def TooManyRequests_def draws Let_def)
qed

lemma denies_OptionalAuth:
  fixes k :: "'a token_state_scheme handler"
  assumes k: "denies pre n k"
  shows "denies pre n (OptionalAuth m k)"
  unfolding denies_def
proof (intro allI impI)
  fix c :: gin_context and w :: "'a token_state_scheme"
  assume c: "gc_replies c = []" "\<not> gc_panicked c" "rq_Method (gc_request c) \<noteq> ''OPTIONS''"
    and w: "drained pre n w"
  obtain r w1 where r: "ParseAccessToken m (extractBearer (c_GetHeader c ''Authorization'')) w = (r, w1)"
    by (cases "ParseAccessToken m (extractBearer (c_GetHeader c ''Authorization'')) w")
  then have "w1 = tick w"
    using parse_state [of m "extractBearer (c_GetHeader c ''Authorization'')" _ w]
    by (metis ParseAccessToken_def snd_conv)
  then have w1: "drained pre n w1" using drained_tick [OF w] by simp
  show "\<exists>c' w'. OptionalAuth m k c w = (c', w') \<and> gc_status c' = 429 \<and> \<not> gc_panicked c' \<and> drained pre (Suc n) w'"
    using deniesD [OF k c w] deniesD [OF k c w1] deniesD [OF k, of "set_claims _ c", OF _ _ _ w1] r c
    by (cases r) (auto simp: OptionalAuth_def Let_def set_claims_def)
qed

lemma denies_CORS: "denies pre n k \<Longrightarrow> denies pre n (CORS cfg k)"
  unfolding denies_def by (simp add: CORS_def Let_def)

lemma denies_RequestID:
  fixes k :: "'a redis_server_scheme handler"
  assumes k: "denies pre n k"
  shows "denies pre n (RequestID hl k)"
  unfolding denies_def
proof (intro allI impI)
  fix c :: gin_context and w :: "'a redis_server_scheme"
  assume c: "gc_replies c = []" "\<not> gc_panicked c" "rq_Method (gc_request c) \<noteq> ''OPTIONS''"
    and w: "drained pre n w"
  show "\<exists>c' w'. RequestID hl k c w = (c', w') \<and> gc_status c' = 429 \<and> \<not> gc_panicked c' \<and> drained pre (Suc n) w'"
    using deniesD [OF k _ _ _ w] deniesD [OF k _ _ _ drained_draw [OF w]] c
    by (auto simp: RequestID_def draws Let_def)
qed

lemma denies_Recovery: "denies pre n k \<Longrightarrow> denies pre n (Recovery k)"
  unfolding denies_def Recovery_def by fastforce

lemma denies_server:
  fixes d :: "'a router_deps"
  assumes "rd_Config d = Some cfg" and "rl_Enabled (cfg_RateLimit cfg)" and n: "Suc n \<le> 2 ^ 63"
    and ip: "rd_IPLimiter d = Some (RedisAllow (redis_limiter_for rl '':ip''))"
  shows "denies (limiter_prefix rl) n (NewRouter d)"
proof -
  let ?d = "release_mode d"
  let ?k = "RateLimit (rd_Lib ?d) (rd_IPLimiter ?d) (rd_UserLimiter ?d)
    (RequestLogger (rd_Lib ?d) (rd_Logger ?d) (rd_LogBuffer ?d) (dispatch (routes ?d)))"
  have k: "denies (limiter_prefix rl) n ?k" using denies_limiter [OF n] by (simp add: ip)
  have lim: "(if rate_limited ?d then RateLimit (rd_Lib ?d) (rd_IPLimiter ?d) (rd_UserLimiter ?d) else (\<lambda>k. k))
      = RateLimit (rd_Lib ?d) (rd_IPLimiter ?d) (rd_UserLimiter ?d)"
    using assms(1,2) by (simp add: rate_limited_def)
  have "denies (limiter_prefix rl) n (when_some (rd_AuthManager ?d) OptionalAuth ?k)"
    using k denies_OptionalAuth [OF k] by (simp add: when_some_def split: option.split)
  then have "denies (limiter_prefix rl) n
      (when_some (rd_Config ?d) (\<lambda>cfg. CORS (cfg_Cors cfg)) (when_some (rd_AuthManager ?d) OptionalAuth ?k))"
    using assms(1) by (simp add: when_some_def denies_CORS)
  then show ?thesis unfolding NewRouter_def engine_def lim by (intro denies_Recovery denies_RequestID)
qed

lemma serve_denied:
  fixes d :: "'a router_deps"
  assumes "rd_Config d = Some cfg" and "rl_Enabled (cfg_RateLimit cfg)"
    and "rd_IPLimiter d = Some (RedisAllow (redis_limiter_for rl '':ip''))"
    and "drained (limiter_prefix rl) n w" and "n + length rs \<le> 2 ^ 63"
    and "\<forall>r \<in> set rs. rq_Method r \<noteq> ''OPTIONS''"
  shows "map gc_status (fst (serve d rs w)) = replicate (length rs) 429"
  using assms(4-6)
proof (induction rs arbitrary: n w)
  case (Cons r rs)
  then have "Suc n \<le> 2 ^ 63" by simp
  from deniesD [OF denies_server [OF assms(1,2) this assms(3)], of "new_context r" w] Cons.prems
  obtain c' w' where r: "ServeHTTP d r w = (c', w')" "gc_status c' = 429" "drained (limiter_prefix rl) (Suc n) w'"
    by (auto simp: ServeHTTP_def new_context_def)
  have "map gc_status (fst (serve d rs w')) = replicate (length rs) 429"
    by (rule Cons.IH [OF r(3)]) (use Cons.prems in simp_all)
  with r show ?case by (simp add: split_beta)
qed simp


definition sample_zap :: zap_lib where
  "sample_zap =
     (let preset = \<lparr>zc_Level = InfoLevel, zc_Development = False, zc_Encoding = ''json'',
          zc_OutputPaths = [''stderr''], zc_ErrorOutputPaths = [''stderr''], zc_TimeKey = ''ts'',
          zc_EncodeTime = ''epoch''\<rparr>
      in \<lparr>zl_production = preset, zl_development = preset\<lparr>zc_Level := DebugLevel\<rparr>, zl_build = (\<lambda>_. None)\<rparr>)"

definition sample_libs :: "unit main_libs" where
  "sample_libs =
     \<lparr>mn_config = \<lparr>cl_unicode_lower = (\<lambda>s. s), cl_parse_float = (\<lambda>_. None), cl_float64 = (\<lambda>x. x)\<rparr>,
      mn_sqlx = \<lparr>sx_open = (\<lambda>_ _. None), sx_ping = (\<lambda>_. None), sx_close = (\<lambda>_. None)\<rparr>,
      mn_zap = sample_zap, mn_ping = (\<lambda>_. None), mn_sql = sample_sql, mn_jwt = ref_jwt,
      mn_user = sample_user_lib, mn_profile = sample_profile_lib, mn_http = sample_http,
      mn_round = (\<lambda>x. x), mn_metrics = (\<lambda>c w. (c_JSON 200 JNull c, w))\<rparr>"

lemma sample_libs_fields [simp]:
  "sx_open (mn_sqlx sample_libs) x y = None" "sx_ping (mn_sqlx sample_libs) h = None"
  "sx_close (mn_sqlx sample_libs) h = None"
  "New (mn_zap sample_libs) e = Inr (Built (logger_config sample_zap e) [])" "mn_ping sample_libs o' = None"
  by (simp_all add: sample_libs_def New_def Let_def sample_zap_def)

definition sample_config :: config where
  "sample_config = build_config (mn_config sample_libs) (\<lambda>_. [])"

lemma sample_Load: "Load (mn_config sample_libs) (\<lambda>_. []) = Inr sample_config"
proof -
  have "map ascii_lower ''postgres'' = ''postgres''" "list_all is_ascii ''postgres''" by code_simp+
  then have "to_lower f ''postgres'' = ''postgres''" for f by (simp add: to_lower_def list_all_iff)
  moreover have "auth_AccessSecret (load_auth (\<lambda>_. [])) \<noteq> []" "auth_RefreshSecret (load_auth (\<lambda>_. [])) \<noteq> []"
    by (simp_all add: load_auth_def getenv_def)
  ultimately show ?thesis
    by (simp add: Load_def sample_config_def config_validate_def build_config_def load_database_def getenv_def)
qed

lemma sample_config_fields [simp]:
  "cfg_RateLimit sample_config = load_rate_limit (\<lambda>_. [])" "cfg_Redis sample_config = load_redis (\<lambda>_. [])"
  by (simp_all add: sample_config_def build_config_def)


section \<open>The handles of the database\<close>

lemma Connect_refused:
  "Connect sx cfg [] = (Inl e, hs) \<Longrightarrow> length hs \<le> 1 \<and> (\<forall>h \<in> set hs. \<not> dh_closed h)"
  by (auto simp: Connect_def open_handle_def set_limits_def Let_def split: option.splits prod.splits)

text \<open>The handle for writing is open; a second one is the handle for reading, or closed again.\<close>

lemma Connect_handles:
  assumes "Connect sx cfg [] = (Inr m, hs)"
  shows "dm_Write m = 0 \<and> \<not> dh_closed (hs ! 0)
    \<and> (length hs = 1 \<and> dm_Read m = 0 \<or> length hs = 2 \<and> dm_Read m = (if dh_closed (hs ! 1) then 0 else 1))"
  using assms
  by (auto simp: Connect_def connect_read_def open_handle_def set_limits_def close_handle_def Let_def
      split: option.splits prod.splits if_splits)

lemma Connect_open:
  assumes "Connect sx cfg [] = (Inr m, hs)"
  shows "hs \<noteq> [] \<and> (\<exists>h \<in> set hs. \<not> dh_closed h)"
proof -
  have "hs ! 0 \<in> set hs" "hs \<noteq> []" using Connect_handles [OF assms] by (cases hs; auto)+
  then show ?thesis using Connect_handles [OF assms] by blast
qed

lemma Close_handles:
  assumes "Connect sx cfg [] = (Inr m, hs)" and "\<And>h. sx_close sx h = None"
  shows "length (snd (Close sx (Some m) hs)) = length hs"
    and "\<forall>h \<in> set (snd (Close sx (Some m) hs)). dh_closed h"
proof -
  consider h where "hs = [h]" "dm_Read m = 0" | h r where "hs = [h, r]" "dm_Read m = (if dh_closed r then 0 else 1)"
    using Connect_handles [OF assms(1)] by (auto simp: length_Suc_conv numeral_2_eq_2)
  then show "length (snd (Close sx (Some m) hs)) = length hs"
      "\<forall>h \<in> set (snd (Close sx (Some m) hs)). dh_closed h"
    using Connect_handles [OF assms(1)] by (cases; simp add: Close_def close_handle_def assms(2))+
qed



end
