(* ===== verification/ServerTables.thy ===== *)
theory ServerTables
  imports HttpProperties UserProperties
begin

text \<open>
  What no request does to the database: the constraints of
  \<open>migrations/postgres/001_init.up.sql\<close> as an invariant of the server, and what becomes of an
  account. First the steps the two services take on the tables, then the server, through the chain
  of its middlewares.
\<close>

section \<open>Accounts\<close>

text \<open>A step on the table of accounts: none, a new row with the role \<open>user\<close>, or the name, image and
  times of one live row, which its reader could read.\<close>

definition account_step :: "sql_lib \<Rightarrow> user_row list \<Rightarrow> user_row list \<Rightarrow> bool" where
  "account_step sl us us' \<longleftrightarrow>
     us' = us
     \<or> (\<exists>u. u_Role u = ''user'' \<and> us' = us @ [user_insert_row u]
          \<and> (\<forall>q \<in> set us. ur_id q \<noteq> u_ID u \<and> sl_lower sl (ur_email q) \<noteq> sl_lower sl (u_Email u)))
     \<or> (\<exists>r \<in> set us. \<exists>u. same_account u (row_user r)
          \<and> us' = update_where (\<lambda>q. ur_id q = ur_id r) (set_user_row u) us)"

lemma account_step_refl [simp]: "account_step sl us us"
  by (simp add: account_step_def)

lemma account_step_new:
  "\<forall>q \<in> set us. ur_id q \<noteq> u_ID u \<and> sl_lower sl (ur_email q) \<noteq> sl_lower sl (u_Email u) \<Longrightarrow>
    u_Role u = ''user'' \<Longrightarrow> account_step sl us (us @ [user_insert_row u])"
  unfolding account_step_def by blast

text \<open>What of a row no step changes.\<close>

definition same_credentials :: "user_row \<Rightarrow> user_row \<Rightarrow> bool" where
  "same_credentials r' r \<longleftrightarrow>
     ur_id r' = ur_id r \<and> ur_email r' = ur_email r \<and> ur_role r' = ur_role r
     \<and> ur_password_hash r' = ur_password_hash r \<and> ur_refresh_version r' = ur_refresh_version r
     \<and> ur_password_reset_at r' = ur_password_reset_at r
     \<and> ur_last_password_hash r' = ur_last_password_hash r
     \<and> ur_created_at r' = ur_created_at r \<and> ur_deleted_at r' = ur_deleted_at r"

definition accounts_stay :: "user_row list \<Rightarrow> user_row list \<Rightarrow> bool" where
  "accounts_stay us us' \<longleftrightarrow>
     (\<forall>r \<in> set us. \<exists>r' \<in> set us'. same_credentials r' r)
     \<and> (\<forall>r' \<in> set us'. (\<exists>r \<in> set us. same_credentials r' r)
          \<or> (ur_role r' = ''user'' \<and> ur_last_password_hash r' = None))"

lemma same_credentials_refl [simp]: "same_credentials r r"
  by (simp add: same_credentials_def)

lemma accounts_stayI:
  assumes "\<And>r. r \<in> set us \<Longrightarrow> \<exists>r' \<in> set us'. same_credentials r' r"
    and "\<And>r'. r' \<in> set us' \<Longrightarrow> (\<forall>r \<in> set us. \<not> same_credentials r' r) \<Longrightarrow>
      ur_role r' = ''user'' \<and> ur_last_password_hash r' = None"
  shows "accounts_stay us us'"
  using assms unfolding accounts_stay_def by blast

lemma accounts_stay_refl [simp]: "accounts_stay us us"
  by (rule accounts_stayI) (use same_credentials_refl in blast)+

lemma accounts_stay_new:
  assumes "ur_role x = ''user''" and "ur_last_password_hash x = None"
  shows "accounts_stay us (us @ [x])"
proof (rule accounts_stayI)
  fix r assume "r \<in> set us"
  then show "\<exists>r' \<in> set (us @ [x]). same_credentials r' r" by (intro bexI [of _ r]) simp_all
next
  fix r' assume r': "r' \<in> set (us @ [x])" "\<forall>r \<in> set us. \<not> same_credentials r' r"
  then have "r' \<notin> set us" using same_credentials_refl by blast
  with r'(1) assms show "ur_role r' = ''user'' \<and> ur_last_password_hash r' = None" by simp
qed

lemma accounts_stay_map: "(\<And>r. r \<in> set us \<Longrightarrow> same_credentials (f r) r) \<Longrightarrow> accounts_stay us (map f us)"
  by (rule accounts_stayI) auto

lemma accounts_stay_trans:
  assumes "accounts_stay us vs" and "accounts_stay vs ws"
  shows "accounts_stay us ws"
proof (rule accounts_stayI)
  have trans: "same_credentials p q \<Longrightarrow> same_credentials q r \<Longrightarrow> same_credentials p r" for p q r
    by (simp add: same_credentials_def)
  fix r assume "r \<in> set us"
  then obtain v where v: "v \<in> set vs" "same_credentials v r" using assms(1) unfolding accounts_stay_def by blast
  then obtain w where "w \<in> set ws" "same_credentials w v" using assms(2) unfolding accounts_stay_def by blast
  with v(2) trans show "\<exists>w \<in> set ws. same_credentials w r" by blast
next
  fix w assume w: "w \<in> set ws" "\<forall>r \<in> set us. \<not> same_credentials w r"
  have trans: "same_credentials p q \<Longrightarrow> same_credentials q r \<Longrightarrow> same_credentials p r" for p q r
    by (simp add: same_credentials_def)
  show "ur_role w = ''user'' \<and> ur_last_password_hash w = None"
  proof (cases "\<exists>v \<in> set vs. same_credentials w v")
    case True
    then obtain v where v: "v \<in> set vs" "same_credentials w v" by blast
    then have "\<forall>r \<in> set us. \<not> same_credentials v r" using w(2) trans by blast
    then have "ur_role v = ''user'' \<and> ur_last_password_hash v = None"
      using assms(1) v(1) unfolding accounts_stay_def by blast
    with v(2) show ?thesis by (simp add: same_credentials_def)
  next
    case False
    then show ?thesis using assms(2) w(1) unfolding accounts_stay_def by blast
  qed
qed

lemma account_step_effect:
  assumes ok: "users_ok sl us" and step: "account_step sl us us'"
  shows "users_ok sl us' \<and> accounts_stay us us' \<and> ur_id ` set us \<subseteq> ur_id ` set us'"
proof -
  consider "us' = us"
    | u where "u_Role u = ''user''" "us' = us @ [user_insert_row u]"
        "\<forall>q \<in> set us. ur_id q \<noteq> u_ID u \<and> sl_lower sl (ur_email q) \<noteq> sl_lower sl (u_Email u)"
    | r u where "r \<in> set us" "same_account u (row_user r)"
        "us' = update_where (\<lambda>q. ur_id q = ur_id r) (set_user_row u) us"
    using step unfolding account_step_def by blast
  then show ?thesis
  proof cases
    case 1
    with ok show ?thesis by simp
  next
    case (2 u)
    have "users_ok sl us'" unfolding 2(2) by (rule users_ok_append [OF ok]) (use 2(3) in simp)
    moreover have "ur_role (user_insert_row u) = ''user''" using 2(1) by (simp add: user_insert_row_def)
    then have "accounts_stay us us'"
      unfolding 2(2) by (intro accounts_stay_new) simp_all
    ultimately show ?thesis unfolding 2(2) by auto
  next
    case (3 r u)
    let ?f = "\<lambda>q. if ur_id q = ur_id r then set_user_row u q else q"
    have one: "q = r" if "q \<in> set us" "ur_id q = ur_id r" for q
      using distinct_map_same [of ur_id us q r] ok 3(1) that by (simp add: users_ok_def)
    have same: "same_credentials (?f q) q" if "q \<in> set us" for q
      using one [OF that] 3(2)
      by (auto simp: same_credentials_def set_user_row_def same_account_def row_user_def)
    have "set us' = ?f ` set us" unfolding 3(3) by (rule set_update_where)
    moreover have "ur_id ` set us' = ur_id ` set us"
      unfolding 3(3) set_map [symmetric] by (subst update_where_keeps) simp_all
    moreover have "users_ok sl us'" using ok unfolding 3(3) by (simp add: users_ok_update)
    moreover have "accounts_stay us (update_where (\<lambda>q. ur_id q = ur_id r) (set_user_row u) us)"
      unfolding update_where_def by (rule accounts_stay_map) (rule same)
    ultimately show ?thesis unfolding 3(3) by simp
  qed
qed

section \<open>The service of accounts\<close>

lemma email_found:
  assumes "GetUserByEmail sl e w = (Inr (Some u), w')"
  shows "\<exists>r \<in> set (db_users w). u = row_user r"
proof -
  let ?qs = "take 1 (filter (\<lambda>r. sl_lower sl (ur_email r) = sl_lower sl e \<and> live_row r) (db_users w))"
  have "scan_first sl ?qs = Inr (Some u)"
    using assms by (auto simp: GetUserByEmail_def query_def stmt_def split: sum.splits option.splits)
  then obtain r where "r \<in> set ?qs" "u = row_user r" using scan_first_Inr by blast
  moreover from this have "r \<in> set (db_users w)" using in_set_takeD by force
  ultimately show ?thesis by blast
qed

lemma id_found:
  assumes "GetUserByID sl i w = (Inr (Some u), w')"
  shows "\<exists>r \<in> set (db_users w). u = row_user r"
  using assms
  by (auto simp: GetUserByID_def query_def stmt_def split: sum.splits option.splits dest!: scan_first_Inr)

lemma updated_account:
  assumes "UpdateUser sl u w = (x, w')" and "r \<in> set (db_users w)" and "same_account u (row_user r)"
  shows "account_step sl (db_users w) (db_users w')"
proof -
  have "u_ID u = ur_id r" using assms(3) by (simp add: same_account_def)
  then show ?thesis using UpdateUser_table [OF assms(1)] assms(2,3) unfolding account_step_def by auto
qed

lemma register_step:
  fixes w :: "'a database_scheme"
  assumes "Register (app_users sl cfg up jl lib allow) req w = (r, w')"
  shows "account_step sl (db_users w) (db_users w')"
  using assms
  by (auto simp: Register_def draws Let_def split: if_splits option.splits prod.splits sum.splits
      dest!: get_tables(1) response_tables CreateUser_table intro!: account_step_new)

lemma login_step:
  fixes w :: "'a database_scheme"
  assumes run: "Login (app_users sl cfg up jl lib allow) req w = (r, w')"
  shows "account_step sl (db_users w) (db_users w')"
proof -
  let ?e = "ToLower lib (trim_space (lr_Email req))"
  obtain y v where y: "GetUserByEmail sl ?e w = (y, v)" by (cases "GetUserByEmail sl ?e w")
  have v: "db_users v = db_users w" using get_tables(1) [OF y] .
  show ?thesis
  proof (cases "\<exists>u. y = Inr (Some u)")
    case True
    then obtain u q where u: "y = Inr (Some u)" "q \<in> set (db_users w)" "u = row_user q"
      using email_found y by blast
    let ?u = "u\<lparr>u_LastLoginAt := Some (clock v (clock_reads v)), u_UpdatedAt := clock v (clock_reads v)\<rparr>"
    obtain x v2 where x: "UpdateUser sl ?u (tick v) = (x, v2)" by (cases "UpdateUser sl ?u (tick v)")
    have "same_account ?u (row_user q)" unfolding u(3) by (simp add: same_account_def)
    then have "account_step sl (db_users w) (db_users v2)"
      using updated_account [OF x, of q] u(2) v by simp
    then show ?thesis
      using run y u(1) x v
      by (auto simp: Login_def Let_def draws split: option.splits dest!: response_tables)
  next
    case False
    then show ?thesis
      using run y v by (auto simp: Login_def Let_def split: option.splits sum.splits)
  qed
qed

lemma updateMe_step:
  fixes w :: "'a database_scheme"
  assumes run: "UpdateMe (app_users sl cfg up jl lib allow) i req w = (r, w')"
  shows "account_step sl (db_users w) (db_users w')"
proof -
  obtain y v where y: "GetUserByID sl i w = (y, v)" by (cases "GetUserByID sl i w")
  have v: "db_users v = db_users w" using get_tables(2) [OF y] .
  show ?thesis
  proof (cases "\<exists>u. y = Inr (Some u)")
    case True
    then obtain u q where u: "y = Inr (Some u)" "q \<in> set (db_users w)" "u = row_user q"
      using id_found y by blast
    let ?u1 = "u\<lparr>u_Name := trim_space (ul_sanitize lib (uu_Name req))\<rparr>"
    let ?u2 = "case uu_ProfileImage req of None \<Rightarrow> ?u1 | Some p \<Rightarrow> ?u1\<lparr>u_ProfileImage := Some p\<rparr>"
    let ?u = "?u2\<lparr>u_UpdatedAt := clock v (clock_reads v)\<rparr>"
    obtain x v2 where x: "UpdateUser sl ?u (tick v) = (x, v2)" by (cases "UpdateUser sl ?u (tick v)")
    have "same_account ?u (row_user q)" unfolding u(3) by (simp add: same_account_def split: option.split)
    then have "account_step sl (db_users w) (db_users v2)"
      using updated_account [OF x, of q] u(2) v by simp
    moreover have "w' = v2 \<or> db_users w' = db_users w"
      using run y u(1) x v by (simp add: UpdateMe_def Let_def draws split: option.splits)
    ultimately show ?thesis by auto
  next
    case False
    then show ?thesis
      using run y v by (auto simp: UpdateMe_def Let_def split: option.splits sum.splits)
  qed
qed

lemma user_service_steps:
  fixes w :: "'a database_scheme" and sl cfg up jl lib allow
  defines "s \<equiv> app_users sl cfg up jl lib allow"
  shows "account_step sl (db_users w) (db_users (snd (Register s req w)))"
    and "account_step sl (db_users w) (db_users (snd (Login s lreq w)))"
    and "account_step sl (db_users w) (db_users (snd (Refresh s t w)))"
    and "account_step sl (db_users w) (db_users (snd (GetMe s i w)))"
    and "account_step sl (db_users w) (db_users (snd (UpdateMe s i ureq w)))"
    and "account_step sl (db_users w) (db_users (snd (ListUsers s flt w)))"
proof -
  show "account_step sl (db_users w) (db_users (snd (Register s req w)))"
    unfolding s_def by (rule register_step) (rule surjective_pairing)
  show "account_step sl (db_users w) (db_users (snd (Login s lreq w)))"
    unfolding s_def by (rule login_step) (rule surjective_pairing)
  show "account_step sl (db_users w) (db_users (snd (UpdateMe s i ureq w)))"
    unfolding s_def by (rule updateMe_step) (rule surjective_pairing)
  have "db_users w' = db_users w" if "Refresh s t w = (r, w')" for r w'
    using that unfolding s_def
    by (auto simp: Refresh_def same_tables_def split: prod.splits sum.splits option.splits
        dest!: app_token_tables get_tables(2))
  then show "account_step sl (db_users w) (db_users (snd (Refresh s t w)))"
    by (metis account_step_refl surjective_pairing)
  have "db_users w' = db_users w" if "GetMe s i w = (r, w')" for r w'
    using that unfolding s_def by (auto simp: GetMe_def split: prod.splits sum.splits dest!: get_tables(2))
  then show "account_step sl (db_users w) (db_users (snd (GetMe s i w)))"
    by (metis account_step_refl surjective_pairing)
  show "account_step sl (db_users w) (db_users (snd (ListUsers s flt w)))"
    using ListUserRows_table [of sl flt w] unfolding s_def by (simp add: ListUsers_def prod_eq_iff)
qed

section \<open>Profiles\<close>

text \<open>A step on the table of profiles adds none without an account.\<close>

definition owners :: "profile list \<Rightarrow> uuid set" where
  "owners ps = p_UserID ` set ps"

definition owned_step :: "'a database_scheme \<Rightarrow> 'a database_scheme \<Rightarrow> bool" where
  "owned_step w w' \<longleftrightarrow>
     db_users w' = db_users w
     \<and> owners (db_profiles w') \<subseteq> owners (db_profiles w) \<union> ur_id ` set (db_users w)"

lemma owned_refl [simp]: "owned_step w w"
  by (simp add: owned_step_def)

lemma owned_trans: "owned_step u v \<Longrightarrow> owned_step v w \<Longrightarrow> owned_step u w"
  by (auto simp: owned_step_def)

lemma owned_draws [simp]:
  "owned_step (tick w) w' \<longleftrightarrow> owned_step w w'" "owned_step (draw w) w' \<longleftrightarrow> owned_step w w'"
  "owned_step w (tick w') \<longleftrightarrow> owned_step w w'" "owned_step w (draw w') \<longleftrightarrow> owned_step w w'"
  by (simp_all add: owned_step_def)

lemma owned_stmt: "stmt w = (x, w') \<Longrightarrow> owned_step w w'"
  using stmt_frame [of w] by (simp add: owned_step_def)

lemma owned_query: "query f w = (x, w') \<Longrightarrow> owned_step w w'"
  by (auto simp: query_def split: prod.splits option.splits dest!: owned_stmt)

lemma owned_exec:
  assumes "exec_profiles f w = (x, w')"
    and "\<And>ps n. f (db_profiles w) = Inr (ps, n) \<Longrightarrow> owners ps \<subseteq> owners (db_profiles w) \<union> ur_id ` set (db_users w)"
  shows "owned_step w w'"
  using assms by (auto simp: exec_profiles_def stmt_def owned_step_def split: option.splits sum.splits)

lemma owners_update: "(\<And>p. p_UserID (f p) = p_UserID p) \<Longrightarrow> owners (update_where P f ps) = owners ps"
  unfolding owners_def set_map [symmetric] by (subst update_where_keeps) simp_all

lemma owners_filter: "owners (filter P ps) \<subseteq> owners ps"
  by (auto simp: owners_def)

lemma owned_create: "CreateProfile sl p w = (e, w') \<Longrightarrow> owned_step w w'"
  by (auto simp: CreateProfile_def split: prod.splits sum.splits elim!: owned_exec)
    (force simp: insert_profile_def owners_def split: if_splits)+

lemma owned_insert_all: "insert_all sl ps w = (e, w') \<Longrightarrow> owned_step w w'"
proof (induction ps arbitrary: w)
  case (Cons p ps)
  obtain x w1 where c: "CreateProfile sl p w = (x, w1)" by (cases "CreateProfile sl p w")
  then show ?case
    using Cons owned_create [OF c] owned_trans by (auto split: option.splits)
qed simp

lemma owned_rollback: "db_users v = db_users w \<Longrightarrow> owned_step w (v\<lparr>db_profiles := db_profiles w\<rparr>)"
  by (simp add: owned_step_def)

lemma owned_bulk:
  assumes "BulkCreateProfiles sl ps w = (e, w')"
  shows "owned_step w w'"
proof (cases "ps = []")
  case False
  obtain f1 w1 where s1: "stmt w = (f1, w1)" by (cases "stmt w")
  obtain x w2 where i: "insert_all sl ps w1 = (x, w2)" by (cases "insert_all sl ps w1")
  obtain f3 w3 where s3: "stmt w2 = (f3, w3)" by (cases "stmt w2")
  note steps = owned_stmt [OF s1] owned_insert_all [OF i] owned_stmt [OF s3]
  have w1: "db_profiles w1 = db_profiles w" "db_users w1 = db_users w" "db_users w2 = db_users w"
      "db_users w3 = db_users w"
    using s1 stmt_frame [of w] steps by (auto simp: owned_step_def)
  have "owned_step w w3" by (rule owned_trans [OF steps(1) owned_trans [OF steps(2,3)]])
  then show ?thesis
    using assms False s1 i s3 w1 steps(1)
    by (auto simp: BulkCreateProfiles_def owned_step_def split: option.splits)
qed (use assms in \<open>simp add: BulkCreateProfiles_def\<close>)

lemma owned_update: "UpdateProfile sl p w = (e, w') \<Longrightarrow> owned_step w w'"
  by (auto simp: UpdateProfile_def split: prod.splits sum.splits if_splits elim!: owned_exec)
    (auto simp: sql_update_def owners_update set_profile_row_def split: if_splits)

lemma owned_patch: "PatchProfile sl i owner fs v w = (r, w') \<Longrightarrow> owned_step w w'"
proof -
  assume run: "PatchProfile sl i owner fs v w = (r, w')"
  let ?now = "clock w (clock_reads w)"
  obtain x w2 where x: "exec_profiles (patch_rows sl i owner fs v ?now) (tick w) = (x, w2)"
    by (cases "exec_profiles (patch_rows sl i owner fs v ?now) (tick w)")
  have "owned_step (tick w) w2"
  proof (rule owned_exec [OF x])
    fix ps n assume "patch_rows sl i owner fs v ?now (db_profiles (tick w)) = Inr (ps, n)"
    from patch_rows_Inr(2) [OF this] obtain cs P where "ps = update_where P (patched cs ?now) (db_profiles w)"
      by auto
    then show "owners ps \<subseteq> owners (db_profiles (tick w)) \<union> ur_id ` set (db_users (tick w))"
      using owners_update [of "patched cs ?now" P "db_profiles w"] patched_keeps
      by (simp add: same_profile_def)
  qed
  moreover have "owned_step w2 w'"
    using run x by (auto simp: PatchProfile_def draws fetchByID_def split: sum.splits if_splits prod.splits
        dest!: owned_query)
  ultimately show ?thesis using owned_trans by auto
qed

lemma owned_delete: "DeleteProfile sl i owner hard v w = (e, w') \<Longrightarrow> owned_step w w'"
proof -
  assume run: "DeleteProfile sl i owner hard v w = (e, w')"
  have upd: "owned_step (tick w) w'"
    if "exec_profiles (\<lambda>ps. if c ps then Inl m else sql_update P (\<lambda>p. p\<lparr>p_DeletedAt := t, p_Version := p_Version p + 1\<rparr>) ps) (tick w) = (x, w')"
    for x c m P t
    using that by (rule owned_exec) (auto simp: sql_update_def owners_update split: if_splits)
  have del: "owned_step w w'"
    if "exec_profiles (\<lambda>ps. if c then Inl m else sql_delete P ps) w = (x, w')" for x c m P
    using that by (rule owned_exec) (use owners_filter in \<open>fastforce simp: sql_delete_def split: if_splits\<close>)
  show ?thesis
    using run
    by (cases hard) (auto simp: DeleteProfile_def draws Let_def split: prod.splits sum.splits if_splits
        dest!: upd del)
qed

lemma owned_bulk_delete: "BulkDeleteProfiles sl owner ids hard w = (r, w') \<Longrightarrow> owned_step w w'"
proof -
  assume run: "BulkDeleteProfiles sl owner ids hard w = (r, w')"
  have upd: "owned_step (tick w) w'"
    if "exec_profiles (sql_update P (\<lambda>p. p\<lparr>p_DeletedAt := t\<rparr>)) (tick w) = (x, w')" for x P t
    using that by (rule owned_exec) (auto simp: sql_update_def owners_update)
  have del: "owned_step w w'" if "exec_profiles (sql_delete P) w = (x, w')" for x P
    using that by (rule owned_exec) (use owners_filter in \<open>fastforce simp: sql_delete_def\<close>)
  show ?thesis
    using run
    by (cases hard) (auto simp: BulkDeleteProfiles_def draws Let_def split: prod.splits sum.splits if_splits
        dest!: upd del)
qed

lemma owned_get: "GetProfileByID sl i owner w = (g, w') \<Longrightarrow> owned_step w w'"
  by (auto simp: GetProfileByID_def split: prod.splits sum.splits list.splits dest!: owned_query)

lemma owned_list: "ListProfileRows sl flt w = (l, w') \<Longrightarrow> owned_step w w'"
  by (auto simp: ListProfileRows_def split: prod.splits sum.splits dest!: owned_query dest: owned_trans)

lemmas owned_statements =
  owned_create owned_bulk owned_update owned_patch owned_delete owned_bulk_delete owned_get owned_list

lemma owned_payloads: "bulk_payloads lib u reqs w = (r, w') \<Longrightarrow> owned_step w w'"
  for w :: "'a database_scheme"
proof (induction reqs arbitrary: w r)
  case (Cons req reqs)
  show ?case
    using Cons.prems
    by (auto simp: draws split: option.splits prod.splits dest!: Cons.IH)
qed simp

lemma owned_call:
  fixes w :: "'a database_scheme"
  shows "owned_step w (profile_do (app_profiles sl lib) (u, c) w)"
proof -
  let ?s = "app_profiles sl lib :: 'a database_scheme profile_service"
  note splits = option.splits prod.splits sum.splits if_splits
  note steps = owned_statements owned_payloads
  show ?thesis
  proof (cases c)
    case (CallCreate req)
    have "owned_step w w'" if "Create ?s u req w = (r, w')" for r w'
      using that by (auto simp: Create_def draws split: splits dest!: steps)
    then show ?thesis using CallCreate by (metis profile_do.simps(1) surjective_pairing)
  next
    case (CallBulkCreate req)
    have "owned_step w w'" if "BulkCreate ?s u req w = (r, w')" for r w'
      using that by (auto simp: BulkCreate_def split: splits dest!: steps dest: owned_trans)
    then show ?thesis using CallBulkCreate by (metis profile_do.simps(2) surjective_pairing)
  next
    case (CallGet i)
    have "owned_step w w'" if "Get ?s i u w = (r, w')" for r w'
      using that by (auto simp: Get_def split: splits dest!: steps)
    then show ?thesis using CallGet by (metis profile_do.simps(3) surjective_pairing)
  next
    case (CallList flt)
    then show ?thesis
      using owned_list [of sl "flt\<lparr>pf_UserID := u\<rparr>" w] by (simp add: ListProfiles_def prod_eq_iff)
  next
    case (CallUpdate i req)
    have "owned_step w w'" if "Update ?s i u req w = (r, w')" for r w'
      using that
      by (auto simp: Update_def draws Let_def split: splits dest!: steps dest: owned_trans)
    then show ?thesis using CallUpdate by (metis profile_do.simps(5) surjective_pairing)
  next
    case (CallPatch i req)
    have "owned_step w w'" if "Patch ?s i u req w = (r, w')" for r w'
      using that by (auto simp: Patch_def Let_def split: splits dest!: steps)
    then show ?thesis using CallPatch by (metis profile_do.simps(6) surjective_pairing)
  next
    case (CallDelete i hard v)
    have "owned_step w w'" if "Delete ?s i u hard v w = (r, w')" for r w'
      using that by (auto simp: Delete_def split: splits dest!: steps dest: owned_trans)
    then show ?thesis using CallDelete by (metis profile_do.simps(7) surjective_pairing)
  next
    case (CallBulkDelete req)
    have "owned_step w w'" if "BulkDelete ?s u req w = (r, w')" for r w'
      using that by (auto simp: BulkDelete_def split: splits dest!: steps)
    then show ?thesis using CallBulkDelete by (metis profile_do.simps(8) surjective_pairing)
  qed
qed

section \<open>The server\<close>

text \<open>The constraints of the schema: the keys of both tables, the range of a version, and the foreign
  key of a profile.\<close>

definition schema_ok :: "sql_lib \<Rightarrow> tables \<Rightarrow> bool" where
  "schema_ok sl t \<longleftrightarrow> users_ok sl (fst t) \<and> profiles_ok (snd t) \<and> owners (snd t) \<subseteq> ur_id ` set (fst t)"

definition schema_kept :: "sql_lib \<Rightarrow> tables \<Rightarrow> tables \<Rightarrow> bool" where
  "schema_kept sl t t' \<longleftrightarrow> (schema_ok sl t \<longrightarrow> schema_ok sl t' \<and> accounts_stay (fst t) (fst t'))"

lemma schema_kept_refl [simp]: "schema_kept sl t t"
  by (simp add: schema_kept_def)

lemma schema_kept_trans: "schema_kept sl s t \<Longrightarrow> schema_kept sl t u \<Longrightarrow> schema_kept sl s u"
  using accounts_stay_trans by (auto simp: schema_kept_def)

interpretation schema: chain "\<lambda>_. True" "\<lambda>c t t'. schema_kept sl t t'" for sl :: sql_lib
  by unfold_locales simp_all

lemma accounts_schema:
  fixes w w' :: "'a database_scheme"
  assumes "account_step sl (db_users w) (db_users w')" and "db_profiles w' = db_profiles w"
  shows "schema_kept sl (tables w) (tables w')"
  using account_step_effect [OF _ assms(1)] assms(2)
  by (simp add: schema_kept_def schema_ok_def tables_def) blast

lemma profiles_schema:
  fixes w :: "'a database_scheme"
  shows "schema_kept sl (tables w) (tables (profile_do (app_profiles sl' lib) (u, c) w))"
  using owned_call [of w sl' lib u c] app.call_effect [of w sl' lib u c]
  by (auto simp: schema_kept_def schema_ok_def tables_def owned_step_def)

lemma asks_schema: "asks (app_profiles sl' lib) h \<Longrightarrow> schema_kept sl (tables w) (tables (snd (h c w)))"
  for w :: "'a database_scheme"
  unfolding asks_def using profiles_schema schema_kept_refl by metis

lemma user_handlers_schema:
  fixes w :: "'a database_scheme" and sl cfg up jl lib allow
  defines "s \<equiv> app_users sl cfg up jl lib allow"
  shows "schema_kept sl (tables w) (tables (snd (register_h hl s c w)))"
    and "schema_kept sl (tables w) (tables (snd (login_h hl s c w)))"
    and "schema_kept sl (tables w) (tables (snd (refresh_h hl s c w)))"
    and "schema_kept sl (tables w) (tables (snd (getMe_h hl s c w)))"
    and "schema_kept sl (tables w) (tables (snd (updateMe_h hl s c w)))"
    and "schema_kept sl (tables w) (tables (snd (listUsers_h hl s c w)))"
proof -
  have calls: "schema_kept sl (tables w) (tables (snd (Register s req w)))"
      "schema_kept sl (tables w) (tables (snd (Login s lreq w)))"
      "schema_kept sl (tables w) (tables (snd (Refresh s t w)))"
      "schema_kept sl (tables w) (tables (snd (GetMe s i w)))"
      "schema_kept sl (tables w) (tables (snd (UpdateMe s i ureq w)))"
      "schema_kept sl (tables w) (tables (snd (ListUsers s flt w)))" for req lreq t i ureq flt
    unfolding s_def by (rule accounts_schema, rule user_service_steps, simp)+
  note split = sum.split option.split ctx_value.split
  show "schema_kept sl (tables w) (tables (snd (register_h hl s c w)))"
    and "schema_kept sl (tables w) (tables (snd (login_h hl s c w)))"
    and "schema_kept sl (tables w) (tables (snd (refresh_h hl s c w)))"
    by (simp_all add: register_h_def login_h_def refresh_h_def calls split: split)
  show "schema_kept sl (tables w) (tables (snd (getMe_h hl s c w)))"
    and "schema_kept sl (tables w) (tables (snd (updateMe_h hl s c w)))"
    and "schema_kept sl (tables w) (tables (snd (listUsers_h hl s c w)))"
    by (simp_all add: getMe_h_def updateMe_h_def listUsers_h_def calls Let_def split: split)
qed

lemma serve_schema:
  fixes d :: "'a router_deps"
  assumes services: "rd_Profiles d = app_profiles sl' lib" "rd_Users d = app_users sl cfg up jl ulib allow"
    and metrics: "\<And>c w. tables (snd (rd_Metrics d c w)) = tables w"
    and lims: "quiet (rd_IPLimiter d)" "quiet (rd_UserLimiter d)"
  shows "schema_kept sl (tables w) (tables (snd (ServeHTTP d r w)))"
proof -
  let ?d = "release_mode d"
  let ?K = "yields (\<lambda>_. True) (\<lambda>c t t'. schema_kept sl t t') :: 'a app_state_scheme handler \<Rightarrow> bool"
  have same: "?K h" if "\<And>c w. schema_kept sl (tables w) (tables (snd (h c w)))" for h
    using that by (simp add: yields_def)
  have "?K h" if r: "(n, p, h) \<in> set (routes ?d)" for n p h
  proof (rule route_rule [OF r, where K = ?K])
    show "?K (auth_mw ?d h)" if h: "?K h" for h
      using h schema.yields_AuthMiddleware [OF yieldsD [OF h]]
      by (simp add: auth_mw_def split: option.split)
    show "?K (AdminOnly h)" if "?K h" for h
      using that by (simp add: yields_def AdminOnly_def Let_def)
    show "?K health_h" "?K logs_h" by (rule same, simp add: health_h_def logs_h_def)+
    show "?K (rd_Metrics ?d)" by (rule same) (simp add: metrics)
  qed (auto simp: services intro: same user_handlers_schema asks_schema profile_handlers_ask)
  then have "?K (dispatch (routes ?d))"
    by (intro schema.yields_dispatch) (auto dest: find_route_member)
  then have "?K (NewRouter d)"
    by (rule schema.yields_server [OF _ lims [THEN quiet_unnoticed]]) simp
  then show ?thesis by (rule schema.server) simp
qed

text \<open>C7 (requests keep the database in order). Whatever requests the server answers, from whomever, the
  constraints of the schema still hold after them: identifiers and addresses of accounts are unique,
  those of profiles too, versions fit their column, and every profile belongs to an account. Every
  account is still there with its address, role and password hash, and every new one has the role
  \<open>user\<close>: no request removes an account, makes an admin or changes a password.\<close>

theorem server_keeps_schema:
  fixes d :: "'a router_deps" and w :: "'a app_state_scheme"
  assumes "rd_Profiles d = app_profiles sl' lib" and "rd_Users d = app_users sl cfg up jl ulib allow"
    and "\<And>c w. tables (snd (rd_Metrics d c w)) = tables w"
    and "quiet (rd_IPLimiter d)" and "quiet (rd_UserLimiter d)" and "schema_ok sl (tables w)"
  shows "schema_ok sl (tables (serve_all d rs w))
    \<and> accounts_stay (db_users w) (db_users (serve_all d rs w))"
proof -
  have "schema_kept sl (tables w) (tables (fold (\<lambda>r v. snd (ServeHTTP d r v)) rs w))"
  proof (induction rs arbitrary: w)
    case (Cons r rs)
    have "schema_kept sl (tables w) (tables (snd (ServeHTTP d r w)))"
      by (rule serve_schema [OF assms(1-5)])
    with Cons show ?case by (auto intro: schema_kept_trans)
  qed simp
  then show ?thesis using assms(6) by (simp add: schema_kept_def serve_all_def tables_def)
qed

theorem server_keeps_schema_witness:
  "schema_ok sample_sql (tables (serve_all sample_deps
      [sample_request ''POST'' ''/api/v1/auth/register'', sample_request ''DELETE'' ''/api/v1/profiles/:id'']
      ((sample_app [sample_profile])\<lparr>db_users := [sample_row]\<rparr>)))"
proof -
  have ok: "schema_ok sample_sql (tables ((sample_app [sample_profile])\<lparr>db_users := [sample_row]\<rparr>))"
    by (simp add: schema_ok_def tables_def users_ok_def profiles_ok_def owners_def sample_profile_def
        sample_row_def int4_def)
  have "tables (snd (rd_Metrics sample_deps c w)) = tables w" for c w by simp
  from server_keeps_schema [OF sample_server(2,1) this sample_server(5,6) ok] show ?thesis by blast
qed

end
