(* ===== verification/DemoSeed.thy ===== *)
theory DemoSeed
  imports Bodies
begin

text \<open>
  \<open>scripts/demo_seed.go\<close>, the client that fills a running server with three accounts and a profile
  each. The state is the world behind the HTTP client; what the client answers to a request, and
  the parser of JSON, are the record \<open>seed_lib\<close>. An error keeps the prefixes it was wrapped in.
\<close>

section \<open>Requests\<close>

record seed_request =
  sr_url :: string
  sr_payload :: "(string \<times> string) list"
  sr_headers :: "(string \<times> string) list"

record 'w seed_lib =
  sd_new_request :: "string \<Rightarrow> string option"
  sd_do :: "seed_request \<Rightarrow> 'w \<Rightarrow> (string + int \<times> string) \<times> 'w"
  sd_parse_json :: "string \<Rightarrow> json option"
  sd_decode_error :: "string \<Rightarrow> string"

text \<open>The reply to a login: of \<open>authResponse\<close> only the access token, which is all it has.\<close>

definition reply_members :: "string members" where
  "reply_members = [(''tokens'', decode_struct [(''access_token'', into_string (\<lambda>f s. f s))])]"

definition decode_reply :: "'w seed_lib \<Rightarrow> string \<Rightarrow> string + string" where
  "decode_reply sd body =
     (case Option.bind (sd_parse_json sd body) (\<lambda>j. decode_struct reply_members j []) of
        None \<Rightarrow> Inl (sd_decode_error sd body)
      | Some t \<Rightarrow> Inr t)"

datatype seed_error = HttpError int string | OtherError string | Wrapped string seed_error

definition doJSONRequest ::
  "'w seed_lib \<Rightarrow> string \<Rightarrow> (string \<times> string) list \<Rightarrow> string \<Rightarrow> bool \<Rightarrow> 'w \<Rightarrow>
     (seed_error + string option) \<times> 'w" where
  "doJSONRequest sd url payload token out w =
     (case sd_new_request sd url of
        Some e \<Rightarrow> (Inl (OtherError e), w)
      | None \<Rightarrow>
          let headers = [(''Content-Type'', ''application/json'')]
                @ (if token \<noteq> [] then [(''Authorization'', ''Bearer '' @ token)] else [])
          in case sd_do sd \<lparr>sr_url = url, sr_payload = payload, sr_headers = headers\<rparr> w of
               (Inl e, w1) \<Rightarrow> (Inl (OtherError e), w1)
             | (Inr (code, body), w1) \<Rightarrow>
                 if 300 \<le> code then (Inl (HttpError code body), w1)
                 else if out
                 then (case decode_reply sd body of Inl e \<Rightarrow> (Inl (OtherError e), w1) | Inr t \<Rightarrow> (Inr (Some t), w1))
                 else (Inr None, w1))"

definition postJSON ::
  "'w seed_lib \<Rightarrow> string \<Rightarrow> (string \<times> string) list \<Rightarrow> bool \<Rightarrow> 'w \<Rightarrow> (seed_error + string option) \<times> 'w" where
  "postJSON sd url payload out w = doJSONRequest sd url payload [] out w"

definition postJSONWithAuth ::
  "'w seed_lib \<Rightarrow> string \<Rightarrow> (string \<times> string) list \<Rightarrow> string \<Rightarrow> bool \<Rightarrow> 'w \<Rightarrow>
     (seed_error + string option) \<times> 'w" where
  "postJSONWithAuth sd url payload token out w = doJSONRequest sd url payload token out w"

section \<open>Seeding\<close>

record user_seed =
  sd_Email :: string
  sd_Password :: string
  sd_Name :: string

definition error_of :: "(seed_error + 'b) \<times> 'w \<Rightarrow> seed_error option \<times> 'w" where
  "error_of r = (case r of (Inl e, w) \<Rightarrow> (Some e, w) | (Inr _, w) \<Rightarrow> (None, w))"

text \<open>The payloads, Go maps from names to strings.\<close>

definition register_payload :: "user_seed \<Rightarrow> (string \<times> string) list" where
  "register_payload u =
     [(''email'', sd_Email u), (''password'', sd_Password u), (''name'', sd_Name u)]"

definition login_payload :: "string \<Rightarrow> string \<Rightarrow> (string \<times> string) list" where
  "login_payload email password = [(''email'', email), (''password'', password)]"

definition profile_payload :: "string \<Rightarrow> (string \<times> string) list" where
  "profile_payload name =
     [(''first_name'', name), (''last_name'', ''Tester''), (''bio'', ''Demo profile seeded via script'')]"

definition registerUser :: "'w seed_lib \<Rightarrow> string \<Rightarrow> user_seed \<Rightarrow> 'w \<Rightarrow> seed_error option \<times> 'w" where
  "registerUser sd baseURL u w =
     error_of (postJSON sd (baseURL @ ''/api/v1/auth/register'') (register_payload u) False w)"

definition seed_login :: "'w seed_lib \<Rightarrow> string \<Rightarrow> string \<Rightarrow> string \<Rightarrow> 'w \<Rightarrow> (seed_error + string) \<times> 'w" where
  "seed_login sd baseURL email password w =
     (case postJSON sd (baseURL @ ''/api/v1/auth/login'') (login_payload email password) True w of
        (Inl e, w1) \<Rightarrow> (Inl e, w1)
      | (Inr t, w1) \<Rightarrow> (Inr (case t of None \<Rightarrow> [] | Some token \<Rightarrow> token), w1))"

definition seed_profile :: "'w seed_lib \<Rightarrow> string \<Rightarrow> string \<Rightarrow> string \<Rightarrow> 'w \<Rightarrow> seed_error option \<times> 'w" where
  "seed_profile sd baseURL token name w =
     error_of (postJSONWithAuth sd (baseURL @ ''/api/v1/profiles'') (profile_payload name) token False w)"

text \<open>\<open>errors.As\<close> looks for an \<open>*httpError\<close> under the wrappings.\<close>

fun as_http_error :: "seed_error \<Rightarrow> int option" where
  "as_http_error (HttpError code _) = Some code"
| "as_http_error (OtherError _) = None"
| "as_http_error (Wrapped _ e) = as_http_error e"

definition seedUser :: "'w seed_lib \<Rightarrow> string \<Rightarrow> user_seed \<Rightarrow> 'w \<Rightarrow> seed_error option \<times> 'w" where
  "seedUser sd baseURL u w =
     (case registerUser sd baseURL u w of (err, w1) \<Rightarrow>
        if (case err of None \<Rightarrow> False | Some e \<Rightarrow> as_http_error e \<noteq> Some 409) then (err, w1)
        else (case seed_login sd baseURL (sd_Email u) (sd_Password u) w1 of
                (Inl e, w2) \<Rightarrow> (Some (Wrapped ''login user: '' e), w2)
              | (Inr token, w2) \<Rightarrow>
                  (case seed_profile sd baseURL token (sd_Name u) w2 of
                     (Some e, w3) \<Rightarrow> (Some (Wrapped ''create profile: '' e), w3)
                   | (None, w3) \<Rightarrow> (None, w3))))"

definition seeds :: "user_seed list" where
  "seeds =
     [\<lparr>sd_Email = ''demo1@kidpech.app'', sd_Password = ''Passw0rd!'', sd_Name = ''Demo One''\<rparr>,
      \<lparr>sd_Email = ''demo2@kidpech.app'', sd_Password = ''Passw0rd!'', sd_Name = ''Demo Two''\<rparr>,
      \<lparr>sd_Email = ''demo3@kidpech.app'', sd_Password = ''Passw0rd!'', sd_Name = ''Demo Three''\<rparr>]"

text \<open>\<open>main\<close>: the failures it logs, with the address of the account.\<close>

fun seed_all :: "'w seed_lib \<Rightarrow> string \<Rightarrow> user_seed list \<Rightarrow> 'w \<Rightarrow> (string \<times> seed_error) list \<times> 'w" where
  "seed_all sd baseURL [] w = ([], w)"
| "seed_all sd baseURL (u # us) w =
     (case seedUser sd baseURL u w of (err, w1) \<Rightarrow>
      (case seed_all sd baseURL us w1 of (fs, w2) \<Rightarrow>
        ((case err of None \<Rightarrow> fs | Some e \<Rightarrow> (sd_Email u, e) # fs), w2)))"

section \<open>A second run\<close>

text \<open>A server that knows the accounts already, and only counts the profiles it is sent.\<close>

definition counting_server :: "nat seed_lib" where
  "counting_server =
     \<lparr>sd_new_request = (\<lambda>_. None),
      sd_do = (\<lambda>r n. if sr_url r = ''/api/v1/auth/register'' then (Inr (409, ''conflict''), n)
                     else if sr_url r = ''/api/v1/profiles'' then (Inr (201, []), Suc n)
                     else (Inr (200, ''token''), n)),
      sd_parse_json = (\<lambda>s. Some (JObj [(''tokens'', JObj [(''access_token'', JStr s)])])),
      sd_decode_error = (\<lambda>_. [])\<rparr>"

lemma reply_names: "fold_name ''tokens'' = ''tokens''" "fold_name ''access_token'' = ''access_token''"
    "fold_name ''user'' = ''user''" "fold_name ''refresh_token'' = ''refresh_token''"
    "fold_name ''expires_in'' = ''expires_in''" "fold_name ''token_type'' = ''token_type''"
  by code_simp+

text \<open>The script takes the conflict for success, and so gives every account one more profile each time
  it is run.\<close>

lemma seed_again: "seed_all counting_server [] seeds n = ([], n + 3)"
  by (simp add: seeds_def seedUser_def registerUser_def seed_login_def seed_profile_def postJSON_def
      postJSONWithAuth_def doJSONRequest_def error_of_def counting_server_def
      decode_reply_def decode_struct_def reply_members_def reply_names into_string_def del: fold_name.simps)

end
