(* ===== verification/ServerClient.thy ===== *)
theory ServerClient
  imports ServerTables DemoSeed "HOL-Library.Char_ord" "HOL-Library.List_Lexorder"
begin

text \<open>
  Bodies and a client. What the server makes of a body that decodes but breaks a \<open>validate\<close> tag, and
  the two ends of a request put together: the script of \<open>scripts/demo_seed.go\<close> against the server of
  \<open>internal/app/router.go\<close>. \<open>server_client\<close> stands for the HTTP connection between them: it makes the
  server's request of the client's, with the marshalled payload as its body, and the client's reply
  of the server's context.
\<close>

section \<open>Bodies nobody has checked\<close>

definition breaks_a_tag :: "tagged_field list \<Rightarrow> bool" where
  "breaks_a_tag fs \<longleftrightarrow> (\<exists>f \<in> set fs. rejects f)"

lemma validator_rejects: "documented_validator v \<Longrightarrow> breaks_a_tag fs \<Longrightarrow> \<exists>es. v fs = Some es"
  unfolding documented_validator_def breaks_a_tag_def by blast

lemma found_id:
  "gc_values c ''user_id'' = Some (CUuid u) \<Longrightarrow> u \<noteq> uuid_nil \<Longrightarrow> hl_parse_uuid hl (c_Param c ''id'') = Some i \<Longrightarrow>
    with_id hl act c w = act i u c w"
  by (simp add: with_id_def some_caller)

text \<open>C9 (bad input is answered as an error of the server). A body that decodes, but has a field that
  its \<open>validate\<close> tags forbid, is answered 500 and not 400, and changes nothing: by \<open>POST\<close>, \<open>PUT\<close> and
  \<open>PATCH\<close> of a profile, by registration, by login and by the update of an account.\<close>

theorem unchecked_input:
  fixes w :: "'a database_scheme" and sl :: sql_lib and cfg :: auth_config and up :: bool and jl :: jwt_lib
  assumes "documented_validator (pl_validate lib)" and "documented_validator (ul_validate ulib)"
    and caller: "gc_values c ''user_id'' = Some (CUuid u)" "u \<noteq> uuid_nil"
    and id: "hl_parse_uuid hl (c_Param c ''id'') = Some i"
  defines "body \<equiv> rq_Body (gc_request c)" and "refused \<equiv> (InternalServerError hl c, w)"
    and "s \<equiv> app_profiles sl lib" and "us \<equiv> app_users sl cfg up jl ulib True"
  shows "(\<forall>r. bind_create hl body = Inr r \<and> breaks_a_tag (create_fields r) \<longrightarrow> create_h hl s c w = refused)
    \<and> (\<forall>r. bind_update hl body = Inr r \<and> breaks_a_tag (update_fields r) \<longrightarrow> update_h hl s c w = refused)
    \<and> (\<forall>r. bind_patch hl body = Inr r \<and> breaks_a_tag (patch_fields r) \<longrightarrow> patch_h hl s c w = refused)
    \<and> (\<forall>r. bind_register hl body = Inr r \<and> breaks_a_tag (register_fields (register_trim ulib r)) \<longrightarrow>
        register_h hl us c w = refused)
    \<and> (\<forall>r. bind_login hl body = Inr r \<and> breaks_a_tag (login_fields (r\<lparr>lr_Email := trim_space (lr_Email r),
          lr_Password := trim_space (lr_Password r)\<rparr>)) \<longrightarrow> login_h hl us c w = refused)
    \<and> (\<forall>r. bind_update_user hl body = Inr r \<and> breaks_a_tag (update_user_fields r) \<longrightarrow>
        updateMe_h hl us c w = refused)"
proof -
  note profile = validator_rejects [OF assms(1)] and account = validator_rejects [OF assms(2)]
  show ?thesis
    unfolding body_def refused_def s_def us_def
  proof (intro conjI allI impI; elim conjE)
    fix r assume "bind_create hl (rq_Body (gc_request c)) = Inr r" "breaks_a_tag (create_fields r)"
    then show "create_h hl (app_profiles sl lib) c w = (InternalServerError hl c, w)"
      using profile [of "create_fields r"] caller
      by (auto simp: create_h_def some_caller Create_def handleProfileError_def)
  next
    fix r assume "bind_update hl (rq_Body (gc_request c)) = Inr r" "breaks_a_tag (update_fields r)"
    then show "update_h hl (app_profiles sl lib) c w = (InternalServerError hl c, w)"
      using profile [of "update_fields r"] found_id [OF caller id]
      by (auto simp: update_h_def Update_def handleProfileError_def)
  next
    fix r assume "bind_patch hl (rq_Body (gc_request c)) = Inr r" "breaks_a_tag (patch_fields r)"
    then show "patch_h hl (app_profiles sl lib) c w = (InternalServerError hl c, w)"
      using profile [of "patch_fields r"] found_id [OF caller id]
      by (auto simp: patch_h_def Patch_def handleProfileError_def)
  next
    fix r assume "bind_register hl (rq_Body (gc_request c)) = Inr r"
      "breaks_a_tag (register_fields (register_trim ulib r))"
    then show "register_h hl (app_users sl cfg up jl ulib True) c w = (InternalServerError hl c, w)"
      using account [of "register_fields (register_trim ulib r)"]
      by (auto simp: register_h_def Register_def handleUserError_def Let_def app_users_def NewService_def)
  next
    fix r assume "bind_login hl (rq_Body (gc_request c)) = Inr r"
      "breaks_a_tag (login_fields (r\<lparr>lr_Email := trim_space (lr_Email r), lr_Password := trim_space (lr_Password r)\<rparr>))"
    then show "login_h hl (app_users sl cfg up jl ulib True) c w = (InternalServerError hl c, w)"
      using account [of "login_fields (r\<lparr>lr_Email := trim_space (lr_Email r), lr_Password := trim_space (lr_Password r)\<rparr>)"]
      by (auto simp: login_h_def Login_def handleUserError_def Let_def app_users_def NewService_def)
  next
    fix r assume "bind_update_user hl (rq_Body (gc_request c)) = Inr r" "breaks_a_tag (update_user_fields r)"
    then show "updateMe_h hl (app_users sl cfg up jl ulib True) c w = (InternalServerError hl c, w)"
      using account [of "update_user_fields r"] caller
      by (auto simp: updateMe_h_def UpdateMe_def handleUserError_def app_users_def NewService_def)
  qed
qed

text \<open>An empty object is such a body.\<close>

definition asking_body :: "string \<Rightarrow> gin_context" where
  "asking_body b =
     c_Set ''user_id'' (CUuid 1000)
       (new_context ((sample_request ''POST'' ''/api/v1/profiles'')\<lparr>rq_Body := b\<rparr>))"

theorem unchecked_input_witness:
  "create_h sample_http (app_profiles sample_sql sample_profile_lib) (asking_body ''{}'') (sample_app [])
     = (InternalServerError sample_http (asking_body ''{}''), sample_app [])
   \<and> gc_status (InternalServerError sample_http (asking_body ''{}'')) = 500"
proof -
  let ?c = "asking_body ''{}''"
  have v: "documented_validator (pl_validate sample_profile_lib)" "documented_validator (ul_validate sample_user_lib)"
    by (auto simp: documented_validator_def sample_profile_lib_def sample_user_lib_def split: if_splits)
  have c: "gc_values ?c ''user_id'' = Some (CUuid 1000)" "(1000 :: uuid) \<noteq> uuid_nil"
      "hl_parse_uuid sample_http (c_Param ?c ''id'') = Some (uuid_of_text ''5'')"
      "rq_Body (gc_request ?c) = ''{}''" "gc_replies ?c = []"
    by (simp_all add: asking_body_def sample_http_def c_Param_def new_context_def sample_request_def)
  have b: "bind_create sample_http ''{}'' = Inr zero_create"
    by (simp add: bind_create_def ShouldBindJSON_def sample_http_def sample_parse_def decode_struct_def)
  have "breaks_a_tag (create_fields zero_create)"
    by (simp add: breaks_a_tag_def create_fields_def zero_create_def rejects_def zero_value_def)
  with unchecked_input [OF v c(1,2,3), where w = "sample_app []" and sl = sample_sql and cfg = sample_auth
      and up = False and jl = ref_jwt, THEN conjunct1] b c(4)
  have "create_h sample_http (app_profiles sample_sql sample_profile_lib) ?c (sample_app [])
      = (InternalServerError sample_http ?c, sample_app [])" by simp
  then show ?thesis using c(5) by (simp add: InternalServerError_def Let_def sample_http_def)
qed

section \<open>The connection\<close>

definition request_of :: "string \<Rightarrow> ((string \<times> string) list \<Rightarrow> string) \<Rightarrow> seed_request \<Rightarrow> http_request" where
  "request_of base marshal r =
     (let path = drop (length base) (sr_url r)
      in \<lparr>rq_Method = ''POST'', rq_Path = path, rq_FullPath = path,
          rq_Header = (\<lambda>k. case map_of (sr_headers r) k of None \<Rightarrow> [] | Some v \<Rightarrow> v),
          rq_Query = Map.empty, rq_Param = (\<lambda>_. []), rq_Body = marshal (sr_payload r),
          rq_ClientIP = ''127.0.0.1''\<rparr>)"

definition server_client ::
  "'a router_deps \<Rightarrow> string \<Rightarrow> ((string \<times> string) list \<Rightarrow> string) \<Rightarrow> (json list \<Rightarrow> string) \<Rightarrow>
     (string \<Rightarrow> json option) \<Rightarrow> (string \<Rightarrow> string) \<Rightarrow> 'a app_state_scheme seed_lib" where
  "server_client d base marshal render pj bad =
     \<lparr>sd_new_request = (\<lambda>_. None),
      sd_do = (\<lambda>r w. case ServeHTTP d (request_of base marshal r) w of
                 (c, w1) \<Rightarrow> (Inr (gc_status c, render (gc_replies c)), w1)),
      sd_parse_json = pj, sd_decode_error = bad\<rparr>"

text \<open>What \<open>json.Marshal\<close> documents of a map of strings that need no escape: an object that reads back
  as the members of the map, in the order of their names.\<close>

definition plain :: "string \<Rightarrow> bool" where
  "plain s \<longleftrightarrow> list_all (\<lambda>c. 32 \<le> (of_char c :: nat) \<and> is_ascii c \<and> c \<notin> {CHR 0x22, CHR 0x5C, CHR ''<'', CHR ''>'', CHR ''&''}) s"

definition documented_marshal :: "http_lib \<Rightarrow> ((string \<times> string) list \<Rightarrow> string) \<Rightarrow> bool" where
  "documented_marshal hl marshal \<longleftrightarrow>
     (\<forall>kvs. distinct (map fst kvs) \<and> (\<forall>kv \<in> set kvs. plain (fst kv) \<and> plain (snd kv)) \<longrightarrow>
        hl_parse_json hl (marshal kvs) = Some (JObj (map (\<lambda>(k, v). (k, JStr v)) (sort_key fst kvs))))"

text \<open>The payloads in the order of their names.\<close>

lemma payload_order:
  "sort_key fst (register_payload u) = [(''email'', sd_Email u), (''name'', sd_Name u), (''password'', sd_Password u)]"
  "sort_key fst (login_payload e p) = [(''email'', e), (''password'', p)]"
  "sort_key fst (profile_payload n) =
     [(''bio'', ''Demo profile seeded via script''), (''first_name'', n), (''last_name'', ''Tester'')]"
  by (simp_all add: register_payload_def login_payload_def profile_payload_def less_char_def)

lemma payload_names:
  "fold_name ''email'' = ''email''" "fold_name ''name'' = ''name''" "fold_name ''password'' = ''password''"
  "fold_name ''bio'' = ''bio''" "fold_name ''first_name'' = ''first_name''" "fold_name ''last_name'' = ''last_name''"
  by code_simp+

text \<open>C39 (the server reads what the script sends). The payloads of the script, marshalled and sent,
  decode at the server to the registration, the login and the profile they were made from, for each of
  its accounts, and none breaks a \<open>validate\<close> tag; the server's reply to a login decodes at the script
  to the access token in it.\<close>

theorem seed_payloads_read:
  assumes "documented_marshal hl marshal" and "u \<in> set seeds"
  shows "bind_register hl (marshal (register_payload u)) = Inr \<lparr>rr_Email = sd_Email u,
        rr_Password = sd_Password u, rr_Name = sd_Name u, rr_ProfileImage = []\<rparr>
    \<and> bind_login hl (marshal (login_payload (sd_Email u) (sd_Password u))) =
        Inr \<lparr>lr_Email = sd_Email u, lr_Password = sd_Password u\<rparr>
    \<and> bind_create hl (marshal (profile_payload (sd_Name u))) = Inr (zero_create\<lparr>cr_FirstName := sd_Name u,
        cr_LastName := ''Tester'', cr_Bio := Some ''Demo profile seeded via script''\<rparr>)
    \<and> \<not> breaks_a_tag (register_fields \<lparr>rr_Email = sd_Email u, rr_Password = sd_Password u,
        rr_Name = sd_Name u, rr_ProfileImage = []\<rparr>)
    \<and> decode_struct reply_members (auth_json a) [] = Some (at_AccessToken (ar_Tokens a))"
proof -
  have plain: "plain (sd_Email u)" "plain (sd_Password u)" "plain (sd_Name u)"
    using assms(2) by (auto simp: seeds_def plain_def is_ascii_def)
  have read: "hl_parse_json hl (marshal kvs) = Some (JObj (map (\<lambda>(k, v). (k, JStr v)) (sort_key fst kvs)))"
    if "distinct (map fst kvs)" "\<forall>kv \<in> set kvs. plain (fst kv) \<and> plain (snd kv)" for kvs
    using assms(1) that by (simp add: documented_marshal_def)
  have reads: "hl_parse_json hl (marshal (register_payload u)) = Some (JObj [(''email'', JStr (sd_Email u)),
        (''name'', JStr (sd_Name u)), (''password'', JStr (sd_Password u))])"
      "hl_parse_json hl (marshal (login_payload (sd_Email u) (sd_Password u))) =
        Some (JObj [(''email'', JStr (sd_Email u)), (''password'', JStr (sd_Password u))])"
      "hl_parse_json hl (marshal (profile_payload (sd_Name u))) =
        Some (JObj [(''bio'', JStr ''Demo profile seeded via script''), (''first_name'', JStr (sd_Name u)),
          (''last_name'', JStr ''Tester'')])"
    using read [of "register_payload u", unfolded payload_order]
      read [of "login_payload (sd_Email u) (sd_Password u)", unfolded payload_order]
      read [of "profile_payload (sd_Name u)", unfolded payload_order]
    by (simp_all add: register_payload_def login_payload_def profile_payload_def plain) (simp_all add: plain_def is_ascii_def)
  note defs = ShouldBindJSON_def reads decode_struct_def payload_names into_string_def into_string_ptr_def
  have "bind_register hl (marshal (register_payload u)) = Inr \<lparr>rr_Email = sd_Email u,
        rr_Password = sd_Password u, rr_Name = sd_Name u, rr_ProfileImage = []\<rparr>"
    by (simp add: bind_register_def register_members_def defs del: fold_name.simps)
  moreover have "bind_login hl (marshal (login_payload (sd_Email u) (sd_Password u))) =
        Inr \<lparr>lr_Email = sd_Email u, lr_Password = sd_Password u\<rparr>"
    by (simp add: bind_login_def login_members_def defs del: fold_name.simps)
  moreover have "bind_create hl (marshal (profile_payload (sd_Name u))) = Inr (zero_create\<lparr>cr_FirstName := sd_Name u,
        cr_LastName := ''Tester'', cr_Bio := Some ''Demo profile seeded via script''\<rparr>)"
    by (simp add: bind_create_def create_members_def defs zero_create_def del: fold_name.simps)
  moreover have "\<not> breaks_a_tag (register_fields \<lparr>rr_Email = sd_Email u, rr_Password = sd_Password u,
        rr_Name = sd_Name u, rr_ProfileImage = []\<rparr>)"
    using assms(2)
    by (auto simp: seeds_def breaks_a_tag_def register_fields_def rejects_def zero_value_def rune_count_def)
  moreover have "decode_struct reply_members (auth_json a) [] = Some (at_AccessToken (ar_Tokens a))"
    by (simp add: auth_json_def tokens_json_def reply_members_def decode_struct_def reply_names into_string_def
        del: fold_name.simps)
  ultimately show ?thesis by blast
qed

text \<open>A marshaller to evaluate with.\<close>

definition quoted :: "string \<Rightarrow> string" where
  "quoted s = CHR 0x22 # s @ [CHR 0x22]"

fun written_members :: "(string \<times> string) list \<Rightarrow> string" where
  "written_members [] = ''}''"
| "written_members [(k, v)] = quoted k @ '':'' @ quoted v @ ''}''"
| "written_members ((k, v) # kv # kvs) = quoted k @ '':'' @ quoted v @ '','' @ written_members (kv # kvs)"

definition sample_marshal :: "(string \<times> string) list \<Rightarrow> string" where
  "sample_marshal kvs = ''{'' @ written_members (sort_key fst kvs)"

lemma split_quoted:
  "CHR 0x22 \<notin> set s \<Longrightarrow> split_char (CHR 0x22) (s @ CHR 0x22 # t) = s # split_char (CHR 0x22) t"
  by (rule split_char_append)

lemma split_member:
  assumes "CHR 0x22 \<notin> set k" and "CHR 0x22 \<notin> set v"
  shows "split_char (CHR 0x22) (quoted k @ '':'' @ quoted v @ t) = [] # k # '':'' # v # split_char (CHR 0x22) t"
  using assms by (simp add: quoted_def split_quoted)

lemma read_written:
  "kvs \<noteq> [] \<Longrightarrow> \<forall>kv \<in> set kvs. CHR 0x22 \<notin> set (fst kv) \<and> CHR 0x22 \<notin> set (snd kv) \<Longrightarrow>
    \<exists>ps. split_char (CHR 0x22) (written_members kvs) = [] # ps
      \<and> read_members ps = Some (map (\<lambda>(k, v). (k, JStr v)) kvs)"
proof (induction kvs rule: written_members.induct)
  case (2 k v)
  then show ?case using split_member [of k v "''}''"] by simp
next
  case (3 k v kv kvs)
  then obtain ps where ps: "split_char (CHR 0x22) (written_members (kv # kvs)) = [] # ps"
      "read_members ps = Some (map (\<lambda>(k, v). (k, JStr v)) (kv # kvs))"
    by auto
  have "split_char (CHR 0x22) ('','' @ written_members (kv # kvs)) = '','' # ps"
    using ps(1) by simp
  then have "split_char (CHR 0x22) (written_members ((k, v) # kv # kvs)) = [] # k # '':'' # v # '','' # ps"
    using 3(3) by (simp add: split_member del: append.simps)
  then show ?case using ps(2) by simp
qed simp

lemma sample_marshal_documented: "documented_marshal sample_http sample_marshal"
  unfolding documented_marshal_def
proof (intro allI impI; elim conjE)
  fix kvs :: "(string \<times> string) list"
  assume p: "\<forall>kv \<in> set kvs. plain (fst kv) \<and> plain (snd kv)"
  show "hl_parse_json sample_http (sample_marshal kvs) = Some (JObj (map (\<lambda>(k, v). (k, JStr v)) (sort_key fst kvs)))"
  proof (cases "kvs = []")
    case True
    then show ?thesis by (simp add: sample_http_def sample_parse_def sample_marshal_def)
  next
    case False
    let ?kvs = "sort_key fst kvs"
    have "CHR 0x22 \<notin> set s" if "plain s" for s using that by (auto simp: plain_def list_all_iff)
    then have "\<forall>kv \<in> set ?kvs. CHR 0x22 \<notin> set (fst kv) \<and> CHR 0x22 \<notin> set (snd kv)" using p by simp
    moreover have "?kvs \<noteq> []" using False by (metis length_sort length_0_conv)
    ultimately obtain ps where ps: "split_char (CHR 0x22) (written_members ?kvs) = [] # ps"
        "read_members ps = Some (map (\<lambda>(k, v). (k, JStr v)) ?kvs)"
      using read_written by blast
    have "written_members ?kvs \<noteq> ''}''" using ps(1) by auto
    with ps show ?thesis by (simp add: sample_http_def sample_parse_def sample_marshal_def)
  qed
qed

theorem seed_payloads_read_witness:
  "bind_login sample_http (sample_marshal (login_payload ''demo1@kidpech.app'' ''Passw0rd!''))
     = Inr \<lparr>lr_Email = ''demo1@kidpech.app'', lr_Password = ''Passw0rd!''\<rparr>"
  using seed_payloads_read [OF sample_marshal_documented, of "hd seeds"] by (simp add: seeds_def)

section \<open>The script against the server\<close>

text \<open>A request to register or to log in, when no row can be read: profiles are left alone, rows stay
  unreadable, and a login is not answered with success.\<close>

definition fruitless :: "http_request \<Rightarrow> gin_context \<Rightarrow> tables \<Rightarrow> tables \<Rightarrow> bool" where
  "fruitless r c t t' \<longleftrightarrow> snd t' = snd t \<and> (unreadable (fst t) \<longrightarrow> unreadable (fst t')
     \<and> (rq_FullPath r = ''/api/v1/auth/login'' \<longrightarrow> 300 \<le> gc_status c))"

interpretation vain: chain "asking r" "fruitless r" for r :: http_request
  by unfold_locales (auto simp: asking_def fruitless_def)

lemma login_h_fruitless:
  fixes w :: "'a database_scheme"
  assumes "asking r c"
  shows "fruitless r (fst (login_h hl (app_users sl cfg up jl ulib allow) c w)) (tables w)
    (tables (snd (login_h hl (app_users sl cfg up jl ulib allow) c w)))"
proof -
  have c: "gc_replies c = []" using assms by (simp add: asking_def)
  have "300 \<le> gc_status (fst (login_h hl (app_users sl cfg up jl ulib allow) c w))
      \<and> unreadable (db_users (snd (login_h hl (app_users sl cfg up jl ulib allow) c w)))"
    if un: "unreadable (db_users w)"
  proof (cases "bind_login hl (rq_Body (gc_request c))")
    case (Inl err)
    then show ?thesis using un c by (simp add: login_h_def ValidationError_def)
  next
    case (Inr req)
    obtain e w' where "Login (app_users sl cfg up jl ulib allow) req w = (Inl e, w')" "db_users w' = db_users w"
        "e = ErrInvalidCreds \<or> (\<exists>es. e = ErrValidation es)"
      using unreadable_fails(1) [OF un] by blast
    then show ?thesis
      using Inr un c by (auto simp: login_h_def handleUserError_def replies)
  qed
  then show ?thesis
    using user_handlers_profiles(2) [of hl sl cfg up jl ulib allow c w]
    by (simp add: fruitless_def tables_def)
qed

lemma register_h_fruitless:
  fixes w :: "'a database_scheme"
  assumes "rq_FullPath r \<noteq> ''/api/v1/auth/login''"
  shows "fruitless r (fst (register_h hl (app_users sl cfg up jl ulib allow) c w)) (tables w)
    (tables (snd (register_h hl (app_users sl cfg up jl ulib allow) c w)))"
proof -
  have "unreadable (db_users (snd (register_h hl (app_users sl cfg up jl ulib allow) c w)))"
    if un: "unreadable (db_users w)"
    using un unreadable_register [OF un surjective_pairing] by (simp add: register_h_def split: sum.split)
  then show ?thesis
    using user_handlers_profiles(1) [of hl sl cfg up jl ulib allow c w] assms
    by (simp add: fruitless_def tables_def)
qed

lemma auth_routes:
  "find_route (routes d) ''POST'' ''/api/v1/auth/login'' = Some (login_h (rd_Lib d) (rd_Users d))"
  "find_route (routes d) ''POST'' ''/api/v1/auth/register'' = Some (register_h (rd_Lib d) (rd_Users d))"
  by (simp_all add: find_route_def routes_def user_routes_def)

lemma auth_request_fruitless:
  fixes d :: "'a router_deps"
  assumes users: "rd_Users d = app_users sl cfg up jl ulib allow"
    and lims: "quiet (rd_IPLimiter d)" "quiet (rd_UserLimiter d)"
    and r: "rq_Method r = ''POST''" "rq_FullPath r \<in> {''/api/v1/auth/login'', ''/api/v1/auth/register''}"
  shows "fruitless r (fst (ServeHTTP d r w)) (tables w) (tables (snd (ServeHTTP d r w)))"
proof -
  let ?rs = "routes (release_mode d)"
  have "yields (asking r) (fruitless r) (dispatch ?rs)"
  proof (rule vain.yields_dispatch)
    fix c n p h assume c: "asking r c" "n = rq_Method (gc_request c)" "p = rq_FullPath (gc_request c)"
      "find_route ?rs n p = Some h"
    then have np: "n = ''POST''" "p = rq_FullPath r" using r(1) by (simp_all add: asking_def)
    show "yields (asking r) (fruitless r) h"
    proof (cases "p = ''/api/v1/auth/login''")
      case True
      then have "h = login_h (rd_Lib (release_mode d)) (app_users sl cfg up jl ulib allow)"
        using c(4) np auth_routes(1) [of "release_mode d"] users by simp
      then show ?thesis using login_h_fruitless by (auto intro!: yieldsI)
    next
      case False
      then have p: "p = ''/api/v1/auth/register''" "rq_FullPath r \<noteq> ''/api/v1/auth/login''"
        using r(2) np(2) by auto
      then have "h = register_h (rd_Lib (release_mode d)) (app_users sl cfg up jl ulib allow)"
        using c(4) np auth_routes(2) [of "release_mode d"] users by simp
      then show ?thesis using register_h_fruitless [OF p(2)] by (auto intro!: yieldsI)
    qed
  next
    fix c t assume "asking r c" "find_route ?rs (rq_Method (gc_request c)) (rq_FullPath (gc_request c)) = None"
    then show "fruitless r (c_Status 404 c) t t" by (simp add: fruitless_def asking_def)
  qed
  then have "yields (asking r) (fruitless r) (NewRouter d)"
    by (rule vain.yields_server [OF _ lims [THEN quiet_unnoticed]]) (simp add: asking_def set_claims_def)
  then show ?thesis
    by (rule vain.server) (use r(1) in \<open>simp add: asking_def new_context_def\<close>)
qed

text \<open>One account: the script reports it, and never gets as far as its profile.\<close>

lemma seed_user_fails:
  fixes d :: "'a router_deps"
  assumes users: "rd_Users d = app_users sl cfg up jl ulib allow"
    and lims: "quiet (rd_IPLimiter d)" "quiet (rd_UserLimiter d)"
    and w: "unreadable (db_users w)"
    and run: "seedUser (server_client d base marshal render pj bad) base u w = (e, w')"
  shows "e \<noteq> None \<and> unreadable (db_users w') \<and> db_profiles w' = db_profiles w"
proof -
  let ?sd = "server_client d base marshal render pj bad"
  have request: "db_profiles v' = db_profiles v \<and> unreadable (db_users v')
      \<and> (path = ''/api/v1/auth/login'' \<longrightarrow> (\<exists>x. r = Inl x))"
    if "postJSON ?sd (base @ path) payload out v = (r, v')" "unreadable (db_users v)"
      "path \<in> {''/api/v1/auth/login'', ''/api/v1/auth/register''}" for path payload out v r v'
  proof -
    let ?q = "request_of base marshal \<lparr>sr_url = base @ path, sr_payload = payload,
        sr_headers = [(''Content-Type'', ''application/json'')]\<rparr>"
    have q: "rq_Method ?q = ''POST''" "rq_FullPath ?q = path" by (simp_all add: request_of_def Let_def)
    obtain c v1 where s: "ServeHTTP d ?q v = (c, v1)" by (cases "ServeHTTP d ?q v")
    have "fruitless ?q c (tables v) (tables v1)"
      using auth_request_fruitless [OF users lims q(1), of v] q(2) that(3) s by simp
    then show ?thesis
      using that(1,2) s q(2)
      by (auto simp: fruitless_def tables_def postJSON_def doJSONRequest_def server_client_def
          split: if_splits sum.splits)
  qed
  obtain e1 w1 where r1: "postJSON ?sd (base @ ''/api/v1/auth/register'') (register_payload u) False w = (e1, w1)"
    by (cases "postJSON ?sd (base @ ''/api/v1/auth/register'') (register_payload u) False w")
  obtain e2 w2 where r2: "postJSON ?sd (base @ ''/api/v1/auth/login'') (login_payload (sd_Email u) (sd_Password u)) True w1 = (e2, w2)"
    by (cases "postJSON ?sd (base @ ''/api/v1/auth/login'') (login_payload (sd_Email u) (sd_Password u)) True w1")
  have one: "db_profiles w1 = db_profiles w" "unreadable (db_users w1)"
    using request [OF r1 w] by simp_all
  have two: "db_profiles w2 = db_profiles w1" "unreadable (db_users w2)" "\<exists>x. e2 = Inl x"
    using request [OF r2 one(2)] by simp_all
  show ?thesis
    using run r1 r2 one two
    by (auto simp: seedUser_def registerUser_def seed_login_def error_of_def
        split: sum.splits option.splits if_splits)
qed

text \<open>C40 (the script cannot fill the server). Run against the server with the tables as the migrations
  make them, the script reports every one of its accounts as failed and creates no profile: an
  account it registers cannot log in.\<close>

theorem seed_in_vain:
  fixes d :: "'a router_deps" and w :: "'a app_state_scheme"
  assumes "rd_Users d = app_users sl cfg up jl ulib allow"
    and "quiet (rd_IPLimiter d)" and "quiet (rd_UserLimiter d)"
    and "unreadable (db_users w)"
    and "seed_all (server_client d base marshal render pj bad) base us w = (fs, w')"
  shows "map fst fs = map sd_Email us \<and> db_profiles w' = db_profiles w"
  using assms(4,5)
proof (induction us arbitrary: w fs w')
  case (Cons u us)
  let ?sd = "server_client d base marshal render pj bad"
  obtain e w1 where e: "seedUser ?sd base u w = (e, w1)" by (cases "seedUser ?sd base u w")
  obtain gs w2 where gs: "seed_all ?sd base us w1 = (gs, w2)" by (cases "seed_all ?sd base us w1")
  note one = seed_user_fails [OF assms(1-3) Cons.prems(1) e]
  have "map fst gs = map sd_Email us \<and> db_profiles w2 = db_profiles w1"
    using Cons.IH [OF _ gs] one by blast
  then show ?case using Cons.prems(2) e gs one by auto
qed simp

theorem seed_in_vain_witness:
  "map fst (fst (seed_all (server_client sample_deps ''http://localhost:8080'' sample_marshal (\<lambda>_. []) sample_parse (\<lambda>_. ''EOF''))
      ''http://localhost:8080'' seeds (sample_app [])))
     = [''demo1@kidpech.app'', ''demo2@kidpech.app'', ''demo3@kidpech.app'']"
proof -
  have "unreadable (db_users (sample_app []))" by (simp add: unreadable_def sample_app_def)
  from seed_in_vain [OF sample_server(1,5,6) this surjective_pairing, THEN conjunct1]
  have "map fst (fst (seed_all (server_client sample_deps ''http://localhost:8080'' sample_marshal (\<lambda>_. []) sample_parse (\<lambda>_. ''EOF''))
      ''http://localhost:8080'' seeds (sample_app []))) = map sd_Email seeds" .
  moreover have "map sd_Email seeds = [''demo1@kidpech.app'', ''demo2@kidpech.app'', ''demo3@kidpech.app'']"
    by (simp add: seeds_def)
  ultimately show ?thesis by (rule trans)
qed

end
