(* ===== verification/HttpCreate.thy ===== *)
theory HttpCreate
  imports ServerClient
begin

text \<open>
  A request that is answered: what reaches the handler of a guarded route when the request carries an
  access token the server accepts and no limiter is set, and that its answer is the server's. With
  it, the creation of a profile from the request to the row.
\<close>

section \<open>The way through the chain\<close>

text \<open>The server reads the clock for the token twice, for the optional and for the required
  authentication, and once between the two for the log.\<close>

definition accepted :: "'w manager \<Rightarrow> string \<Rightarrow> claims \<Rightarrow> 'a runtime_scheme \<Rightarrow> bool" where
  "accepted m token cl w \<longleftrightarrow>
     token \<noteq> [] \<and> fst (ParseAccessToken m token w) = Inr cl
     \<and> fst (ParseAccessToken m token (tick (tick w))) = Inr cl"

lemma parse_at_clock:
  assumes "clock v (clock_reads v) = clock w (clock_reads w)" and "fst (ParseAccessToken m token w) = Inr cl"
  shows "ParseAccessToken m token v = (Inr cl, tick v)"
  using assms
  by (auto simp: ParseAccessToken_def parse_def draws split: sum.splits option.splits if_splits)

definition answered ::
  "(int \<Rightarrow> json list \<Rightarrow> tables \<Rightarrow> bool) \<Rightarrow> 'a database_scheme handler \<Rightarrow> gin_context \<Rightarrow> 'a database_scheme \<Rightarrow> bool" where
  "answered Q h c w \<longleftrightarrow>
     gc_replies (fst (h c w)) \<noteq> []
     \<and> Q (gc_status (fst (h c w))) (gc_replies (fst (h c w))) (tables (snd (h c w)))"

lemma answered_same: "h c w = k c' w' \<Longrightarrow> answered Q h c w = answered Q k c' w'"
  by (simp add: answered_def)

lemma answered_Recovery: "answered Q k c w \<Longrightarrow> answered Q (Recovery k) c w"
  by (auto simp: answered_def Recovery_def split: prod.split)

lemma answered_RequestLogger:
  fixes w :: "'a app_state_scheme"
  assumes "answered Q k c (tick w)"
  shows "answered Q (RequestLogger hl logger buffered k) c w"
  using assms
  by (auto simp: answered_def RequestLogger_def draws Let_def ObserveRequest_def split: prod.split option.split)

lemma no_limits: "RateLimit hl None None k c w = k c w"
  by (simp add: RateLimit_def check_limit_def Let_def)

definition arriving :: "http_request \<Rightarrow> gin_context \<Rightarrow> bool" where
  "arriving r c \<longleftrightarrow> gc_request c = r \<and> gc_replies c = []"

lemma arriving_claims: "arriving r c \<Longrightarrow> arriving r (set_claims cl c)"
  by (simp add: arriving_def set_claims_def)

lemma claims_caller: "gc_values (set_claims cl c) ''user_id'' = Some (CUuid (jc_UserID cl))"
  by (simp add: set_claims_def)

lemma guarded_answer:
  fixes d :: "'a router_deps" and w :: "'a app_state_scheme"
  assumes m: "rd_AuthManager d = Some m" and lims: "rd_IPLimiter d = None" "rd_UserLimiter d = None"
    and meth: "rq_Method r \<noteq> ''OPTIONS''"
    and token: "accepted m (extractBearer (rq_Header r ''Authorization'')) cl w"
    and route: "find_route (routes d) (rq_Method r) (rq_FullPath r) = Some (AuthMiddleware m k)"
    and k: "\<And>c v. arriving r c \<Longrightarrow> gc_values c ''user_id'' = Some (CUuid (jc_UserID cl)) \<Longrightarrow>
        v \<in> {tick (tick (tick w)), tick (tick (tick (draw w)))} \<Longrightarrow> answered Q k c v"
  shows "answered Q (engine d) (new_context r) w"
proof -
  let ?log = "RequestLogger (rd_Lib d) (rd_Logger d) (rd_LogBuffer d) (dispatch (routes d))"
  let ?lim = "(if rate_limited d then RateLimit (rd_Lib d) (rd_IPLimiter d) (rd_UserLimiter d) else (\<lambda>k. k)) ?log"
  let ?opt = "when_some (rd_AuthManager d) OptionalAuth ?lim"
  let ?cors = "when_some (rd_Config d) (\<lambda>cfg. CORS (cfg_Cors cfg)) ?opt"
  let ?tok = "extractBearer (rq_Header r ''Authorization'')"
  have parse1: "ParseAccessToken m ?tok v = (Inr cl, tick v)" if "v \<in> {w, draw w}" for v
    using that parse_at_clock [of v w m ?tok cl] token by (auto simp: accepted_def)
  have parse2: "ParseAccessToken m ?tok v = (Inr cl, tick v)" if "v \<in> {tick (tick w), tick (tick (draw w))}" for v
    using that parse_at_clock [of v "tick (tick w)" m ?tok cl] token by (auto simp: accepted_def)
  have hdr: "c_GetHeader c ''Authorization'' = rq_Header r ''Authorization''" if "arriving r c" for c
    using that by (simp add: arriving_def c_GetHeader_def)
  have opt: "answered Q ?opt c v" if c: "arriving r c" and v: "v \<in> {w, draw w}" for c v
  proof -
    let ?c = "set_claims cl c"
    have c': "arriving r ?c" "arriving r (set_claims cl ?c)" using c arriving_claims by blast+
    have tt: "tick (tick v) \<in> {tick (tick w), tick (tick (draw w))}" using v by auto
    have "dispatch (routes d) ?c (tick (tick v)) = AuthMiddleware m k ?c (tick (tick v))"
      using c'(1) route by (simp add: dispatch_def arriving_def)
    also have "\<dots> = k (set_claims cl ?c) (tick (tick (tick v)))"
      using parse2 [OF tt] hdr [OF c'(1)] token by (simp add: AuthMiddleware_def accepted_def)
    finally have "answered Q (dispatch (routes d)) ?c (tick (tick v))"
      using k [OF c'(2) claims_caller, of "tick (tick (tick v))"] v answered_same by blast
    then have "answered Q ?log ?c (tick v)" by (rule answered_RequestLogger)
    moreover have "?lim ?c (tick v) = ?log ?c (tick v)" by (simp add: lims no_limits)
    moreover have "?opt c v = ?lim ?c (tick v)"
      using parse1 [OF v] hdr [OF c] token m by (simp add: when_some_def OptionalAuth_def accepted_def Let_def)
    ultimately show ?thesis using answered_same by metis
  qed
  have cors: "answered Q ?cors c v" if c: "arriving r c" and v: "v \<in> {w, draw w}" for c v
  proof (cases "rd_Config d")
    case None
    then show ?thesis using opt [OF that] by (simp add: when_some_def)
  next
    case (Some cfg)
    obtain c2 where same: "gc_request c2 = gc_request c" "gc_replies c2 = gc_replies c"
      and run: "CORS (cfg_Cors cfg) ?opt c v
        = (if rq_Method (gc_request c2) = ''OPTIONS'' then (c_Abort (c_Status 204 c2), v) else ?opt c2 v)"
      by (rule that [OF _ _ CORS_def [unfolded Let_def]]) simp_all
    have c2: "arriving r c2" using c same by (simp add: arriving_def)
    then have "?cors c v = ?opt c2 v" using run meth Some by (simp add: when_some_def arriving_def)
    then show ?thesis using opt [OF c2 v] answered_same by blast
  qed
  have "answered Q (RequestID (rd_Lib d) ?cors) (new_context r) w"
  proof -
    obtain i v where v: "v \<in> {w, draw w}" and run: "RequestID (rd_Lib d) ?cors (new_context r) w
        = ?cors (c_Header ''X-Request-ID'' i (c_Set ''request_id'' (CString i) (new_context r))) v"
      by (cases "c_GetHeader (new_context r) ''X-Request-ID'' = []") (auto simp: RequestID_def draws Let_def)
    have "arriving r (c_Header ''X-Request-ID'' i (c_Set ''request_id'' (CString i) (new_context r)))"
      by (simp add: arriving_def new_context_def)
    from cors [OF this v] show ?thesis using run answered_same by blast
  qed
  then show ?thesis unfolding engine_def by (rule answered_Recovery)
qed

section \<open>Creating a profile\<close>

lemma create_row:
  fixes w :: "'a database_scheme"
  assumes valid: "pl_validate lib (create_fields req) = None" and rel: "db_reliable w"
    and day: "\<And>d. cr_DateOfBirth req = Some d \<Longrightarrow> d = [] \<or> pl_parse_day lib d \<noteq> None"
    and free: "\<forall>p \<in> set (db_profiles w). p_ID p \<noteq> uuid_source w (uuids_drawn w)"
    and owner: "\<exists>r \<in> set (db_users w). ur_id r = u"
  shows "\<exists>p w'. Create (app_profiles sl lib) u req w = (Inr p, w')
    \<and> tables w' = (db_users w, db_profiles w @ [p]) \<and> p_UserID p = u \<and> p_Version p = 1 \<and> p_DeletedAt p = None
    \<and> p_ID p = uuid_source w (uuids_drawn w) \<and> p_CreatedAt p = clock w (clock_reads w)
    \<and> merged lib req (new_profile lib u req (p_CreatedAt p) (p_ID p)) p"
proof -
  let ?now = "clock w (clock_reads w)" and ?i = "uuid_source w (uuids_drawn w)"
  let ?n = "new_profile lib u req ?now ?i" and ?w = "draw (tick w)"
  obtain x p where a: "assignOptionalFields lib ?n req = (x, p)" by (cases "assignOptionalFields lib ?n req")
  have x: "x = None" using a day by (auto simp: assignOptionalFields_def Let_def split: option.splits if_splits)
  have p: "p_ID p = ?i" "p_UserID p = u" "p_Version p = 1" "p_DeletedAt p = None" "p_CreatedAt p = ?now"
    using app.optional_fields [OF a] by (simp_all add: same_profile_def new_profile_def)
  have m: "merged lib req ?n p" using assigned_merged [of lib ?n req p] a x by (simp add: new_profile_def)
  have row: "p\<lparr>p_DeletedAt := None\<rparr> = p" using p(4) by (cases p) simp
  have "\<exists>w'. CreateProfile sl p ?w = (None, w') \<and> tables w' = (db_users w, db_profiles w @ [p])"
    using rel free owner p row
    by (auto simp: CreateProfile_def exec_profiles_def stmt_def insert_profile_def int4_def db_reliable_def tables_def)
  with valid a x p m show ?thesis by (auto simp: Create_def draws)
qed

lemma create_route:
  "find_route (routes d) ''POST'' ''/api/v1/profiles'' = Some (auth_mw d (create_h (rd_Lib d) (rd_Profiles d)))"
  by (simp add: find_route_def routes_def user_routes_def profile_routes_def)

lemma release_bind: "bind_create (rd_Lib (release_mode d)) b = bind_create (rd_Lib d) b"
  by (simp add: release_mode_def bind_create_def ShouldBindJSON_def split: option.split)


text \<open>A server whose tokens are one, \<open>t\<close>, the token of the account of \<open>sample_row\<close>.\<close>

definition sample_claims :: claims where
  "sample_claims =
     \<lparr>jc_UserID = 1000, jc_Role = ''admin'', jc_SecretVer = ''v1'', jc_TokenType = ''access'',
      jc_Issuer = ''kidpech.app'', jc_Subject = ''1000'', jc_ExpiresAt = 900, jc_IssuedAt = 0, jc_ID = []\<rparr>"

definition sample_issuer :: "unit app_state_scheme manager" where
  "sample_issuer = NewManager sample_auth None (ref_jwt\<lparr>jl_ParseWithClaims := \<lambda>kf now t.
     if t = ''t'' then Inr \<lparr>pt_Claims = Some sample_claims, pt_Valid = True\<rparr> else Inl ''bad''\<rparr>)"

definition sample_open_server :: "unit router_deps" where
  "sample_open_server = sample_deps\<lparr>rd_IPLimiter := None, rd_AuthManager := Some sample_issuer\<rparr>"

definition sample_posting :: http_request where
  "sample_posting =
     (sample_request ''POST'' ''/api/v1/profiles'')
       \<lparr>rq_Header := (\<lambda>k. if k = ''Authorization'' then ''Bearer t'' else []),
        rq_Body := sample_marshal [(''first_name'', ''Ada''), (''last_name'', ''L'')]\<rparr>"


end
