(* ===== verification/Spec2Isabelle.thy ===== *)
theory Spec2Isabelle
  imports RefreshRace ProfileRace StartupProperties HttpCreate
begin

text \<open>
  A verification development for the Kidpech demo API, a Go service of user accounts and of the
  profiles they own, with JWT access and refresh tokens, rate limits and a small set of
  diagnostics. It models every component of the server from the environment variables to the HTTP
  reply, in the shape the source has, and proves what makes each part and their composition
  correct, and where they are not.

  \<^bold>\<open>How the program is laid out.\<close> \<open>cmd/api/main.go\<close> loads the configuration (\<open>internal/config\<close>), connects to
  the database and to Redis, and builds the services of the two domains (\<open>internal/domain/user\<close>,
  \<open>internal/domain/profile\<close>) over their repositories (\<open>internal/infrastructure/db\<close>) and the token manager
  (\<open>internal/infrastructure/auth\<close>). \<open>internal/app/router.go\<close> puts their HTTP handlers behind the
  middlewares of \<open>internal/app/middleware\<close>: request identifier, CORS, optional authentication, the
  rate limits of \<open>internal/infrastructure/ratelimit\<close>, and the request log with its buffer
  (\<open>internal/app/diagnostics\<close>) and metrics.

  \<^bold>\<open>The state.\<close> There is one state record, extended layer by layer: \<open>runtime\<close> (clock, random identifiers,
  salts; \<open>Prelude\<close>), \<open>redis_server\<close> (\<open>RedisModel\<close>), \<open>token_state\<close> (the map \<open>memoryTokens\<close>; \<open>TokenManager\<close>),
  \<open>database\<close> (the two tables of the migration; \<open>Database\<close>), \<open>limiter_state\<close> (the buckets; \<open>RateLimiter\<close>)
  and \<open>app_state\<close> (log buffer, counters and log entries; \<open>Middleware\<close>). An operation takes the part it needs of any
  extension, and returns it changed. Reading the clock, drawing an identifier and each call of
  Redis or the database is a step of that state, so two of them in one handler stay two. Faults of
  Redis and of the database are functions from the number of the call to an error text.

  \<^bold>\<open>The theories, in the order of the layers.\<close>
  \<^item> \<open>Prelude\<close>, \<open>GoStrings\<close>, \<open>Validation\<close>: 64-bit arithmetic with its wrap-around, durations, the run-time
    system, interleavings of two runs; \<open>strings\<close> and \<open>strconv\<close>; the tags of the validator.
  \<^item> \<open>Settings\<close>: \<open>config.go\<close>, every field, reader and check.
  \<^item> \<open>RedisModel\<close>, \<open>TokenManager\<close>, \<open>JwtReference\<close>: the Redis client and a reference server, \<open>jwt_manager.go\<close>, and a
    JWT library for the witnesses. \<open>TokenRotation\<close> states the contract of a store of refresh tokens
    (locale \<open>refresh_store\<close>) and proves rotation once; \<open>TokenStores\<close> interprets it for the map and for
    Redis; \<open>TokenProperties\<close> and \<open>RefreshRace\<close> hold the properties, the second cutting \<open>RefreshTokens\<close> at
    its calls to interleave two requests.
  \<^item> \<open>UserModel\<close>, \<open>UserService\<close>, \<open>UserStore\<close>: \<open>model.go\<close>, \<open>service.go\<close> and \<open>user_repository.go\<close>. \<open>UserAccounts\<close> is
    the contract between service and repository (locales \<open>user_repository\<close>, \<open>user_accounts\<close>) with what
    follows from it; \<open>UserStore\<close> interprets it; \<open>UserProperties\<close> holds the properties.
  \<^item> \<open>ProfileModel\<close>, \<open>ProfileService\<close>, \<open>ProfileStore\<close>, \<open>ProfileContract\<close> (locales \<open>profile_repository\<close>, \<open>profiles\<close>),
    \<open>ProfileAccess\<close> (their interpretations), \<open>ProfileProperties\<close>, \<open>ProfileListing\<close>, \<open>ProfileRace\<close>: the same
    for profiles, with the pages of a listing and the race of two updates.
  \<^item> \<open>LogBuffer\<close> (locale \<open>recent_lines\<close>: the buffer refines a list of which it keeps the end),
    \<open>RateLimiter\<close> and \<open>RateLimits\<close> (locale \<open>limiter\<close>, interpreted for both limiters).
  \<^item> \<open>Bodies\<close>: the structs a request is decoded into, by their \<open>json\<close> and \<open>binding\<close> tags, and what
    \<open>encoding/json\<close> does with a parsed value: names up to case, \<open>null\<close>, repeated members, wrong kinds.
    \<open>Logger\<close>: \<open>logging/logger.go\<close>, with the levels of zap as a linear order.
  \<^item> \<open>HttpContext\<close> (\<open>pkg/response\<close>, gin's context), \<open>ProfileHandler\<close>, \<open>UserHandler\<close>, \<open>Middleware\<close>, \<open>Router\<close>: a
    handler is a function of context and state; a middleware takes the rest of the chain, which
    \<open>c.Next()\<close> calls, as an argument; a panic is a mark in the context that \<open>Recovery\<close> turns into a 500.
    \<open>HttpFrame\<close> proves once (locale \<open>chain\<close>) that the whole chain yields what its handlers do, and is
    interpreted for the isolation of owners (\<open>HttpIsolation\<close>), for the guards and the single answer
    (\<open>HttpProperties\<close>), for the constraints of the schema (\<open>ServerTables\<close>) and for logins that cannot
    succeed (\<open>ServerClient\<close>); \<open>route_rule\<close> of \<open>Router\<close> reduces a claim on all routes to the handlers.
  \<^item> \<open>Startup\<close>, \<open>StartupProperties\<close>: \<open>db.go\<close>, \<open>redis/client.go\<close>, \<open>server.go\<close> and \<open>main.go\<close>, and what the
    assembled program does. \<open>DemoSeed\<close>: the script \<open>scripts/demo_seed.go\<close>, which \<open>ServerClient\<close> connects
    to the server: the client's request, marshalled, is the server's, and its reply the client's.
    \<open>HttpCreate\<close> follows a request with a valid token down the whole chain to its answer and its row.

  \<^bold>\<open>What is proved.\<close> A refresh token is accepted once, by either store, and stays usable until it is; two
  concurrent requests can still both rotate it. Requests without an owner's access token leave the
  owner's profiles alone, through the whole server; guarded routes refuse and change nothing;
  every request has one answer. A valid \<open>POST\<close> of a profile is answered 201 and adds that profile
  and nothing else. No requests break a constraint of the schema, remove an account, make an
  admin or change a password. A body that decodes but breaks a \<open>validate\<close> tag is answered 500. Two
  concurrent refreshes both end. The seed script is understood by the server, and cannot seed it:
  an account it registers cannot log in. Versions of profiles only rise, a stale update is refused, and yet
  two interleaved ones can both be accepted. Accounts keep unique addresses over any sequence of
  calls. Pages of a listing cover it; following its cursor does not. The in-memory limiter admits
  \<open>limit + burst\<close> at once and no more, and can be outrun by retrying; with Redis, the default, the
  server answers every request 429. Properties carry their number in the text before them; a
  theorem with hypotheses is followed by a witness that applies it to concrete input.

  \<^bold>\<open>What the program only relies on\<close> is a parameter: the validator and sanitizer, bcrypt, Unicode case
  tables, the JWT library, the order, \<open>LIKE\<close> and texts of the database, the parser of JSON, gin's
  choice of the route (its pattern and parameters are fields of the request), RFC 3339, the
  rounding of floats, sqlx. What a theorem needs of them is a named hypothesis that states their
  documentation (\<open>documented_jwt\<close>, \<open>documented_decr\<close>, \<open>documented_order\<close>, \<open>documented_texts\<close>,
  \<open>documented_validator\<close>, \<open>documented_marshal\<close>, \<open>binary64\<close>), met by the
  sample libraries of the witnesses.

  \<^bold>\<open>Bounds and fuel.\<close> No definition runs on fuel. \<open>refresh_alone\<close> takes six steps, as many as the method
  has calls. Counting arguments that need distinct random identifiers ask for distinctness of as
  many as are drawn. The statement on Redis holds up to \<open>2 ^ 63\<close> requests, where the counter ends.
  Floats of the limiter are reals with a rounding after each operation; a compiler that fuses
  \<open>b.tokens + delta * limit\<close> rounds once less, which the properties, stated where all operations are
  exact, do not see. A nil and an empty slice are told apart only in JSON (\<open>hl_nil_slice\<close>).

  \<^bold>\<open>Not modelled.\<close> What zap, Sentry and Prometheus do with what they are handed, and the warnings
  \<open>main\<close> logs while it starts; the nesting depth at which a JSON parser gives up; connections and goroutines of
  \<open>net/http\<close> beyond the order of their steps; cancellation of contexts, which shows as faults of the
  database and of Redis; MySQL as a driver: the tables are those of the migration for Postgres, and the rounding of their
  timestamps to microseconds is left out; the seed migrations, the OpenAPI document, Docker files and
  shell scripts.
\<close>

end
